(* ===== verification/Prelude.thy ===== *)
theory Prelude
  imports Main "HOL-Library.Word"
begin

text \<open>
  What every component theory shares: Go's time values, errors, results and the sequencing
  of fallible, state-changing calls, and generic lemmas on them.

  A Go function that reads or changes state and returns \<open>(value, error)\<close> is a HOL function
  from the state to a sum of the error and the value, paired with the new state (\<open>prog\<close>
  below). \<open>and_then\<close> is the sequence \<open>v, err := f(); if err != nil { return err }; ...\<close>
  of the source: the rest of the function runs only where the first call returned no error.
\<close>

section \<open>Collections of facts\<close>

named_theorems prog_simps \<open>evaluation of sequenced fallible calls\<close>
named_theorems handler_defs \<open>definitions of request handlers and their parts\<close>

section \<open>Machine integers, time and durations\<close>

type_synonym u16 = "16 word"
type_synonym u32 = "32 word"
type_synonym u64 = "64 word"
type_synonym i64 = "64 word"  \<comment> \<open>read with \<open>sint\<close>\<close>

text \<open>
  An instant of \<open>time.Time\<close> is its distance in nanoseconds from Go's zero time
  (January 1, year 1, UTC), so \<open>IsZero\<close> is being 0, \<open>Before\<close> is \<open><\<close> and adding a
  duration is addition. A \<open>time.Duration\<close> that the source computes by a product of
  64-bit integers wraps around (\<open>go_seconds\<close>); \<open>time.Time.Sub\<close> saturates at the ends of
  the 64-bit range (\<open>go_sub\<close>).
\<close>

type_synonym time = int
type_synonym duration = int

abbreviation nanosecond :: duration where "nanosecond \<equiv> 1"
abbreviation second :: duration where "second \<equiv> 1000000000"
abbreviation minute :: duration where "minute \<equiv> 60000000000"
abbreviation hour :: duration where "hour \<equiv> 3600000000000"

definition IsZero :: "time \<Rightarrow> bool" where
  "IsZero t \<longleftrightarrow> t = 0"

definition Before :: "time \<Rightarrow> time \<Rightarrow> bool" where
  "Before t u \<longleftrightarrow> t < u"

text \<open>\<open>time.Duration(n) * time.Second\<close> for a 64-bit \<open>n\<close>.\<close>

definition go_seconds :: "i64 \<Rightarrow> duration" where
  "go_seconds n = sint (n * 1000000000)"

definition go_sub :: "time \<Rightarrow> time \<Rightarrow> duration" where
  "go_sub t u = max (- (2 ^ 63)) (min (2 ^ 63 - 1) (t - u))"

lemma go_sub_le_iff:
  assumes "- (2 ^ 63) \<le> d" and "d < 2 ^ 63 - 1"
  shows "go_sub t u \<le> d \<longleftrightarrow> t - u \<le> d"
  using assms by (auto simp: go_sub_def)

lemma go_seconds_exact:
  assumes "\<bar>sint n\<bar> \<le> 9000000000"
  shows "go_seconds n = sint n * second"
proof -
  have "sint (n * 1000000000 :: i64) = signed_take_bit 63 (sint n * sint (1000000000 :: i64))"
    by (simp add: sint_word_ariths)
  also have "\<dots> = sint n * second"
    using assms by (simp add: signed_take_bit_int_eq_self)
  finally show ?thesis
    by (simp add: go_seconds_def)
qed

lemma sint_of_int_small:
  assumes "- (2 ^ 63) \<le> n" and "n < 2 ^ 63"
  shows "sint (of_int n :: i64) = n"
  using assms by (simp only: signed_of_int) (simp add: signed_take_bit_int_eq_self)

lemma sint_of_nat_small:
  assumes "n < 2 ^ 63"
  shows "sint (of_nat n :: i64) = int n"
  using assms by (simp only: signed_of_nat) (simp add: signed_take_bit_int_eq_self)

section \<open>Errors and results\<close>

text \<open>Go's integer division, which rounds towards zero.\<close>

definition go_quot :: "int \<Rightarrow> int \<Rightarrow> int" where
  "go_quot a b = (if a < 0 then - ((- a) div b) else a div b)"

text \<open>
  \<open>Msg\<close> is an error made by \<open>errors.New\<close> or \<open>fmt.Errorf\<close>; \<open>Wrapped\<close> one made with the
  \<open>%w\<close> verb; the \<open>Api\<close> constructors are the errors of the Kubernetes API that the source
  tells apart (\<open>IsNotFound\<close>, \<open>IsConflict\<close>, \<open>IsAlreadyExists\<close>), with their text; \<open>Panic\<close> is
  a run-time panic, which ends the request.
\<close>

datatype go_error =
    Msg string
  | Wrapped string go_error
  | ApiNotFound string
  | ApiConflict string
  | ApiAlreadyExists string
  | ApiOther string
  | Panic string

fun error_text :: "go_error \<Rightarrow> string" where
  "error_text (Msg m) = m"
| "error_text (Wrapped m e) = m @ '': '' @ error_text e"
| "error_text (ApiNotFound m) = m"
| "error_text (ApiConflict m) = m"
| "error_text (ApiAlreadyExists m) = m"
| "error_text (ApiOther m) = m"
| "error_text (Panic m) = m"

fun IsNotFound :: "go_error \<Rightarrow> bool" where
  "IsNotFound (ApiNotFound _) = True"
| "IsNotFound (Wrapped _ e) = IsNotFound e"
| "IsNotFound _ = False"

fun IsConflict :: "go_error \<Rightarrow> bool" where
  "IsConflict (ApiConflict _) = True"
| "IsConflict (Wrapped _ e) = IsConflict e"
| "IsConflict _ = False"

fun IsAlreadyExists :: "go_error \<Rightarrow> bool" where
  "IsAlreadyExists (ApiAlreadyExists _) = True"
| "IsAlreadyExists (Wrapped _ e) = IsAlreadyExists e"
| "IsAlreadyExists _ = False"

type_synonym ('e, 'a, 's) prog = "'s \<Rightarrow> ('e + 'a) \<times> 's"

definition give :: "'a \<Rightarrow> ('e, 'a, 's) prog" where
  "give x = (\<lambda>s. (Inr x, s))"

definition fail :: "'e \<Rightarrow> ('e, 'a, 's) prog" where
  "fail e = (\<lambda>s. (Inl e, s))"

definition and_then :: "('e, 'a, 's) prog \<Rightarrow> ('a \<Rightarrow> ('e, 'b, 's) prog) \<Rightarrow> ('e, 'b, 's) prog" where
  "and_then m k = (\<lambda>s. case m s of (Inl e, s') \<Rightarrow> (Inl e, s') | (Inr x, s') \<Rightarrow> k x s')"

text \<open>\<open>guard c e\<close> is \<open>if c { return e }\<close>.\<close>

definition guard :: "bool \<Rightarrow> 'e \<Rightarrow> ('e, unit, 's) prog" where
  "guard c e = (if c then fail e else give ())"

text \<open>\<open>attempt m\<close> runs \<open>m\<close> and hands its error to the rest of the code as a value.\<close>

definition attempt :: "('e, 'a, 's) prog \<Rightarrow> ('f, 'e + 'a, 's) prog" where
  "attempt m = (\<lambda>s. case m s of (r, s') \<Rightarrow> (Inr r, s'))"

text \<open>\<open>map_error f m\<close> replaces the error of \<open>m\<close>, as \<open>return fmt.Errorf(..., err)\<close> does.\<close>

definition map_error :: "('e \<Rightarrow> 'f) \<Rightarrow> ('e, 'a, 's) prog \<Rightarrow> ('f, 'a, 's) prog" where
  "map_error f m = (\<lambda>s. case m s of (Inl e, s') \<Rightarrow> (Inl (f e), s') | (Inr x, s') \<Rightarrow> (Inr x, s'))"

text \<open>\<open>ignore m\<close> runs \<open>m\<close> and drops its result, as \<open>_, _ = m\<close> does.\<close>

definition ignore :: "('f, 'a, 's) prog \<Rightarrow> ('e, unit, 's) prog" where
  "ignore m = and_then (attempt m) (\<lambda>_. give ())"

text \<open>A loop \<open>for _, x := range xs { ... }\<close> whose body may return an error.\<close>

fun for_each :: "('a \<Rightarrow> ('e, unit, 's) prog) \<Rightarrow> 'a list \<Rightarrow> ('e, unit, 's) prog" where
  "for_each f [] = give ()"
| "for_each f (x # xs) = and_then (f x) (\<lambda>_. for_each f xs)"

text \<open>A loop that appends the values its turns give to a slice; a turn that gives \<open>None\<close> is skipped.\<close>

fun collect :: "('a \<Rightarrow> ('e, 'b option, 's) prog) \<Rightarrow> 'a list \<Rightarrow> ('e, 'b list, 's) prog" where
  "collect f [] = give []"
| "collect f (x # xs) = and_then (f x) (\<lambda>y. and_then (collect f xs) (\<lambda>ys.
     give (case y of None \<Rightarrow> ys | Some v \<Rightarrow> v # ys)))"

lemma give_apply [simp, prog_simps]: "give x s = (Inr x, s)"
  by (simp add: give_def)

lemma fail_apply [simp, prog_simps]: "fail e s = (Inl e, s)"
  by (simp add: fail_def)

lemma guard_apply [simp, prog_simps]: "guard c e s = (if c then Inl e else Inr (), s)"
  by (simp add: guard_def)

lemma guard_iff [simp]:
  "guard c e s = (Inr u, s') \<longleftrightarrow> \<not> c \<and> s' = s"
  "guard c e s = (Inl e', s') \<longleftrightarrow> c \<and> e' = e \<and> s' = s"
  by auto

lemma and_then_apply [prog_simps]:
  "and_then m k s = (case m s of (Inl e, s') \<Rightarrow> (Inl e, s') | (Inr x, s') \<Rightarrow> k x s')"
  by (simp add: and_then_def)

lemma and_then_Inr_iff:
  "and_then m k s = (Inr y, s') \<longleftrightarrow> (\<exists>x s1. m s = (Inr x, s1) \<and> k x s1 = (Inr y, s'))"
  by (auto simp: and_then_def split: prod.splits sum.splits)

lemma and_then_Inl_iff:
  "and_then m k s = (Inl e, s') \<longleftrightarrow>
     m s = (Inl e, s') \<or> (\<exists>x s1. m s = (Inr x, s1) \<and> k x s1 = (Inl e, s'))"
  by (auto simp: and_then_def split: prod.splits sum.splits)

lemma and_then_give [simp]: "and_then (give x) k = k x"
  by (rule ext) (simp add: and_then_def)

lemma and_then_fail [simp]: "and_then (fail e) k = fail e"
  by (rule ext) (simp add: and_then_def)

lemma and_then_guard_apply [simp, prog_simps]:
  "and_then (guard c e) k s = (if c then (Inl e, s) else k () s)"
  by (simp add: and_then_def)

lemma and_then_assoc: "and_then (and_then m k) h = and_then m (\<lambda>x. and_then (k x) h)"
  by (rule ext) (simp add: and_then_def split: prod.splits sum.splits)

lemma attempt_apply [prog_simps]: "attempt m s = (case m s of (r, s') \<Rightarrow> (Inr r, s'))"
  by (simp add: attempt_def)

lemma ignore_apply [prog_simps]: "ignore m s = (Inr (), snd (m s))"
  by (simp add: ignore_def and_then_def attempt_def split: prod.splits)

lemma attempt_iff: "attempt m s = (Inr r, s') \<longleftrightarrow> m s = (r, s')"
  by (auto simp: attempt_def split: prod.splits)

lemma map_error_Inr_iff [simp]: "map_error f m s = (Inr x, s') \<longleftrightarrow> m s = (Inr x, s')"
  by (auto simp: map_error_def split: prod.splits sum.splits)

lemma map_error_apply [prog_simps]:
  "map_error f m s = (case m s of (Inl e, s') \<Rightarrow> (Inl (f e), s') | (Inr x, s') \<Rightarrow> (Inr x, s'))"
  by (simp add: map_error_def)

text \<open>
  Inversion: a computation that returned a value went through every step. \<open>elim run_elims\<close>
  takes a run apart along its \<open>and_then\<close>s.
\<close>

named_theorems run_elims \<open>inversion of successful runs\<close>

lemma and_then_InrE [run_elims]:
  assumes "and_then m k s = (Inr y, s')"
  obtains x s1 where "m s = (Inr x, s1)" "k x s1 = (Inr y, s')"
  using assms by (auto simp: and_then_Inr_iff)

lemma guard_InrE [run_elims]:
  assumes "guard c e s = (Inr u, s')"
  obtains "\<not> c" "s' = s"
  using assms by (auto split: if_splits)

lemma give_InrE [run_elims]:
  assumes "give x s = (Inr y, s')"
  obtains "y = x" "s' = s"
  using assms by auto

lemma fail_InrE [run_elims]:
  assumes "fail e s = (Inr y, s')"
  obtains False
  using assms by auto

lemma map_error_InrE [run_elims]:
  assumes "map_error f m s = (Inr x, s')"
  obtains "m s = (Inr x, s')"
  using assms by simp

lemma attempt_InrE [run_elims]:
  assumes "attempt m s = (Inr r, s')"
  obtains "m s = (r, s')"
  using assms by (simp add: attempt_iff)

section \<open>What a computation keeps\<close>

text \<open>
  \<open>keeps P m\<close>: the computation keeps the state predicate \<open>P\<close>, whether it returns a value or
  an error. The rules follow the structure of a computation, so a fact of the form \<open>keeps P\<close>
  about a handler is proved by \<open>intro keeps_intros\<close> from facts about the calls it makes.
\<close>

definition keeps :: "('s \<Rightarrow> bool) \<Rightarrow> ('e, 'a, 's) prog \<Rightarrow> bool" where
  "keeps P m \<longleftrightarrow> (\<forall>s. P s \<longrightarrow> P (snd (m s)))"

named_theorems keeps_intros \<open>structural rules for kept predicates\<close>

lemma keepsI: "(\<And>s. P s \<Longrightarrow> P (snd (m s))) \<Longrightarrow> keeps P m"
  by (simp add: keeps_def)

lemma keeps_runI:
  assumes "\<And>s r s'. P s \<Longrightarrow> m s = (r, s') \<Longrightarrow> P s'"
  shows "keeps P m"
proof (rule keepsI)
  fix s
  assume "P s"
  then show "P (snd (m s))"
    by (cases "m s") (simp add: assms)
qed

lemma keepsD: "keeps P m \<Longrightarrow> P s \<Longrightarrow> P (snd (m s))"
  by (simp add: keeps_def)

lemma keeps_run: "keeps P m \<Longrightarrow> P s \<Longrightarrow> m s = (r, s') \<Longrightarrow> P s'"
  using keepsD [of P m s] by simp

lemma keeps_give [keeps_intros]: "keeps P (give x)"
  by (simp add: keeps_def)

lemma keeps_fail [keeps_intros]: "keeps P (fail e)"
  by (simp add: keeps_def)

lemma keeps_guard [keeps_intros]: "keeps P (guard c e)"
  by (simp add: keeps_def)

lemma keeps_and_then [keeps_intros]:
  assumes "keeps P m" and "\<And>x. keeps P (k x)"
  shows "keeps P (and_then m k)"
  using assms by (fastforce simp: keeps_def and_then_def split: prod.splits sum.splits)

lemma keeps_attempt [keeps_intros]: "keeps P m \<Longrightarrow> keeps P (attempt m)"
  by (auto simp: keeps_def attempt_def split: prod.splits)

lemma keeps_ignore [keeps_intros]: "keeps P m \<Longrightarrow> keeps P (ignore m)"
  by (auto simp: keeps_def ignore_def and_then_def attempt_def split: prod.splits)

lemma keeps_map_error [keeps_intros]: "keeps P m \<Longrightarrow> keeps P (map_error f m)"
  by (fastforce simp: keeps_def map_error_def split: prod.splits sum.splits)

lemma keeps_if [keeps_intros]:
  "(c \<Longrightarrow> keeps P m) \<Longrightarrow> (\<not> c \<Longrightarrow> keeps P n) \<Longrightarrow> keeps P (if c then m else n)"
  by simp

lemma keeps_case_option [keeps_intros]:
  "(x = None \<Longrightarrow> keeps P m) \<Longrightarrow> (\<And>y. x = Some y \<Longrightarrow> keeps P (k y)) \<Longrightarrow>
   keeps P (case x of None \<Rightarrow> m | Some y \<Rightarrow> k y)"
  by (simp split: option.splits)

lemma keeps_case_sum [keeps_intros]:
  "(\<And>y. x = Inl y \<Longrightarrow> keeps P (h y)) \<Longrightarrow> (\<And>y. x = Inr y \<Longrightarrow> keeps P (k y)) \<Longrightarrow>
   keeps P (case x of Inl y \<Rightarrow> h y | Inr y \<Rightarrow> k y)"
  by (simp split: sum.splits)

lemma keeps_case_prod [keeps_intros]: "(\<And>a b. keeps P (k a b)) \<Longrightarrow> keeps P (case x of (a, b) \<Rightarrow> k a b)"
  by (simp split: prod.splits)

lemma keeps_let [keeps_intros]: "keeps P (k x) \<Longrightarrow> keeps P (let y = x in k y)"
  by simp

lemma keeps_for_each [keeps_intros]:
  assumes "\<And>x. x \<in> set xs \<Longrightarrow> keeps P (f x)"
  shows "keeps P (for_each f xs)"
  using assms by (induction xs) (auto intro: keeps_intros)

lemma keeps_collect [keeps_intros]:
  assumes "\<And>x. x \<in> set xs \<Longrightarrow> keeps P (f x)"
  shows "keeps P (collect f xs)"
  using assms by (induction xs) (auto intro: keeps_intros)

lemma for_each_Inr_Cons:
  "for_each f (x # xs) s = (Inr u, s') \<longleftrightarrow>
     (\<exists>s1. f x s = (Inr (), s1) \<and> for_each f xs s1 = (Inr u, s'))"
  by (simp add: and_then_Inr_iff)

section \<open>Pre- and postconditions\<close>

text \<open>
  \<open>hoare P m Q R\<close>: started in a state with \<open>P\<close>, the computation ends with a value and a state
  that satisfy \<open>Q\<close>, or with an error and a state that satisfies \<open>R\<close>.
\<close>

definition hoare :: "('s \<Rightarrow> bool) \<Rightarrow> ('e, 'a, 's) prog \<Rightarrow> ('a \<Rightarrow> 's \<Rightarrow> bool) \<Rightarrow> ('s \<Rightarrow> bool) \<Rightarrow> bool" where
  "hoare P m Q R \<longleftrightarrow> (\<forall>s. P s \<longrightarrow> (case m s of (Inl e, s') \<Rightarrow> R s' | (Inr x, s') \<Rightarrow> Q x s'))"

lemma hoareI:
  assumes "\<And>s x s'. P s \<Longrightarrow> m s = (Inr x, s') \<Longrightarrow> Q x s'"
    and "\<And>s e s'. P s \<Longrightarrow> m s = (Inl e, s') \<Longrightarrow> R s'"
  shows "hoare P m Q R"
  using assms by (auto simp: hoare_def split: prod.splits sum.splits)

lemma hoareD: "hoare P m Q R \<Longrightarrow> P s \<Longrightarrow> m s = (Inr x, s') \<Longrightarrow> Q x s'"
  by (auto simp: hoare_def split: prod.splits sum.splits)

lemma hoare_and_then:
  assumes "hoare P m Q R" and "\<And>x. hoare (Q x) (k x) Q' R"
  shows "hoare P (and_then m k) Q' R"
  using assms by (fastforce simp: hoare_def and_then_def split: prod.splits sum.splits)

lemma hoare_guard: "(\<And>s. P s \<Longrightarrow> R s) \<Longrightarrow> hoare P (guard c e) (\<lambda>_ s. \<not> c \<and> P s) R"
  by (simp add: hoare_def)

lemma hoare_give: "(\<And>s. P s \<Longrightarrow> Q x s) \<Longrightarrow> hoare P (give x) Q R"
  by (simp add: hoare_def)

lemma hoare_fail: "(\<And>s. P s \<Longrightarrow> R s) \<Longrightarrow> hoare P (fail e) Q R"
  by (simp add: hoare_def)

lemma hoare_map_error: "hoare P m Q R \<Longrightarrow> hoare P (map_error f m) Q R"
  by (fastforce simp: hoare_def map_error_def split: prod.splits sum.splits)

lemma hoare_keeps: "keeps P m \<Longrightarrow> (\<And>s. P s \<Longrightarrow> R s) \<Longrightarrow> hoare P m (\<lambda>_. P) R"
  by (rule hoareI) (auto dest: keeps_run)

lemma hoare_pre: "hoare P m Q R \<Longrightarrow> (\<And>s. P' s \<Longrightarrow> P s) \<Longrightarrow> hoare P' m Q R"
  by (simp add: hoare_def)

lemma hoare_post: "hoare P m Q R \<Longrightarrow> (\<And>x s. Q x s \<Longrightarrow> Q' x s) \<Longrightarrow> hoare P m Q' R"
  by (fastforce simp: hoare_def split: prod.splits sum.splits)

lemma keeps_hoare: "hoare P m (\<lambda>_. P) P \<Longrightarrow> keeps P m"
  by (rule keeps_runI) (fastforce simp: hoare_def split: prod.splits sum.splits)

section \<open>What the value of a computation says\<close>

text \<open>\<open>yields P m F\<close>: the computation keeps \<open>P\<close>, and a value it ends with satisfies \<open>F\<close>.\<close>

definition yields :: "('s \<Rightarrow> bool) \<Rightarrow> ('e, 'a, 's) prog \<Rightarrow> ('a \<Rightarrow> bool) \<Rightarrow> bool" where
  "yields P m F \<longleftrightarrow> (\<forall>s r s'. P s \<longrightarrow> m s = (r, s') \<longrightarrow> P s' \<and> (\<forall>x. r = Inr x \<longrightarrow> F x))"

lemma yieldsI: "(\<And>s r s'. P s \<Longrightarrow> m s = (r, s') \<Longrightarrow> P s' \<and> (\<forall>x. r = Inr x \<longrightarrow> F x)) \<Longrightarrow> yields P m F"
  by (simp add: yields_def)

lemma yieldsD: "yields P m F \<Longrightarrow> P s \<Longrightarrow> m s = (Inr x, s') \<Longrightarrow> F x"
  by (simp add: yields_def)

lemma keeps_yields: "yields P m F \<Longrightarrow> keeps P m"
  by (rule keeps_runI) (simp add: yields_def)

lemma yields_keeps: "keeps P m \<Longrightarrow> yields P m (\<lambda>_. True)"
  by (rule yieldsI) (auto dest: keeps_run)

lemma yields_and_then:
  assumes "yields P m F" and "\<And>x. F x \<Longrightarrow> yields P (k x) G"
  shows "yields P (and_then m k) G"
proof (rule yieldsI)
  fix s r s'
  assume "P s" and run: "and_then m k s = (r, s')"
  obtain r1 s1 where m: "m s = (r1, s1)" by fastforce
  with assms(1) \<open>P s\<close> have s1: "P s1" "\<forall>x. r1 = Inr x \<longrightarrow> F x" by (auto simp: yields_def)
  show "P s' \<and> (\<forall>x. r = Inr x \<longrightarrow> G x)"
  proof (cases r1)
    case (Inl e)
    with run m s1 show ?thesis by (auto simp: and_then_def)
  next
    case (Inr x)
    with run m have "k x s1 = (r, s')" by (simp add: and_then_def)
    with assms(2) [of x] s1 Inr show ?thesis by (simp add: yields_def)
  qed
qed

lemma yields_keeps_then: "keeps P m \<Longrightarrow> (\<And>x. yields P (k x) G) \<Longrightarrow> yields P (and_then m k) G"
  by (rule yields_and_then [OF yields_keeps])

lemma yields_guard: "yields P (guard c e) (\<lambda>_. \<not> c)"
  by (simp add: yields_def)

lemma yields_guard_then: "(\<not> c \<Longrightarrow> yields P (k ()) G) \<Longrightarrow> yields P (and_then (guard c e) k) G"
  by (rule yields_and_then [OF yields_guard]) simp

lemma yields_give: "F x \<Longrightarrow> yields P (give x) F"
  by (simp add: yields_def)

lemma yields_fail: "yields P (fail e) F"
  by (simp add: yields_def)

lemma yields_map_error: "yields P m F \<Longrightarrow> yields P (map_error f m) F"
  by (auto simp: yields_def map_error_def split: prod.splits sum.splits)

lemma yields_attempt: "yields P m F \<Longrightarrow> yields P (attempt m) (\<lambda>r. \<forall>x. r = Inr x \<longrightarrow> F x)"
  by (auto simp: yields_def attempt_def split: prod.splits)

lemma yields_weaken: "yields P m F \<Longrightarrow> (\<And>x. F x \<Longrightarrow> G x) \<Longrightarrow> yields P m G"
  unfolding yields_def by blast

lemma yields_for_each:
  assumes "\<And>x. x \<in> set xs \<Longrightarrow> yields P (f x) (\<lambda>_. F x)"
  shows "yields P (for_each f xs) (\<lambda>_. \<forall>x \<in> set xs. F x)"
  using assms
proof (induction xs)
  case (Cons a as)
  show ?case
    unfolding for_each.simps
  proof (rule yields_and_then)
    show "yields P (f a) (\<lambda>_. F a)" using Cons.prems by simp
    show "yields P (for_each f as) (\<lambda>_. \<forall>x \<in> set (a # as). F x)" if "F a"
      by (rule yields_weaken [OF Cons.IH]) (use Cons.prems that in auto)
  qed
qed (simp add: yields_give)

lemma yields_collect:
  assumes "\<And>x. x \<in> set xs \<Longrightarrow> yields P (f x) (\<lambda>r. \<forall>y. r = Some y \<longrightarrow> F y)"
  shows "yields P (collect f xs) (\<lambda>ys. \<forall>y \<in> set ys. F y)"
  using assms
proof (induction xs)
  case (Cons a as)
  show ?case
    unfolding collect.simps
  proof (rule yields_and_then)
    show "yields P (f a) (\<lambda>r. \<forall>y. r = Some y \<longrightarrow> F y)" using Cons.prems by simp
    fix r
    assume r: "\<forall>y. r = Some y \<longrightarrow> F y"
    show "yields P (and_then (collect f as) (\<lambda>ys. give (case r of None \<Rightarrow> ys | Some y \<Rightarrow> y # ys))) (\<lambda>ys. \<forall>y \<in> set ys. F y)"
    proof (rule yields_and_then)
      show "yields P (collect f as) (\<lambda>ys. \<forall>y \<in> set ys. F y)"
        using Cons by simp
    qed (use r in \<open>auto intro!: yields_give split: option.splits\<close>)
  qed
qed (simp add: yields_give)

section \<open>What a computation may fail with\<close>

text \<open>\<open>raises P m\<close>: every error that the computation ends with satisfies \<open>P\<close>.\<close>

definition raises :: "('e \<Rightarrow> bool) \<Rightarrow> ('e, 'a, 's) prog \<Rightarrow> bool" where
  "raises P m \<longleftrightarrow> (\<forall>s e s'. m s = (Inl e, s') \<longrightarrow> P e)"

named_theorems raises_intros \<open>structural rules for the errors of a computation\<close>

lemma raisesD: "raises P m \<Longrightarrow> m s = (Inl e, s') \<Longrightarrow> P e"
  by (auto simp: raises_def)

lemma raises_give [raises_intros]: "raises P (give x)"
  by (simp add: raises_def)

lemma raises_fail [raises_intros]: "P e \<Longrightarrow> raises P (fail e)"
  by (simp add: raises_def)

lemma raises_guard [raises_intros]: "P e \<Longrightarrow> raises P (guard c e)"
  by (simp add: raises_def)

lemma raises_and_then [raises_intros]:
  "raises P m \<Longrightarrow> (\<And>x. raises P (k x)) \<Longrightarrow> raises P (and_then m k)"
  by (fastforce simp: raises_def and_then_Inl_iff)

lemma raises_map_error [raises_intros]: "(\<And>e. P (f e)) \<Longrightarrow> raises P (map_error f m)"
  by (auto simp: raises_def map_error_def split: prod.splits sum.splits)

lemma raises_if [raises_intros]:
  "(c \<Longrightarrow> raises P m) \<Longrightarrow> (\<not> c \<Longrightarrow> raises P n) \<Longrightarrow> raises P (if c then m else n)"
  by simp

lemma raises_case_option [raises_intros]:
  "(x = None \<Longrightarrow> raises P m) \<Longrightarrow> (\<And>y. x = Some y \<Longrightarrow> raises P (k y)) \<Longrightarrow>
   raises P (case x of None \<Rightarrow> m | Some y \<Rightarrow> k y)"
  by (simp split: option.splits)

section \<open>Maps\<close>

text \<open>The value a Go map lookup without the \<open>ok\<close> flag gives: the zero value where absent.\<close>

definition map_get :: "'v \<Rightarrow> ('k \<rightharpoonup> 'v) \<Rightarrow> 'k \<Rightarrow> 'v" where
  "map_get zero m k = (case m k of None \<Rightarrow> zero | Some v \<Rightarrow> v)"

lemma map_get_upd [simp]: "map_get z (m(k \<mapsto> v)) k' = (if k' = k then v else map_get z m k')"
  by (simp add: map_get_def)

lemma map_get_empty [simp]: "map_get z Map.empty k = z"
  by (simp add: map_get_def)

section \<open>The environment of a program\<close>

text \<open>\<open>getenv\<close> is \<open>os.Getenv\<close>: the empty text where a variable is not set.\<close>

definition env :: "(string \<Rightarrow> string) \<Rightarrow> string \<Rightarrow> string \<Rightarrow> string" where
  "env getenv name fallback = (if getenv name \<noteq> [] then getenv name else fallback)"

definition must :: "(string \<Rightarrow> string) \<Rightarrow> string \<Rightarrow> (go_error, string, 's) prog" where
  "must getenv name = (if getenv name = [] then fail (Msg (name @ '' is required'')) else give (getenv name))"

end
