(* ===== verification/Go_Strings.thy ===== *)
theory Go_Strings
  imports Prelude
begin

text \<open>
  The functions of Go's \<open>strings\<close>, \<open>strconv\<close>, \<open>encoding/hex\<close>, \<open>encoding/base64\<close> and
  \<open>encoding/binary\<close> packages that the source uses, on byte strings (\<open>char\<close> is a byte). The
  case mapping and the trimming of white space are those of ASCII text, which is all that
  Kubernetes names, annotations and SPIFFE identities hold. Round trips of the encodings.
\<close>

section \<open>Substrings\<close>

definition HasPrefix :: "string \<Rightarrow> string \<Rightarrow> bool" where
  "HasPrefix s p \<longleftrightarrow> take (length p) s = p"

definition HasSuffix :: "string \<Rightarrow> string \<Rightarrow> bool" where
  "HasSuffix s p \<longleftrightarrow> length p \<le> length s \<and> drop (length s - length p) s = p"

definition TrimPrefix :: "string \<Rightarrow> string \<Rightarrow> string" where
  "TrimPrefix s p = (if HasPrefix s p then drop (length p) s else s)"

definition TrimSuffix :: "string \<Rightarrow> string \<Rightarrow> string" where
  "TrimSuffix s p = (if HasSuffix s p then take (length s - length p) s else s)"

definition TrimLeft :: "string \<Rightarrow> string \<Rightarrow> string" where
  "TrimLeft s cutset = dropWhile (\<lambda>c. c \<in> set cutset) s"

definition TrimRight :: "string \<Rightarrow> string \<Rightarrow> string" where
  "TrimRight s cutset = rev (dropWhile (\<lambda>c. c \<in> set cutset) (rev s))"

definition Trim :: "string \<Rightarrow> string \<Rightarrow> string" where
  "Trim s cutset = TrimRight (TrimLeft s cutset) cutset"

definition TrimSpace :: "string \<Rightarrow> string" where
  "TrimSpace s = Trim s (map char_of [9, 10, 11, 12, 13, 32 :: nat])"

fun Contains :: "string \<Rightarrow> string \<Rightarrow> bool" where
  "Contains [] p \<longleftrightarrow> p = []"
| "Contains (c # s) p \<longleftrightarrow> HasPrefix (c # s) p \<or> Contains s p"

definition lower_char :: "char \<Rightarrow> char" where
  "lower_char c = (if 65 \<le> (of_char c :: nat) \<and> (of_char c :: nat) \<le> 90
     then char_of ((of_char c :: nat) + 32) else c)"

definition ToLower :: "string \<Rightarrow> string" where
  "ToLower s = map lower_char s"

text \<open>\<open>strings.Split(s, sep)\<close> and \<open>strings.SplitN(s, sep, n)\<close> for a one-byte separator.\<close>

fun Split :: "char \<Rightarrow> string \<Rightarrow> string list" where
  "Split sep [] = [[]]"
| "Split sep (c # s) =
     (if c = sep then [] # Split sep s
      else (case Split sep s of [] \<Rightarrow> [[c]] | p # ps \<Rightarrow> (c # p) # ps))"

definition before_sep :: "char \<Rightarrow> string \<Rightarrow> string" where
  "before_sep sep s = takeWhile (\<lambda>c. c \<noteq> sep) s"

definition after_sep :: "char \<Rightarrow> string \<Rightarrow> string" where
  "after_sep sep s = drop 1 (dropWhile (\<lambda>c. c \<noteq> sep) s)"

fun SplitN :: "nat \<Rightarrow> char \<Rightarrow> string \<Rightarrow> string list" where
  "SplitN 0 sep s = []"
| "SplitN (Suc 0) sep s = [s]"
| "SplitN (Suc (Suc n)) sep s =
     (if sep \<in> set s then before_sep sep s # SplitN (Suc n) sep (after_sep sep s) else [s])"

lemma HasPrefix_append [simp]: "HasPrefix (p @ s) p"
  by (simp add: HasPrefix_def)

lemma HasPrefix_iff: "HasPrefix s p \<longleftrightarrow> (\<exists>t. s = p @ t)"
  by (metis HasPrefix_append HasPrefix_def append_take_drop_id)

lemma HasSuffix_iff: "HasSuffix s p \<longleftrightarrow> (\<exists>t. s = t @ p)"
  unfolding HasSuffix_def by (metis append_take_drop_id append_eq_conv_conj diff_le_self le_add2
      length_append length_drop add_diff_cancel_right')

lemma TrimPrefix_append [simp]: "TrimPrefix (p @ s) p = s"
  by (simp add: TrimPrefix_def)

lemma TrimSuffix_append [simp]: "TrimSuffix (s @ p) p = s"
  by (simp add: TrimSuffix_def HasSuffix_iff)

lemma TrimSuffix_cases: "TrimSuffix s p = s \<or> s = TrimSuffix s p @ p"
  by (auto simp: TrimSuffix_def HasSuffix_iff)

lemma lower_char_idem [simp]: "lower_char (lower_char c) = lower_char c"
  by (simp add: lower_char_def)

lemma ToLower_idem [simp]: "ToLower (ToLower s) = ToLower s"
  by (simp add: ToLower_def)

lemma length_ToLower [simp]: "length (ToLower s) = length s"
  by (simp add: ToLower_def)

lemma length_TrimRight: "length (TrimRight s cs) \<le> length s"
  using length_dropWhile_le [of _ "rev s"] by (simp add: TrimRight_def)

lemma length_TrimLeft: "length (TrimLeft s cs) \<le> length s"
  by (simp add: TrimLeft_def length_dropWhile_le)

lemma length_Trim: "length (Trim s cs) \<le> length s"
  unfolding Trim_def by (rule le_trans [OF length_TrimRight length_TrimLeft])

lemma set_TrimRight: "set (TrimRight s cs) \<subseteq> set s"
  using set_dropWhileD [of _ _ "rev s"] by (auto simp: TrimRight_def)

lemma set_TrimLeft: "set (TrimLeft s cs) \<subseteq> set s"
  using set_dropWhileD [of _ _ s] by (auto simp: TrimLeft_def)

lemma set_Trim: "set (Trim s cs) \<subseteq> set s"
  unfolding Trim_def using set_TrimRight set_TrimLeft by blast

lemma last_TrimRight: "TrimRight s cs \<noteq> [] \<Longrightarrow> last (TrimRight s cs) \<notin> set cs"
  unfolding TrimRight_def using hd_dropWhile [of "\<lambda>c. c \<in> set cs" "rev s"]
  by (simp add: last_rev)

lemma TrimRight_prefix: "\<exists>t. s = TrimRight s cs @ t \<and> set t \<subseteq> set cs"
proof -
  let ?P = "\<lambda>c. c \<in> set cs"
  have "rev s = takeWhile ?P (rev s) @ dropWhile ?P (rev s)"
    by simp
  then have "s = rev (dropWhile ?P (rev s)) @ rev (takeWhile ?P (rev s))"
    by (metis rev_append rev_rev_ident)
  moreover have "set (takeWhile ?P (rev s)) \<subseteq> set cs"
    by (auto dest: set_takeWhileD)
  ultimately show ?thesis
    unfolding TrimRight_def by (metis set_rev)
qed

lemma hd_Trim: "Trim s cs \<noteq> [] \<Longrightarrow> hd (Trim s cs) \<notin> set cs"
proof -
  assume ne: "Trim s cs \<noteq> []"
  let ?l = "TrimLeft s cs"
  obtain t where t: "?l = TrimRight ?l cs @ t"
    using TrimRight_prefix by blast
  with ne have "hd ?l = hd (Trim s cs)" and "?l \<noteq> []"
    unfolding Trim_def by (metis hd_append2, auto)
  moreover have "hd ?l \<notin> set cs"
    using \<open>?l \<noteq> []\<close> hd_dropWhile [of "\<lambda>c. c \<in> set cs" s] by (simp add: TrimLeft_def)
  ultimately show ?thesis by simp
qed

lemma last_Trim: "Trim s cs \<noteq> [] \<Longrightarrow> last (Trim s cs) \<notin> set cs"
  unfolding Trim_def by (rule last_TrimRight)

lemma Split_not_Nil [simp]: "Split sep s \<noteq> []"
  by (induction s) (auto split: list.splits)

lemma Split_no_sep: "sep \<notin> set s \<Longrightarrow> Split sep s = [s]"
  by (induction s) auto

lemma Split_append_sep:
  "sep \<notin> set a \<Longrightarrow> Split sep (a @ sep # b) = a # Split sep b"
  by (induction a) auto

lemma Split_pieces_no_sep: "p \<in> set (Split sep s) \<Longrightarrow> sep \<notin> set p"
  by (induction s arbitrary: p) (auto split: if_splits list.splits)

lemma before_after_sep: "sep \<notin> set a \<Longrightarrow>
    before_sep sep (a @ sep # b) = a \<and> after_sep sep (a @ sep # b) = b"
  by (simp add: before_sep_def after_sep_def takeWhile_append dropWhile_append)

section \<open>Hexadecimal and decimal text\<close>

definition hex_digit :: "nat \<Rightarrow> char" where
  "hex_digit n = (if n < 10 then char_of (48 + n) else char_of (87 + n))"

text \<open>\<open>hex.EncodeToString\<close>: two lower-case digits a byte.\<close>

fun hex_encode :: "string \<Rightarrow> string" where
  "hex_encode [] = []"
| "hex_encode (c # s) =
     hex_digit (of_char c div 16) # hex_digit (of_char c mod 16) # hex_encode s"

definition is_hex_lower :: "char \<Rightarrow> bool" where
  "is_hex_lower c \<longleftrightarrow> (let n = (of_char c :: nat) in 48 \<le> n \<and> n \<le> 57 \<or> 97 \<le> n \<and> n \<le> 102)"

lemma length_hex_encode [simp]: "length (hex_encode s) = 2 * length s"
  by (induction s) auto

lemma is_hex_lower_digit: "n < 16 \<Longrightarrow> is_hex_lower (hex_digit n)"
  by (auto simp: is_hex_lower_def hex_digit_def Let_def)

lemma hex_encode_chars: "c \<in> set (hex_encode s) \<Longrightarrow> is_hex_lower c"
proof (induction s)
  case (Cons a s)
  have "(of_char a :: nat) div 16 < 16"
    using nat_of_char_less_256 [of a] by (simp add: div_less_iff_less_mult)
  with Cons show ?case
    by (auto intro: is_hex_lower_digit)
qed simp

lemma hex_digit_inj: "m < 16 \<Longrightarrow> n < 16 \<Longrightarrow> hex_digit m = hex_digit n \<Longrightarrow> m = n"
  by (auto simp: hex_digit_def char_of_eq_iff take_bit_eq_mod split: if_splits)

lemma hex_encode_inj: "hex_encode s = hex_encode t \<Longrightarrow> s = t"
proof (induction s arbitrary: t)
  case Nil
  then show ?case by (cases t) auto
next
  case (Cons a s)
  then obtain b t' where t: "t = b # t'" by (cases t) auto
  have lt: "(of_char c :: nat) div 16 < 16" for c
    using nat_of_char_less_256 [of c] by (simp add: div_less_iff_less_mult)
  from Cons.prems t have "(of_char a :: nat) div 16 = of_char b div 16"
    and "(of_char a :: nat) mod 16 = of_char b mod 16"
    by (auto intro: hex_digit_inj lt)
  then have "(of_char a :: nat) = of_char b"
    by (metis div_mult_mod_eq)
  then have "a = b" by simp
  with Cons t show ?case by simp
qed

text \<open>\<open>strconv.FormatUint(n, 10)\<close>.\<close>

fun decimal :: "nat \<Rightarrow> string" where
  "decimal n = (if n < 10 then [char_of (48 + n)] else decimal (n div 10) @ [char_of (48 + n mod 10)])"

declare decimal.simps [simp del]

definition FormatUint :: "u64 \<Rightarrow> string" where
  "FormatUint w = decimal (unat w)"

definition FormatInt :: "i64 \<Rightarrow> string" where
  "FormatInt w = (if sint w < 0 then ''-'' @ decimal (nat (- sint w)) else decimal (nat (sint w)))"

text \<open>
  \<open>strconv.ParseUint(s, 10, 64)\<close>: the value and whether there was an error. The value is 0
  with a syntax error and the largest 64-bit value with a range error; digits after the
  point of overflow are not looked at.
\<close>

fun parse_digits :: "nat \<Rightarrow> string \<Rightarrow> nat \<times> bool" where
  "parse_digits n [] = (n, True)"
| "parse_digits n (c # s) =
     (let d = (of_char c :: nat) in
      if d < 48 \<or> 57 < d then (0, False)
      else if 2 ^ 64 \<le> n * 10 + (d - 48) then (2 ^ 64 - 1, False)
      else parse_digits (n * 10 + (d - 48)) s)"

definition ParseUint :: "string \<Rightarrow> u64 \<times> bool" where
  "ParseUint s = (if s = [] then (0, False) else (case parse_digits 0 s of (n, ok) \<Rightarrow> (of_nat n, ok)))"

text \<open>\<open>strconv.ParseInt(s, 10, 64)\<close>, with the value clamped on a range error.\<close>

definition ParseInt :: "string \<Rightarrow> int \<times> bool" where
  "ParseInt s =
     (if s = [] then (0, False)
      else
        (let neg = (hd s = CHR ''-'');
             body = (if neg \<or> hd s = CHR ''+'' then tl s else s)
         in if body = [] then (0, False)
            else (case parse_digits 0 body of (n, ok) \<Rightarrow>
              if \<not> ok \<and> n = 0 then (0, False)
              else if \<not> neg \<and> 2 ^ 63 \<le> n then (2 ^ 63 - 1, False)
              else if neg \<and> 2 ^ 63 < n then (- (2 ^ 63), False)
              else (if neg then - int n else int n, True))))"

lemma ParseInt_range: "ParseInt s = (n, ok) \<Longrightarrow> - (2 ^ 63) \<le> n \<and> n < 2 ^ 63"
  by (auto simp: ParseInt_def Let_def split: if_splits prod.splits)

lemma parse_digits_append_digit:
  assumes "parse_digits k s = (n, True)" and "d < 10" and "n * 10 + d < 2 ^ 64"
  shows "parse_digits k (s @ [char_of (48 + d)]) = (n * 10 + d, True)"
  using assms
  by (induction k s rule: parse_digits.induct) (auto simp: Let_def split: if_splits)

lemma parse_digits_decimal: "n < 2 ^ 64 \<Longrightarrow> parse_digits 0 (decimal n) = (n, True)"
proof (induction n rule: decimal.induct)
  case (1 n)
  show ?case
  proof (cases "n < 10")
    case True
    then show ?thesis by (simp add: decimal.simps [of n] Let_def)
  next
    case False
    with 1 have "parse_digits 0 (decimal (n div 10)) = (n div 10, True)"
      by simp
    then have "parse_digits 0 (decimal (n div 10) @ [char_of (48 + n mod 10)]) =
        (n div 10 * 10 + n mod 10, True)"
      by (rule parse_digits_append_digit) (use 1(2) in simp_all)
    with False show ?thesis by (simp add: decimal.simps [of n])
  qed
qed

lemma decimal_not_Nil [simp]: "decimal n \<noteq> []"
  by (simp add: decimal.simps [of n])

lemma ParseUint_FormatUint: "ParseUint (FormatUint w) = (w, True)"
proof -
  have "unat w < 2 ^ 64"
    using unsigned_less [of w] by simp
  then show ?thesis
    by (simp add: ParseUint_def FormatUint_def parse_digits_decimal)
qed

lemma FormatUint_inj: "FormatUint v = FormatUint w \<Longrightarrow> v = w"
  by (metis ParseUint_FormatUint fst_conv)

end
