(* ===== verification/Model.thy ===== *)
theory Model
  imports Go_Strings
begin

text \<open>
  The data of \<open>internal/model/model.go\<close> that the program uses, one record per struct with the
  struct's fields (prefixed, since selectors are global), and the configuration and request
  bodies of the Hub's handlers. \<open>json.RawMessage\<close> and \<open>[]byte\<close> are byte strings; a nil and an
  empty slice are both \<open>[]\<close>.
\<close>

record control_message =
  cm_Issuer :: string
  cm_Audience :: string
  cm_Generation :: u64
  cm_IssuedAt :: time
  cm_ExpiresAt :: time
  cm_Nonce :: string
  cm_Type :: string
  cm_Payload :: string
  cm_Signature :: string

record identity_registration =
  id_ClusterID :: string
  id_Region :: string
  id_Tenant :: string
  id_TrustDomain :: string
  id_SPIFFEID :: string
  id_BundleDigest :: string
  id_PublicKey :: string
  id_Capabilities :: "string list"
  id_GatewayEndpoints :: "string list"

record invitation =
  inv_ID :: string
  inv_Tenant :: string
  inv_ClusterID :: string
  inv_Region :: string
  inv_ExpiresAt :: time
  inv_Capabilities :: "string list"
  inv_TokenHash :: string
  inv_UsedAt :: time

record invitation_acceptance =
  ia_Token :: string
  ia_Identity :: identity_registration
  ia_Proof :: string

record onboarding_claim =
  oc_ID :: string
  oc_ClusterID :: string
  oc_Region :: string
  oc_Tenant :: string
  oc_TokenHash :: string
  oc_ExpiresAt :: time
  oc_UsedAt :: time

record bundle_confirmation =
  bc_PeerRef :: string
  bc_BundleDigest :: string

text \<open>\<open>Port\<close> is the \<open>int32\<close> and \<open>TTLSeconds\<close>, \<open>Generation\<close> the \<open>int64\<close> of the struct.\<close>

record advertised_service =
  as_Name :: string
  as_Namespace :: string
  as_ServiceClass :: string
  as_Protocol :: string
  as_Port :: "32 word"
  as_TargetPeers :: "string list"
  as_TTLSeconds :: i64
  as_PolicyRef :: string
  as_Generation :: i64
  as_GatewayTarget :: string

record access_rule =
  ar_APIGroups :: "string list"
  ar_Resources :: "string list"
  ar_Verbs :: "string list"

record grant_instruction =
  gi_Name :: string
  gi_Tenant :: string
  gi_PeerRef :: string
  gi_AdvertisementRef :: string
  gi_Generation :: i64
  gi_Scope :: string
  gi_Namespaces :: "string list"
  gi_Rules :: "access_rule list"
  gi_ExpiresAt :: time
  gi_Revoked :: bool
  gi_ProxyURL :: string

record credential_payload =
  cp_Token :: string
  cp_CertificateAuthority :: string
  cp_Server :: string
  cp_TLSServerName :: string
  cp_ExpiresAt :: time

record grant_fulfillment =
  gf_GrantRef :: string
  gf_CredentialRef :: string
  gf_RenewedAt :: time

record link_observation =
  lo_LinkRef :: string
  lo_PeerRef :: string
  lo_Ready :: bool
  lo_LatencyMillis :: i64
  lo_Reason :: string
  lo_LastHandshakeAt :: time

end
