(* ===== verification/Kube.thy ===== *)
theory Kube
  imports Model
begin

text \<open>
  The Kubernetes side of the model: the objects the program reads and writes, and the API
  server as a parameter.

  An object is a record of the fields the source reads or writes, typed as the custom resource
  definitions in \<open>charts/among-clusters-hub/crds\<close> type them: the accessors of the source
  (\<open>NestedString\<close>, \<open>NestedBool\<close>, \<open>NestedInt64\<close>, \<open>NestedStringSlice\<close>) give the zero value for
  an absent field, so an absent field and a zero value are one value here, except where the
  source looks at the \<open>found\<close> flag; those fields are options. Instants in a spec or a status
  are RFC 3339 text, as in the objects. An object is sent back to the server whole, with the
  resource version it was read with.

  \<open>'w kube\<close> has one operation per request the source makes, over an unknown state \<open>'w\<close> of the
  cluster. Nothing is assumed of them here: a theorem that relies on the server says what it
  relies on in its hypotheses.
\<close>

record object_meta =
  mt_Name :: string
  mt_Namespace :: string
  mt_Generation :: i64
  mt_ResourceVersion :: string
  mt_CreationTimestamp :: time
  mt_Labels :: "string \<rightharpoonup> string"
  mt_Annotations :: "string \<rightharpoonup> string"

definition new_meta :: "string \<Rightarrow> string \<Rightarrow> object_meta" where
  "new_meta namespace name =
     \<lparr>mt_Name = name, mt_Namespace = namespace, mt_Generation = 0, mt_ResourceVersion = [],
      mt_CreationTimestamp = 0, mt_Labels = Map.empty, mt_Annotations = Map.empty\<rparr>"

record secret =
  sec_Meta :: object_meta
  sec_Data :: "string \<rightharpoonup> string"

record cluster_identity =
  ci_Meta :: object_meta
  ci_clusterID :: string
  ci_region :: string
  ci_trustDomain :: string
  ci_spiffeID :: string
  ci_bundleDigest :: string
  ci_publicKey :: string
  ci_capabilities :: "string list"
  ci_gatewayEndpoints :: "string list"
  ci_lastGeneration :: i64
  ci_lastNonce :: string
  ci_state :: string
  ci_lastSeenAt :: string
  ci_observedGeneration :: i64

record peer =
  pe_Meta :: object_meta
  pe_localIdentityRef :: string
  pe_remoteIdentityRef :: string
  pe_suspended :: bool
  pe_localBundleConfirmed :: bool
  pe_remoteBundleConfirmed :: bool
  pe_state :: string
  pe_observedGeneration :: i64

record authenticated_link =
  al_Meta :: object_meta
  al_peerRef :: string
  al_localGateway :: string
  al_remoteGateway :: string
  al_state :: string
  al_reason :: string
  al_latencyMillis :: i64
  al_lastHandshakeAt :: string
  al_lastObservedAt :: "string option"
  al_observedGeneration :: i64

record peer_policy =
  pp_Meta :: object_meta
  pp_serviceClasses :: "string list"
  pp_protocols :: "string list"
  pp_ports :: "i64 list"
  pp_directions :: "string list"
  pp_maxAdvertisements :: "i64 option"
  pp_matchNames :: "string list"
  pp_matchAllReady :: bool

record advertisement =
  ad_Meta :: object_meta
  ad_publisherRef :: string
  ad_serviceIdentity :: string
  ad_serviceClass :: string
  ad_protocol :: string
  ad_port :: i64
  ad_localServiceRef :: string
  ad_gatewayEndpoints :: "string list"
  ad_targetPeers :: "string list"
  ad_ttlSeconds :: i64
  ad_generation :: i64
  ad_policyRef :: string
  ad_revoked :: bool
  ad_state :: string
  ad_expiresAt :: string

record imported_service =
  is_Meta :: object_meta
  is_advertisementRef :: string
  is_peerRef :: string
  is_localServiceName :: string
  is_localPort :: "i64 option"
  is_suspended :: bool
  is_state :: string
  is_serviceRef :: string

record access_grant =
  ag_Meta :: object_meta
  ag_peerRef :: string
  ag_advertisementRef :: string
  ag_expiresAt :: string
  ag_scope :: string
  ag_namespaces :: "string list"
  ag_rules :: "access_rule list"
  ag_approved :: bool
  ag_revoked :: bool
  ag_credentialRef :: string
  ag_lastRenewedAt :: string
  ag_state :: string
  ag_reason :: string

text \<open>A core Service with its one port.\<close>

record kube_service =
  sv_Meta :: object_meta
  sv_Selector :: "string \<rightharpoonup> string"
  sv_PortName :: string
  sv_Port :: "32 word"
  sv_TargetPort :: "32 word"
  sv_Protocol :: string

section \<open>The API server\<close>

text \<open>
  Requests for an object take its namespace and its name. A list over all namespaces is a list
  with the empty namespace. \<open>wall_clock\<close> is the program's own reading of the clock (\<open>time.Now\<close>).
\<close>

record 'w kube =
  wall_clock :: "'w \<Rightarrow> time \<times> 'w"
  secrets_get :: "string \<Rightarrow> string \<Rightarrow> (go_error, secret, 'w) prog"
  secrets_create :: "string \<Rightarrow> secret \<Rightarrow> (go_error, unit, 'w) prog"
  secrets_update :: "string \<Rightarrow> secret \<Rightarrow> (go_error, unit, 'w) prog"
  identities_get :: "string \<Rightarrow> string \<Rightarrow> (go_error, cluster_identity, 'w) prog"
  identities_create :: "string \<Rightarrow> cluster_identity \<Rightarrow> (go_error, unit, 'w) prog"
  identities_update_status :: "string \<Rightarrow> cluster_identity \<Rightarrow> (go_error, unit, 'w) prog"
  peers_get :: "string \<Rightarrow> string \<Rightarrow> (go_error, peer, 'w) prog"
  peers_list :: "string \<Rightarrow> (go_error, peer list, 'w) prog"
  peers_update_status :: "string \<Rightarrow> peer \<Rightarrow> (go_error, unit, 'w) prog"
  links_get :: "string \<Rightarrow> string \<Rightarrow> (go_error, authenticated_link, 'w) prog"
  links_list :: "string \<Rightarrow> (go_error, authenticated_link list, 'w) prog"
  links_update_status :: "string \<Rightarrow> authenticated_link \<Rightarrow> (go_error, unit, 'w) prog"
  policies_get :: "string \<Rightarrow> string \<Rightarrow> (go_error, peer_policy, 'w) prog"
  ads_get :: "string \<Rightarrow> string \<Rightarrow> (go_error, advertisement, 'w) prog"
  ads_list :: "string \<Rightarrow> (string \<times> string) option \<Rightarrow> (go_error, advertisement list, 'w) prog"
  ads_create :: "string \<Rightarrow> advertisement \<Rightarrow> (go_error, unit, 'w) prog"
  ads_update :: "string \<Rightarrow> advertisement \<Rightarrow> (go_error, unit, 'w) prog"
  ads_update_status :: "string \<Rightarrow> advertisement \<Rightarrow> (go_error, unit, 'w) prog"
  imports_list :: "string \<Rightarrow> (go_error, imported_service list, 'w) prog"
  imports_create :: "string \<Rightarrow> imported_service \<Rightarrow> (go_error, unit, 'w) prog"
  imports_update_status :: "string \<Rightarrow> imported_service \<Rightarrow> (go_error, unit, 'w) prog"
  grants_get :: "string \<Rightarrow> string \<Rightarrow> (go_error, access_grant, 'w) prog"
  grants_list :: "string \<Rightarrow> (go_error, access_grant list, 'w) prog"
  grants_update_status :: "string \<Rightarrow> access_grant \<Rightarrow> (go_error, unit, 'w) prog"
  services_get :: "string \<Rightarrow> string \<Rightarrow> (go_error, kube_service, 'w) prog"
  services_create :: "string \<Rightarrow> kube_service \<Rightarrow> (go_error, unit, 'w) prog"

definition api_now :: "'w kube \<Rightarrow> (go_error, time, 'w) prog" where
  "api_now K w = (case wall_clock K w of (t, w') \<Rightarrow> (Inr t, w'))"

lemma api_now_no_error [simp]: "api_now K w \<noteq> (Inl e, w')"
  by (simp add: api_now_def split: prod.splits)

abbreviation annotation :: "object_meta \<Rightarrow> string \<Rightarrow> string" where
  "annotation m key \<equiv> map_get [] (mt_Annotations m) key"

abbreviation labelled :: "object_meta \<Rightarrow> string \<Rightarrow> string" where
  "labelled m key \<equiv> map_get [] (mt_Labels m) key"

abbreviation sec_annotation :: "secret \<Rightarrow> string \<Rightarrow> string" where
  "sec_annotation s key \<equiv> annotation (sec_Meta s) key"

definition annotate :: "string \<Rightarrow> string \<Rightarrow> secret \<Rightarrow> secret" where
  "annotate key value s =
     s\<lparr>sec_Meta := (sec_Meta s)\<lparr>mt_Annotations := (mt_Annotations (sec_Meta s))(key \<mapsto> value)\<rparr>\<rparr>"

section \<open>What the requests of a kind keep\<close>

text \<open>
  \<open>reads_keep P K\<close>: no reading request changes whether \<open>P\<close> holds; the writing requests are
  treated one by one, since they may depend on the object written.
\<close>

definition reads_keep :: "('w \<Rightarrow> bool) \<Rightarrow> 'w kube \<Rightarrow> bool" where
  "reads_keep P K \<longleftrightarrow>
     keeps P (api_now K) \<and> (\<forall>ns n. keeps P (secrets_get K ns n)) \<and> (\<forall>ns n. keeps P (identities_get K ns n)) \<and>
     (\<forall>ns n. keeps P (peers_get K ns n)) \<and> (\<forall>ns. keeps P (peers_list K ns)) \<and>
     (\<forall>ns n. keeps P (links_get K ns n)) \<and> (\<forall>ns. keeps P (links_list K ns)) \<and>
     (\<forall>ns n. keeps P (policies_get K ns n)) \<and> (\<forall>ns n. keeps P (ads_get K ns n)) \<and>
     (\<forall>ns l. keeps P (ads_list K ns l)) \<and> (\<forall>ns. keeps P (imports_list K ns)) \<and>
     (\<forall>ns n. keeps P (grants_get K ns n)) \<and> (\<forall>ns. keeps P (grants_list K ns)) \<and>
     (\<forall>ns n. keeps P (services_get K ns n))"

lemma reads_keepD [keeps_intros]:
  assumes "reads_keep P K"
  shows "keeps P (api_now K)" "keeps P (secrets_get K ns n)" "keeps P (identities_get K ns n)"
    "keeps P (peers_get K ns n)" "keeps P (peers_list K ns)" "keeps P (links_get K ns n)"
    "keeps P (links_list K ns)" "keeps P (policies_get K ns n)" "keeps P (ads_get K ns n)"
    "keeps P (ads_list K ns l)" "keeps P (imports_list K ns)" "keeps P (grants_get K ns n)"
    "keeps P (grants_list K ns)" "keeps P (services_get K ns n)"
  using assms by (simp_all add: reads_keep_def)

end
