(* ===== verification/Sovereign_Store.thy ===== *)
theory Sovereign_Store
  imports Model
begin

text \<open>
  The interface \<open>SovereignStore\<close> of \<open>internal/api/sovereign_store.go\<close>, on which the Hub's
  handlers depend, and what they rely on, as locales: a \<open>single_use\<close> ledger (an invitation or
  an onboarding claim is consumed at most once), a \<open>generation_guard\<close> (an accepted generation is
  above every earlier one) and \<open>sovereign_store\<close>, which joins them and says that no operation
  undoes them. The in-memory store and the Kubernetes store both provide it.

  A method of the interface is a computation over the store's state \<open>'s\<close>.
\<close>

section \<open>The interface\<close>

record 's store_ops =
  CreateOnboardingClaim :: "onboarding_claim \<Rightarrow> (go_error, unit, 's) prog"
  ConsumeOnboardingClaim :: "string \<Rightarrow> string \<Rightarrow> string \<Rightarrow> time \<Rightarrow> (go_error, onboarding_claim, 's) prog"
  CreateInvitation :: "invitation \<Rightarrow> (go_error, unit, 's) prog"
  ConsumeInvitation :: "string \<Rightarrow> string \<Rightarrow> string \<Rightarrow> string \<Rightarrow> string list \<Rightarrow> time \<Rightarrow>
    (go_error, invitation, 's) prog"
  RegisterIdentity :: "identity_registration \<Rightarrow> (go_error, unit, 's) prog"
  Identity :: "string \<Rightarrow> string \<Rightarrow> (go_error, identity_registration, 's) prog"
  LastGeneration :: "string \<Rightarrow> string \<Rightarrow> (go_error, u64, 's) prog"
  RecordGeneration :: "string \<Rightarrow> string \<Rightarrow> u64 \<Rightarrow> string \<Rightarrow> (go_error, unit, 's) prog"
  ConfirmPeerBundle :: "string \<Rightarrow> string \<Rightarrow> bundle_confirmation \<Rightarrow> (go_error, unit, 's) prog"
  ObserveLink :: "string \<Rightarrow> string \<Rightarrow> link_observation \<Rightarrow> (go_error, unit, 's) prog"
  SyncAdvertisements :: "string \<Rightarrow> string \<Rightarrow> advertised_service list \<Rightarrow> time \<Rightarrow> (go_error, unit, 's) prog"
  PendingGrants :: "string \<Rightarrow> string \<Rightarrow> time \<Rightarrow> (go_error, grant_instruction list, 's) prog"
  FulfillGrant :: "string \<Rightarrow> string \<Rightarrow> grant_fulfillment \<Rightarrow> (go_error, unit, 's) prog"

text \<open>\<open>capabilitiesAllowed\<close>: the invited capabilities are collected in a set first.\<close>

fun all_allowed :: "(string \<rightharpoonup> unit) \<Rightarrow> string list \<Rightarrow> bool" where
  "all_allowed allowed [] = True"
| "all_allowed allowed (c # cs) = (if allowed c = None then False else all_allowed allowed cs)"

definition capabilitiesAllowed :: "string list \<Rightarrow> string list \<Rightarrow> bool" where
  "capabilitiesAllowed invited requested =
     all_allowed (foldl (\<lambda>m c. m(c \<mapsto> ())) Map.empty invited) requested"

lemma foldl_upd_None: "foldl (\<lambda>m c. m(c \<mapsto> ())) m cs x = None \<longleftrightarrow> m x = None \<and> x \<notin> set cs"
  by (induction cs arbitrary: m) auto

lemma all_allowed_iff: "all_allowed m cs \<longleftrightarrow> (\<forall>c \<in> set cs. m c \<noteq> None)"
  by (induction cs) auto

lemma capabilitiesAllowed_iff: "capabilitiesAllowed invited requested \<longleftrightarrow> set requested \<subseteq> set invited"
  by (auto simp: capabilitiesAllowed_def all_allowed_iff foldl_upd_None)

section \<open>Runs of calls\<close>

text \<open>
  Calls made one after the other. The store's methods hold a mutex (or are single requests to
  the API server), so every interleaving of concurrent requests is such a sequence.
\<close>

fun run_calls :: "('c \<Rightarrow> ('e, 'a, 's) prog) \<Rightarrow> 'c list \<Rightarrow> 's \<Rightarrow> ('e + 'a) list \<times> 's" where
  "run_calls f [] s = ([], s)"
| "run_calls f (c # cs) s =
     (case f c s of (r, s1) \<Rightarrow> (case run_calls f cs s1 of (rs, s2) \<Rightarrow> (r # rs, s2)))"

fun successes :: "'c list \<Rightarrow> ('e + 'a) list \<Rightarrow> 'c list" where
  "successes (c # cs) (Inr _ # rs) = c # successes cs rs"
| "successes (c # cs) (Inl _ # rs) = successes cs rs"
| "successes _ _ = []"

lemma run_calls_keeps_on:
  assumes "\<And>c. c \<in> set cs \<Longrightarrow> keeps P (f c)" and "P s"
  shows "P (snd (run_calls f cs s))"
  using assms
proof (induction cs arbitrary: s)
  case (Cons c cs)
  have "keeps P (f c)" by (rule Cons.prems(1)) simp
  from keepsD [OF this Cons.prems(2)] have "P (snd (f c s))" .
  from Cons.IH [OF _ this] Cons.prems(1) show ?case
    by (auto split: prod.splits)
qed simp

lemma run_calls_keeps:
  assumes "\<And>c. keeps P (f c)" and "P s"
  shows "P (snd (run_calls f cs s))"
  by (rule run_calls_keeps_on) (rule assms)+

section \<open>Single use\<close>

locale single_use =
  fixes call :: "'c \<Rightarrow> ('e, 'a, 's) prog"
    and key_of :: "'c \<Rightarrow> 'k option"
    and spent :: "'s \<Rightarrow> 'k \<Rightarrow> bool"
  assumes consume_fresh: "key_of c = Some k \<Longrightarrow> call c s = (Inr x, s') \<Longrightarrow> \<not> spent s k \<and> spent s' k"
    and spent_kept: "keeps (\<lambda>s. spent s k) (call c)"
begin

text \<open>Once a key is spent, no later call for it succeeds.\<close>

lemma spent_blocks:
  assumes "spent s k" and "run_calls call cs s = (rs, s')"
  shows "k \<notin> set (List.map_filter key_of (successes cs rs)) \<and> spent s' k"
  using assms
proof (induction cs arbitrary: s rs)
  case Nil
  then show ?case by (simp add: List.map_filter_simps)
next
  case (Cons c cs)
  obtain r s1 where call: "call c s = (r, s1)" by fastforce
  obtain rs' where rest: "run_calls call cs s1 = (rs', s')" and rs: "rs = r # rs'"
    using Cons.prems(2) call by (auto split: prod.splits)
  have "spent s1 k"
    using keeps_run [OF spent_kept Cons.prems(1) call] .
  note IH = Cons.IH [OF this rest]
  show ?case
  proof (cases r)
    case (Inr x)
    then have "key_of c \<noteq> Some k"
      using consume_fresh call Cons.prems(1) by blast
    with IH Inr rs show ?thesis
      by (auto simp: List.map_filter_simps split: option.splits)
  qed (use IH rs in simp)
qed

text \<open>Among any sequence of calls, each key is consumed successfully at most once.\<close>

lemma at_most_once:
  "run_calls call cs s = (rs, s') \<Longrightarrow> distinct (List.map_filter key_of (successes cs rs))"
proof (induction cs arbitrary: s rs)
  case Nil
  then show ?case by (simp add: List.map_filter_simps)
next
  case (Cons c cs)
  obtain r s1 where call: "call c s = (r, s1)" by fastforce
  obtain rs' where rest: "run_calls call cs s1 = (rs', s')" and rs: "rs = r # rs'"
    using Cons.prems call by (auto split: prod.splits)
  note IH = Cons.IH [OF rest]
  show ?case
  proof (cases r)
    case (Inr x)
    show ?thesis
    proof (cases "key_of c")
      case (Some k)
      with Inr call have "spent s1 k"
        using consume_fresh by blast
      with IH Inr Some rs show ?thesis
        using spent_blocks [OF _ rest] by (simp add: List.map_filter_simps)
    qed (use IH Inr rs in \<open>simp add: List.map_filter_simps\<close>)
  qed (use IH rs in simp)
qed

end

section \<open>Generations\<close>

text \<open>The generations accepted for one identity in a run of calls.\<close>

definition accepted :: "('c \<Rightarrow> ('k \<times> u64) option) \<Rightarrow> 'k \<Rightarrow> 'c list \<Rightarrow> ('e + 'a) list \<Rightarrow> u64 list" where
  "accepted gen_of k cs rs = List.map_filter (\<lambda>c. case gen_of c of
     Some (k', g) \<Rightarrow> if k' = k then Some g else None | None \<Rightarrow> None) (successes cs rs)"

locale generation_guard =
  fixes call :: "'c \<Rightarrow> ('e, 'a, 's) prog"
    and gen_of :: "'c \<Rightarrow> ('k \<times> u64) option"
    and gen :: "'s \<Rightarrow> 'k \<Rightarrow> u64"
  assumes record_above: "gen_of c = Some (k, g) \<Longrightarrow> call c s = (Inr x, s') \<Longrightarrow> gen s k < g \<and> g \<le> gen s' k"
    and gen_kept: "keeps (\<lambda>s. g \<le> gen s k) (call c)"
begin

lemma accepted_above:
  "run_calls call cs s = (rs, s') \<Longrightarrow> g \<le> gen s k \<Longrightarrow> \<forall>g' \<in> set (accepted gen_of k cs rs). g < g'"
proof (induction cs arbitrary: s rs)
  case Nil
  then show ?case by (simp add: accepted_def List.map_filter_simps)
next
  case (Cons c cs)
  obtain r s1 where call: "call c s = (r, s1)" by fastforce
  obtain rs' where rest: "run_calls call cs s1 = (rs', s')" and rs: "rs = r # rs'"
    using Cons.prems(1) call by (auto split: prod.splits)
  have "g \<le> gen s1 k"
    using keeps_run [OF gen_kept Cons.prems(2) call] .
  note IH = Cons.IH [OF rest this]
  show ?case
  proof (cases r)
    case (Inr x)
    have "g < g'" if "gen_of c = Some (k, g')" for g'
      using record_above [OF that] call Inr Cons.prems(2) by fastforce
    with IH Inr rs show ?thesis
      by (auto simp: accepted_def List.map_filter_simps split: option.splits prod.splits)
  qed (use IH rs in \<open>simp add: accepted_def\<close>)
qed

lemma accepted_increasing:
  "run_calls call cs s = (rs, s') \<Longrightarrow> sorted_wrt (<) (accepted gen_of k cs rs)"
proof (induction cs arbitrary: s rs)
  case Nil
  then show ?case by (simp add: accepted_def List.map_filter_simps)
next
  case (Cons c cs)
  obtain r s1 where call: "call c s = (r, s1)" by fastforce
  obtain rs' where rest: "run_calls call cs s1 = (rs', s')" and rs: "rs = r # rs'"
    using Cons.prems(1) call by (auto split: prod.splits)
  note IH = Cons.IH [OF rest]
  show ?case
  proof (cases r)
    case (Inr x)
    have "\<forall>g' \<in> set (accepted gen_of k cs rs'). g < g'" if "gen_of c = Some (k, g)" for g
      using accepted_above [OF rest] record_above [OF that] call Inr by blast
    with IH Inr rs show ?thesis
      by (auto simp: accepted_def List.map_filter_simps split: option.splits prod.splits)
  qed (use IH rs in \<open>simp add: accepted_def\<close>)
qed

end

section \<open>The contract of a store\<close>

text \<open>A state predicate that every method of a store keeps.\<close>

definition store_keeps :: "('s \<Rightarrow> bool) \<Rightarrow> 's store_ops \<Rightarrow> bool" where
  "store_keeps P ops \<longleftrightarrow>
     (\<forall>v. keeps P (CreateOnboardingClaim ops v)) \<and>
     (\<forall>t i h now. keeps P (ConsumeOnboardingClaim ops t i h now)) \<and>
     (\<forall>v. keeps P (CreateInvitation ops v)) \<and>
     (\<forall>i h t c r now. keeps P (ConsumeInvitation ops i h t c r now)) \<and>
     (\<forall>v. keeps P (RegisterIdentity ops v)) \<and>
     (\<forall>t i. keeps P (Identity ops t i)) \<and>
     (\<forall>t i. keeps P (LastGeneration ops t i)) \<and>
     (\<forall>t i g n. keeps P (RecordGeneration ops t i g n)) \<and>
     (\<forall>t i b. keeps P (ConfirmPeerBundle ops t i b)) \<and>
     (\<forall>t i l. keeps P (ObserveLink ops t i l)) \<and>
     (\<forall>t i ss now. keeps P (SyncAdvertisements ops t i ss now)) \<and>
     (\<forall>t i now. keeps P (PendingGrants ops t i now)) \<and>
     (\<forall>t i f. keeps P (FulfillGrant ops t i f))"

lemma store_keepsD [keeps_intros]:
  assumes "store_keeps P ops"
  shows "keeps P (CreateOnboardingClaim ops oc)"
    and "keeps P (ConsumeOnboardingClaim ops t i h now)"
    and "keeps P (CreateInvitation ops iv)"
    and "keeps P (ConsumeInvitation ops i h t c r now)"
    and "keeps P (RegisterIdentity ops v)"
    and "keeps P (Identity ops t i)"
    and "keeps P (LastGeneration ops t i)"
    and "keeps P (RecordGeneration ops t i g n)"
    and "keeps P (ConfirmPeerBundle ops t i b)"
    and "keeps P (ObserveLink ops t i l)"
    and "keeps P (SyncAdvertisements ops t i ss now)"
    and "keeps P (PendingGrants ops t i now)"
    and "keeps P (FulfillGrant ops t i f)"
  using assms by (simp_all add: store_keeps_def)

text \<open>
  What the Hub's handlers rely on. \<open>gen\<close> is the generation a store holds for an identity (a
  tenant and a cluster), \<open>inv_spent\<close> and \<open>claim_spent\<close> say that an invitation or a claim (a
  tenant and an identifier) has been used. A consuming call needs a clock that does not show
  Go's zero time, which the in-memory store takes as "not used".
\<close>

locale sovereign_store =
  fixes ops :: "'s store_ops"
    and gen :: "'s \<Rightarrow> string \<times> string \<Rightarrow> u64"
    and inv_spent :: "'s \<Rightarrow> string \<times> string \<Rightarrow> bool"
    and claim_spent :: "'s \<Rightarrow> string \<times> string \<Rightarrow> bool"
  assumes record_gen: "RecordGeneration ops t i g n s = (Inr u, s') \<Longrightarrow> gen s (t, i) < g \<and> g \<le> gen s' (t, i)"
    and gen_kept: "store_keeps (\<lambda>s. g \<le> gen s k) ops"
    and inv_consumed: "now \<noteq> 0 \<Longrightarrow> ConsumeInvitation ops i h t c r now s = (Inr v, s') \<Longrightarrow>
      \<not> inv_spent s (t, i) \<and> inv_spent s' (t, i)"
    and inv_kept: "store_keeps (\<lambda>s. inv_spent s k) ops"
    and claim_consumed: "now \<noteq> 0 \<Longrightarrow> ConsumeOnboardingClaim ops t i h now s = (Inr w, s') \<Longrightarrow>
      \<not> claim_spent s (t, i) \<and> claim_spent s' (t, i)"
    and claim_kept: "store_keeps (\<lambda>s. claim_spent s k) ops"

section \<open>Sequences of store calls\<close>

text \<open>A call of a method, with its arguments; \<open>do_call\<close> makes it and drops the value it returns.\<close>

datatype store_call =
    DoCreateClaim onboarding_claim
  | DoConsumeClaim string string string time
  | DoCreateInvitation invitation
  | DoConsumeInvitation string string string string "string list" time
  | DoRegister identity_registration
  | DoIdentity string string
  | DoLastGeneration string string
  | DoRecord string string u64 string
  | DoConfirm string string bundle_confirmation
  | DoObserve string string link_observation
  | DoSync string string "advertised_service list" time
  | DoPending string string time
  | DoFulfill string string grant_fulfillment

definition void :: "('e, 'a, 's) prog \<Rightarrow> ('e, unit, 's) prog" where
  "void m = and_then m (\<lambda>_. give ())"

lemma void_Inr_iff [simp]: "void m s = (Inr u, s') \<longleftrightarrow> (\<exists>x. m s = (Inr x, s'))"
  by (simp add: void_def and_then_Inr_iff)

lemma keeps_void [keeps_intros]: "keeps P m \<Longrightarrow> keeps P (void m)"
  unfolding void_def by (intro keeps_intros)

fun do_call :: "'s store_ops \<Rightarrow> store_call \<Rightarrow> (go_error, unit, 's) prog" where
  "do_call ops (DoCreateClaim v) = CreateOnboardingClaim ops v"
| "do_call ops (DoConsumeClaim t i h now) = void (ConsumeOnboardingClaim ops t i h now)"
| "do_call ops (DoCreateInvitation v) = CreateInvitation ops v"
| "do_call ops (DoConsumeInvitation i h t c r now) = void (ConsumeInvitation ops i h t c r now)"
| "do_call ops (DoRegister v) = RegisterIdentity ops v"
| "do_call ops (DoIdentity t i) = void (Identity ops t i)"
| "do_call ops (DoLastGeneration t i) = void (LastGeneration ops t i)"
| "do_call ops (DoRecord t i g n) = RecordGeneration ops t i g n"
| "do_call ops (DoConfirm t i b) = ConfirmPeerBundle ops t i b"
| "do_call ops (DoObserve t i l) = ObserveLink ops t i l"
| "do_call ops (DoSync t i ss now) = SyncAdvertisements ops t i ss now"
| "do_call ops (DoPending t i now) = void (PendingGrants ops t i now)"
| "do_call ops (DoFulfill t i f) = FulfillGrant ops t i f"

fun invitation_key :: "store_call \<Rightarrow> (string \<times> string) option" where
  "invitation_key (DoConsumeInvitation i h t c r now) = (if now = 0 then None else Some (t, i))"
| "invitation_key _ = None"

fun claim_key :: "store_call \<Rightarrow> (string \<times> string) option" where
  "claim_key (DoConsumeClaim t i h now) = (if now = 0 then None else Some (t, i))"
| "claim_key _ = None"

fun generation_key :: "store_call \<Rightarrow> ((string \<times> string) \<times> u64) option" where
  "generation_key (DoRecord t i g n) = Some ((t, i), g)"
| "generation_key _ = None"

fun_cases invitation_key_SomeE: "invitation_key c = Some k"
fun_cases claim_key_SomeE: "claim_key c = Some k"
fun_cases generation_key_SomeE: "generation_key c = Some k"

lemma do_call_keeps [keeps_intros]: "store_keeps P ops \<Longrightarrow> keeps P (do_call ops c)"
  by (cases c) (simp_all add: store_keepsD keeps_void)

sublocale sovereign_store \<subseteq> invs: single_use "do_call ops" invitation_key inv_spent
proof unfold_locales
  fix c k s x s'
  assume "invitation_key c = Some k" and "do_call ops c s = (Inr x, s')"
  then show "\<not> inv_spent s k \<and> inv_spent s' k"
    by (auto elim!: invitation_key_SomeE dest: inv_consumed split: if_splits)
qed (intro keeps_intros inv_kept)

sublocale sovereign_store \<subseteq> claims: single_use "do_call ops" claim_key claim_spent
proof unfold_locales
  fix c k s x s'
  assume "claim_key c = Some k" and "do_call ops c s = (Inr x, s')"
  then show "\<not> claim_spent s k \<and> claim_spent s' k"
    by (auto elim!: claim_key_SomeE dest: claim_consumed split: if_splits)
qed (intro keeps_intros claim_kept)

sublocale sovereign_store \<subseteq> gens: generation_guard "do_call ops" generation_key gen
proof unfold_locales
  fix c k g s x s'
  assume "generation_key c = Some (k, g)" and "do_call ops c s = (Inr x, s')"
  then show "gen s k < g \<and> g \<le> gen s' k"
    by (auto elim!: generation_key_SomeE dest: record_gen)
qed (intro keeps_intros gen_kept)

end
