(* ===== verification/Base64.thy ===== *)
theory Base64
  imports Go_Strings
begin

text \<open>
  \<open>base64.RawStdEncoding\<close> and \<open>base64.RawURLEncoding\<close> (no padding) as the source uses them
  for keys, signatures, proofs, envelopes and tokens, with the round trip. The decoder skips
  carriage returns and line feeds and ignores the unused low bits of the last character, as
  Go's does outside its strict mode; every other character outside the alphabet, and a lone
  last character, is an error.
\<close>

definition b64_char :: "nat \<Rightarrow> char" where
  "b64_char n =
     (if n < 26 then char_of (65 + n)
      else if n < 52 then char_of (71 + n)
      else if n < 62 then char_of (n - 4)
      else if n = 62 then CHR ''+'' else CHR ''/'')"

definition b64_val :: "char \<Rightarrow> nat option" where
  "b64_val c =
     (let k = (of_char c :: nat) in
      if 65 \<le> k \<and> k \<le> 90 then Some (k - 65)
      else if 97 \<le> k \<and> k \<le> 122 then Some (k - 71)
      else if 48 \<le> k \<and> k \<le> 57 then Some (k + 4)
      else if k = 43 then Some 62
      else if k = 47 then Some 63 else None)  \<comment> \<open>\<open>+\<close> and \<open>/\<close>\<close>"

fun b64_sextets :: "string \<Rightarrow> nat list" where
  "b64_sextets [] = []"
| "b64_sextets [a] = (let x = of_char a in [x div 4, (x mod 4) * 16])"
| "b64_sextets [a, b] =
     (let x = of_char a; y = of_char b in
      [x div 4, (x mod 4) * 16 + y div 16, (y mod 16) * 4])"
| "b64_sextets (a # b # c # s) =
     (let x = of_char a; y = of_char b; z = of_char c in
      [x div 4, (x mod 4) * 16 + y div 16, (y mod 16) * 4 + z div 64, z mod 64] @ b64_sextets s)"

definition RawStd_Encode :: "string \<Rightarrow> string" where
  "RawStd_Encode s = map b64_char (b64_sextets s)"

text \<open>The URL alphabet has \<open>-\<close> and \<open>_\<close> in the last two places.\<close>

definition RawURL_Encode :: "string \<Rightarrow> string" where
  "RawURL_Encode s =
     map (\<lambda>n. if n = 62 then CHR ''-'' else if n = 63 then CHR ''_'' else b64_char n) (b64_sextets s)"

fun b64_bytes :: "nat list \<Rightarrow> string option" where
  "b64_bytes [] = Some []"
| "b64_bytes [p] = None"
| "b64_bytes [p, q] = Some [char_of (p * 4 + q div 16)]"
| "b64_bytes [p, q, r] = Some [char_of (p * 4 + q div 16), char_of ((q mod 16) * 16 + r div 4)]"
| "b64_bytes (p # q # r # t # s) =
     map_option (\<lambda>bs. [char_of (p * 4 + q div 16), char_of ((q mod 16) * 16 + r div 4),
                       char_of ((r mod 4) * 64 + t)] @ bs) (b64_bytes s)"

fun b64_vals :: "string \<Rightarrow> nat list option" where
  "b64_vals [] = Some []"
| "b64_vals (c # s) =
     (case b64_val c of None \<Rightarrow> None | Some n \<Rightarrow> map_option ((#) n) (b64_vals s))"

definition RawStd_Decode :: "string \<Rightarrow> string option" where
  "RawStd_Decode s =
     (case b64_vals (filter (\<lambda>c. c \<noteq> char_of (10 :: nat) \<and> c \<noteq> char_of (13 :: nat)) s) of
        None \<Rightarrow> None | Some ns \<Rightarrow> b64_bytes ns)"

lemma b64_val_char: "n < 64 \<Longrightarrow> b64_val (b64_char n) = Some n"
proof -
  assume "n < 64"
  then consider "n < 26" | "26 \<le> n" "n < 52" | "52 \<le> n" "n < 62" | "n = 62" | "n = 63"
    by linarith
  then show ?thesis
    by cases (auto simp: b64_char_def b64_val_def Let_def)
qed

lemma b64_val_newline:
  "b64_val (char_of (10 :: nat)) = None" "b64_val (char_of (13 :: nat)) = None"
  by (simp_all add: b64_val_def Let_def)

lemma b64_char_no_newline:
  "n < 64 \<Longrightarrow> b64_char n \<noteq> char_of (10 :: nat) \<and> b64_char n \<noteq> char_of (13 :: nat)"
  using b64_val_char [of n] b64_val_newline by force

lemma byte_quarters:
  fixes a b c :: char
  defines "x \<equiv> (of_char a :: nat)" and "y \<equiv> (of_char b :: nat)" and "z \<equiv> (of_char c :: nat)"
  shows "x div 4 < 64" and "(x mod 4) * 16 < 64" and "(x mod 4) * 16 + y div 16 < 64"
    and "(y mod 16) * 4 < 64" and "(y mod 16) * 4 + z div 64 < 64" and "z mod 64 < 64"
proof -
  have "x < 256" and "y < 256" and "z < 256"
    by (simp_all add: x_def y_def z_def)
  then show "x div 4 < 64" and "(x mod 4) * 16 < 64" and "(x mod 4) * 16 + y div 16 < 64"
    and "(y mod 16) * 4 < 64" and "(y mod 16) * 4 + z div 64 < 64" and "z mod 64 < 64"
    by linarith+
qed

lemma b64_sextets_lt: "n \<in> set (b64_sextets s) \<Longrightarrow> n < 64"
  by (induction s rule: b64_sextets.induct) (auto simp: Let_def byte_quarters)

lemma byte_regroup:
  "(of_char c :: nat) div 16 div 16 = 0"
  "(of_char c :: nat) div 64 div 4 = 0"
  "(of_char c :: nat) div 16 mod 16 * 16 + of_char c mod 16 = of_char c"
  "(of_char c :: nat) div 64 mod 4 * 64 + of_char c mod 64 = of_char c"
proof -
  have "(of_char c :: nat) < 256" by simp
  then show "(of_char c :: nat) div 16 div 16 = 0" "(of_char c :: nat) div 64 div 4 = 0"
    by (simp_all flip: div_mult2_eq)
  from \<open>(of_char c :: nat) < 256\<close> have "(of_char c :: nat) div 16 < 16" "(of_char c :: nat) div 64 < 4"
    by (simp_all add: div_less_iff_less_mult)
  then show "(of_char c :: nat) div 16 mod 16 * 16 + of_char c mod 16 = of_char c"
    "(of_char c :: nat) div 64 mod 4 * 64 + of_char c mod 64 = of_char c"
    by simp_all
qed

lemma b64_bytes_sextets: "b64_bytes (b64_sextets s) = Some s"
  by (induction s rule: b64_sextets.induct) (simp_all add: Let_def byte_regroup)

lemma b64_vals_chars: "(\<And>n. n \<in> set ns \<Longrightarrow> n < 64) \<Longrightarrow> b64_vals (map b64_char ns) = Some ns"
  by (induction ns) (auto simp: b64_val_char)

theorem RawStd_Decode_Encode [simp]: "RawStd_Decode (RawStd_Encode s) = Some s"
proof -
  have "filter (\<lambda>c. c \<noteq> char_of (10 :: nat) \<and> c \<noteq> char_of (13 :: nat)) (RawStd_Encode s) = RawStd_Encode s"
    unfolding RawStd_Encode_def filter_id_conv
    using b64_char_no_newline b64_sextets_lt by auto
  moreover have "b64_vals (RawStd_Encode s) = Some (b64_sextets s)"
    unfolding RawStd_Encode_def by (rule b64_vals_chars) (rule b64_sextets_lt)
  ultimately show ?thesis
    by (simp add: RawStd_Decode_def b64_bytes_sextets)
qed

lemma RawStd_Encode_inj: "RawStd_Encode s = RawStd_Encode t \<Longrightarrow> s = t"
  by (metis RawStd_Decode_Encode option.inject)

end
