(* ===== verification/Platform.thy ===== *)
theory Platform
  imports Model Base64
begin

text \<open>
  The parameters of the model: primitives whose code is not part of the repository and which
  no definition here depends on the insides of. \<open>crypto\<close> holds SHA-256 and Ed25519, \<open>codec\<close>
  the JSON and RFC 3339 encodings of the values the source encodes or decodes (\<open>None\<close> is an
  encoding or decoding error). Every definition that uses one takes it as an argument.

  Documented behaviour that a theorem needs is a named hypothesis: \<open>ed25519_sound\<close> (a
  signature made with a private key verifies under its public key), \<open>sha256_size\<close> (a digest
  has 32 bytes), \<open>rfc3339_ok\<close> (parsing a formatted instant gives it back to the second, since
  the RFC 3339 layout has no fraction). \<open>demo_crypto\<close> is a concrete instance that satisfies
  them, for the witnesses; it is no model of the primitives themselves.
\<close>

record crypto =
  sha256 :: "string \<Rightarrow> string"
  ed25519_public :: "string \<Rightarrow> string"
  ed25519_sign :: "string \<Rightarrow> string \<Rightarrow> string"
  ed25519_check :: "string \<Rightarrow> string \<Rightarrow> string \<Rightarrow> bool"

record codec =
  json_message :: "control_message \<Rightarrow> string option"
  json_identity :: "identity_registration \<Rightarrow> string option"
  json_confirmation :: "string \<Rightarrow> bundle_confirmation option"
  json_observation :: "string \<Rightarrow> link_observation option"
  json_snapshot :: "string \<Rightarrow> advertised_service list option"
  json_fulfillment :: "string \<Rightarrow> grant_fulfillment option"
  json_strings :: "string list \<Rightarrow> string"
  json_to_strings :: "string \<Rightarrow> string list option"
  rfc3339_format :: "time \<Rightarrow> string"
  rfc3339nano_format :: "time \<Rightarrow> string"
  rfc3339_parse :: "string \<Rightarrow> time option"

text \<open>
  \<open>ed25519.Verify\<close> panics when the public key does not have 32 bytes; \<open>None\<close> is the panic.
\<close>

definition ed25519_Verify :: "crypto \<Rightarrow> string \<Rightarrow> string \<Rightarrow> string \<Rightarrow> bool option" where
  "ed25519_Verify c key body sig =
     (if length key \<noteq> 32 then None else Some (ed25519_check c key body sig))"

definition ed25519_sound :: "crypto \<Rightarrow> bool" where
  "ed25519_sound c \<longleftrightarrow>
     (\<forall>priv body. ed25519_check c (ed25519_public c priv) body (ed25519_sign c priv body)) \<and>
     (\<forall>priv. length (ed25519_public c priv) = 32)"

definition sha256_size :: "crypto \<Rightarrow> bool" where
  "sha256_size c \<longleftrightarrow> (\<forall>x. length (sha256 c x) = 32)"

definition truncate_second :: "time \<Rightarrow> time" where
  "truncate_second t = t - t mod second"

text \<open>The instants of the years 1 to 9999, which RFC 3339 text can hold.\<close>

definition valid_instant :: "time \<Rightarrow> bool" where
  "valid_instant t \<longleftrightarrow> 0 \<le> t \<and> t < 3652059 * 24 * hour"

definition rfc3339_ok :: "codec \<Rightarrow> bool" where
  "rfc3339_ok j \<longleftrightarrow>
     (\<forall>t. valid_instant t \<longrightarrow> rfc3339_parse j (rfc3339_format j t) = Some (truncate_second t))
     \<and> (\<forall>t. rfc3339nano_format j t \<noteq> [])"

text \<open>\<open>time.Parse\<close> with its error dropped: Go's zero time where the text does not parse.\<close>

definition parsed_time :: "codec \<Rightarrow> string \<Rightarrow> time" where
  "parsed_time j s = (case rfc3339_parse j s of None \<Rightarrow> 0 | Some t \<Rightarrow> t)"

definition demo_key :: "string \<Rightarrow> string" where
  "demo_key k = take 32 (k @ replicate 32 CHR ''k'')"

definition demo_crypto :: crypto where
  "demo_crypto = \<lparr>sha256 = demo_key, ed25519_public = demo_key,
     ed25519_sign = (\<lambda>k m. demo_key k @ m), ed25519_check = (\<lambda>p m s. s = p @ m)\<rparr>"

lemma length_demo_key [simp]: "length (demo_key k) = 32"
  by (simp add: demo_key_def)

lemma demo_crypto_sound: "ed25519_sound demo_crypto"
  by (simp add: ed25519_sound_def demo_crypto_def)

lemma demo_crypto_size: "sha256_size demo_crypto"
  by (simp add: sha256_size_def demo_crypto_def)

lemma truncate_second_le: "truncate_second t \<le> t"
  by (simp add: truncate_second_def)

lemma truncate_second_gt: "t < truncate_second t + second"
  by (simp add: truncate_second_def)

end
