(* ===== verification/Protocol.thy ===== *)
theory Protocol
  imports Platform
begin

text \<open>
  \<open>internal/protocol/control.go\<close>: the signed control envelope (\<open>canonical\<close>, \<open>Sign\<close>,
  \<open>Verify\<close>), the check of an identity before registration (\<open>ValidateIdentity\<close>), token hashes
  and random identifiers. A function that returns only an error gives \<open>None\<close> for nil.
\<close>

section \<open>Definitions\<close>

text \<open>\<open>^sha256:[a-f0-9]{64}$\<close>\<close>

definition digestPattern :: "string \<Rightarrow> bool" where
  "digestPattern s \<longleftrightarrow>
     HasPrefix s ''sha256:'' \<and> length s = 71 \<and> list_all is_hex_lower (drop 7 s)"

text \<open>The bytes \<open>rand.Read\<close> delivers are an argument; \<open>None\<close> is its error.\<close>

definition RandomToken :: "string option \<Rightarrow> string option" where
  "RandomToken draw = (case draw of None \<Rightarrow> None | Some value \<Rightarrow> Some (RawURL_Encode value))"

definition RandomID :: "string option \<Rightarrow> string option" where
  "RandomID draw = (case draw of None \<Rightarrow> None | Some value \<Rightarrow> Some (hex_encode value))"

definition TokenHash :: "crypto \<Rightarrow> string \<Rightarrow> string" where
  "TokenHash c token = ''sha256:'' @ hex_encode (sha256 c token)"

definition spiffe_of :: "identity_registration \<Rightarrow> string" where
  "spiffe_of v = ''spiffe://'' @ id_TrustDomain v @ ''/cluster/'' @ id_ClusterID v"

definition valid_public_key :: "string \<Rightarrow> bool" where
  "valid_public_key text =
     (case RawStd_Decode text of None \<Rightarrow> False | Some key \<Rightarrow> length key = 32)"

definition ValidateIdentity :: "identity_registration \<Rightarrow> go_error option" where
  "ValidateIdentity v =
     (if id_ClusterID v = [] \<or> id_Tenant v = [] \<or> id_TrustDomain v = []
        then Some (Msg ''clusterID, tenant and trustDomain are required'')
      else if id_SPIFFEID v \<noteq> spiffe_of v
        then Some (Msg ''spiffeID must match trust domain and cluster ID'')
      else if \<not> digestPattern (id_BundleDigest v) then Some (Msg ''invalid bundle digest'')
      else if \<not> valid_public_key (id_PublicKey v) then Some (Msg ''invalid Ed25519 public key'')
      else if list_ex (\<lambda>endpoint. \<not> HasPrefix endpoint ''quic://'') (id_GatewayEndpoints v)
        then Some (Msg ''only quic endpoints are accepted in v1'')
      else None)"

definition canonical :: "codec \<Rightarrow> control_message \<Rightarrow> string option" where
  "canonical j message = json_message j (message\<lparr>cm_Signature := []\<rparr>)"

definition Sign :: "crypto \<Rightarrow> codec \<Rightarrow> control_message \<Rightarrow> string \<Rightarrow> go_error + control_message" where
  "Sign c j message key =
     (case canonical j message of
        None \<Rightarrow> Inl (Msg ''json'')
      | Some body \<Rightarrow> Inr (message\<lparr>cm_Signature := RawStd_Encode (ed25519_sign c key body)\<rparr>))"

definition message_window :: "control_message \<Rightarrow> time \<Rightarrow> bool" where
  "message_window m now \<longleftrightarrow>
     Before (cm_IssuedAt m) (cm_ExpiresAt m) \<and>
     \<not> Before now (cm_IssuedAt m - 2 * minute) \<and> Before now (cm_ExpiresAt m)"

definition Verify :: "crypto \<Rightarrow> codec \<Rightarrow> control_message \<Rightarrow> string \<Rightarrow> string \<Rightarrow> time \<Rightarrow> u64 \<Rightarrow>
    (string \<Rightarrow> bool) option \<Rightarrow> go_error option" where
  "Verify c j message key audience now lastGeneration seenNonce =
     (if cm_Audience message \<noteq> audience then Some (Msg ''wrong audience'')
      else if cm_Issuer message = [] \<or> cm_Nonce message = [] \<or> cm_Type message = []
        then Some (Msg ''missing envelope identity'')
      else if cm_Generation message \<le> lastGeneration then Some (Msg ''replayed generation'')
      else if \<not> message_window message now then Some (Msg ''expired or future message'')
      else if (case seenNonce of None \<Rightarrow> False | Some seen \<Rightarrow> seen (cm_Nonce message))
        then Some (Msg ''replayed nonce'')
      else (case RawStd_Decode (cm_Signature message) of
          None \<Rightarrow> Some (Wrapped ''decode signature'' (Msg ''illegal base64 data''))
        | Some signature \<Rightarrow>
          (case canonical j message of
             None \<Rightarrow> Some (Msg ''json'')
           | Some body \<Rightarrow>
             (case ed25519_Verify c key body signature of
                None \<Rightarrow> Some (Panic ''ed25519: bad public key length'')
              | Some ok \<Rightarrow> if ok then None else Some (Msg ''invalid signature'')))))"

section \<open>Properties\<close>

lemma canonical_signature [simp]: "canonical j (m\<lparr>cm_Signature := s\<rparr>) = canonical j m"
  by (simp add: canonical_def)

lemma Sign_fields:
  assumes "Sign c j m key = Inr m'"
  shows "\<exists>body. canonical j m = Some body
    \<and> m' = m\<lparr>cm_Signature := RawStd_Encode (ed25519_sign c key body)\<rparr>"
  using assms by (auto simp: Sign_def split: option.splits)

text \<open>What acceptance means, as one conjunction.\<close>

definition authentic :: "crypto \<Rightarrow> codec \<Rightarrow> control_message \<Rightarrow> string \<Rightarrow> bool" where
  "authentic c j m key \<longleftrightarrow>
     (case (RawStd_Decode (cm_Signature m), canonical j m) of
        (Some sig, Some body) \<Rightarrow> ed25519_Verify c key body sig = Some True
      | _ \<Rightarrow> False)"

lemma Verify_None_iff:
  "Verify c j m key aud now prev seen = None \<longleftrightarrow>
     cm_Audience m = aud \<and> cm_Issuer m \<noteq> [] \<and> cm_Nonce m \<noteq> [] \<and> cm_Type m \<noteq> [] \<and>
     prev < cm_Generation m \<and> message_window m now \<and>
     (case seen of None \<Rightarrow> True | Some f \<Rightarrow> \<not> f (cm_Nonce m)) \<and> authentic c j m key"
  by (auto simp: Verify_def authentic_def not_le split: option.splits)

lemma Verify_gen: "Verify c j m key aud now prev seen = None \<Longrightarrow> prev < cm_Generation m"
  by (simp add: Verify_None_iff)

lemma ValidateIdentity_None_iff:
  "ValidateIdentity v = None \<longleftrightarrow>
     id_ClusterID v \<noteq> [] \<and> id_Tenant v \<noteq> [] \<and> id_TrustDomain v \<noteq> [] \<and>
     id_SPIFFEID v = spiffe_of v \<and> digestPattern (id_BundleDigest v) \<and>
     valid_public_key (id_PublicKey v) \<and>
     list_all (\<lambda>e. HasPrefix e ''quic://'') (id_GatewayEndpoints v)"
  by (auto simp: ValidateIdentity_def list_ex_iff list_all_iff)

lemma is_hex_lower_iff: "is_hex_lower c \<longleftrightarrow> c \<in> set ''0123456789abcdef''"
proof -
  have codes: "map of_char ''0123456789abcdef'' = ([48..<58] @ [97..<103] :: nat list)"
    by (simp add: upt_rec)
  have "c \<in> set s \<longleftrightarrow> (of_char c :: nat) \<in> set (map of_char s)" for s
    by (auto simp: image_iff)
  then have "c \<in> set ''0123456789abcdef'' \<longleftrightarrow> (of_char c :: nat) \<in> set ([48..<58] @ [97..<103])"
    unfolding codes [symmetric] .
  moreover have "n \<in> set ([48..<58] @ [97..<103]) \<longleftrightarrow> 48 \<le> n \<and> n \<le> 57 \<or> 97 \<le> n \<and> n \<le> 102" for n :: nat
    by (simp only: set_append set_upt) auto
  ultimately show ?thesis by (simp only: is_hex_lower_def Let_def)
qed

lemma digestPattern_hex:
  "length d = 32 \<Longrightarrow> digestPattern (''sha256:'' @ hex_encode d)"
  by (auto simp: digestPattern_def HasPrefix_def list_all_iff intro: hex_encode_chars)

lemma TokenHash_inj: "TokenHash c s = TokenHash c t \<Longrightarrow> sha256 c s = sha256 c t"
  by (simp add: TokenHash_def hex_encode_inj)

lemma authentic_Sign:
  assumes "ed25519_sound c" and "Sign c j m priv = Inr m'"
  shows "authentic c j m' (ed25519_public c priv)"
proof -
  from Sign_fields [OF assms(2)] obtain body where body: "canonical j m = Some body"
    and m': "m' = m\<lparr>cm_Signature := RawStd_Encode (ed25519_sign c priv body)\<rparr>"
    by blast
  with assms(1) show ?thesis
    by (simp add: authentic_def ed25519_Verify_def ed25519_sound_def)
qed

text \<open>
  C11: \<open>Verify\<close> accepts a control message exactly when its audience is the verifier's, its
  issuer, nonce and type are present, its generation is above the last one, the verifier's
  clock is inside the message's validity window (two minutes of clock skew before the issue
  time, and strictly before the expiry), its nonce has not been seen, and its signature decodes
  and verifies over the canonical body.
\<close>

theorem Verify_accepts_iff:
  "Verify c j m key aud now prev seen = None \<longleftrightarrow>
     (cm_Audience m = aud \<and> cm_Issuer m \<noteq> [] \<and> cm_Nonce m \<noteq> [] \<and> cm_Type m \<noteq> []) \<and>
     prev < cm_Generation m \<and>
     (cm_IssuedAt m < cm_ExpiresAt m \<and> cm_IssuedAt m - 2 * minute \<le> now \<and> now < cm_ExpiresAt m) \<and>
     (case seen of None \<Rightarrow> True | Some f \<Rightarrow> \<not> f (cm_Nonce m)) \<and>
     (\<exists>sig body. RawStd_Decode (cm_Signature m) = Some sig \<and> canonical j m = Some body \<and>
        length key = 32 \<and> ed25519_check c key body sig)"
  by (auto simp: Verify_None_iff message_window_def Before_def authentic_def ed25519_Verify_def
      split: option.splits if_splits)

text \<open>
  C35: a message signed with a private key is accepted under the matching public key by the
  audience it names, as long as it is newer than the last generation and the verifier's clock
  is inside its window: nothing in the encoding of the signature gets lost.
\<close>

theorem Sign_Verify:
  assumes "ed25519_sound c" and "Sign c j m priv = Inr m'"
    and "cm_Issuer m \<noteq> []" "cm_Nonce m \<noteq> []" "cm_Type m \<noteq> []"
    and "prev < cm_Generation m" and "message_window m now"
  shows "Verify c j m' (ed25519_public c priv) (cm_Audience m) now prev None = None"
proof -
  from Sign_fields [OF assms(2)] obtain sig where "m' = m\<lparr>cm_Signature := sig\<rparr>"
    by blast
  with assms authentic_Sign [OF assms(1,2)] show ?thesis
    by (simp add: Verify_None_iff message_window_def)
qed

definition demo_codec :: codec where
  "demo_codec = \<lparr>json_message = (\<lambda>m. Some (cm_Type m @ cm_Payload m)),
     json_identity = (\<lambda>v. Some (id_SPIFFEID v)),
     json_confirmation = (\<lambda>p. if p = [] then None else Some \<lparr>bc_PeerRef = p, bc_BundleDigest = p\<rparr>),
     json_observation = (\<lambda>_. None), json_snapshot = (\<lambda>_. Some []), json_fulfillment = (\<lambda>_. None),
     json_strings = (\<lambda>_. []), json_to_strings = (\<lambda>_. None),
     rfc3339_format = (\<lambda>t. decimal (nat (t div second))),
     rfc3339nano_format = (\<lambda>t. decimal (nat t)),
     rfc3339_parse = (\<lambda>s. Some (int (unat (fst (ParseUint s))) * second))\<rparr>"

definition demo_message :: control_message where
  "demo_message = \<lparr>cm_Issuer = ''spiffe://d/cluster/c'', cm_Audience = ''hub'', cm_Generation = 5,
     cm_IssuedAt = 10 * second, cm_ExpiresAt = 70 * second, cm_Nonce = ''c-5'',
     cm_Type = ''identity.heartbeat'', cm_Payload = [], cm_Signature = []\<rparr>"

theorem Sign_Verify_witness:
  "Verify demo_crypto demo_codec
     (demo_message\<lparr>cm_Signature := RawStd_Encode (demo_key ''priv'' @ ''identity.heartbeat'')\<rparr>)
     (demo_key ''priv'') ''hub'' (20 * second) 4 None = None"
proof -
  have "Sign demo_crypto demo_codec demo_message ''priv'' =
      Inr (demo_message\<lparr>cm_Signature := RawStd_Encode (demo_key ''priv'' @ ''identity.heartbeat'')\<rparr>)"
    by (simp add: Sign_def canonical_def demo_codec_def demo_message_def demo_crypto_def)
  from Sign_Verify [OF demo_crypto_sound this, of 4 "20 * second"] show ?thesis
    by (simp add: demo_message_def message_window_def Before_def) (simp add: demo_crypto_def)
qed

text \<open>
  C34: exactly which identities pass \<open>ValidateIdentity\<close>: cluster, tenant and trust domain are given;
  the SPIFFE identity is that of this trust domain and cluster; the bundle digest is \<open>sha256:\<close> and 64
  lower-case hexadecimal digits; the public key is the unpadded base64 of 32 bytes; every gateway
  endpoint is a QUIC address. Verifying a signature with the key of such an identity cannot panic.
\<close>

theorem ValidateIdentity_sound:
  "(ValidateIdentity v = None \<longleftrightarrow>
     id_ClusterID v \<noteq> [] \<and> id_Tenant v \<noteq> [] \<and> id_TrustDomain v \<noteq> [] \<and>
     id_SPIFFEID v = ''spiffe://'' @ id_TrustDomain v @ ''/cluster/'' @ id_ClusterID v \<and>
     (\<exists>digits. id_BundleDigest v = ''sha256:'' @ digits \<and> length digits = 64 \<and> set digits \<subseteq> set ''0123456789abcdef'') \<and>
     (\<exists>key. RawStd_Decode (id_PublicKey v) = Some key \<and> length key = 32) \<and>
     (\<forall>e \<in> set (id_GatewayEndpoints v). \<exists>address. e = ''quic://'' @ address)) \<and>
   (ValidateIdentity v = None \<longrightarrow>
     (\<exists>key. RawStd_Decode (id_PublicKey v) = Some key \<and> (\<forall>c body sig. ed25519_Verify c key body sig \<noteq> None)))"
proof -
  have digest: "digestPattern (id_BundleDigest v) \<longleftrightarrow>
      (\<exists>digits. id_BundleDigest v = ''sha256:'' @ digits \<and> length digits = 64 \<and> set digits \<subseteq> set ''0123456789abcdef'')"
    by (auto simp: digestPattern_def HasPrefix_iff list_all_iff is_hex_lower_iff subset_iff simp del: set_simps)
  have key: "valid_public_key (id_PublicKey v) \<longleftrightarrow> (\<exists>key. RawStd_Decode (id_PublicKey v) = Some key \<and> length key = 32)"
    by (auto simp: valid_public_key_def split: option.splits)
  have endpoints: "list_all (\<lambda>e. HasPrefix e ''quic://'') (id_GatewayEndpoints v) \<longleftrightarrow>
      (\<forall>e \<in> set (id_GatewayEndpoints v). \<exists>address. e = ''quic://'' @ address)"
    by (auto simp: list_all_iff HasPrefix_iff)
  have "\<exists>key. RawStd_Decode (id_PublicKey v) = Some key \<and> (\<forall>c body sig. ed25519_Verify c key body sig \<noteq> None)"
    if "ValidateIdentity v = None"
    using that unfolding ValidateIdentity_None_iff key by (auto simp: ed25519_Verify_def)
  then show ?thesis
    unfolding ValidateIdentity_None_iff spiffe_of_def digest key endpoints by blast
qed

definition demo_identity :: identity_registration where
  "demo_identity = \<lparr>id_ClusterID = ''c1'', id_Region = [], id_Tenant = ''tenant-a'',
     id_TrustDomain = ''customer.example'', id_SPIFFEID = ''spiffe://customer.example/cluster/c1'',
     id_BundleDigest = ''sha256:'' @ replicate 64 CHR ''a'',
     id_PublicKey = RawStd_Encode (replicate 32 CHR ''k''), id_Capabilities = [],
     id_GatewayEndpoints = [''quic://203.0.113.8:8443'']\<rparr>"

lemma demo_identity_valid: "ValidateIdentity demo_identity = None"
  by (simp add: ValidateIdentity_None_iff demo_identity_def spiffe_of_def digestPattern_def
      HasPrefix_def valid_public_key_def list_all_length is_hex_lower_def)

theorem ValidateIdentity_sound_witness:
  "ValidateIdentity demo_identity = None \<and> (\<exists>digits. id_BundleDigest demo_identity = ''sha256:'' @ digits \<and> length digits = 64) \<and>
     ValidateIdentity (demo_identity\<lparr>id_BundleDigest := ''sha256:''\<rparr>) \<noteq> None"
  using ValidateIdentity_sound [of demo_identity] ValidateIdentity_sound [of "demo_identity\<lparr>id_BundleDigest := ''sha256:''\<rparr>"]
    demo_identity_valid by auto

text \<open>
  A token hash always has the form \<open>sha256:\<close> and 64 lower-case hexadecimal digits, the form
  that identity registration demands of a digest, and two tokens with the same hash have the
  same SHA-256 digest.
\<close>

theorem TokenHash_wellformed:
  assumes "sha256_size c"
  shows "digestPattern (TokenHash c s) \<and>
    (TokenHash c s = TokenHash c t \<longleftrightarrow> sha256 c s = sha256 c t)"
proof -
  from assms have "digestPattern (TokenHash c s)"
    unfolding TokenHash_def by (intro digestPattern_hex) (simp add: sha256_size_def)
  moreover have "TokenHash c s = TokenHash c t \<longleftrightarrow> sha256 c s = sha256 c t"
    using TokenHash_inj [of c s t] by (metis TokenHash_def)
  ultimately show ?thesis ..
qed

theorem TokenHash_wellformed_witness:
  "digestPattern (TokenHash demo_crypto ''secret'')"
  using TokenHash_wellformed [OF demo_crypto_size, of "''secret''"] by blast

end
