(* ===== verification/Names.thy ===== *)
theory Names
  imports Model
begin

unbundle bit_operations_syntax

text \<open>
  The functions that make Kubernetes object names and ports out of identities:
  \<open>advertisementName\<close>, \<open>importPort\<close> and the name of an import (\<open>internal/api/sovereign_store.go\<close>),
  \<open>resourceName\<close> (\<open>cmd/broker/main.go\<close>) and \<open>grantResourceName\<close> (\<open>cmd/agent/main.go\<close>), and the
  pattern \<open>onboardingName\<close> (\<open>internal/api/onboarding.go\<close>). The three name makers share one
  contract, the locale \<open>label_maker\<close>.
\<close>

section \<open>Definitions\<close>

text \<open>\<open>strings.NewReplacer("_", "-", ".", "-").Replace\<close>\<close>

definition dash_char :: "char \<Rightarrow> char" where
  "dash_char c = (if c = CHR ''_'' \<or> c = CHR ''.'' then CHR ''-'' else c)"

definition replace_dashes :: "string \<Rightarrow> string" where
  "replace_dashes s = map dash_char s"

definition cut63 :: "string \<Rightarrow> string" where
  "cut63 s = (if 63 < length s then take 63 s else s)"

definition advertisementName :: "string \<Rightarrow> advertised_service \<Rightarrow> string" where
  "advertisementName issuer service =
     (let name = ToLower (issuer @ ''-'' @ as_Namespace service @ ''-'' @ as_Name service)
      in Trim (cut63 (replace_dashes name)) ''-'')"

definition resourceName :: "string \<Rightarrow> string" where
  "resourceName v = Trim (cut63 (ToLower (replace_dashes v))) ''-''"

definition grantResourceName :: "string \<Rightarrow> string" where
  "grantResourceName name = Trim (cut63 (''among-clusters-'' @ ToLower name)) ''-''"

text \<open>The name of an import is cut, but its ends are not trimmed.\<close>

definition importName :: "string \<Rightarrow> string \<Rightarrow> string" where
  "importName name peerRef = cut63 (name @ ''-'' @ peerRef)"

text \<open>32-bit FNV-1a: exclusive or with the byte, then multiplication modulo \<open>2^32\<close>.\<close>

definition fnv_step :: "u32 \<Rightarrow> char \<Rightarrow> u32" where
  "fnv_step hash c = (hash XOR of_nat (of_char c)) * 16777619"

definition fnv32a :: "string \<Rightarrow> u32" where
  "fnv32a s = foldl fnv_step 2166136261 s"

definition importPort :: "string \<Rightarrow> i64" where
  "importPort name = of_nat (unat (20000 + fnv32a name mod 10000))"

text \<open>\<open>^[a-z0-9](?:[-a-z0-9]{0,61}[a-z0-9])?$\<close>\<close>

definition is_alnum_lower :: "char \<Rightarrow> bool" where
  "is_alnum_lower c \<longleftrightarrow> (let n = (of_char c :: nat) in 48 \<le> n \<and> n \<le> 57 \<or> 97 \<le> n \<and> n \<le> 122)"

definition is_label_char :: "char \<Rightarrow> bool" where
  "is_label_char c \<longleftrightarrow> is_alnum_lower c \<or> c = CHR ''-''"

definition onboardingName :: "string \<Rightarrow> bool" where
  "onboardingName s \<longleftrightarrow>
     (case s of [] \<Rightarrow> False
      | c # rest \<Rightarrow> is_alnum_lower c \<and>
          (rest = [] \<or> (length rest \<le> 62 \<and> list_all is_label_char (butlast rest) \<and>
                        is_alnum_lower (last rest))))"

section \<open>The contract of the name makers\<close>

text \<open>
  Every name maker prepares a text without upper-case letters, cuts it at 63 bytes and trims
  dashes. What a caller relies on follows: the length, the ends, and, where the prepared text
  is made of letters, digits and dashes, a label in the sense of \<open>onboardingName\<close> (the DNS-1123
  labels Kubernetes demands).
\<close>

locale label_maker =
  fixes mk :: "'k \<Rightarrow> string" and pre :: "'k \<Rightarrow> string"
  assumes mk_pre: "mk k = Trim (cut63 (pre k)) ''-''"
    and pre_lower: "ToLower (pre k) = pre k"
begin

lemma length_mk: "length (mk k) \<le> 63"
proof -
  have "length (cut63 (pre k)) \<le> 63"
    by (simp add: cut63_def)
  then show ?thesis
    unfolding mk_pre by (rule le_trans [OF length_Trim])
qed

lemma mk_ends:
  assumes "mk k \<noteq> []"
  shows "hd (mk k) \<noteq> CHR ''-'' \<and> last (mk k) \<noteq> CHR ''-''"
  using assms hd_Trim [of "cut63 (pre k)" "''-''"] last_Trim [of "cut63 (pre k)" "''-''"]
  by (simp add: mk_pre)

lemma set_mk: "set (mk k) \<subseteq> set (pre k)"
  using set_Trim [of "cut63 (pre k)" "''-''"] set_take_subset [of 63 "pre k"]
  by (auto simp: mk_pre cut63_def split: if_splits)

lemma mk_lower: "ToLower (mk k) = mk k"
  using set_mk [of k] pre_lower [of k] by (auto simp: ToLower_def map_idI map_eq_conv
      intro!: map_idI dest!: subsetD) (metis map_eq_conv list.map_ident)

lemma mk_label:
  assumes "list_all is_label_char (pre k)" and "mk k \<noteq> []"
  shows "onboardingName (mk k)"
proof -
  have lab: "list_all is_label_char (mk k)"
    using assms(1) set_mk [of k] by (auto simp: list_all_iff)
  obtain c rest where mk: "mk k = c # rest"
    using assms(2) by (cases "mk k") auto
  have "is_alnum_lower c"
    using lab mk_ends [OF assms(2)] by (simp add: mk is_label_char_def)
  moreover have "is_alnum_lower (last rest)" if "rest \<noteq> []"
    using lab mk_ends [OF assms(2)] that by (auto simp: mk is_label_char_def list_all_iff)
  moreover have "list_all is_label_char (butlast rest)"
    using lab by (auto simp: mk list_all_iff dest: in_set_butlastD)
  ultimately show ?thesis
    using length_mk [of k] by (auto simp: onboardingName_def mk)
qed

end

definition ad_text :: "string \<times> advertised_service \<Rightarrow> string" where
  "ad_text k = replace_dashes (ToLower (fst k @ ''-'' @ as_Namespace (snd k) @ ''-'' @ as_Name (snd k)))"

lemma lower_dash [simp]: "lower_char (dash_char c) = dash_char (lower_char c)"
proof -
  have "lower_char c = CHR ''_'' \<Longrightarrow> c = CHR ''_''" and "lower_char c = CHR ''.'' \<Longrightarrow> c = CHR ''.''"
    by (auto simp: lower_char_def char_of_eq_iff take_bit_eq_mod split: if_splits)
  moreover have "lower_char (CHR ''-'') = CHR ''-''" "lower_char (CHR ''_'') = CHR ''_''"
    "lower_char (CHR ''.'') = CHR ''.''"
    by (simp_all add: lower_char_def)
  ultimately show ?thesis
    by (auto simp: dash_char_def)
qed

lemma ToLower_replace [simp]: "ToLower (replace_dashes s) = replace_dashes (ToLower s)"
  by (simp add: ToLower_def replace_dashes_def)

interpretation ad_names: label_maker "\<lambda>k. advertisementName (fst k) (snd k)" ad_text
  by unfold_locales (simp_all add: advertisementName_def ad_text_def Let_def)

interpretation secret_names: label_maker resourceName "\<lambda>v. replace_dashes (ToLower v)"
  by unfold_locales (simp_all add: resourceName_def)

lemma ToLower_grant_prefix: "ToLower (''among-clusters-'' @ s) = ''among-clusters-'' @ ToLower s"
  by (simp add: ToLower_def lower_char_def)

interpretation grant_names: label_maker grantResourceName "\<lambda>n. ''among-clusters-'' @ ToLower n"
  by unfold_locales (simp_all only: grantResourceName_def ToLower_grant_prefix ToLower_idem)

section \<open>Properties\<close>

text \<open>A text whose letters, in lower case and with dots and underscores replaced, are fit for a label.\<close>

definition label_text :: "string \<Rightarrow> bool" where
  "label_text s \<longleftrightarrow> list_all (\<lambda>c. is_label_char (dash_char (lower_char c))) s"

lemma label_text_ad:
  assumes "label_text issuer" "label_text (as_Namespace s)" "label_text (as_Name s)"
  shows "list_all is_label_char (ad_text (issuer, s))"
proof -
  have "is_label_char (dash_char (lower_char CHR ''-''))"
    by (simp add: lower_char_def dash_char_def is_label_char_def)
  with assms show ?thesis
    by (auto simp: label_text_def ad_text_def replace_dashes_def ToLower_def list_all_iff)
qed

lemma Trim_keeps_hd: "s = c # t \<Longrightarrow> c \<notin> set cs \<Longrightarrow> Trim s cs \<noteq> []"
  by (auto simp: Trim_def TrimLeft_def TrimRight_def dropWhile_eq_Nil_conv)

lemma alnum_stays:
  assumes "is_alnum_lower c"
  shows "dash_char (lower_char c) = c" and "c \<noteq> CHR ''-''"
  using assms by (auto simp: is_alnum_lower_def lower_char_def dash_char_def Let_def)

lemma advertisementName_nonempty:
  assumes "issuer = c # rest" and "is_alnum_lower c"
  shows "advertisementName issuer s \<noteq> []"
proof -
  define t where "t = replace_dashes (ToLower (rest @ ''-'' @ as_Namespace s @ ''-'' @ as_Name s))"
  have "replace_dashes (ToLower (issuer @ ''-'' @ as_Namespace s @ ''-'' @ as_Name s)) = c # t"
    using assms alnum_stays(1) [OF assms(2)] by (simp add: t_def replace_dashes_def ToLower_def)
  then have "advertisementName issuer s = Trim (c # take (if 63 \<le> length t then 62 else length t) t) ''-''"
    by (auto simp: advertisementName_def Let_def cut63_def take_Cons')
  then show ?thesis
    using Trim_keeps_hd alnum_stays(2) [OF assms(2)] by simp
qed

text \<open>
  For an issuer that starts with a lower-case letter or a digit, and names of letters,
  digits, dashes, dots and underscores, \<open>advertisementName\<close> is a DNS-1123 label: 1 to 63 lower
  case letters, digits and dashes, with no dash at either end.
\<close>

theorem advertisementName_label:
  assumes "label_text issuer" "label_text (as_Namespace s)" "label_text (as_Name s)"
    and "is_alnum_lower (hd issuer)" "issuer \<noteq> []"
  shows "onboardingName (advertisementName issuer s) \<and> length (advertisementName issuer s) \<le> 63"
proof -
  have "advertisementName issuer s \<noteq> []"
    using advertisementName_nonempty [of issuer "hd issuer" "tl issuer" s] assms(4,5) by simp
  then show ?thesis
    using ad_names.mk_label [of "(issuer, s)"] ad_names.length_mk [of "(issuer, s)"]
      label_text_ad [OF assms(1-3)] by simp
qed

definition demo_service :: "string \<Rightarrow> string \<Rightarrow> advertised_service" where
  "demo_service ns name = \<lparr>as_Name = name, as_Namespace = ns, as_ServiceClass = ''db'',
     as_Protocol = ''tcp'', as_Port = 5432, as_TargetPeers = [''p''], as_TTLSeconds = 60,
     as_PolicyRef = ''pol'', as_Generation = 1, as_GatewayTarget = []\<rparr>"

theorem advertisementName_label_witness:
  "onboardingName (advertisementName ''c1'' (demo_service ''db.prod'' ''Pg_main''))"
  using advertisementName_label [of "''c1''" "demo_service ''db.prod'' ''Pg_main''"]
  by (simp add: label_text_def demo_service_def is_label_char_def is_alnum_lower_def dash_char_def
      lower_char_def)

text \<open>
  The name does not determine the publisher: two different issuers of one tenant, each
  with a service of its own, get the same advertisement name, because the parts are joined
  with a dash that the parts themselves may contain.
\<close>

theorem advertisementName_collision:
  "advertisementName ''edge'' (demo_service ''eu-db'' ''pg'') =
   advertisementName ''edge-eu'' (demo_service ''db'' ''pg'')"
  by (simp add: advertisementName_def demo_service_def Let_def)

lemma importName_cut: "length (importName name peerRef) \<le> 63"
  by (auto simp: importName_def cut63_def)

text \<open>
  An advertisement whose name uses all 63 bytes has a single import name for every
  target peer (the peer's part is cut off), and one of 62 bytes gets an import name that ends
  with a dash, which is not a label.
\<close>

theorem importName_at_the_limit:
  "(length name = 63 \<longrightarrow> importName name p = name) \<and>
   (length name = 62 \<longrightarrow> importName name p = name @ ''-'' \<and> \<not> onboardingName (importName name p))"
proof -
  have "length name = 63 \<Longrightarrow> importName name p = name"
    by (simp add: importName_def cut63_def)
  moreover have eq: "length name = 62 \<Longrightarrow> importName name p = name @ ''-''"
    by (auto simp: importName_def cut63_def)
  moreover have "length name = 62 \<Longrightarrow> \<not> onboardingName (name @ ''-'')"
    by (cases name) (auto simp: onboardingName_def is_alnum_lower_def)
  ultimately show ?thesis by simp
qed

theorem importName_at_the_limit_witness:
  "importName (replicate 63 CHR ''a'') ''p'' = importName (replicate 63 CHR ''a'') ''q''"
  using importName_at_the_limit [of "replicate 63 CHR ''a''" "''p''"]
    importName_at_the_limit [of "replicate 63 CHR ''a''" "''q''"] by simp

text \<open>
  The local port of an import lies in 20000..29999, inside the range the custom resource
  allows and below the end of the 16-bit port range, for every name.
\<close>

theorem importPort_range: "20000 \<le> sint (importPort name) \<and> sint (importPort name) < 30000"
proof -
  define h where "h = fnv32a name mod 10000"
  have "unat h < 10000"
    by (simp add: h_def unat_mod)
  then have "unat (20000 + h) = 20000 + unat h"
    by (simp add: unat_word_ariths)
  then have "sint (importPort name) = 20000 + int (unat h)"
    using \<open>unat h < 10000\<close> sint_of_nat_small [of "20000 + unat h"]
    by (simp only: importPort_def flip: h_def) simp
  with \<open>unat h < 10000\<close> show ?thesis
    by linarith
qed

end
