(* ===== verification/Kubernetes_Store.thy ===== *)
theory Kubernetes_Store
  imports Kube Sovereign_Store Protocol Names "HOL-Library.List_Lexorder" "HOL-Library.Char_ord"
begin

text \<open>
  \<open>KubernetesSovereignStore\<close> of \<open>internal/api/sovereign_store.go\<close>: the store that keeps
  invitations and onboarding claims in Secrets and everything else in the custom resources of
  the tenant's namespace. Each method is the sequence of requests the source makes, with its
  checks and its early returns in the source's order. \<open>kube_ops\<close> collects the methods in the
  interface \<open>store_ops\<close>.

  On an error the source returns a half-filled value beside it; no caller looks at it, so the
  error alone is the result here.
\<close>

section \<open>Claims and invitations\<close>

definition used_at :: string where "used_at = ''peering.re8ch.com/used-at''"
definition expires_at :: string where "expires_at = ''peering.re8ch.com/expires-at''"

definition kube_CreateOnboardingClaim :: "'w kube \<Rightarrow> codec \<Rightarrow> onboarding_claim \<Rightarrow> (go_error, unit, 'w) prog" where
  "kube_CreateOnboardingClaim K j v =
     secrets_create K (oc_Tenant v)
       \<lparr>sec_Meta = (new_meta (oc_Tenant v) (''among-clusters-claim-'' @ oc_ID v))
          \<lparr>mt_Labels := [''app.kubernetes.io/managed-by'' \<mapsto> ''among-clusters'',
                         ''peering.re8ch.com/purpose'' \<mapsto> ''onboarding-claim''],
           mt_Annotations := [expires_at \<mapsto> rfc3339_format j (oc_ExpiresAt v)]\<rparr>,
        sec_Data = [''token-hash'' \<mapsto> oc_TokenHash v, ''cluster-id'' \<mapsto> oc_ClusterID v,
                    ''region'' \<mapsto> oc_Region v]\<rparr>"

text \<open>One turn of the retry loop: \<open>None\<close> is a conflict, after which the loop goes on.\<close>

definition claim_attempt :: "'w kube \<Rightarrow> codec \<Rightarrow> string \<Rightarrow> string \<Rightarrow> string \<Rightarrow> time \<Rightarrow>
    (go_error, onboarding_claim option, 'w) prog" where
  "claim_attempt K j tenant i hash now =
     and_then (attempt (secrets_get K tenant (''among-clusters-claim-'' @ i))) (\<lambda>got.
     case got of
       Inl _ \<Rightarrow> fail (Msg ''invalid claim'')
     | Inr s \<Rightarrow>
         and_then (guard (map_get [] (sec_Data s) ''token-hash'' \<noteq> hash) (Msg ''invalid claim'')) (\<lambda>_.
         let expires = parsed_time j (sec_annotation s expires_at);
             v = \<lparr>oc_ID = i, oc_ClusterID = map_get [] (sec_Data s) ''cluster-id'',
                  oc_Region = map_get [] (sec_Data s) ''region'', oc_Tenant = tenant,
                  oc_TokenHash = hash, oc_ExpiresAt = expires, oc_UsedAt = 0\<rparr> in
         and_then (guard (sec_annotation s used_at \<noteq> []) (Msg ''claim already used'')) (\<lambda>_.
         and_then (guard (\<not> Before now expires) (Msg ''claim expired'')) (\<lambda>_.
         and_then (attempt (secrets_update K (mt_Namespace (sec_Meta s))
            (annotate used_at (rfc3339nano_format j now) s))) (\<lambda>updated.
         case updated of
           Inr _ \<Rightarrow> give (Some (v\<lparr>oc_UsedAt := now\<rparr>))
         | Inl e \<Rightarrow> if IsConflict e then give None else fail e)))))"

fun claim_attempts :: "nat \<Rightarrow> (go_error, onboarding_claim option, 'w) prog \<Rightarrow> (go_error, onboarding_claim, 'w) prog" where
  "claim_attempts 0 turn = fail (Msg ''claim update conflict'')"
| "claim_attempts (Suc n) turn =
     and_then turn (\<lambda>r. case r of Some v \<Rightarrow> give v | None \<Rightarrow> claim_attempts n turn)"

definition kube_ConsumeOnboardingClaim :: "'w kube \<Rightarrow> codec \<Rightarrow> string \<Rightarrow> string \<Rightarrow> string \<Rightarrow> time \<Rightarrow>
    (go_error, onboarding_claim, 'w) prog" where
  "kube_ConsumeOnboardingClaim K j tenant i hash now =
     claim_attempts 3 (claim_attempt K j tenant i hash now)"

definition kube_CreateInvitation :: "'w kube \<Rightarrow> codec \<Rightarrow> invitation \<Rightarrow> (go_error, unit, 'w) prog" where
  "kube_CreateInvitation K j v =
     secrets_create K (inv_Tenant v)
       \<lparr>sec_Meta = (new_meta (inv_Tenant v) (''among-clusters-invite-'' @ inv_ID v))
          \<lparr>mt_Labels := [''app.kubernetes.io/managed-by'' \<mapsto> ''among-clusters''],
           mt_Annotations := [expires_at \<mapsto> rfc3339_format j (inv_ExpiresAt v)]\<rparr>,
        sec_Data = [''token-hash'' \<mapsto> inv_TokenHash v,
                    ''capabilities'' \<mapsto> json_strings j (inv_Capabilities v),
                    ''cluster-id'' \<mapsto> inv_ClusterID v, ''region'' \<mapsto> inv_Region v]\<rparr>"

text \<open>The invitation a Secret holds; capabilities that do not decode are none.\<close>

definition invitation_of :: "codec \<Rightarrow> string \<Rightarrow> string \<Rightarrow> secret \<Rightarrow> invitation" where
  "invitation_of j tenant i s =
     \<lparr>inv_ID = i, inv_Tenant = tenant, inv_ClusterID = map_get [] (sec_Data s) ''cluster-id'',
      inv_Region = map_get [] (sec_Data s) ''region'',
      inv_ExpiresAt = parsed_time j (sec_annotation s expires_at),
      inv_Capabilities = (case json_to_strings j (map_get [] (sec_Data s) ''capabilities'') of
         None \<Rightarrow> [] | Some cs \<Rightarrow> cs),
      inv_TokenHash = map_get [] (sec_Data s) ''token-hash'', inv_UsedAt = 0\<rparr>"

definition kube_ConsumeInvitation :: "'w kube \<Rightarrow> codec \<Rightarrow> string \<Rightarrow> string \<Rightarrow> string \<Rightarrow> string \<Rightarrow>
    string list \<Rightarrow> time \<Rightarrow> (go_error, invitation, 'w) prog" where
  "kube_ConsumeInvitation K j i hash tenant clusterID requested now =
     and_then (map_error (\<lambda>_. Msg ''invitation not found'')
       (secrets_get K tenant (''among-clusters-invite-'' @ i))) (\<lambda>s.
     let v = invitation_of j tenant i s in
     and_then (guard (inv_TokenHash v \<noteq> hash) (Msg ''invalid invitation'')) (\<lambda>_.
     and_then (guard (inv_ClusterID v \<noteq> [] \<and> inv_ClusterID v \<noteq> clusterID) (Msg ''cluster mismatch'')) (\<lambda>_.
     and_then (guard (sec_annotation s used_at \<noteq> []) (Msg ''invitation already used'')) (\<lambda>_.
     and_then (guard (\<not> Before now (inv_ExpiresAt v)) (Msg ''invitation expired'')) (\<lambda>_.
     and_then (guard (\<not> capabilitiesAllowed (inv_Capabilities v) requested)
       (Msg ''capability not invited'')) (\<lambda>_.
     and_then (secrets_update K tenant (annotate used_at (rfc3339nano_format j now) s)) (\<lambda>_.
     give v)))))))"

section \<open>Identities\<close>

definition kube_RegisterIdentity :: "'w kube \<Rightarrow> identity_registration \<Rightarrow> (go_error, unit, 'w) prog" where
  "kube_RegisterIdentity K v =
     identities_create K (id_Tenant v)
       \<lparr>ci_Meta = new_meta (id_Tenant v) (id_ClusterID v), ci_clusterID = id_ClusterID v,
        ci_region = id_Region v, ci_trustDomain = id_TrustDomain v, ci_spiffeID = id_SPIFFEID v,
        ci_bundleDigest = id_BundleDigest v, ci_publicKey = id_PublicKey v,
        ci_capabilities = id_Capabilities v, ci_gatewayEndpoints = id_GatewayEndpoints v,
        ci_lastGeneration = 0, ci_lastNonce = [], ci_state = [], ci_lastSeenAt = [],
        ci_observedGeneration = 0\<rparr>"

definition kube_Identity :: "'w kube \<Rightarrow> string \<Rightarrow> string \<Rightarrow> (go_error, identity_registration, 'w) prog" where
  "kube_Identity K tenant i =
     and_then (identities_get K tenant i) (\<lambda>obj.
     give \<lparr>id_ClusterID = i, id_Region = ci_region obj, id_Tenant = tenant,
           id_TrustDomain = ci_trustDomain obj, id_SPIFFEID = ci_spiffeID obj,
           id_BundleDigest = ci_bundleDigest obj, id_PublicKey = ci_publicKey obj,
           id_Capabilities = [], id_GatewayEndpoints = ci_gatewayEndpoints obj\<rparr>)"

text \<open>The \<open>int64\<close> of the status and the \<open>uint64\<close> of the message are one 64-bit word.\<close>

definition kube_LastGeneration :: "'w kube \<Rightarrow> string \<Rightarrow> string \<Rightarrow> (go_error, u64, 'w) prog" where
  "kube_LastGeneration K tenant i =
     and_then (identities_get K tenant i) (\<lambda>obj. give (ci_lastGeneration obj))"

definition kube_RecordGeneration :: "'w kube \<Rightarrow> codec \<Rightarrow> string \<Rightarrow> string \<Rightarrow> u64 \<Rightarrow> string \<Rightarrow> (go_error, unit, 'w) prog" where
  "kube_RecordGeneration K j tenant i g nonce =
     and_then (identities_get K tenant i) (\<lambda>obj.
     and_then (guard (g \<le> ci_lastGeneration obj) (Msg ''replayed generation'')) (\<lambda>_.
     and_then (api_now K) (\<lambda>now.
     identities_update_status K tenant
       (obj\<lparr>ci_lastGeneration := g, ci_lastNonce := nonce, ci_state := ''Ready'',
            ci_lastSeenAt := rfc3339_format j now,
            ci_observedGeneration := mt_Generation (ci_Meta obj)\<rparr>))))"

section \<open>Peers and links\<close>

definition kube_ConfirmPeerBundle :: "'w kube \<Rightarrow> string \<Rightarrow> string \<Rightarrow> bundle_confirmation \<Rightarrow> (go_error, unit, 'w) prog" where
  "kube_ConfirmPeerBundle K tenant issuerID confirmation =
     and_then (peers_get K tenant (bc_PeerRef confirmation)) (\<lambda>p.
     if issuerID = pe_localIdentityRef p then
       and_then (kube_Identity K tenant (pe_remoteIdentityRef p)) (\<lambda>expected.
       and_then (guard (id_BundleDigest expected \<noteq> bc_BundleDigest confirmation)
         (Msg ''bundle digest mismatch'')) (\<lambda>_.
       peers_update_status K tenant (p\<lparr>pe_localBundleConfirmed := True\<rparr>)))
     else if issuerID = pe_remoteIdentityRef p then
       and_then (kube_Identity K tenant (pe_localIdentityRef p)) (\<lambda>expected.
       and_then (guard (id_BundleDigest expected \<noteq> bc_BundleDigest confirmation)
         (Msg ''bundle digest mismatch'')) (\<lambda>_.
       peers_update_status K tenant (p\<lparr>pe_remoteBundleConfirmed := True\<rparr>)))
     else fail (Msg ''issuer is not a member of the peer''))"

definition peer_member :: "string \<Rightarrow> peer \<Rightarrow> bool" where
  "peer_member issuer p \<longleftrightarrow> issuer = pe_localIdentityRef p \<or> issuer = pe_remoteIdentityRef p"

definition kube_ObserveLink :: "'w kube \<Rightarrow> codec \<Rightarrow> string \<Rightarrow> string \<Rightarrow> link_observation \<Rightarrow> (go_error, unit, 'w) prog" where
  "kube_ObserveLink K j tenant issuerID obs =
     and_then (links_get K tenant (lo_LinkRef obs)) (\<lambda>l.
     and_then (guard (al_peerRef l \<noteq> lo_PeerRef obs) (Msg ''link does not reference peer'')) (\<lambda>_.
     and_then (peers_get K tenant (al_peerRef l)) (\<lambda>p.
     and_then (guard (\<not> peer_member issuerID p) (Msg ''issuer is not a member of the peer'')) (\<lambda>_.
     and_then (api_now K) (\<lambda>now.
     links_update_status K tenant
       (l\<lparr>al_state := (if lo_Ready obs then ''Ready'' else ''Disconnected''),
          al_reason := lo_Reason obs, al_latencyMillis := lo_LatencyMillis obs,
          al_lastHandshakeAt := rfc3339_format j (lo_LastHandshakeAt obs),
          al_lastObservedAt := Some (rfc3339_format j now)\<rparr>))))))"

section \<open>Advertisements\<close>

definition malformed_service :: "advertised_service \<Rightarrow> bool" where
  "malformed_service s \<longleftrightarrow> as_Name s = [] \<or> as_Namespace s = [] \<or> as_PolicyRef s = [] \<or>
     sint (as_Port s) < 1 \<or> as_TargetPeers s = []"

definition policy_error :: "string \<Rightarrow> string \<Rightarrow> go_error" where
  "policy_error ref what = Msg (''policy '' @ ref @ what)"

definition quota_exceeded :: "peer_policy \<Rightarrow> advertised_service list \<Rightarrow> bool" where
  "quota_exceeded policy services \<longleftrightarrow>
     (case pp_maxAdvertisements policy of
        None \<Rightarrow> False
      | Some maximum \<Rightarrow> 0 \<le> sint maximum \<and> sint maximum < int (length services))"

definition ready_member :: "string \<Rightarrow> peer \<Rightarrow> bool" where
  "ready_member issuer p \<longleftrightarrow> pe_state p = ''Ready'' \<and> \<not> pe_suspended p \<and> peer_member issuer p"

text \<open>The peers a service is offered to: "*" stands for the issuer's Ready peers, by name.\<close>

definition target_peers :: "'w kube \<Rightarrow> string \<Rightarrow> string \<Rightarrow> peer_policy \<Rightarrow> advertised_service \<Rightarrow>
    (go_error, string list, 'w) prog" where
  "target_peers K tenant issuer policy service =
     (if as_TargetPeers service = [''*''] then
        and_then (guard (\<not> pp_matchAllReady policy)
          (policy_error (as_PolicyRef service) '' does not allow all Ready peers'')) (\<lambda>_.
        and_then (peers_list K tenant) (\<lambda>items.
        let targets = sort (map (\<lambda>p. mt_Name (pe_Meta p)) (filter (ready_member issuer) items)) in
        and_then (guard (targets = [])
          (policy_error (as_PolicyRef service) '' matches no Ready peers'')) (\<lambda>_.
        give targets)))
      else give (as_TargetPeers service))"

definition port_allowed :: "peer_policy \<Rightarrow> advertised_service \<Rightarrow> bool" where
  "port_allowed policy service \<longleftrightarrow>
     pp_ports policy = [] \<or> (\<exists>p \<in> set (pp_ports policy). sint p = sint (as_Port service))"

definition contract_allowed :: "peer_policy \<Rightarrow> advertised_service \<Rightarrow> bool" where
  "contract_allowed policy service \<longleftrightarrow>
     as_ServiceClass service \<in> set (pp_serviceClasses policy) \<and>
     as_Protocol service \<in> set (pp_protocols policy) \<and>
     ''export'' \<in> set (pp_directions policy) \<and> port_allowed policy service"

definition check_target :: "'w kube \<Rightarrow> string \<Rightarrow> string \<Rightarrow> peer_policy \<Rightarrow> advertised_service \<Rightarrow> string \<Rightarrow>
    (go_error, unit, 'w) prog" where
  "check_target K tenant issuer policy service peerRef =
     and_then (guard (\<not> pp_matchAllReady policy \<and> peerRef \<notin> set (pp_matchNames policy))
       (policy_error (as_PolicyRef service) ('' denies peer '' @ peerRef))) (\<lambda>_.
     and_then (peers_get K tenant peerRef) (\<lambda>p.
     guard (\<not> peer_member issuer p) (Msg ''publisher is not a member of target peer'')))"

definition publisher_label :: string where
  "publisher_label = ''peering.re8ch.com/publisher''"

definition published_at :: string where
  "published_at = ''peering.re8ch.com/last-published-at''"

definition advertisement_for :: "codec \<Rightarrow> string \<Rightarrow> string \<Rightarrow> identity_registration \<Rightarrow> time \<Rightarrow>
    advertised_service \<Rightarrow> string list \<Rightarrow> advertisement" where
  "advertisement_for j tenant issuer ident now service targets =
     \<lparr>ad_Meta = (new_meta tenant (advertisementName issuer service))
        \<lparr>mt_Labels := [publisher_label \<mapsto> issuer], mt_Annotations := [published_at \<mapsto> rfc3339_format j now]\<rparr>,
      ad_publisherRef = issuer,
      ad_serviceIdentity = ''spiffe://'' @ id_TrustDomain ident @ ''/ns/'' @ as_Namespace service
        @ ''/service/'' @ as_Name service,
      ad_serviceClass = as_ServiceClass service, ad_protocol = as_Protocol service,
      ad_port = scast (as_Port service), ad_localServiceRef = as_Name service,
      ad_gatewayEndpoints = id_GatewayEndpoints ident, ad_targetPeers = targets,
      ad_ttlSeconds = as_TTLSeconds service, ad_generation = as_Generation service,
      ad_policyRef = as_PolicyRef service, ad_revoked = False, ad_state = [], ad_expiresAt = []\<rparr>"

definition write_advertisement :: "'w kube \<Rightarrow> string \<Rightarrow> advertisement \<Rightarrow> (go_error, unit, 'w) prog" where
  "write_advertisement K tenant ad =
     and_then (attempt (ads_get K tenant (mt_Name (ad_Meta ad)))) (\<lambda>existing.
     case existing of
       Inr old \<Rightarrow> ads_update K tenant (ad\<lparr>ad_Meta := (ad_Meta ad)
         \<lparr>mt_ResourceVersion := mt_ResourceVersion (ad_Meta old)\<rparr>\<rparr>)
     | Inl e \<Rightarrow> if IsNotFound e then ads_create K tenant ad else fail e)"

definition import_for :: "string \<Rightarrow> string \<Rightarrow> string \<Rightarrow> imported_service" where
  "import_for tenant name peerRef =
     (let imp = importName name peerRef in
      \<lparr>is_Meta = new_meta tenant imp, is_advertisementRef = name, is_peerRef = peerRef,
       is_localServiceName = imp, is_localPort = Some (importPort imp), is_suspended = False,
       is_state = [], is_serviceRef = []\<rparr>)"

definition write_import :: "'w kube \<Rightarrow> string \<Rightarrow> string \<Rightarrow> string \<Rightarrow> (go_error, unit, 'w) prog" where
  "write_import K tenant name peerRef =
     and_then (attempt (imports_create K tenant (import_for tenant name peerRef))) (\<lambda>created.
     case created of
       Inr _ \<Rightarrow> give ()
     | Inl e \<Rightarrow> if IsAlreadyExists e then give () else fail e)"

text \<open>The body of the loop over the services of a snapshot of \<open>services\<close>.\<close>

definition sync_service :: "'w kube \<Rightarrow> codec \<Rightarrow> string \<Rightarrow> string \<Rightarrow> identity_registration \<Rightarrow> time \<Rightarrow>
    advertised_service list \<Rightarrow> advertised_service \<Rightarrow> (go_error, unit, 'w) prog" where
  "sync_service K j tenant issuer ident now services service =
     and_then (guard (malformed_service service) (Msg ''invalid service advertisement'')) (\<lambda>_.
     and_then (map_error (Wrapped (''policy '' @ as_PolicyRef service @ '' unavailable''))
       (policies_get K tenant (as_PolicyRef service))) (\<lambda>policy.
     and_then (guard (quota_exceeded policy services)
       (policy_error (as_PolicyRef service) '' advertisement quota exceeded'')) (\<lambda>_.
     and_then (target_peers K tenant issuer policy service) (\<lambda>targets.
     and_then (guard (\<not> contract_allowed policy service)
       (policy_error (as_PolicyRef service) '' denies service contract'')) (\<lambda>_.
     and_then (for_each (check_target K tenant issuer policy service) targets) (\<lambda>_.
     and_then (write_advertisement K tenant (advertisement_for j tenant issuer ident now service targets)) (\<lambda>_.
     for_each (write_import K tenant (advertisementName issuer service)) targets)))))))"

text \<open>An advertisement of the issuer that the snapshot does not name; a failed update is dropped.\<close>

definition revoke_unseen :: "'w kube \<Rightarrow> string \<Rightarrow> string set \<Rightarrow> advertisement \<Rightarrow> (go_error, unit, 'w) prog" where
  "revoke_unseen K tenant seen ad =
     (if mt_Name (ad_Meta ad) \<in> seen then give ()
      else ignore (ads_update K tenant (ad\<lparr>ad_revoked := True\<rparr>)))"

definition kube_SyncAdvertisements :: "'w kube \<Rightarrow> codec \<Rightarrow> string \<Rightarrow> string \<Rightarrow> advertised_service list \<Rightarrow> time \<Rightarrow>
    (go_error, unit, 'w) prog" where
  "kube_SyncAdvertisements K j tenant issuer services now =
     and_then (kube_Identity K tenant issuer) (\<lambda>ident.
     and_then (for_each (sync_service K j tenant issuer ident now services) services) (\<lambda>_.
     and_then (ads_list K tenant (Some (publisher_label, issuer))) (\<lambda>items.
     for_each (revoke_unseen K tenant (set (map (advertisementName issuer) services))) items)))"

section \<open>Grants\<close>

definition grant_scope :: "access_grant \<Rightarrow> string" where
  "grant_scope g = (if ag_scope g = [] then ''Namespaced'' else ag_scope g)"

definition grant_instruction_of :: "string \<Rightarrow> time \<Rightarrow> access_grant \<Rightarrow> grant_instruction" where
  "grant_instruction_of tenant expires g =
     \<lparr>gi_Name = mt_Name (ag_Meta g), gi_Tenant = tenant, gi_PeerRef = ag_peerRef g,
      gi_AdvertisementRef = ag_advertisementRef g, gi_Generation = mt_Generation (ag_Meta g),
      gi_Scope = grant_scope g, gi_Namespaces = ag_namespaces g, gi_Rules = ag_rules g,
      gi_ExpiresAt = expires, gi_Revoked = ag_revoked g,
      gi_ProxyURL = ''https://'' @ ag_advertisementRef g @ ''-'' @ ag_peerRef g @ ''.'' @ tenant
        @ ''.svc.cluster.local:6443''\<rparr>"

text \<open>One turn of the loop over the grants; \<open>None\<close> is \<open>continue\<close>.\<close>

definition pending_grant :: "'w kube \<Rightarrow> codec \<Rightarrow> string \<Rightarrow> string \<Rightarrow> access_grant \<Rightarrow>
    (go_error, grant_instruction option, 'w) prog" where
  "pending_grant K j tenant issuer g =
     (case rfc3339_parse j (ag_expiresAt g) of
        None \<Rightarrow> give None
      | Some expires \<Rightarrow>
          if \<not> ag_approved g then give None
          else and_then (attempt (ads_get K tenant (ag_advertisementRef g))) (\<lambda>got.
            case got of
              Inl _ \<Rightarrow> give None
            | Inr ad \<Rightarrow>
                if ad_publisherRef ad \<noteq> issuer \<or> ad_protocol ad \<noteq> ''kubernetes-api'' then give None
                else give (Some (grant_instruction_of tenant expires g))))"

definition kube_PendingGrants :: "'w kube \<Rightarrow> codec \<Rightarrow> string \<Rightarrow> string \<Rightarrow> time \<Rightarrow>
    (go_error, grant_instruction list, 'w) prog" where
  "kube_PendingGrants K j tenant issuer now =
     and_then (grants_list K tenant) (\<lambda>items. collect (pending_grant K j tenant issuer) items)"

definition credential_scheme :: string where
  "credential_scheme = ''credential://among-clusters/''"

definition kube_FulfillGrant :: "'w kube \<Rightarrow> codec \<Rightarrow> string \<Rightarrow> string \<Rightarrow> grant_fulfillment \<Rightarrow> (go_error, unit, 'w) prog" where
  "kube_FulfillGrant K j tenant issuer f =
     and_then (grants_get K tenant (gf_GrantRef f)) (\<lambda>g.
     and_then (ads_get K tenant (ag_advertisementRef g)) (\<lambda>ad.
     and_then (guard (ad_publisherRef ad \<noteq> issuer) (Msg ''issuer does not own grant advertisement'')) (\<lambda>_.
     and_then (guard (\<not> HasPrefix (gf_CredentialRef f) credential_scheme)
       (Msg ''invalid opaque credential reference'')) (\<lambda>_.
     grants_update_status K tenant
       (g\<lparr>ag_credentialRef := gf_CredentialRef f, ag_lastRenewedAt := rfc3339_format j (gf_RenewedAt f),
          ag_state := ''Active''\<rparr>)))))"

definition kube_ops :: "'w kube \<Rightarrow> codec \<Rightarrow> 'w store_ops" where
  "kube_ops K j = \<lparr>CreateOnboardingClaim = kube_CreateOnboardingClaim K j,
     ConsumeOnboardingClaim = kube_ConsumeOnboardingClaim K j,
     CreateInvitation = kube_CreateInvitation K j, ConsumeInvitation = kube_ConsumeInvitation K j,
     RegisterIdentity = kube_RegisterIdentity K, Identity = kube_Identity K,
     LastGeneration = kube_LastGeneration K, RecordGeneration = kube_RecordGeneration K j,
     ConfirmPeerBundle = kube_ConfirmPeerBundle K, ObserveLink = kube_ObserveLink K j,
     SyncAdvertisements = kube_SyncAdvertisements K j, PendingGrants = kube_PendingGrants K j,
     FulfillGrant = kube_FulfillGrant K j\<rparr>"

end
