(* ===== verification/Hub_Server.thy ===== *)
theory Hub_Server
  imports Sovereign_Store Protocol Names
begin

text \<open>
  The Hub's HTTP handlers, \<open>internal/api/sovereign_server.go\<close> and \<open>internal/api/onboarding.go\<close>,
  over any store of the interface \<open>SovereignStore\<close>. A handler is a computation over the store's
  state that ends early with a response (\<open>http.Error(...); return\<close>) or returns one. A request
  carries its decoded body (\<open>None\<close> where \<open>json.Decode\<close> fails), what \<open>rand.Read\<close> delivers, and
  its clock: the instant the handler reads at its first, second, ... call of \<open>now()\<close>.
\<close>

section \<open>Responses\<close>

record install_document =
  md_ClusterID :: string
  md_Region :: string
  md_Endpoint :: string
  md_QUICEndpoint :: string
  md_InvitationID :: string
  md_InvitationToken :: string
  md_ChartVersion :: string
  md_Tenant :: string
  md_ImageDigest :: string
  md_BundleDigest :: string
  md_SPIFFEID :: string

datatype hub_doc =
    InvitationCreated string string time
  | IdentityAccepted string string string
  | IdentityFound identity_registration
  | GrantSnapshot "grant_instruction list"
  | ClaimCreated string string string time
  | InstallMarkdown install_document
  | BundlePEM string

datatype hub_body = NoBody | ErrorText string | Doc hub_doc | Aborted string

record hub_response =
  rs_Status :: nat
  rs_Headers :: "(string \<times> string) list"
  rs_Body :: hub_body

definition http_error :: "string \<Rightarrow> nat \<Rightarrow> hub_response" where
  "http_error text code = \<lparr>rs_Status = code, rs_Headers = [], rs_Body = ErrorText text\<rparr>"

definition write_json :: "nat \<Rightarrow> hub_doc \<Rightarrow> hub_response" where
  "write_json code doc =
     \<lparr>rs_Status = code, rs_Headers = [(''Content-Type'', ''application/json'')], rs_Body = Doc doc\<rparr>"

text \<open>A panic ends the request: \<open>net/http\<close> recovers it and drops the connection.\<close>

definition aborted :: "string \<Rightarrow> hub_response" where
  "aborted m = \<lparr>rs_Status = 0, rs_Headers = [], rs_Body = Aborted m\<rparr>"

fun respond_error :: "(go_error \<Rightarrow> hub_response) \<Rightarrow> go_error \<Rightarrow> hub_response" where
  "respond_error f (Panic m) = aborted m"
| "respond_error f e = f e"

abbreviation on_error :: "(go_error \<Rightarrow> hub_response) \<Rightarrow> (go_error, 'a, 's) prog \<Rightarrow> (hub_response, 'a, 's) prog" where
  "on_error f m \<equiv> map_error (respond_error f) m"

text \<open>\<open>if x == nil/err { http.Error(...); return }\<close> for a value that may be missing.\<close>

definition need :: "'a option \<Rightarrow> 'e \<Rightarrow> ('e, 'a, 's) prog" where
  "need x e = (case x of None \<Rightarrow> fail e | Some v \<Rightarrow> give v)"

lemma need_simps [simp]: "need None e = fail e" "need (Some v) e = give v"
  by (simp_all add: need_def)

lemma need_Inr_iff [simp]: "need x e s = (Inr v, s') \<longleftrightarrow> x = Some v \<and> s' = s"
  by (auto simp: need_def split: option.splits)

lemma need_InrE [run_elims]:
  assumes "need x e s = (Inr v, s')"
  obtains "x = Some v" "s' = s"
  using assms by simp

lemma keeps_need [keeps_intros]: "keeps P (need x e)"
  by (cases x) (simp_all add: keeps_give keeps_fail)

definition finish :: "(hub_response, hub_response, 's) prog \<Rightarrow> 's \<Rightarrow> hub_response \<times> 's" where
  "finish m s = (case m s of (Inl r, s') \<Rightarrow> (r, s') | (Inr r, s') \<Rightarrow> (r, s'))"

section \<open>Configuration\<close>

record onboarding_config =
  on_PublicEndpoint :: string
  on_Tenant :: string
  on_ProviderSPIFFEID :: string
  on_ProviderBundleDigest :: string
  on_ProviderQUICEndpoint :: string
  on_ImageDigest :: string
  on_ChartVersion :: string
  on_ProviderBundlePEM :: string

record hub_server =
  hs_AdminToken :: string
  hs_Onboarding :: onboarding_config
  hs_crypto :: crypto
  hs_codec :: codec

record invitation_input =
  ii_Tenant :: string
  ii_TTLSeconds :: i64
  ii_Capabilities :: "string list"

record link_input =
  li_ClusterID :: string
  li_Region :: string
  li_TTLSeconds :: i64

definition admin_request :: "hub_server \<Rightarrow> string \<Rightarrow> bool" where
  "admin_request srv authorization \<longleftrightarrow>
     hs_AdminToken srv \<noteq> [] \<and> authorization = ''Bearer '' @ hs_AdminToken srv"

text \<open>The default lifetime where the request leaves it out, and the accepted range.\<close>

definition effective_ttl :: "i64 \<Rightarrow> i64 \<Rightarrow> i64" where
  "effective_ttl preset ttl = (if ttl = 0 then preset else ttl)"

definition ttl_allowed :: "i64 \<Rightarrow> bool" where
  "ttl_allowed ttl \<longleftrightarrow> \<not> (sint ttl < 60 \<or> 86400 < sint ttl)"

section \<open>Invitations\<close>

definition createInvitation :: "hub_server \<Rightarrow> 's store_ops \<Rightarrow> string \<Rightarrow> invitation_input option \<Rightarrow>
    string option \<Rightarrow> string option \<Rightarrow> (nat \<Rightarrow> time) \<Rightarrow> (hub_response, hub_response, 's) prog" where
  "createInvitation srv ops authorization body draw_id draw_token clock =
     and_then (guard (\<not> admin_request srv authorization) (http_error ''unauthorized'' 401)) (\<lambda>_.
     and_then (need body (http_error ''invalid invitation'' 400)) (\<lambda>input.
     and_then (guard (ii_Tenant input = []) (http_error ''invalid invitation'' 400)) (\<lambda>_.
     let ttl = effective_ttl 900 (ii_TTLSeconds input) in
     and_then (guard (\<not> ttl_allowed ttl) (http_error ''invalid ttl'' 400)) (\<lambda>_.
     and_then (need (RandomID draw_id) (http_error ''entropy unavailable'' 503)) (\<lambda>i.
     and_then (need (RandomToken draw_token) (http_error ''entropy unavailable'' 503)) (\<lambda>token.
     let v = \<lparr>inv_ID = i, inv_Tenant = ii_Tenant input, inv_ClusterID = [], inv_Region = [],
              inv_ExpiresAt = clock 0 + go_seconds ttl, inv_Capabilities = ii_Capabilities input,
              inv_TokenHash = TokenHash (hs_crypto srv) token, inv_UsedAt = 0\<rparr> in
     and_then (on_error (\<lambda>_. http_error ''conflict'' 409) (CreateInvitation ops v)) (\<lambda>_.
     give (write_json 201 (InvitationCreated i token (inv_ExpiresAt v))))))))))"

definition proof_valid :: "crypto \<Rightarrow> codec \<Rightarrow> invitation_acceptance \<Rightarrow> bool option" where
  "proof_valid c j input =
     (case (RawStd_Decode (id_PublicKey (ia_Identity input)), RawStd_Decode (ia_Proof input),
            json_identity j (ia_Identity input)) of
        (Some publicKey, Some proof, Some identityBody) \<Rightarrow> ed25519_Verify c publicKey identityBody proof
      | _ \<Rightarrow> Some False)"

definition acceptInvitation :: "hub_server \<Rightarrow> 's store_ops \<Rightarrow> string \<Rightarrow> invitation_acceptance option \<Rightarrow>
    (nat \<Rightarrow> time) \<Rightarrow> (hub_response, hub_response, 's) prog" where
  "acceptInvitation srv ops path_id body clock =
     and_then (need body (http_error ''invalid identity'' 400)) (\<lambda>input.
     and_then (guard (ValidateIdentity (ia_Identity input) \<noteq> None) (http_error ''invalid identity'' 400)) (\<lambda>_.
     and_then (need (proof_valid (hs_crypto srv) (hs_codec srv) input)
        (aborted ''ed25519: bad public key length'')) (\<lambda>ok.
     and_then (guard (\<not> ok) (http_error ''invalid ownership proof'' 401)) (\<lambda>_.
     let ident = ia_Identity input in
     and_then (on_error (\<lambda>e. http_error (error_text e)
          (if error_text e = ''capability not invited'' then 403 else 401))
        (ConsumeInvitation ops path_id (TokenHash (hs_crypto srv) (ia_Token input)) (id_Tenant ident)
           (id_ClusterID ident) (id_Capabilities ident) (clock 0))) (\<lambda>iv.
     and_then (guard (inv_Tenant iv \<noteq> id_Tenant ident) (http_error ''tenant mismatch'' 403)) (\<lambda>_.
     and_then (on_error (\<lambda>_. http_error ''identity conflict'' 409)
        (RegisterIdentity ops (ident\<lparr>id_Region := inv_Region iv\<rparr>))) (\<lambda>_.
     give (write_json 201 (IdentityAccepted (id_ClusterID ident) (inv_Tenant iv) ''PendingConfirmation''))
     )))))))"

section \<open>Control messages\<close>

text \<open>The effect of a verified message, by its type; a polled grant list is returned.\<close>

definition apply_message :: "hub_server \<Rightarrow> 's store_ops \<Rightarrow> string \<Rightarrow> string \<Rightarrow> control_message \<Rightarrow>
    (nat \<Rightarrow> time) \<Rightarrow> (hub_response, grant_instruction list option, 's) prog" where
  "apply_message srv ops tenant i message clock =
     (let forbidden = (\<lambda>e. http_error (error_text e) 403); j = hs_codec srv in
      if cm_Type message = ''peer.bundle.confirm'' then
        and_then (need (json_confirmation j (cm_Payload message)) (http_error ''invalid bundle confirmation'' 400)) (\<lambda>confirmation.
        and_then (guard (bc_PeerRef confirmation = [] \<or> bc_BundleDigest confirmation = [])
          (http_error ''invalid bundle confirmation'' 400)) (\<lambda>_.
        and_then (on_error forbidden (ConfirmPeerBundle ops tenant i confirmation)) (\<lambda>_. give None)))
      else if cm_Type message = ''link.observe'' then
        and_then (need (json_observation j (cm_Payload message)) (http_error ''invalid link observation'' 400)) (\<lambda>observation.
        and_then (guard (lo_LinkRef observation = [] \<or> lo_PeerRef observation = [])
          (http_error ''invalid link observation'' 400)) (\<lambda>_.
        and_then (on_error forbidden (ObserveLink ops tenant i observation)) (\<lambda>_. give None)))
      else if cm_Type message = ''service.snapshot'' then
        and_then (need (json_snapshot j (cm_Payload message)) (http_error ''invalid service snapshot'' 400)) (\<lambda>services.
        and_then (on_error forbidden (SyncAdvertisements ops tenant i services (clock 1))) (\<lambda>_. give None))
      else if cm_Type message = ''grant.poll'' then
        and_then (on_error (\<lambda>_. http_error ''grant state unavailable'' 503) (PendingGrants ops tenant i (clock 1)))
          (\<lambda>grants. give (Some grants))
      else if cm_Type message = ''grant.fulfilled'' then
        and_then (need (json_fulfillment j (cm_Payload message)) (http_error ''invalid grant fulfillment'' 400)) (\<lambda>fulfillment.
        and_then (guard (gf_GrantRef fulfillment = [] \<or> gf_CredentialRef fulfillment = [])
          (http_error ''invalid grant fulfillment'' 400)) (\<lambda>_.
        and_then (on_error forbidden (FulfillGrant ops tenant i fulfillment)) (\<lambda>_. give None)))
      else give None)"

definition generation_header :: "control_message \<Rightarrow> string \<times> string" where
  "generation_header message = (''X-AmongClusters-Generation'', FormatUint (cm_Generation message))"

definition accepted_response :: "control_message \<Rightarrow> grant_instruction list option \<Rightarrow> hub_response" where
  "accepted_response message grants =
     (case grants of
        Some gs \<Rightarrow> (write_json 200 (GrantSnapshot gs))
          \<lparr>rs_Headers := [generation_header message, (''Content-Type'', ''application/json'')]\<rparr>
      | None \<Rightarrow> \<lparr>rs_Status = 202, rs_Headers = [generation_header message], rs_Body = NoBody\<rparr>)"

definition verify_message :: "hub_server \<Rightarrow> control_message \<Rightarrow> string \<Rightarrow> time \<Rightarrow> u64 \<Rightarrow>
    (hub_response, unit, 's) prog" where
  "verify_message srv message key now prev =
     (case Verify (hs_crypto srv) (hs_codec srv) message key ''hub'' now prev None of
        None \<Rightarrow> give ()
      | Some e \<Rightarrow> fail (respond_error (\<lambda>e. http_error (error_text e) 401) e))"

definition controlMessage :: "hub_server \<Rightarrow> 's store_ops \<Rightarrow> string \<Rightarrow> string \<Rightarrow> control_message option \<Rightarrow>
    (nat \<Rightarrow> time) \<Rightarrow> (hub_response, hub_response, 's) prog" where
  "controlMessage srv ops tenant i body clock =
     and_then (on_error (\<lambda>_. http_error ''unknown identity'' 401) (Identity ops tenant i)) (\<lambda>ident.
     and_then (need body (http_error ''invalid message'' 400)) (\<lambda>message.
     and_then (need (RawStd_Decode (id_PublicKey ident)) (http_error ''invalid identity key'' 500)) (\<lambda>key.
     and_then (on_error (\<lambda>_. http_error ''state unavailable'' 503) (LastGeneration ops tenant i)) (\<lambda>prev.
     and_then (verify_message srv message key (clock 0) prev) (\<lambda>_.
     and_then (guard (cm_Issuer message \<noteq> id_SPIFFEID ident \<or> HasPrefix (cm_Type message) ''route.'')
        (http_error ''policy denied'' 403)) (\<lambda>_.
     and_then (apply_message srv ops tenant i message clock) (\<lambda>grants.
     and_then (on_error (\<lambda>_. http_error ''replay'' 409)
        (RecordGeneration ops tenant i (cm_Generation message) (cm_Nonce message))) (\<lambda>_.
     give (accepted_response message grants)))))))))"

section \<open>Onboarding links\<close>

definition createOnboardingLink :: "hub_server \<Rightarrow> 's store_ops \<Rightarrow> string \<Rightarrow> link_input option \<Rightarrow>
    string option \<Rightarrow> string option \<Rightarrow> (nat \<Rightarrow> time) \<Rightarrow> (hub_response, hub_response, 's) prog" where
  "createOnboardingLink srv ops authorization body draw_id draw_token clock =
     (let cfg = hs_Onboarding srv; unsafe = http_error ''clusterID and region must be DNS-safe'' 400 in
     and_then (guard (\<not> admin_request srv authorization) (http_error ''unauthorized'' 401)) (\<lambda>_.
     and_then (need body unsafe) (\<lambda>input.
     and_then (guard (\<not> onboardingName (li_ClusterID input) \<or> \<not> onboardingName (li_Region input) \<or>
        on_Tenant cfg = [] \<or> on_PublicEndpoint cfg = []) unsafe) (\<lambda>_.
     let ttl = effective_ttl 86400 (li_TTLSeconds input) in
     and_then (guard (\<not> ttl_allowed ttl) (http_error ''invalid ttl'' 400)) (\<lambda>_.
     and_then (need (RandomID draw_id) (http_error ''entropy unavailable'' 503)) (\<lambda>i.
     and_then (need (RandomToken draw_token) (http_error ''entropy unavailable'' 503)) (\<lambda>token.
     let claim = \<lparr>oc_ID = i, oc_ClusterID = li_ClusterID input, oc_Region = li_Region input,
                  oc_Tenant = on_Tenant cfg, oc_TokenHash = TokenHash (hs_crypto srv) token,
                  oc_ExpiresAt = clock 0 + go_seconds ttl, oc_UsedAt = 0\<rparr> in
     and_then (on_error (\<lambda>_. http_error ''conflict'' 409) (CreateOnboardingClaim ops claim)) (\<lambda>_.
     let url = TrimRight (on_PublicEndpoint cfg) ''/'' @ ''/v1/onboarding/'' @ i @ ''?claim='' @ token in
     give (write_json 201 (ClaimCreated (li_ClusterID input) (li_Region input) url (oc_ExpiresAt claim)))))))))))"

definition installMarkdown :: "hub_server \<Rightarrow> onboarding_claim \<Rightarrow> string \<Rightarrow> string \<Rightarrow> install_document" where
  "installMarkdown srv c invitationID invitationToken =
     (let cfg = hs_Onboarding srv in
      \<lparr>md_ClusterID = oc_ClusterID c, md_Region = oc_Region c,
       md_Endpoint = TrimRight (on_PublicEndpoint cfg) ''/'', md_QUICEndpoint = on_ProviderQUICEndpoint cfg,
       md_InvitationID = invitationID, md_InvitationToken = invitationToken,
       md_ChartVersion = on_ChartVersion cfg, md_Tenant = on_Tenant cfg, md_ImageDigest = on_ImageDigest cfg,
       md_BundleDigest = on_ProviderBundleDigest cfg, md_SPIFFEID = on_ProviderSPIFFEID cfg\<rparr>)"

definition no_store :: "hub_response \<Rightarrow> hub_response" where
  "no_store r = r\<lparr>rs_Headers := (''Cache-Control'', ''no-store'') # rs_Headers r\<rparr>"

definition claim_error :: "go_error \<Rightarrow> hub_response" where
  "claim_error e = no_store
     (if Contains (error_text e) ''used'' \<or> Contains (error_text e) ''expired''
      then http_error (error_text e) 410 else http_error ''invalid claim'' 401)"

definition consumeOnboarding :: "hub_server \<Rightarrow> 's store_ops \<Rightarrow> string \<Rightarrow> string \<Rightarrow>
    string option \<Rightarrow> string option \<Rightarrow> (nat \<Rightarrow> time) \<Rightarrow> (hub_response, hub_response, 's) prog" where
  "consumeOnboarding srv ops path_id claim_token draw_id draw_token clock =
     and_then (on_error claim_error (ConsumeOnboardingClaim ops (on_Tenant (hs_Onboarding srv)) path_id
        (TokenHash (hs_crypto srv) claim_token) (clock 0))) (\<lambda>claim.
     and_then (need (RandomID draw_id) (no_store (http_error ''entropy unavailable'' 503))) (\<lambda>invitationID.
     and_then (need (RandomToken draw_token) (no_store (http_error ''entropy unavailable'' 503))) (\<lambda>invitationToken.
     let v = \<lparr>inv_ID = invitationID, inv_Tenant = oc_Tenant claim, inv_ClusterID = oc_ClusterID claim,
              inv_Region = oc_Region claim, inv_ExpiresAt = clock 1 + 15 * minute,
              inv_Capabilities = [''service'', ''quic-mtls''],
              inv_TokenHash = TokenHash (hs_crypto srv) invitationToken, inv_UsedAt = 0\<rparr> in
     and_then (on_error (\<lambda>_. no_store (http_error ''invitation creation failed; request a new link'' 503))
        (CreateInvitation ops v)) (\<lambda>_.
     give (no_store \<lparr>rs_Status = 200,
       rs_Headers = [(''Content-Type'', ''text/markdown; charset=utf-8''),
         (''Content-Disposition'', ''attachment; filename='' @ [CHR 0x22] @ ''among-clusters-''
            @ oc_ClusterID claim @ ''.md'' @ [CHR 0x22])],
       rs_Body = Doc (InstallMarkdown (installMarkdown srv claim invitationID invitationToken))\<rparr>)))))"

definition providerBundle :: "hub_server \<Rightarrow> (hub_response, hub_response, 's) prog" where
  "providerBundle srv =
     (let pem = on_ProviderBundlePEM (hs_Onboarding srv) in
      and_then (guard (pem = []) (http_error ''provider bundle unavailable'' 503)) (\<lambda>_.
      give \<lparr>rs_Status = 200, rs_Headers = [(''Cache-Control'', ''public, max-age=300''),
        (''Content-Type'', ''application/x-pem-file'')], rs_Body = Doc (BundlePEM pem)\<rparr>))"

definition getIdentity :: "'s store_ops \<Rightarrow> string \<Rightarrow> string \<Rightarrow> (hub_response, hub_response, 's) prog" where
  "getIdentity ops tenant i =
     and_then (on_error (\<lambda>_. http_error ''404 page not found'' 404) (Identity ops tenant i)) (\<lambda>ident.
     give (write_json 200 (IdentityFound ident)))"

section \<open>The request multiplexer\<close>

text \<open>
  A request of \<open>Handler()\<close>'s multiplexer with all the handler reads from outside: its path
  values, its decoded body, the random bytes and its clock.
\<close>

datatype hub_request =
    GetHealth
  | PostInvitation string "invitation_input option" "string option" "string option" "nat \<Rightarrow> time"
  | PostOnboardingLink string "link_input option" "string option" "string option" "nat \<Rightarrow> time"
  | PostOnboarding string string "string option" "string option" "nat \<Rightarrow> time"
  | GetProviderBundle
  | PostAccept string "invitation_acceptance option" "nat \<Rightarrow> time"
  | PostMessage string string "control_message option" "nat \<Rightarrow> time"
  | GetIdentity string string

fun hub_handler :: "hub_server \<Rightarrow> 's store_ops \<Rightarrow> hub_request \<Rightarrow> (hub_response, hub_response, 's) prog" where
  "hub_handler srv ops GetHealth = give \<lparr>rs_Status = 200, rs_Headers = [], rs_Body = NoBody\<rparr>"
| "hub_handler srv ops (PostInvitation a b d1 d2 clock) = createInvitation srv ops a b d1 d2 clock"
| "hub_handler srv ops (PostOnboardingLink a b d1 d2 clock) = createOnboardingLink srv ops a b d1 d2 clock"
| "hub_handler srv ops (PostOnboarding i token d1 d2 clock) = consumeOnboarding srv ops i token d1 d2 clock"
| "hub_handler srv ops GetProviderBundle = providerBundle srv"
| "hub_handler srv ops (PostAccept i b clock) = acceptInvitation srv ops i b clock"
| "hub_handler srv ops (PostMessage t i b clock) = controlMessage srv ops t i b clock"
| "hub_handler srv ops (GetIdentity t i) = getIdentity ops t i"

definition serve :: "hub_server \<Rightarrow> 's store_ops \<Rightarrow> hub_request \<Rightarrow> 's \<Rightarrow> hub_response \<times> 's" where
  "serve srv ops r = finish (hub_handler srv ops r)"

lemmas handler_unfold = createInvitation_def acceptInvitation_def apply_message_def verify_message_def
  controlMessage_def createOnboardingLink_def consumeOnboarding_def providerBundle_def getIdentity_def

lemma keeps_verify_message [keeps_intros]: "keeps P (verify_message srv m key now prev)"
  unfolding verify_message_def by (intro keeps_intros)

lemma keeps_apply_message [keeps_intros]:
  "store_keeps P ops \<Longrightarrow> keeps P (apply_message srv ops t i m clock)"
  unfolding apply_message_def Let_def by (intro keeps_intros)

text \<open>A predicate that the store's methods keep is kept by every request.\<close>

lemma hub_handler_keeps [keeps_intros]:
  assumes "store_keeps P ops"
  shows "keeps P (hub_handler srv ops r)"
proof (cases r)
  case (PostInvitation a b d1 d2 clock)
  then show ?thesis
    by (simp only: hub_handler.simps createInvitation_def Let_def) (intro keeps_intros assms)
next
  case (PostOnboardingLink a b d1 d2 clock)
  then show ?thesis
    by (simp only: hub_handler.simps createOnboardingLink_def Let_def) (intro keeps_intros assms)
next
  case (PostOnboarding i token d1 d2 clock)
  then show ?thesis
    by (simp only: hub_handler.simps consumeOnboarding_def Let_def) (intro keeps_intros assms)
next
  case (PostAccept i b clock)
  then show ?thesis
    by (simp only: hub_handler.simps acceptInvitation_def Let_def) (intro keeps_intros assms)
next
  case (PostMessage t i b clock)
  then show ?thesis
    by (simp only: hub_handler.simps controlMessage_def Let_def) (intro keeps_intros assms)
qed (simp_all only: hub_handler.simps providerBundle_def getIdentity_def Let_def,
    (intro keeps_intros assms)+)

section \<open>What the handlers guarantee over any store\<close>

lemma ttl_allowed_iff: "ttl_allowed ttl \<longleftrightarrow> 60 \<le> sint ttl \<and> sint ttl \<le> 86400"
  by (auto simp: ttl_allowed_def)

lemma ttl_duration: "ttl_allowed ttl \<Longrightarrow> go_seconds ttl = sint ttl * second"
  by (rule go_seconds_exact) (simp add: ttl_allowed_iff)

lemma verify_message_Inr [simp]:
  "verify_message srv m key now prev s = (Inr u, s') \<longleftrightarrow>
     Verify (hs_crypto srv) (hs_codec srv) m key ''hub'' now prev None = None \<and> s' = s"
  by (auto simp: verify_message_def split: option.splits)

text \<open>A handler's early response is an error response (or the drop after a panic).\<close>

definition error_response :: "hub_response \<Rightarrow> bool" where
  "error_response r \<longleftrightarrow> rs_Status r = 0 \<or> 400 \<le> rs_Status r"

lemma error_responses [raises_intros]:
  "400 \<le> n \<Longrightarrow> error_response (http_error m n)"
  "error_response (aborted m)"
  "error_response r \<Longrightarrow> error_response (no_store r)"
  by (simp_all add: error_response_def http_error_def aborted_def no_store_def)

lemma error_response_respond [raises_intros]:
  "(\<And>e. error_response (f e)) \<Longrightarrow> error_response (respond_error f e)"
  by (cases e) (auto intro: error_responses)

lemma raises_need [raises_intros]: "P e \<Longrightarrow> raises P (need x e)"
  by (cases x) (auto intro: raises_intros)

lemma error_response_claim [raises_intros]: "error_response (claim_error e)"
  by (simp add: claim_error_def error_response_def http_error_def no_store_def)

lemma raises_verify_message [raises_intros]: "raises error_response (verify_message srv m key now prev)"
  unfolding verify_message_def by (intro raises_intros) simp_all

lemma raises_apply_message [raises_intros]: "raises error_response (apply_message srv ops t i m clock)"
  unfolding apply_message_def Let_def by (intro raises_intros) simp_all

lemma hub_handler_raises: "raises error_response (hub_handler srv ops r)"
proof (cases r)
  case (PostInvitation a b d1 d2 clock)
  then show ?thesis
    by (simp only: hub_handler.simps createInvitation_def Let_def) (intro raises_intros, simp_all)
next
  case (PostOnboardingLink a b d1 d2 clock)
  then show ?thesis
    by (simp only: hub_handler.simps createOnboardingLink_def Let_def) (intro raises_intros, simp_all)
next
  case (PostOnboarding i token d1 d2 clock)
  then show ?thesis
    by (simp only: hub_handler.simps consumeOnboarding_def Let_def) (intro raises_intros, simp_all)
next
  case (PostAccept i b clock)
  then show ?thesis
    by (simp only: hub_handler.simps acceptInvitation_def Let_def) (intro raises_intros, simp_all)
next
  case (PostMessage t i b clock)
  then show ?thesis
    by (simp only: hub_handler.simps controlMessage_def Let_def) (intro raises_intros, simp_all)
next
  case GetProviderBundle
  then show ?thesis
    by (simp only: hub_handler.simps providerBundle_def Let_def) (intro raises_intros, simp_all)
next
  case (GetIdentity t i)
  then show ?thesis
    by (simp only: hub_handler.simps getIdentity_def Let_def) (intro raises_intros, simp_all)
qed (simp add: raises_give)

lemma serve_success:
  assumes "serve srv ops r s = (resp, s')" and "\<not> error_response resp"
  shows "hub_handler srv ops r s = (Inr resp, s')"
  using assms raisesD [OF hub_handler_raises [of srv ops r]]
  by (auto simp: serve_def finish_def split: prod.splits sum.splits)

end
