(* ===== verification/Memory_Store.thy ===== *)
theory Memory_Store
  imports Sovereign_Store
begin

text \<open>
  \<open>MemorySovereignStore\<close> of \<open>internal/api/sovereign_store.go\<close>: its maps as a record, one
  definition per method (each holds the store's mutex, so it is one atomic step), the record
  of its methods, and its proof of the store contract.
\<close>

section \<open>State and methods\<close>

record mem_store =
  ms_Invitations :: "string \<rightharpoonup> invitation"
  ms_Identities :: "string \<rightharpoonup> identity_registration"
  ms_Generations :: "string \<rightharpoonup> u64"
  ms_Nonces :: "string \<rightharpoonup> string set"
  ms_Links :: "string \<rightharpoonup> link_observation"
  ms_Advertisements :: "string \<rightharpoonup> advertised_service list"
  ms_OnboardingClaims :: "string \<rightharpoonup> onboarding_claim"

definition NewMemorySovereignStore :: mem_store where
  "NewMemorySovereignStore = \<lparr>ms_Invitations = Map.empty, ms_Identities = Map.empty,
     ms_Generations = Map.empty, ms_Nonces = Map.empty, ms_Links = Map.empty,
     ms_Advertisements = Map.empty, ms_OnboardingClaims = Map.empty\<rparr>"

definition slash_key :: "string \<Rightarrow> string \<Rightarrow> string" where
  "slash_key tenant name = tenant @ ''/'' @ name"

definition mem_CreateOnboardingClaim :: "onboarding_claim \<Rightarrow> (go_error, unit, mem_store) prog" where
  "mem_CreateOnboardingClaim v s =
     (if ms_OnboardingClaims s (oc_ID v) \<noteq> None then (Inl (Msg ''claim exists''), s)
      else (Inr (), s\<lparr>ms_OnboardingClaims := (ms_OnboardingClaims s)(oc_ID v \<mapsto> v)\<rparr>))"

definition mem_ConsumeOnboardingClaim ::
    "string \<Rightarrow> string \<Rightarrow> string \<Rightarrow> time \<Rightarrow> (go_error, onboarding_claim, mem_store) prog" where
  "mem_ConsumeOnboardingClaim tenant i hash now s =
     (case ms_OnboardingClaims s i of
        None \<Rightarrow> (Inl (Msg ''invalid claim''), s)
      | Some v \<Rightarrow>
          if oc_TokenHash v \<noteq> hash then (Inl (Msg ''invalid claim''), s)
          else if oc_Tenant v \<noteq> tenant then (Inl (Msg ''invalid claim''), s)
          else if \<not> IsZero (oc_UsedAt v) then (Inl (Msg ''claim already used''), s)
          else if \<not> Before now (oc_ExpiresAt v) then (Inl (Msg ''claim expired''), s)
          else (let v' = v\<lparr>oc_UsedAt := now\<rparr>
                in (Inr v', s\<lparr>ms_OnboardingClaims := (ms_OnboardingClaims s)(i \<mapsto> v')\<rparr>)))"

definition mem_CreateInvitation :: "invitation \<Rightarrow> (go_error, unit, mem_store) prog" where
  "mem_CreateInvitation v s =
     (if ms_Invitations s (inv_ID v) \<noteq> None then (Inl (Msg ''invitation exists''), s)
      else (Inr (), s\<lparr>ms_Invitations := (ms_Invitations s)(inv_ID v \<mapsto> v)\<rparr>))"

definition mem_ConsumeInvitation ::
    "string \<Rightarrow> string \<Rightarrow> string \<Rightarrow> string \<Rightarrow> string list \<Rightarrow> time \<Rightarrow> (go_error, invitation, mem_store) prog" where
  "mem_ConsumeInvitation i hash tenant clusterID requested now s =
     (case ms_Invitations s i of
        None \<Rightarrow> (Inl (Msg ''invalid invitation''), s)
      | Some v \<Rightarrow>
          if inv_TokenHash v \<noteq> hash then (Inl (Msg ''invalid invitation''), s)
          else if inv_Tenant v \<noteq> tenant then (Inl (Msg ''tenant mismatch''), s)
          else if inv_ClusterID v \<noteq> [] \<and> inv_ClusterID v \<noteq> clusterID then (Inl (Msg ''cluster mismatch''), s)
          else if \<not> IsZero (inv_UsedAt v) then (Inl (Msg ''invitation already used''), s)
          else if \<not> Before now (inv_ExpiresAt v) then (Inl (Msg ''invitation expired''), s)
          else if \<not> capabilitiesAllowed (inv_Capabilities v) requested
            then (Inl (Msg ''capability not invited''), s)
          else (let v' = v\<lparr>inv_UsedAt := now\<rparr>
                in (Inr v', s\<lparr>ms_Invitations := (ms_Invitations s)(i \<mapsto> v')\<rparr>)))"

definition mem_RegisterIdentity :: "identity_registration \<Rightarrow> (go_error, unit, mem_store) prog" where
  "mem_RegisterIdentity v s =
     (let key = slash_key (id_Tenant v) (id_ClusterID v) in
      if ms_Identities s key \<noteq> None then (Inl (Msg ''identity exists''), s)
      else (Inr (), s\<lparr>ms_Identities := (ms_Identities s)(key \<mapsto> v)\<rparr>))"

definition mem_Identity :: "string \<Rightarrow> string \<Rightarrow> (go_error, identity_registration, mem_store) prog" where
  "mem_Identity tenant i s =
     (case ms_Identities s (slash_key tenant i) of
        None \<Rightarrow> (Inl (Msg ''identity not found''), s)
      | Some v \<Rightarrow> (Inr v, s))"

definition mem_LastGeneration :: "string \<Rightarrow> string \<Rightarrow> (go_error, u64, mem_store) prog" where
  "mem_LastGeneration tenant i s = (Inr (map_get 0 (ms_Generations s) (slash_key tenant i)), s)"

definition mem_RecordGeneration :: "string \<Rightarrow> string \<Rightarrow> u64 \<Rightarrow> string \<Rightarrow> (go_error, unit, mem_store) prog" where
  "mem_RecordGeneration tenant i g nonce s =
     (let key = slash_key tenant i in
      if g \<le> map_get 0 (ms_Generations s) key then (Inl (Msg ''replayed generation''), s)
      else
        (let s1 = (if ms_Nonces s key = None then s\<lparr>ms_Nonces := (ms_Nonces s)(key \<mapsto> {})\<rparr> else s);
             seen = map_get {} (ms_Nonces s1) key
         in if nonce \<in> seen then (Inl (Msg ''replayed nonce''), s1)
            else (Inr (), s1\<lparr>ms_Generations := (ms_Generations s1)(key \<mapsto> g),
                             ms_Nonces := (ms_Nonces s1)(key \<mapsto> insert nonce seen)\<rparr>)))"

definition mem_ConfirmPeerBundle ::
    "string \<Rightarrow> string \<Rightarrow> bundle_confirmation \<Rightarrow> (go_error, unit, mem_store) prog" where
  "mem_ConfirmPeerBundle tenant issuer confirmation s =
     (if bc_PeerRef confirmation = [] \<or> bc_BundleDigest confirmation = []
      then (Inl (Msg ''invalid bundle confirmation''), s) else (Inr (), s))"

definition mem_ObserveLink :: "string \<Rightarrow> string \<Rightarrow> link_observation \<Rightarrow> (go_error, unit, mem_store) prog" where
  "mem_ObserveLink tenant issuer observation s =
     (if lo_LinkRef observation = [] \<or> lo_PeerRef observation = []
      then (Inl (Msg ''invalid link observation''), s)
      else (Inr (), s\<lparr>ms_Links := (ms_Links s)(slash_key tenant (lo_LinkRef observation) \<mapsto> observation)\<rparr>))"

definition mem_SyncAdvertisements ::
    "string \<Rightarrow> string \<Rightarrow> advertised_service list \<Rightarrow> time \<Rightarrow> (go_error, unit, mem_store) prog" where
  "mem_SyncAdvertisements tenant issuer services now s =
     (Inr (), s\<lparr>ms_Advertisements := (ms_Advertisements s)(slash_key tenant issuer \<mapsto> services)\<rparr>)"

definition mem_PendingGrants ::
    "string \<Rightarrow> string \<Rightarrow> time \<Rightarrow> (go_error, grant_instruction list, mem_store) prog" where
  "mem_PendingGrants tenant issuer now s = (Inr [], s)"

definition mem_FulfillGrant :: "string \<Rightarrow> string \<Rightarrow> grant_fulfillment \<Rightarrow> (go_error, unit, mem_store) prog" where
  "mem_FulfillGrant tenant issuer value s = (Inr (), s)"

definition mem_ops :: "mem_store store_ops" where
  "mem_ops = \<lparr>CreateOnboardingClaim = mem_CreateOnboardingClaim,
     ConsumeOnboardingClaim = mem_ConsumeOnboardingClaim,
     CreateInvitation = mem_CreateInvitation, ConsumeInvitation = mem_ConsumeInvitation,
     RegisterIdentity = mem_RegisterIdentity, Identity = mem_Identity,
     LastGeneration = mem_LastGeneration, RecordGeneration = mem_RecordGeneration,
     ConfirmPeerBundle = mem_ConfirmPeerBundle, ObserveLink = mem_ObserveLink,
     SyncAdvertisements = mem_SyncAdvertisements, PendingGrants = mem_PendingGrants,
     FulfillGrant = mem_FulfillGrant\<rparr>"

lemmas mem_defs = mem_CreateOnboardingClaim_def mem_ConsumeOnboardingClaim_def mem_CreateInvitation_def
  mem_ConsumeInvitation_def mem_RegisterIdentity_def mem_Identity_def mem_LastGeneration_def
  mem_RecordGeneration_def mem_ConfirmPeerBundle_def mem_ObserveLink_def mem_SyncAdvertisements_def
  mem_PendingGrants_def mem_FulfillGrant_def

section \<open>The store contract\<close>

definition mem_gen :: "mem_store \<Rightarrow> string \<times> string \<Rightarrow> u64" where
  "mem_gen s k = map_get 0 (ms_Generations s) (slash_key (fst k) (snd k))"

definition mem_inv_spent :: "mem_store \<Rightarrow> string \<times> string \<Rightarrow> bool" where
  "mem_inv_spent s k \<longleftrightarrow> (case ms_Invitations s (snd k) of None \<Rightarrow> False | Some v \<Rightarrow> \<not> IsZero (inv_UsedAt v))"

definition mem_claim_spent :: "mem_store \<Rightarrow> string \<times> string \<Rightarrow> bool" where
  "mem_claim_spent s k \<longleftrightarrow>
     (case ms_OnboardingClaims s (snd k) of None \<Rightarrow> False | Some v \<Rightarrow> \<not> IsZero (oc_UsedAt v))"

lemma mem_keeps_gen: "store_keeps (\<lambda>s. g \<le> mem_gen s k) mem_ops"
  unfolding store_keeps_def mem_ops_def
  by (auto simp: keeps_def mem_defs mem_gen_def Let_def split: option.splits)

lemma mem_keeps_inv_spent: "store_keeps (\<lambda>s. mem_inv_spent s k) mem_ops"
  unfolding store_keeps_def mem_ops_def
  by (auto simp: keeps_def mem_defs mem_inv_spent_def Let_def split: option.splits)

lemma mem_keeps_claim_spent: "store_keeps (\<lambda>s. mem_claim_spent s k) mem_ops"
  unfolding store_keeps_def mem_ops_def
  by (auto simp: keeps_def mem_defs mem_claim_spent_def Let_def split: option.splits)

lemma mem_RecordGeneration_Inr:
  "mem_RecordGeneration t i g n s = (Inr u, s') \<Longrightarrow> mem_gen s (t, i) < g \<and> mem_gen s' (t, i) = g"
  by (auto simp: mem_RecordGeneration_def mem_gen_def Let_def split: if_splits)

interpretation mem: sovereign_store mem_ops mem_gen mem_inv_spent mem_claim_spent
proof unfold_locales
  fix t i g n s u s'
  assume "RecordGeneration mem_ops t i g n s = (Inr u, s')"
  then show "mem_gen s (t, i) < g \<and> g \<le> mem_gen s' (t, i)"
    using mem_RecordGeneration_Inr by (auto simp: mem_ops_def)
next
  fix now i h t c r s v s'
  assume "now \<noteq> 0" and "ConsumeInvitation mem_ops i h t c r now s = (Inr v, s')"
  then show "\<not> mem_inv_spent s (t, i) \<and> mem_inv_spent s' (t, i)"
    by (auto simp: mem_ops_def mem_ConsumeInvitation_def mem_inv_spent_def IsZero_def Let_def
        split: option.splits if_splits)
next
  fix now t i h s w s'
  assume "now \<noteq> 0" and "ConsumeOnboardingClaim mem_ops t i h now s = (Inr w, s')"
  then show "\<not> mem_claim_spent s (t, i) \<and> mem_claim_spent s' (t, i)"
    by (auto simp: mem_ops_def mem_ConsumeOnboardingClaim_def mem_claim_spent_def IsZero_def Let_def
        split: option.splits if_splits)
qed (rule mem_keeps_gen mem_keeps_inv_spent mem_keeps_claim_spent)+

section \<open>Properties\<close>

text \<open>The conditions under which an invitation can be consumed, in the words of the trust model.\<close>

definition invitation_admits ::
    "invitation \<Rightarrow> string \<Rightarrow> string \<Rightarrow> string \<Rightarrow> string list \<Rightarrow> time \<Rightarrow> bool" where
  "invitation_admits v hash tenant clusterID requested now \<longleftrightarrow>
     inv_TokenHash v = hash \<and> inv_Tenant v = tenant \<and> inv_ClusterID v \<in> {[], clusterID} \<and>
     inv_UsedAt v = 0 \<and> now < inv_ExpiresAt v \<and> set requested \<subseteq> set (inv_Capabilities v)"

lemma mem_ConsumeInvitation_Inl:
  "mem_ConsumeInvitation i h t c r now s = (Inl e, s') \<Longrightarrow>
     s' = s \<and> (\<forall>v. ms_Invitations s i = Some v \<longrightarrow> \<not> invitation_admits v h t c r now)"
  by (auto simp: mem_ConsumeInvitation_def invitation_admits_def capabilitiesAllowed_iff IsZero_def
      Before_def Let_def split: option.splits if_splits)

lemma mem_ConsumeInvitation_Inr:
  "mem_ConsumeInvitation i h t c r now s = (Inr w, s') \<longleftrightarrow>
     (\<exists>v. ms_Invitations s i = Some v \<and> invitation_admits v h t c r now \<and> w = v\<lparr>inv_UsedAt := now\<rparr> \<and>
        s' = s\<lparr>ms_Invitations := (ms_Invitations s)(i \<mapsto> w)\<rparr>)"
  by (auto simp: mem_ConsumeInvitation_def invitation_admits_def capabilitiesAllowed_iff IsZero_def
      Before_def Let_def split: option.splits if_splits)

text \<open>
  In the in-memory store an invitation is consumed exactly when it exists under the given
  identifier, its token hash and tenant match, it is not bound to another cluster, it is
  unused and not expired, and every requested capability was invited; a refused attempt leaves
  the whole store as it was, so a rejected request does not use the invitation up.
\<close>

theorem mem_ConsumeInvitation_correct:
  "case mem_ConsumeInvitation i h t c r now s of
     (Inl e, s') \<Rightarrow> s' = s \<and> \<not> (\<exists>v. ms_Invitations s i = Some v \<and> invitation_admits v h t c r now)
   | (Inr w, s') \<Rightarrow> (\<exists>v. ms_Invitations s i = Some v \<and> invitation_admits v h t c r now \<and>
       w = v\<lparr>inv_UsedAt := now\<rparr>) \<and> s' = s\<lparr>ms_Invitations := (ms_Invitations s)(i \<mapsto> w)\<rparr>"
  using mem_ConsumeInvitation_Inl [of i h t c r now s] mem_ConsumeInvitation_Inr [of i h t c r now s]
  by (force split: prod.splits sum.splits)

text \<open>
  In any sequence of calls of the store's methods, from any state and in any order, each
  invitation is consumed successfully at most once (for a clock that does not show Go's zero
  time).
\<close>

theorem mem_invitation_at_most_once:
  "distinct (List.map_filter invitation_key (successes cs (fst (run_calls (do_call mem_ops) cs s))))"
  using mem.invs.at_most_once by (metis prod.collapse)

text \<open>
  The same for onboarding claims: a claim link works once.
\<close>

theorem mem_claim_at_most_once:
  "distinct (List.map_filter claim_key (successes cs (fst (run_calls (do_call mem_ops) cs s))))"
  using mem.claims.at_most_once by (metis prod.collapse)

text \<open>
  In any sequence of calls, the generations recorded for one identity are strictly
  increasing: a generation that was accepted, or a lower one, is never accepted again.
\<close>

theorem mem_generations_increase:
  "sorted_wrt (<) (accepted generation_key (t, i) cs (fst (run_calls (do_call mem_ops) cs s)))"
  using mem.gens.accepted_increasing by (metis prod.collapse)

text \<open>
  The consistency of the store's maps: an entry is filed under its own identifier (a claim and
  an invitation under its ID, an identity under its tenant and cluster), and an identity has a
  recorded generation exactly when it has seen nonces.
\<close>

definition mem_wf :: "mem_store \<Rightarrow> bool" where
  "mem_wf s \<longleftrightarrow>
     (\<forall>k v. ms_Invitations s k = Some v \<longrightarrow> inv_ID v = k) \<and>
     (\<forall>k v. ms_OnboardingClaims s k = Some v \<longrightarrow> oc_ID v = k) \<and>
     (\<forall>k v. ms_Identities s k = Some v \<longrightarrow> k = slash_key (id_Tenant v) (id_ClusterID v)) \<and>
     (\<forall>k. map_get 0 (ms_Generations s) k = 0 \<longleftrightarrow> map_get {} (ms_Nonces s) k = {})"

lemma mem_RecordGeneration_cases:
  obtains e s' where "mem_RecordGeneration t i g n s = (Inl e, s')"
      "map_get {} (ms_Nonces s') = map_get {} (ms_Nonces s)" "ms_Generations s' = ms_Generations s"
      "ms_Invitations s' = ms_Invitations s" "ms_OnboardingClaims s' = ms_OnboardingClaims s"
      "ms_Identities s' = ms_Identities s"
  | s' where "mem_RecordGeneration t i g n s = (Inr (), s')" "g \<noteq> 0"
      "map_get {} (ms_Nonces s') = (map_get {} (ms_Nonces s))
         (slash_key t i := insert n (map_get {} (ms_Nonces s) (slash_key t i)))"
      "ms_Generations s' = (ms_Generations s)(slash_key t i \<mapsto> g)"
      "ms_Invitations s' = ms_Invitations s" "ms_OnboardingClaims s' = ms_OnboardingClaims s"
      "ms_Identities s' = ms_Identities s"
proof -
  let ?s = "snd (mem_RecordGeneration t i g n s)"
  show thesis
  proof (cases "fst (mem_RecordGeneration t i g n s)")
    case (Inl e)
    show thesis
      by (rule that(1) [of e ?s])
        (use Inl in \<open>auto simp: mem_RecordGeneration_def Let_def map_get_def fun_eq_iff
           split: if_splits\<close>)
  next
    case (Inr u)
    show thesis
      by (rule that(2) [of ?s])
        (use Inr in \<open>auto simp: mem_RecordGeneration_def Let_def map_get_def fun_eq_iff
           split: if_splits\<close>)
  qed
qed

lemma mem_reads:
  "keeps P (mem_Identity t i)" "keeps P (mem_LastGeneration t i)"
  "keeps P (mem_ConfirmPeerBundle t i b)" "keeps P (mem_PendingGrants t i now)"
  "keeps P (mem_FulfillGrant t i f)"
  by (auto simp: keeps_def mem_defs split: option.splits)

lemma mem_wf_kept: "store_keeps mem_wf mem_ops"
proof -
  have "keeps mem_wf (mem_CreateOnboardingClaim v)" for v
    by (auto simp: keeps_def mem_defs mem_wf_def)
  moreover have "keeps mem_wf (mem_ConsumeOnboardingClaim t i h now)" for t i h now
    by (auto simp: keeps_def mem_defs mem_wf_def Let_def split: option.splits)
  moreover have "keeps mem_wf (mem_CreateInvitation v)" for v
    by (auto simp: keeps_def mem_defs mem_wf_def)
  moreover have "keeps mem_wf (mem_ConsumeInvitation i h t c r now)" for i h t c r now
    by (auto simp: keeps_def mem_defs mem_wf_def Let_def split: option.splits)
  moreover have "keeps mem_wf (mem_RegisterIdentity v)" for v
    by (auto simp: keeps_def mem_defs mem_wf_def Let_def)
  moreover have "keeps mem_wf (mem_RecordGeneration t i g n)" for t i g n
  proof (rule keepsI)
    fix s assume "mem_wf s"
    then show "mem_wf (snd (mem_RecordGeneration t i g n s))"
      by (cases rule: mem_RecordGeneration_cases [of t i g n s]) (auto simp: mem_wf_def)
  qed
  moreover have "keeps mem_wf (mem_ObserveLink t i l)"
    and "keeps mem_wf (mem_SyncAdvertisements t i ss now)" for t i l ss now
    by (auto simp: keeps_def mem_defs mem_wf_def)
  ultimately show ?thesis
    by (simp add: store_keeps_def mem_ops_def mem_reads)
qed

text \<open>
  The maps of the store stay consistent under every sequence of calls from the new store.
\<close>

theorem mem_wf_reachable: "mem_wf (snd (run_calls (do_call mem_ops) cs NewMemorySovereignStore))"
proof (rule run_calls_keeps)
  show "keeps mem_wf (do_call mem_ops c)" for c
    by (intro keeps_intros mem_wf_kept)
  show "mem_wf NewMemorySovereignStore"
    by (simp add: mem_wf_def NewMemorySovereignStore_def)
qed

end
