(* ===== verification/Hub_Service.thy ===== *)
theory Hub_Service
  imports Hub_Server Memory_Store
begin

text \<open>
  The Hub as a service: what its handlers guarantee over any store (authentication of control
  messages, admin gate, lifetimes of invitations), and, in the locale \<open>hub_service\<close>, over any
  store that keeps the store contract (no replay of a generation, no second use of an
  invitation or a claim, through any sequence of HTTP requests). Interpreted on the in-memory
  store.
\<close>

section \<open>Control messages over any store\<close>

lemma controlMessage_Inr:
  "controlMessage srv ops t i body clock s = (Inr r, s') \<longleftrightarrow>
     (\<exists>ident s1 m key prev s2 grants s3.
        Identity ops t i s = (Inr ident, s1) \<and> body = Some m \<and>
        RawStd_Decode (id_PublicKey ident) = Some key \<and>
        LastGeneration ops t i s1 = (Inr prev, s2) \<and>
        Verify (hs_crypto srv) (hs_codec srv) m key ''hub'' (clock 0) prev None = None \<and>
        cm_Issuer m = id_SPIFFEID ident \<and> \<not> HasPrefix (cm_Type m) ''route.'' \<and>
        apply_message srv ops t i m clock s2 = (Inr grants, s3) \<and>
        RecordGeneration ops t i (cm_Generation m) (cm_Nonce m) s3 = (Inr (), s') \<and>
        r = accepted_response m grants)"
  unfolding controlMessage_def by (auto simp: and_then_Inr_iff)

text \<open>
  C1: whatever the store does, the Hub answers a control message with success only if the
  message decodes, the sender's identity is registered, the message verifies under the
  registered key for the audience "hub" at the Hub's clock with a generation above the last
  one, its issuer is the registered SPIFFE identity and its type is not a route message; the
  effect of the message and the recording of its generation then both succeeded.
\<close>

theorem controlMessage_authentic:
  assumes "serve srv ops (PostMessage t i body clock) s = (r, s')" and "rs_Status r \<in> {200..<300}"
  shows "\<exists>m ident key prev s1 s2 grants s3.
    body = Some m \<and> Identity ops t i s = (Inr ident, s1) \<and> LastGeneration ops t i s1 = (Inr prev, s2) \<and>
    RawStd_Decode (id_PublicKey ident) = Some key \<and>
    cm_Audience m = ''hub'' \<and> cm_Issuer m = id_SPIFFEID ident \<and> prev < cm_Generation m \<and>
    message_window m (clock 0) \<and> authentic (hs_crypto srv) (hs_codec srv) m key \<and>
    \<not> HasPrefix (cm_Type m) ''route.'' \<and> apply_message srv ops t i m clock s2 = (Inr grants, s3) \<and>
    RecordGeneration ops t i (cm_Generation m) (cm_Nonce m) s3 = (Inr (), s')"
proof -
  have "\<not> error_response r"
    using assms(2) by (auto simp: error_response_def)
  from serve_success [OF assms(1) this] show ?thesis
    by (auto simp: controlMessage_Inr Verify_None_iff)
qed

definition demo_server :: hub_server where
  "demo_server = \<lparr>hs_AdminToken = ''admin'',
     hs_Onboarding = \<lparr>on_PublicEndpoint = ''https://hub/'', on_Tenant = ''pilot'', on_ProviderSPIFFEID = [],
       on_ProviderBundleDigest = [], on_ProviderQUICEndpoint = [], on_ImageDigest = [],
       on_ChartVersion = [], on_ProviderBundlePEM = []\<rparr>,
     hs_crypto = demo_crypto, hs_codec = demo_codec\<rparr>"

definition demo_registered :: mem_store where
  "demo_registered = NewMemorySovereignStore\<lparr>ms_Identities :=
     [slash_key ''t'' ''c'' \<mapsto> demo_identity\<lparr>id_SPIFFEID := ''spiffe://d/cluster/c'',
        id_PublicKey := RawStd_Encode (demo_key ''priv'')\<rparr>]\<rparr>"

definition demo_signed :: control_message where
  "demo_signed = demo_message\<lparr>cm_Signature := RawStd_Encode (demo_key ''priv'' @ ''identity.heartbeat'')\<rparr>"

lemma demo_Verify:
  "prev < 5 \<Longrightarrow> Verify demo_crypto demo_codec demo_signed (demo_key ''priv'') ''hub'' (20 * second) prev None = None"
  by (simp add: Verify_None_iff demo_signed_def demo_message_def message_window_def Before_def
      authentic_def canonical_def demo_codec_def ed25519_Verify_def) (simp add: demo_crypto_def)

lemma demo_accepted:
  "fst (serve demo_server mem_ops (PostMessage ''t'' ''c'' (Some demo_signed) (\<lambda>_. 20 * second)) demo_registered)
     = accepted_response demo_signed None"
proof -
  have "\<not> HasPrefix (cm_Type demo_signed) ''route.''"
    "apply_message demo_server mem_ops ''t'' ''c'' demo_signed (\<lambda>_. 20 * second) s = (Inr None, s)" for s
    by (simp_all add: demo_signed_def demo_message_def HasPrefix_def apply_message_def)
  moreover have "cm_Issuer demo_signed = ''spiffe://d/cluster/c''" "cm_Generation demo_signed = 5"
    by (simp_all add: demo_signed_def demo_message_def)
  ultimately have "\<exists>s'. controlMessage demo_server mem_ops ''t'' ''c'' (Some demo_signed) (\<lambda>_. 20 * second)
      demo_registered = (Inr (accepted_response demo_signed None), s')"
    by (simp add: controlMessage_Inr mem_ops_def mem_Identity_def demo_registered_def
        mem_LastGeneration_def NewMemorySovereignStore_def demo_server_def demo_Verify [simplified]
        mem_RecordGeneration_def Let_def)
  then show ?thesis
    by (auto simp: serve_def finish_def)
qed

theorem controlMessage_authentic_witness:
  "\<exists>m. cm_Issuer m = ''spiffe://d/cluster/c'' \<and> authentic demo_crypto demo_codec m (demo_key ''priv'') \<and>
     rs_Status (fst (serve demo_server mem_ops (PostMessage ''t'' ''c'' (Some m) (\<lambda>_. 20 * second)) demo_registered)) = 202"
proof -
  obtain r s' where r: "serve demo_server mem_ops (PostMessage ''t'' ''c'' (Some demo_signed)
      (\<lambda>_. 20 * second)) demo_registered = (r, s')"
    by fastforce
  with demo_accepted have st: "rs_Status r = 202"
    by (simp add: accepted_response_def)
  then have "rs_Status r \<in> {200..<300}"
    by simp
  from controlMessage_authentic [OF r this] show ?thesis
    using r st by (auto simp: mem_ops_def mem_Identity_def demo_registered_def demo_server_def
        NewMemorySovereignStore_def intro!: exI [of _ demo_signed])
qed

section \<open>The admin gate and the lifetime of invitations\<close>

text \<open>
  C31: without the configured admin token (in particular, when none is configured) a request to
  create an invitation or an onboarding link is answered 401 and leaves the store as it was.
\<close>

theorem admin_gate:
  assumes "\<not> (hs_AdminToken srv \<noteq> [] \<and> authorization = ''Bearer '' @ hs_AdminToken srv)"
  shows "serve srv ops (PostInvitation authorization b1 d1 d2 clock) s = (http_error ''unauthorized'' 401, s) \<and>
    serve srv ops (PostOnboardingLink authorization b2 d1 d2 clock) s = (http_error ''unauthorized'' 401, s)"
proof -
  have "\<not> admin_request srv authorization"
    using assms by (simp add: admin_request_def)
  then show ?thesis
    by (simp add: serve_def finish_def createInvitation_def createOnboardingLink_def Let_def)
qed

theorem admin_gate_witness:
  "serve (demo_server\<lparr>hs_AdminToken := []\<rparr>) mem_ops (PostInvitation ''Bearer '' None None None (\<lambda>_. 0))
     NewMemorySovereignStore = (http_error ''unauthorized'' 401, NewMemorySovereignStore)"
  using admin_gate [of "demo_server\<lparr>hs_AdminToken := []\<rparr>" "''Bearer ''" mem_ops None None None "\<lambda>_. 0"
      NewMemorySovereignStore None] by simp

lemma createInvitation_Inr:
  "createInvitation srv ops a body d1 d2 clock s = (Inr r, s') \<longleftrightarrow>
     (\<exists>input i token ttl v. admin_request srv a \<and> body = Some input \<and> ii_Tenant input \<noteq> [] \<and>
        ttl = effective_ttl 900 (ii_TTLSeconds input) \<and> ttl_allowed ttl \<and>
        RandomID d1 = Some i \<and> RandomToken d2 = Some token \<and>
        v = \<lparr>inv_ID = i, inv_Tenant = ii_Tenant input, inv_ClusterID = [], inv_Region = [],
             inv_ExpiresAt = clock 0 + go_seconds ttl, inv_Capabilities = ii_Capabilities input,
             inv_TokenHash = TokenHash (hs_crypto srv) token, inv_UsedAt = 0\<rparr> \<and>
        CreateInvitation ops v s = (Inr (), s') \<and>
        r = write_json 201 (InvitationCreated i token (inv_ExpiresAt v)))"
  unfolding createInvitation_def Let_def by (auto simp: and_then_Inr_iff)

text \<open>
  C30: what a successful request for an invitation has done: it has stored exactly one invitation,
  for the tenant and with the capabilities that were asked for, for any cluster and region, unused,
  under the drawn identifier, with the hash of the drawn token (the token itself is only in the
  answer), expiring after the lifetime that was asked for, 15 minutes if none was. The lifetime is
  between a minute and a day, and its product with a second does not overflow.
\<close>

theorem createInvitation_bounded:
  assumes "serve srv ops (PostInvitation a body d1 d2 clock) s = (r, s')" and "rs_Status r = 201"
  shows "\<exists>input id_bytes token_bytes life v. body = Some input \<and> d1 = Some id_bytes \<and> d2 = Some token_bytes \<and> ii_Tenant input \<noteq> [] \<and>
    life = (if ii_TTLSeconds input = 0 then 900 else sint (ii_TTLSeconds input)) \<and> 60 \<le> life \<and> life \<le> 86400 \<and>
    v = \<lparr>inv_ID = hex_encode id_bytes, inv_Tenant = ii_Tenant input, inv_ClusterID = [], inv_Region = [],
      inv_ExpiresAt = clock 0 + life * second, inv_Capabilities = ii_Capabilities input,
      inv_TokenHash = TokenHash (hs_crypto srv) (RawURL_Encode token_bytes), inv_UsedAt = 0\<rparr> \<and>
    CreateInvitation ops v s = (Inr (), s') \<and>
    rs_Body r = Doc (InvitationCreated (inv_ID v) (RawURL_Encode token_bytes) (inv_ExpiresAt v))"
proof -
  have "\<not> error_response r"
    using assms(2) by (simp add: error_response_def)
  from serve_success [OF assms(1) this]
  have "createInvitation srv ops a body d1 d2 clock s = (Inr r, s')"
    by simp
  then obtain input :: invitation_input and i token ttl v where
    input: "body = Some input" "ii_Tenant input \<noteq> []" "ttl = effective_ttl 900 (ii_TTLSeconds input)" "ttl_allowed ttl"
      "RandomID d1 = Some i" "RandomToken d2 = Some token"
    and v: "v = \<lparr>inv_ID = i, inv_Tenant = ii_Tenant input, inv_ClusterID = [], inv_Region = [],
         inv_ExpiresAt = clock 0 + go_seconds ttl, inv_Capabilities = ii_Capabilities input,
         inv_TokenHash = TokenHash (hs_crypto srv) token, inv_UsedAt = 0\<rparr>"
      "CreateInvitation ops v s = (Inr (), s')"
      "r = write_json 201 (InvitationCreated i token (inv_ExpiresAt v))"
    unfolding createInvitation_Inr by (elim exE conjE) (rule that, assumption+)
  from input(5,6) obtain id_bytes token_bytes where draws: "d1 = Some id_bytes" "i = hex_encode id_bytes"
    "d2 = Some token_bytes" "token = RawURL_Encode token_bytes"
    by (auto simp: RandomID_def RandomToken_def split: option.splits)
  have "go_seconds ttl = sint ttl * second" "60 \<le> sint ttl" "sint ttl \<le> 86400"
    and "sint ttl = (if ii_TTLSeconds input = 0 then 900 else sint (ii_TTLSeconds input))"
    using input(3,4) ttl_duration [of ttl] by (simp_all add: ttl_allowed_iff effective_ttl_def)
  with v input(1,2) draws show ?thesis
    by (intro exI [of _ input] exI [of _ id_bytes] exI [of _ token_bytes] exI [of _ "sint ttl"] exI [of _ v]) (simp add: write_json_def)
qed

theorem createInvitation_bounded_witness:
  "\<exists>v. CreateInvitation mem_ops v NewMemorySovereignStore = (Inr (),
       snd (serve demo_server mem_ops (PostInvitation ''Bearer admin''
         (Some \<lparr>ii_Tenant = ''a'', ii_TTLSeconds = 300, ii_Capabilities = []\<rparr>) (Some ''12'') (Some ''tok'') (\<lambda>_. 7))
         NewMemorySovereignStore)) \<and> inv_UsedAt v = 0 \<and> inv_Tenant v = ''a'' \<and> inv_ExpiresAt v = 7 + 300 * second"
proof -
  let ?req = "PostInvitation ''Bearer admin'' (Some \<lparr>ii_Tenant = ''a'', ii_TTLSeconds = 300,
    ii_Capabilities = []\<rparr>) (Some ''12'') (Some ''tok'') (\<lambda>_. 7)"
  obtain r s' where r: "serve demo_server mem_ops ?req NewMemorySovereignStore = (r, s')"
    by fastforce
  moreover have "rs_Status (fst (serve demo_server mem_ops ?req NewMemorySovereignStore)) = 201"
    by (simp add: serve_def finish_def createInvitation_def demo_server_def admin_request_def Let_def
        effective_ttl_def ttl_allowed_def RandomID_def RandomToken_def mem_ops_def prog_simps
        mem_CreateInvitation_def NewMemorySovereignStore_def write_json_def)
  ultimately have "rs_Status r = 201" by simp
  from createInvitation_bounded [OF r this] show ?thesis
    using r by auto
qed

section \<open>The service over a store that keeps the contract\<close>

text \<open>
  What a request spends or records when it succeeds: an accepted invitation (under the tenant
  the request names), a consumed onboarding claim, a recorded generation.
\<close>

fun accept_key :: "hub_request \<Rightarrow> (string \<times> string) option" where
  "accept_key (PostAccept i (Some a) clock) =
     (if clock 0 = 0 then None else Some (id_Tenant (ia_Identity a), i))"
| "accept_key _ = None"

fun link_key :: "hub_server \<Rightarrow> hub_request \<Rightarrow> (string \<times> string) option" where
  "link_key srv (PostOnboarding i token d1 d2 clock) =
     (if clock 0 = 0 then None else Some (on_Tenant (hs_Onboarding srv), i))"
| "link_key srv _ = None"

fun message_key :: "hub_request \<Rightarrow> ((string \<times> string) \<times> u64) option" where
  "message_key (PostMessage t i (Some m) clock) = Some ((t, i), cm_Generation m)"
| "message_key _ = None"

fun_cases accept_key_SomeE: "accept_key r = Some k"
fun_cases link_key_SomeE: "link_key srv r = Some k"
fun_cases message_key_SomeE: "message_key r = Some k"

locale hub_service = sovereign_store ops gen inv_spent claim_spent
  for ops :: "'s store_ops" and gen inv_spent claim_spent +
  fixes srv :: hub_server
begin

lemma message_records:
  assumes "controlMessage srv ops t i (Some m) clock s = (Inr r, s')"
  shows "gen s (t, i) < cm_Generation m \<and> cm_Generation m \<le> gen s' (t, i)"
proof -
  from assms obtain ident s1 prev s2 grants s3 where
    steps: "Identity ops t i s = (Inr ident, s1)" "LastGeneration ops t i s1 = (Inr prev, s2)"
      "apply_message srv ops t i m clock s2 = (Inr grants, s3)"
      "RecordGeneration ops t i (cm_Generation m) (cm_Nonce m) s3 = (Inr (), s')"
    unfolding controlMessage_Inr by auto
  let ?P = "\<lambda>s'. gen s (t, i) \<le> gen s' (t, i)"
  have "?P s1"
    using keeps_run [OF store_keepsD(6) [OF gen_kept] _ steps(1)] by simp
  then have "?P s2"
    using keeps_run [OF store_keepsD(7) [OF gen_kept] _ steps(2)] by simp
  then have "?P s3"
    using keeps_run [OF keeps_apply_message [OF gen_kept] _ steps(3)] by simp
  with record_gen [OF steps(4)] show ?thesis
    by (blast intro: order.strict_trans1)
qed

lemma accept_consumes:
  assumes "acceptInvitation srv ops i (Some a) clock s = (Inr r, s')" and "clock 0 \<noteq> 0"
  shows "\<not> inv_spent s (id_Tenant (ia_Identity a), i) \<and> inv_spent s' (id_Tenant (ia_Identity a), i)"
proof -
  let ?t = "id_Tenant (ia_Identity a)"
  from assms(1) obtain iv s1 v where
    consumed: "ConsumeInvitation ops i (TokenHash (hs_crypto srv) (ia_Token a)) ?t
      (id_ClusterID (ia_Identity a)) (id_Capabilities (ia_Identity a)) (clock 0) s = (Inr iv, s1)"
    and registered: "RegisterIdentity ops v s1 = (Inr (), s')"
    unfolding acceptInvitation_def by (auto simp: and_then_Inr_iff Let_def split: if_splits)
  from inv_consumed [OF assms(2) consumed] keeps_run [OF store_keepsD(5) [OF inv_kept] _ registered]
  show ?thesis
    by blast
qed

lemma link_consumes:
  assumes "consumeOnboarding srv ops i token d1 d2 clock s = (Inr r, s')" and "clock 0 \<noteq> 0"
  shows "\<not> claim_spent s (on_Tenant (hs_Onboarding srv), i) \<and> claim_spent s' (on_Tenant (hs_Onboarding srv), i)"
proof -
  from assms(1) obtain claim s1 v where
    consumed: "ConsumeOnboardingClaim ops (on_Tenant (hs_Onboarding srv)) i
      (TokenHash (hs_crypto srv) token) (clock 0) s = (Inr claim, s1)"
    and created: "CreateInvitation ops v s1 = (Inr (), s')"
    unfolding consumeOnboarding_def by (auto simp: and_then_Inr_iff Let_def split: if_splits)
  from claim_consumed [OF assms(2) consumed] keeps_run [OF store_keepsD(3) [OF claim_kept] _ created]
  show ?thesis
    by blast
qed

end

sublocale hub_service \<subseteq> accepts: single_use "hub_handler srv ops" accept_key inv_spent
  by unfold_locales
    (auto elim!: accept_key_SomeE dest: accept_consumes split: if_splits
      intro: hub_handler_keeps inv_kept)

sublocale hub_service \<subseteq> links: single_use "hub_handler srv ops" "link_key srv" claim_spent
  by unfold_locales
    (auto elim!: link_key_SomeE dest: link_consumes split: if_splits
      intro: hub_handler_keeps claim_kept)

sublocale hub_service \<subseteq> messages: generation_guard "hub_handler srv ops" message_key gen
  by unfold_locales
    (auto elim!: message_key_SomeE dest: message_records intro: hub_handler_keeps gen_kept)

text \<open>What the Hub promises through any sequence of requests, over any store.\<close>

context hub_service
begin

lemma no_replay:
  "sorted_wrt (<) (accepted message_key k rs (fst (run_calls (hub_handler srv ops) rs s)))"
  using messages.accepted_increasing by (metis prod.collapse)

lemma invitation_once:
  "distinct (List.map_filter accept_key (successes rs (fst (run_calls (hub_handler srv ops) rs s))))"
  using accepts.at_most_once by (metis prod.collapse)

lemma link_once:
  "distinct (List.map_filter (link_key srv) (successes rs (fst (run_calls (hub_handler srv ops) rs s))))"
  using links.at_most_once by (metis prod.collapse)

end

interpretation mem_hub: hub_service mem_ops mem_gen mem_inv_spent mem_claim_spent srv
  for srv :: hub_server
  by unfold_locales

section \<open>Properties of the service over the in-memory store\<close>

text \<open>
  Through any sequence of HTTP requests to the Hub, from any state of the store, the
  generations of the control messages accepted for one identity are strictly increasing. A
  message that was accepted, and any older one, is never accepted again.
\<close>

theorem hub_no_replay:
  "sorted_wrt (<) (accepted message_key (t, i) rs (fst (run_calls (hub_handler srv mem_ops) rs s)))"
  by (rule mem_hub.no_replay)

text \<open>
  Through any sequence of HTTP requests, each invitation is accepted at most once (for a
  clock that does not show Go's zero time).
\<close>

theorem hub_invitation_once:
  "distinct (List.map_filter accept_key (successes rs (fst (run_calls (hub_handler srv mem_ops) rs s))))"
  by (rule mem_hub.invitation_once)

text \<open>
  Through any sequence of HTTP requests, each onboarding link yields an installation
  document at most once.
\<close>

theorem hub_link_once:
  "distinct (List.map_filter (link_key srv) (successes rs (fst (run_calls (hub_handler srv mem_ops) rs s))))"
  by (rule mem_hub.link_once)

section \<open>Accepting an invitation\<close>

lemma acceptInvitation_InrE:
  assumes "acceptInvitation srv ops i body clock s = (Inr r, s')"
  obtains a iv s1 where "body = Some a" "ValidateIdentity (ia_Identity a) = None"
    "proof_valid (hs_crypto srv) (hs_codec srv) a = Some True"
    "ConsumeInvitation ops i (TokenHash (hs_crypto srv) (ia_Token a)) (id_Tenant (ia_Identity a))
       (id_ClusterID (ia_Identity a)) (id_Capabilities (ia_Identity a)) (clock 0) s = (Inr iv, s1)"
    "inv_Tenant iv = id_Tenant (ia_Identity a)"
    "RegisterIdentity ops ((ia_Identity a)\<lparr>id_Region := inv_Region iv\<rparr>) s1 = (Inr (), s')"
  using assms unfolding acceptInvitation_def Let_def
  by (elim run_elims) (rule that, simp_all)

lemma proof_valid_iff:
  "proof_valid c j a = Some True \<longleftrightarrow>
     (\<exists>key sig msg. RawStd_Decode (id_PublicKey (ia_Identity a)) = Some key \<and>
        RawStd_Decode (ia_Proof a) = Some sig \<and> json_identity j (ia_Identity a) = Some msg \<and>
        length key = 32 \<and> ed25519_check c key msg sig)"
  by (auto simp: proof_valid_def ed25519_Verify_def split: option.splits if_splits)

text \<open>A validated identity's key has 32 bytes, so checking its ownership proof never panics.\<close>

lemma proof_valid_no_panic: "ValidateIdentity (ia_Identity a) = None \<Longrightarrow> proof_valid c j a \<noteq> None"
  by (auto simp: ValidateIdentity_None_iff valid_public_key_def proof_valid_def ed25519_Verify_def
      split: option.splits)

text \<open>
  C15: over any store, an identity is registered through an invitation only if it is valid, its
  sender proved possession of its private key by signing it, and the store consumed the
  invitation for this tenant, cluster and capabilities; the region stored is the one the
  invitation carries, whatever region the sender claimed.
\<close>

theorem acceptInvitation_sound:
  assumes "serve srv ops (PostAccept i body clock) s = (r, s')" and "rs_Status r = 201"
  shows "\<exists>a iv s1 key sig msg. body = Some a \<and> ValidateIdentity (ia_Identity a) = None \<and>
    RawStd_Decode (id_PublicKey (ia_Identity a)) = Some key \<and> RawStd_Decode (ia_Proof a) = Some sig \<and>
    json_identity (hs_codec srv) (ia_Identity a) = Some msg \<and> ed25519_check (hs_crypto srv) key msg sig \<and>
    ConsumeInvitation ops i (TokenHash (hs_crypto srv) (ia_Token a)) (id_Tenant (ia_Identity a))
      (id_ClusterID (ia_Identity a)) (id_Capabilities (ia_Identity a)) (clock 0) s = (Inr iv, s1) \<and>
    RegisterIdentity ops ((ia_Identity a)\<lparr>id_Region := inv_Region iv\<rparr>) s1 = (Inr (), s')"
proof -
  have "\<not> error_response r"
    using assms(2) by (simp add: error_response_def)
  from serve_success [OF assms(1) this] obtain a iv s1 where
    a: "body = Some a" "ValidateIdentity (ia_Identity a) = None"
      "proof_valid (hs_crypto srv) (hs_codec srv) a = Some True"
      "ConsumeInvitation ops i (TokenHash (hs_crypto srv) (ia_Token a)) (id_Tenant (ia_Identity a))
         (id_ClusterID (ia_Identity a)) (id_Capabilities (ia_Identity a)) (clock 0) s = (Inr iv, s1)"
      "RegisterIdentity ops ((ia_Identity a)\<lparr>id_Region := inv_Region iv\<rparr>) s1 = (Inr (), s')"
    by (auto elim: acceptInvitation_InrE)
  from a(3) obtain key sig msg where "RawStd_Decode (id_PublicKey (ia_Identity a)) = Some key"
    "RawStd_Decode (ia_Proof a) = Some sig" "json_identity (hs_codec srv) (ia_Identity a) = Some msg"
    "ed25519_check (hs_crypto srv) key msg sig"
    by (auto simp: proof_valid_iff)
  with a show ?thesis
    by blast
qed

definition demo_invitation :: invitation where
  "demo_invitation = \<lparr>inv_ID = ''i1'', inv_Tenant = ''tenant-a'', inv_ClusterID = [], inv_Region = ''eu'',
     inv_ExpiresAt = 900 * second, inv_Capabilities = [], inv_TokenHash = TokenHash demo_crypto ''tok'',
     inv_UsedAt = 0\<rparr>"

definition demo_acceptance :: invitation_acceptance where
  "demo_acceptance = \<lparr>ia_Token = ''tok'', ia_Identity = demo_identity,
     ia_Proof = RawStd_Encode (replicate 32 CHR ''k'' @ id_SPIFFEID demo_identity)\<rparr>"

definition demo_invited :: mem_store where
  "demo_invited = NewMemorySovereignStore\<lparr>ms_Invitations := [''i1'' \<mapsto> demo_invitation]\<rparr>"

lemma demo_accept:
  "\<exists>s'. serve demo_server mem_ops (PostAccept ''i1'' (Some demo_acceptance) (\<lambda>_. 5 * second)) demo_invited
     = (write_json 201 (IdentityAccepted ''c1'' ''tenant-a'' ''PendingConfirmation''), s')"
proof -
  have "proof_valid demo_crypto demo_codec demo_acceptance = Some True"
    unfolding proof_valid_iff by (simp add: demo_acceptance_def demo_identity_def demo_codec_def)
      (simp add: demo_crypto_def)
  moreover have "id_Tenant demo_identity = ''tenant-a''" "id_ClusterID demo_identity = ''c1''"
    "id_Capabilities demo_identity = []"
    by (simp_all add: demo_identity_def)
  ultimately have "\<exists>r s'. acceptInvitation demo_server mem_ops ''i1'' (Some demo_acceptance)
      (\<lambda>_. 5 * second) demo_invited = (Inr (write_json 201 (IdentityAccepted ''c1'' ''tenant-a''
        ''PendingConfirmation'')), s')"
    using demo_identity_valid
    by (simp add: acceptInvitation_def Let_def demo_acceptance_def demo_server_def demo_invited_def
        mem_ops_def prog_simps mem_ConsumeInvitation_def demo_invitation_def mem_RegisterIdentity_def
        NewMemorySovereignStore_def capabilitiesAllowed_def IsZero_def Before_def)
  then show ?thesis
    by (auto simp: serve_def finish_def)
qed

theorem acceptInvitation_sound_witness:
  "\<exists>iv s1 s'. ConsumeInvitation mem_ops ''i1'' (TokenHash demo_crypto ''tok'') ''tenant-a'' ''c1'' []
      (5 * second) demo_invited = (Inr iv, s1) \<and>
     RegisterIdentity mem_ops (demo_identity\<lparr>id_Region := inv_Region iv\<rparr>) s1 = (Inr (), s')"
proof -
  obtain s' where s': "serve demo_server mem_ops (PostAccept ''i1'' (Some demo_acceptance) (\<lambda>_. 5 * second))
      demo_invited = (write_json 201 (IdentityAccepted ''c1'' ''tenant-a'' ''PendingConfirmation''), s')"
    using demo_accept by blast
  have "rs_Status (write_json 201 (IdentityAccepted ''c1'' ''tenant-a'' ''PendingConfirmation'')) = 201"
    by (simp add: write_json_def)
  from acceptInvitation_sound [OF s' this] show ?thesis
    by (simp add: demo_acceptance_def demo_server_def demo_identity_def) blast
qed

section \<open>Onboarding\<close>

text \<open>The two requests of the flow: the administrator's, and the use of the link it is answered with.\<close>

definition link_request :: "hub_server \<Rightarrow> string \<Rightarrow> string \<Rightarrow> i64 \<Rightarrow> string \<Rightarrow> string \<Rightarrow> time \<Rightarrow> hub_request" where
  "link_request srv cluster region ttl raw_id raw_token now =
     PostOnboardingLink (''Bearer '' @ hs_AdminToken srv)
       (Some \<lparr>li_ClusterID = cluster, li_Region = region, li_TTLSeconds = ttl\<rparr>)
       (Some raw_id) (Some raw_token) (\<lambda>_. now)"

definition claim_request :: "string \<Rightarrow> string \<Rightarrow> string \<Rightarrow> string \<Rightarrow> (nat \<Rightarrow> time) \<Rightarrow> hub_request" where
  "claim_request raw_id raw_token new_id new_token clock =
     PostOnboarding (hex_encode raw_id) (RawURL_Encode raw_token) (Some new_id) (Some new_token) clock"

text \<open>What the two requests store.\<close>

definition claim_of :: "hub_server \<Rightarrow> string \<Rightarrow> string \<Rightarrow> i64 \<Rightarrow> string \<Rightarrow> string \<Rightarrow> time \<Rightarrow> onboarding_claim" where
  "claim_of srv cluster region ttl raw_id raw_token t0 =
     \<lparr>oc_ID = hex_encode raw_id, oc_ClusterID = cluster, oc_Region = region, oc_Tenant = on_Tenant (hs_Onboarding srv),
      oc_TokenHash = TokenHash (hs_crypto srv) (RawURL_Encode raw_token),
      oc_ExpiresAt = t0 + go_seconds (effective_ttl 86400 ttl), oc_UsedAt = 0\<rparr>"

definition invitation_of :: "hub_server \<Rightarrow> string \<Rightarrow> string \<Rightarrow> string \<Rightarrow> string \<Rightarrow> time \<Rightarrow> invitation" where
  "invitation_of srv cluster region new_id new_token now =
     \<lparr>inv_ID = hex_encode new_id, inv_Tenant = on_Tenant (hs_Onboarding srv), inv_ClusterID = cluster,
      inv_Region = region, inv_ExpiresAt = now + 15 * minute, inv_Capabilities = [''service'', ''quic-mtls''],
      inv_TokenHash = TokenHash (hs_crypto srv) (RawURL_Encode new_token), inv_UsedAt = 0\<rparr>"

lemma link_created:
  assumes "hs_AdminToken srv \<noteq> []" "on_Tenant (hs_Onboarding srv) \<noteq> []" "on_PublicEndpoint (hs_Onboarding srv) \<noteq> []"
    and "onboardingName cluster" "onboardingName region" "ttl_allowed (effective_ttl 86400 ttl)"
    and "ms_OnboardingClaims s (hex_encode raw_id) = None"
  shows "serve srv mem_ops (link_request srv cluster region ttl raw_id raw_token t0) s =
    (write_json 201 (ClaimCreated cluster region
       (TrimRight (on_PublicEndpoint (hs_Onboarding srv)) ''/'' @ ''/v1/onboarding/'' @ hex_encode raw_id @ ''?claim='' @ RawURL_Encode raw_token)
       (t0 + go_seconds (effective_ttl 86400 ttl))),
     s\<lparr>ms_OnboardingClaims := (ms_OnboardingClaims s)(hex_encode raw_id \<mapsto> claim_of srv cluster region ttl raw_id raw_token t0)\<rparr>)"
  using assms
  by (simp add: serve_def finish_def link_request_def createOnboardingLink_def Let_def admin_request_def RandomID_def
      RandomToken_def mem_ops_def prog_simps mem_CreateOnboardingClaim_def claim_of_def)

lemma claim_consumed:
  assumes "ms_OnboardingClaims s (hex_encode raw_id) = Some (claim_of srv cluster region ttl raw_id raw_token t0)"
    and "clock 0 < t0 + go_seconds (effective_ttl 86400 ttl)" and "ms_Invitations s (hex_encode new_id) = None"
  shows "\<exists>headers. serve srv mem_ops (claim_request raw_id raw_token new_id new_token clock) s =
      (\<lparr>rs_Status = 200, rs_Headers = headers,
         rs_Body = Doc (InstallMarkdown (installMarkdown srv ((claim_of srv cluster region ttl raw_id raw_token t0)\<lparr>oc_UsedAt := clock 0\<rparr>)
           (hex_encode new_id) (RawURL_Encode new_token)))\<rparr>,
       s\<lparr>ms_OnboardingClaims := (ms_OnboardingClaims s)(hex_encode raw_id \<mapsto>
            (claim_of srv cluster region ttl raw_id raw_token t0)\<lparr>oc_UsedAt := clock 0\<rparr>),
         ms_Invitations := (ms_Invitations s)(hex_encode new_id \<mapsto> invitation_of srv cluster region new_id new_token (clock 1))\<rparr>)"
  using assms
  by (simp add: serve_def finish_def claim_request_def consumeOnboarding_def Let_def prog_simps no_store_def
      mem_ops_def mem_ConsumeOnboardingClaim_def claim_of_def IsZero_def Before_def
      RandomID_def RandomToken_def mem_CreateInvitation_def invitation_of_def)

lemma claim_refused:
  assumes "ms_OnboardingClaims s (hex_encode raw_id) =
      Some ((claim_of srv cluster region ttl raw_id raw_token t0)\<lparr>oc_UsedAt := t1\<rparr>)" and "t1 \<noteq> 0"
  shows "serve srv mem_ops (claim_request raw_id raw_token new_id new_token clock) s =
    (claim_error (Msg ''claim already used''), s)"
  using assms
  by (simp add: serve_def finish_def claim_request_def consumeOnboarding_def Let_def prog_simps
      mem_ops_def mem_ConsumeOnboardingClaim_def claim_of_def IsZero_def)

lemma used_is_gone: "rs_Status (claim_error (Msg ''claim already used'')) = 410"
  by (simp add: claim_error_def no_store_def http_error_def HasPrefix_def)

lemma invitation_consumed:
  assumes "ms_Invitations s (hex_encode new_id) = Some (invitation_of srv cluster region new_id new_token t1)"
    and "now < t1 + 15 * minute" "set requested \<subseteq> {''service'', ''quic-mtls''}"
  shows "ConsumeInvitation mem_ops (hex_encode new_id) (TokenHash (hs_crypto srv) (RawURL_Encode new_token))
      (on_Tenant (hs_Onboarding srv)) cluster requested now s =
    (Inr ((invitation_of srv cluster region new_id new_token t1)\<lparr>inv_UsedAt := now\<rparr>),
     s\<lparr>ms_Invitations := (ms_Invitations s)(hex_encode new_id \<mapsto>
        (invitation_of srv cluster region new_id new_token t1)\<lparr>inv_UsedAt := now\<rparr>)\<rparr>)"
  using assms
  by (auto simp: mem_ops_def mem_ConsumeInvitation_def invitation_of_def IsZero_def Before_def capabilitiesAllowed_iff Let_def)

text \<open>
  C29: the onboarding flow, from the administrator to the joining cluster, over the in-memory store,
  for every configured Hub, every DNS-safe cluster and region, every allowed lifetime and all
  random bytes. The administrator's request is answered with a link to the public endpoint that
  holds the claim's identifier and its token. Using them before the claim expires is answered with
  an installation document for this cluster and region, with the identifier and the token of a
  new invitation. The store then holds this invitation (the hash of the token, never the token),
  bound to the Hub's tenant, the cluster and the region, and the document's token consumes it for 15
  minutes, for the capabilities "service" and "quic-mtls". A second use of the link, at any time and
  with any random bytes, is answered 410 and changes nothing.
\<close>

theorem onboarding_flow:
  fixes srv :: hub_server and ttl :: i64 and t0 :: time and clock :: "nat \<Rightarrow> time"
  defines "life \<equiv> if ttl = 0 then 86400 else sint ttl" and "endpoint \<equiv> TrimRight (on_PublicEndpoint (hs_Onboarding srv)) ''/''"
  assumes "hs_AdminToken srv \<noteq> []" "on_Tenant (hs_Onboarding srv) \<noteq> []" "on_PublicEndpoint (hs_Onboarding srv) \<noteq> []"
    and "onboardingName cluster" "onboardingName region" "60 \<le> life" "life \<le> 86400"
    and "ms_OnboardingClaims s (hex_encode raw_id) = None" "ms_Invitations s (hex_encode new_id) = None"
    and "clock 0 < t0 + life * second" "clock 0 \<noteq> 0"
  shows "\<exists>s1 r s2 d v.
    serve srv mem_ops (link_request srv cluster region ttl raw_id raw_token t0) s =
      (write_json 201 (ClaimCreated cluster region
        (endpoint @ ''/v1/onboarding/'' @ hex_encode raw_id @ ''?claim='' @ RawURL_Encode raw_token) (t0 + life * second)), s1) \<and>
    serve srv mem_ops (claim_request raw_id raw_token new_id new_token clock) s1 = (r, s2) \<and>
    rs_Status r = 200 \<and> rs_Body r = Doc (InstallMarkdown d) \<and>
    md_ClusterID d = cluster \<and> md_Region d = region \<and> md_Endpoint d = endpoint \<and> md_Tenant d = on_Tenant (hs_Onboarding srv) \<and>
    md_InvitationID d = hex_encode new_id \<and> md_InvitationToken d = RawURL_Encode new_token \<and>
    md_BundleDigest d = on_ProviderBundleDigest (hs_Onboarding srv) \<and> md_SPIFFEID d = on_ProviderSPIFFEID (hs_Onboarding srv) \<and>
    ms_Invitations s2 = (ms_Invitations s)(md_InvitationID d \<mapsto> v) \<and>
    v = \<lparr>inv_ID = md_InvitationID d, inv_Tenant = on_Tenant (hs_Onboarding srv), inv_ClusterID = cluster, inv_Region = region,
      inv_ExpiresAt = clock 1 + 15 * minute, inv_Capabilities = [''service'', ''quic-mtls''],
      inv_TokenHash = TokenHash (hs_crypto srv) (md_InvitationToken d), inv_UsedAt = 0\<rparr> \<and>
    (\<forall>now requested. now < clock 1 + 15 * minute \<and> set requested \<subseteq> {''service'', ''quic-mtls''} \<longrightarrow>
      fst (ConsumeInvitation mem_ops (md_InvitationID d) (TokenHash (hs_crypto srv) (md_InvitationToken d)) (md_Tenant d) (md_ClusterID d)
        requested now s2) = Inr (v\<lparr>inv_UsedAt := now\<rparr>)) \<and>
    (\<forall>id3 token3 clock3. serve srv mem_ops (claim_request raw_id raw_token id3 token3 clock3) s2 =
      (claim_error (Msg ''claim already used''), s2)) \<and>
    rs_Status (claim_error (Msg ''claim already used'')) = 410"
proof -
  have life: "sint (effective_ttl 86400 ttl) = life" by (simp add: effective_ttl_def life_def)
  then have ttl: "ttl_allowed (effective_ttl 86400 ttl)" using assms(8,9) by (simp add: ttl_allowed_iff)
  with life have expires: "go_seconds (effective_ttl 86400 ttl) = life * second" by (simp add: ttl_duration)
  let ?claim = "claim_of srv cluster region ttl raw_id raw_token t0" and ?v = "invitation_of srv cluster region new_id new_token (clock 1)"
  let ?d = "installMarkdown srv (?claim\<lparr>oc_UsedAt := clock 0\<rparr>) (hex_encode new_id) (RawURL_Encode new_token)"
  obtain s1 where s1: "s1 = s\<lparr>ms_OnboardingClaims := (ms_OnboardingClaims s)(hex_encode raw_id \<mapsto> ?claim)\<rparr>" by blast
  note first = link_created [OF assms(3-7) ttl assms(10), of raw_token t0, folded s1, unfolded expires, folded endpoint_def]
  have "ms_OnboardingClaims s1 (hex_encode raw_id) = Some ?claim" "ms_Invitations s1 (hex_encode new_id) = None"
    using assms(11) by (simp_all add: s1)
  from claim_consumed [OF this(1) _ this(2), of clock new_token] assms(12) obtain r s2 where
    second: "serve srv mem_ops (claim_request raw_id raw_token new_id new_token clock) s1 = (r, s2)"
    and r: "rs_Status r = 200" "rs_Body r = Doc (InstallMarkdown ?d)"
    and s2: "ms_OnboardingClaims s2 (hex_encode raw_id) = Some (?claim\<lparr>oc_UsedAt := clock 0\<rparr>)"
      "ms_Invitations s2 = (ms_Invitations s)(hex_encode new_id \<mapsto> ?v)"
    by (auto simp: expires s1)
  from s2(2) have stored: "ms_Invitations s2 (hex_encode new_id) = Some ?v" by simp
  have d: "md_ClusterID ?d = cluster" "md_Region ?d = region" "md_Endpoint ?d = endpoint" "md_Tenant ?d = on_Tenant (hs_Onboarding srv)"
    "md_InvitationID ?d = hex_encode new_id" "md_InvitationToken ?d = RawURL_Encode new_token"
    "md_BundleDigest ?d = on_ProviderBundleDigest (hs_Onboarding srv)" "md_SPIFFEID ?d = on_ProviderSPIFFEID (hs_Onboarding srv)"
    by (simp_all add: installMarkdown_def claim_of_def Let_def endpoint_def)
  show ?thesis
    by (intro exI [of _ s1] exI [of _ r] exI [of _ s2] exI [of _ ?d] exI [of _ ?v] conjI)
      (use first second r s2 d invitation_consumed [OF stored] claim_refused [OF s2(1) assms(13)] used_is_gone in
        \<open>simp_all add: invitation_of_def del: hex_encode.simps\<close>)
qed

theorem onboarding_flow_witness:
  "\<exists>s1 r s2. serve demo_server mem_ops (link_request demo_server ''sijie'' ''cn-east'' 0 ''a'' ''b'' 5) NewMemorySovereignStore =
      (write_json 201 (ClaimCreated ''sijie'' ''cn-east'' ''https://hub/v1/onboarding/61?claim=Yg'' (5 + 86400 * second)), s1) \<and>
    serve demo_server mem_ops (claim_request ''a'' ''b'' ''c'' ''d'' (\<lambda>_. 9)) s1 = (r, s2) \<and> rs_Status r = 200 \<and>
    (\<exists>v. ms_Invitations s2 ''63'' = Some v \<and> inv_ClusterID v = ''sijie'')"
proof -
  have "onboardingName ''sijie''" "onboardingName ''cn-east''"
    by (simp_all add: onboardingName_def is_alnum_lower_def is_label_char_def)
  moreover have "hex_encode ''a'' = ''61''" "hex_encode ''c'' = ''63''" "RawURL_Encode ''b'' = ''Yg''"
    "TrimRight (on_PublicEndpoint (hs_Onboarding demo_server)) ''/'' = ''https://hub''"
    unfolding demo_server_def by code_simp+
  moreover note onboarding_flow [of demo_server "''sijie''" "''cn-east''" 0 NewMemorySovereignStore "''a''" "''c''" "\<lambda>_. 9" 5 "''b''" "''d''"]
  ultimately show ?thesis
    by (fastforce simp: NewMemorySovereignStore_def demo_server_def del: hex_encode.simps)
qed

section \<open>The order of effect and replay check\<close>

lemma effect_before_record:
  assumes "Identity ops t i s = (Inr ident, s1)" "RawStd_Decode (id_PublicKey ident) = Some key"
    and "LastGeneration ops t i s1 = (Inr prev, s2)"
    and "Verify (hs_crypto srv) (hs_codec srv) m key ''hub'' (clock 0) prev None = None"
    and "cm_Issuer m = id_SPIFFEID ident" "\<not> HasPrefix (cm_Type m) ''route.''"
    and "apply_message srv ops t i m clock s2 = (Inr grants, s3)"
    and "RecordGeneration ops t i (cm_Generation m) (cm_Nonce m) s3 = (Inl e, s4)"
  shows "serve srv ops (PostMessage t i (Some m) clock) s = (respond_error (\<lambda>_. http_error ''replay'' 409) e, s4)"
  using assms by (simp add: serve_def finish_def controlMessage_def prog_simps verify_message_def)

lemma mem_apply_message_record:
  assumes "apply_message srv mem_ops t i m clock s = (Inr grants, s')"
  shows "ms_Nonces s' = ms_Nonces s \<and> ms_Generations s' = ms_Generations s"
  using assms unfolding apply_message_def Let_def
  by (auto simp: mem_ops_def mem_defs prog_simps need_def split: if_splits option.splits)

text \<open>
  C38: the effect of a control message is applied before its generation and its nonce are recorded,
  and is not undone when the recording fails. Over the in-memory store, a verified message of any
  type, with a new generation but a nonce that the store has seen, is answered 409 "replay" as
  soon as its effect has succeeded, and the store is left exactly as the effect left it; a service
  snapshot replaces the advertisements of its sender. The generation stays what it was, so the
  same message has its effect again and again until it expires.
\<close>

theorem replayed_message_takes_effect:
  assumes "ms_Identities s (slash_key t i) = Some ident" "RawStd_Decode (id_PublicKey ident) = Some key"
    and "Verify (hs_crypto srv) (hs_codec srv) m key ''hub'' (clock 0) (mem_gen s (t, i)) None = None"
    and "cm_Issuer m = id_SPIFFEID ident" "\<not> HasPrefix (cm_Type m) ''route.''"
    and "ms_Nonces s (slash_key t i) = Some seen" "cm_Nonce m \<in> seen"
    and "apply_message srv mem_ops t i m clock s = (Inr grants, s')"
  shows "serve srv mem_ops (PostMessage t i (Some m) clock) s = (http_error ''replay'' 409, s') \<and>
    mem_gen s' (t, i) = mem_gen s (t, i) \<and> ms_Nonces s' = ms_Nonces s \<and>
    (\<forall>services. cm_Type m = ''service.snapshot'' \<and> json_snapshot (hs_codec srv) (cm_Payload m) = Some services \<longrightarrow>
      s' = s\<lparr>ms_Advertisements := (ms_Advertisements s)(slash_key t i \<mapsto> services)\<rparr>)"
proof -
  note kept = mem_apply_message_record [OF assms(8)]
  have prev: "LastGeneration mem_ops t i s = (Inr (mem_gen s (t, i)), s)" and ident: "Identity mem_ops t i s = (Inr ident, s)"
    using assms(1) by (simp_all add: mem_ops_def mem_LastGeneration_def mem_Identity_def mem_gen_def)
  have "mem_gen s (t, i) < cm_Generation m" by (rule Verify_gen [OF assms(3)])
  then have "RecordGeneration mem_ops t i (cm_Generation m) (cm_Nonce m) s' = (Inl (Msg ''replayed nonce''), s')"
    using kept assms(6,7) by (simp add: mem_ops_def mem_RecordGeneration_def mem_gen_def map_get_def Let_def)
  from effect_before_record [OF ident assms(2) prev assms(3-5,8) this] have
    "serve srv mem_ops (PostMessage t i (Some m) clock) s = (http_error ''replay'' 409, s')" by simp
  moreover have "s' = s\<lparr>ms_Advertisements := (ms_Advertisements s)(slash_key t i \<mapsto> services)\<rparr>"
    if "cm_Type m = ''service.snapshot''" "json_snapshot (hs_codec srv) (cm_Payload m) = Some services" for services
    using assms(8) that by (simp add: apply_message_def Let_def mem_ops_def mem_SyncAdvertisements_def prog_simps)
  ultimately show ?thesis
    using kept by (simp add: mem_gen_def)
qed

theorem replayed_message_takes_effect_witness:
  "\<exists>s m s'. ms_Advertisements s (slash_key ''t'' ''c'') = Some [demo_service ''db'' ''pg''] \<and>
     serve demo_server mem_ops (PostMessage ''t'' ''c'' (Some m) (\<lambda>_. 20 * second)) s = (http_error ''replay'' 409, s') \<and>
     ms_Advertisements s' (slash_key ''t'' ''c'') = Some []"
proof -
  let ?m = "demo_message\<lparr>cm_Type := ''service.snapshot'',
    cm_Signature := RawStd_Encode (demo_key ''priv'' @ ''service.snapshot'')\<rparr>"
  let ?s = "demo_registered\<lparr>ms_Generations := [slash_key ''t'' ''c'' \<mapsto> 4],
    ms_Nonces := [slash_key ''t'' ''c'' \<mapsto> {''c-5''}],
    ms_Advertisements := [slash_key ''t'' ''c'' \<mapsto> [demo_service ''db'' ''pg'']]\<rparr>"
  let ?ident = "demo_identity\<lparr>id_SPIFFEID := ''spiffe://d/cluster/c'', id_PublicKey := RawStd_Encode (demo_key ''priv'')\<rparr>"
  have verified: "Verify demo_crypto demo_codec ?m (demo_key ''priv'') ''hub'' (20 * second) 4 None = None"
    by (simp add: Verify_None_iff demo_message_def message_window_def Before_def
        authentic_def canonical_def demo_codec_def ed25519_Verify_def) (simp add: demo_crypto_def)
  have snapshot: "json_snapshot demo_codec p = Some []" for p
    by (simp add: demo_codec_def)
  obtain grants s' where applied: "apply_message demo_server mem_ops ''t'' ''c'' ?m (\<lambda>_. 20 * second) ?s = (Inr grants, s')"
    using snapshot by (simp add: apply_message_def Let_def mem_ops_def mem_SyncAdvertisements_def prog_simps demo_server_def)
  have "ms_Identities ?s (slash_key ''t'' ''c'') = Some ?ident" "cm_Nonce ?m = ''c-5''" "cm_Issuer ?m = ''spiffe://d/cluster/c''"
    by (simp_all add: demo_registered_def demo_message_def)
  note run = replayed_message_takes_effect [of ?s "''t''" "''c''" ?ident "demo_key ''priv''" demo_server ?m "\<lambda>_. 20 * second" "{''c-5''}",
      OF this(1) _ _ _ _ _ _ applied]
  have "serve demo_server mem_ops (PostMessage ''t'' ''c'' (Some ?m) (\<lambda>_. 20 * second)) ?s = (http_error ''replay'' 409, s')
      \<and> s' = ?s\<lparr>ms_Advertisements := (ms_Advertisements ?s)(slash_key ''t'' ''c'' \<mapsto> [])\<rparr>"
    using run verified snapshot
    by (simp add: mem_gen_def demo_server_def HasPrefix_def demo_message_def demo_identity_def)
  then show ?thesis
    by (intro exI [of _ ?s] exI [of _ ?m] exI [of _ s']) simp
qed

text \<open>
  An answer of 410 to an onboarding link does not mean that the link was used or has
  expired: the handler looks for the words "used" and "expired" in the text of any error, and
  the text of a refused connection to the API server contains "used".
\<close>

theorem refused_connection_reported_gone:
  "rs_Status (claim_error (ApiOther ''connect: connection refused'')) = 410"
  by (simp add: claim_error_def no_store_def http_error_def HasPrefix_def)

end
