(* ===== verification/Kubernetes_Contract.thy ===== *)
theory Kubernetes_Contract
  imports Kubernetes_Store Hub_Service
begin

text \<open>
  The Kubernetes store meets the contract of a store, so everything the Hub's handlers promise
  over the in-memory store they promise over the API server as well. What is asked of the
  server is \<open>api_secrets\<close> and \<open>api_identities\<close>: its Secrets and its ClusterIdentities behave as stored objects (a
  read returns what is stored; a write stores the object sent, with the resource version,
  generation and creation time the server gives it, or nothing, and only a successful write is sure to be stored; a create does not overwrite), and
  requests for other kinds leave them alone.
\<close>

section \<open>What is asked of the API server\<close>

definition others_keep :: "('w \<Rightarrow> bool) \<Rightarrow> 'w kube \<Rightarrow> bool" where
  "others_keep P K \<longleftrightarrow> reads_keep P K \<and>
     (\<forall>ns v. keeps P (peers_update_status K ns v)) \<and> (\<forall>ns v. keeps P (links_update_status K ns v)) \<and>
     (\<forall>ns v. keeps P (ads_create K ns v)) \<and> (\<forall>ns v. keeps P (ads_update K ns v)) \<and>
     (\<forall>ns v. keeps P (imports_create K ns v)) \<and> (\<forall>ns v. keeps P (grants_update_status K ns v))"

text \<open>
  The server keeps the object it was sent, under metadata of its own: whatever the sender puts
  in them, the resource version, the generation and the creation time are the server's.
\<close>

record server_fields =
  sf_ResourceVersion :: string
  sf_Generation :: i64
  sf_CreationTimestamp :: time

definition server_meta :: "object_meta \<Rightarrow> server_fields \<Rightarrow> object_meta" where
  "server_meta mt f = mt\<lparr>mt_ResourceVersion := sf_ResourceVersion f, mt_Generation := sf_Generation f,
     mt_CreationTimestamp := sf_CreationTimestamp f\<rparr>"

lemma server_meta_simps [simp]:
  "mt_Name (server_meta mt f) = mt_Name mt" "mt_Namespace (server_meta mt f) = mt_Namespace mt"
  "mt_Labels (server_meta mt f) = mt_Labels mt" "mt_Annotations (server_meta mt f) = mt_Annotations mt"
  by (simp_all add: server_meta_def)

definition stored_secret :: "secret \<Rightarrow> server_fields \<Rightarrow> secret" where
  "stored_secret s version = s\<lparr>sec_Meta := server_meta (sec_Meta s) version\<rparr>"

definition stored_identity :: "cluster_identity \<Rightarrow> server_fields \<Rightarrow> cluster_identity" where
  "stored_identity v version = v\<lparr>ci_Meta := server_meta (ci_Meta v) version\<rparr>"

definition api_secrets :: "'w kube \<Rightarrow> ('w \<Rightarrow> string \<times> string \<rightharpoonup> secret) \<Rightarrow> bool" where
  "api_secrets K at \<longleftrightarrow>
     (\<forall>f. others_keep (\<lambda>w. at w = f) K) \<and>
     (\<forall>f ns v. keeps (\<lambda>w. at w = f) (identities_create K ns v)) \<and>
     (\<forall>f ns v. keeps (\<lambda>w. at w = f) (identities_update_status K ns v)) \<and>
     (\<forall>ns n w s w'. secrets_get K ns n w = (Inr s, w') \<longrightarrow>
        at w' (ns, n) = Some s \<and> mt_Namespace (sec_Meta s) = ns \<and> mt_Name (sec_Meta s) = n) \<and>
     (\<forall>ns s w r w'. secrets_create K ns s w = (r, w') \<longrightarrow>
        at w' = at w \<or> (at w (ns, mt_Name (sec_Meta s)) = None \<and>
          (\<exists>version. at w' = (at w)((ns, mt_Name (sec_Meta s)) \<mapsto> stored_secret s version)))) \<and>
     (\<forall>ns s w r w'. secrets_update K ns s w = (r, w') \<longrightarrow>
        (at w' = at w \<and> r \<noteq> Inr ()) \<or>
        (\<exists>version. at w' = (at w)((ns, mt_Name (sec_Meta s)) \<mapsto> stored_secret s version)))"

definition api_identities :: "'w kube \<Rightarrow> ('w \<Rightarrow> string \<times> string \<rightharpoonup> cluster_identity) \<Rightarrow> bool" where
  "api_identities K at \<longleftrightarrow>
     (\<forall>f. others_keep (\<lambda>w. at w = f) K) \<and>
     (\<forall>f ns v. keeps (\<lambda>w. at w = f) (secrets_create K ns v)) \<and>
     (\<forall>f ns v. keeps (\<lambda>w. at w = f) (secrets_update K ns v)) \<and>
     (\<forall>ns n w v w'. identities_get K ns n w = (Inr v, w') \<longrightarrow>
        at w' (ns, n) = Some v \<and> mt_Name (ci_Meta v) = n) \<and>
     (\<forall>ns v w r w'. identities_create K ns v w = (r, w') \<longrightarrow>
        at w' = at w \<or> (at w (ns, mt_Name (ci_Meta v)) = None \<and>
          (\<exists>version. at w' = (at w)((ns, mt_Name (ci_Meta v)) \<mapsto> stored_identity v version)))) \<and>
     (\<forall>ns v w r w'. identities_update_status K ns v w = (r, w') \<longrightarrow>
        (at w' = at w \<and> r \<noteq> Inr ()) \<or>
        (\<exists>version. at w' = (at w)((ns, mt_Name (ci_Meta v)) \<mapsto> stored_identity v version)))"

lemma stored_simps [simp]:
  "sec_annotation (stored_secret s v) key = sec_annotation s key"
  "sec_Data (stored_secret s v) = sec_Data s"
  "mt_Name (sec_Meta (stored_secret s v)) = mt_Name (sec_Meta s)"
  "mt_Namespace (sec_Meta (stored_secret s v)) = mt_Namespace (sec_Meta s)"
  "ci_lastGeneration (stored_identity i v) = ci_lastGeneration i"
  "ci_publicKey (stored_identity i v) = ci_publicKey i"
  "ci_bundleDigest (stored_identity i v) = ci_bundleDigest i"
  by (simp_all add: stored_secret_def stored_identity_def)

lemma annotate_simps [simp]:
  "sec_annotation (annotate key value s) key' = (if key' = key then value else sec_annotation s key')"
  "mt_Name (sec_Meta (annotate key value s)) = mt_Name (sec_Meta s)"
  "sec_Data (annotate key value s) = sec_Data s"
  by (simp_all add: annotate_def)

lemma others_keep_reads: "others_keep P K \<Longrightarrow> reads_keep P K"
  by (simp add: others_keep_def)

lemma others_keepD [keeps_intros]:
  assumes "others_keep P K"
  shows "keeps P (peers_update_status K ns pe)" "keeps P (links_update_status K ns al)"
    "keeps P (ads_create K ns ad)" "keeps P (ads_update K ns ad)" "keeps P (imports_create K ns im)"
    "keeps P (grants_update_status K ns gr)"
  using assms by (simp_all add: others_keep_def)

text \<open>A predicate of the value of \<open>at\<close> is kept when every value of it is.\<close>

lemma keeps_of_value: "(\<And>f. keeps (\<lambda>w. at w = f) m) \<Longrightarrow> keeps (\<lambda>w. Q (at w)) m"
  unfolding keeps_def by metis

lemma others_keep_of_value:
  assumes "\<And>f. others_keep (\<lambda>w. at w = f) K"
  shows "others_keep (\<lambda>w. Q (at w)) K"
  unfolding others_keep_def reads_keep_def
  by (intro conjI allI; rule keeps_of_value [of at]; insert assms; simp add: others_keep_def reads_keep_def)

section \<open>The store over requests that keep a predicate\<close>

text \<open>
  Every method keeps a predicate that the requests it makes keep. The predicate may be sensitive
  to the Secrets and the identities written, so those requests are assumptions of their own.
\<close>

lemma kube_Identity_keeps [keeps_intros]: "reads_keep P K \<Longrightarrow> keeps P (kube_Identity K t i)"
  unfolding kube_Identity_def by (intro keeps_intros)

lemma keeps_claim_attempts [keeps_intros]: "keeps P turn \<Longrightarrow> keeps P (claim_attempts n turn)"
  by (induction n) (auto intro!: keeps_intros split: option.splits)

definition plain_keep :: "('w \<Rightarrow> bool) \<Rightarrow> 'w kube \<Rightarrow> bool" where
  "plain_keep P K \<longleftrightarrow> reads_keep P K \<and>
     (\<forall>ns v. keeps P (peers_update_status K ns v)) \<and> (\<forall>ns v. keeps P (links_update_status K ns v)) \<and>
     (\<forall>ns v. keeps P (imports_create K ns v)) \<and> (\<forall>ns v. keeps P (grants_update_status K ns v))"

lemma plain_keepD [keeps_intros]:
  assumes "plain_keep P K"
  shows "keeps P (peers_update_status K ns pe)" "keeps P (links_update_status K ns al)"
    "keeps P (imports_create K ns im)" "keeps P (grants_update_status K ns gr)"
  using assms by (simp_all add: plain_keep_def)

lemma kube_store_keeps_but_ads:
  assumes K: "plain_keep P K"
    and sync: "\<And>t i ss now. keeps P (kube_SyncAdvertisements K j t i ss now)"
    and creates: "\<And>ns s. sec_annotation s used_at = [] \<Longrightarrow> keeps P (secrets_create K ns s)"
    and updates: "\<And>ns s now. keeps P (secrets_update K ns (annotate used_at (rfc3339nano_format j now) s))"
    and registers: "\<And>ns v. ci_lastGeneration v = 0 \<Longrightarrow> keeps P (identities_create K ns v)"
    and records: "\<And>t i g n. keeps P (kube_RecordGeneration K j t i g n)"
  shows "store_keeps P (kube_ops K j)"
proof -
  from K have reads: "reads_keep P K" by (simp add: plain_keep_def)
  have claim: "keeps P (kube_ConsumeOnboardingClaim K j t i h now)" for t i h now
    unfolding kube_ConsumeOnboardingClaim_def claim_attempt_def Let_def
    by (intro keeps_intros K reads updates)
  have inv: "keeps P (kube_ConsumeInvitation K j i h t c r now)" for i h t c r now
    unfolding kube_ConsumeInvitation_def Let_def
    by (intro keeps_intros K reads updates)
  have confirm: "keeps P (kube_ConfirmPeerBundle K t i b)" for t i b
    unfolding kube_ConfirmPeerBundle_def by (intro keeps_intros K reads)
  have link: "keeps P (kube_ObserveLink K j t i l)" for t i l
    unfolding kube_ObserveLink_def by (intro keeps_intros K reads)
  have pending: "keeps P (kube_PendingGrants K j t i now)" for t i now
    unfolding kube_PendingGrants_def pending_grant_def by (intro keeps_intros K reads)
  have fulfill: "keeps P (kube_FulfillGrant K j t i f)" for t i f
    unfolding kube_FulfillGrant_def by (intro keeps_intros K reads)
  have gen: "keeps P (kube_LastGeneration K t i)" for t i
    unfolding kube_LastGeneration_def by (intro keeps_intros K reads)
  have create: "keeps P (kube_CreateOnboardingClaim K j c)" "keeps P (kube_CreateInvitation K j v)" for c v
    unfolding kube_CreateOnboardingClaim_def kube_CreateInvitation_def
    by (intro creates; simp add: used_at_def expires_at_def)+
  have register: "keeps P (kube_RegisterIdentity K v)" for v
    unfolding kube_RegisterIdentity_def by (intro registers) simp
  show ?thesis
    unfolding store_keeps_def kube_ops_def store_ops.simps
    by (intro conjI allI sync claim inv confirm link pending fulfill gen create register records
        kube_Identity_keeps reads)
qed

lemma kube_store_keeps:
  assumes K: "others_keep P K"
    and "\<And>ns s. sec_annotation s used_at = [] \<Longrightarrow> keeps P (secrets_create K ns s)"
    and "\<And>ns s now. keeps P (secrets_update K ns (annotate used_at (rfc3339nano_format j now) s))"
    and "\<And>ns v. ci_lastGeneration v = 0 \<Longrightarrow> keeps P (identities_create K ns v)"
    and "\<And>t i g n. keeps P (kube_RecordGeneration K j t i g n)"
  shows "store_keeps P (kube_ops K j)"
proof (rule kube_store_keeps_but_ads)
  show "plain_keep P K" using K by (simp add: plain_keep_def others_keep_def)
  show "keeps P (kube_SyncAdvertisements K j t i ss now)" for t i ss now
    unfolding kube_SyncAdvertisements_def sync_service_def target_peers_def check_target_def
      write_advertisement_def write_import_def revoke_unseen_def
    by (intro keeps_intros K others_keep_reads [OF K])
qed (use assms in blast)+

section \<open>The contract\<close>

definition kube_gen :: "('w \<Rightarrow> string \<times> string \<rightharpoonup> cluster_identity) \<Rightarrow> 'w \<Rightarrow> string \<times> string \<Rightarrow> u64" where
  "kube_gen at w k = (case at w k of None \<Rightarrow> 0 | Some v \<Rightarrow> ci_lastGeneration v)"

definition secret_used :: "(string \<times> string \<rightharpoonup> secret) \<Rightarrow> string \<times> string \<Rightarrow> bool" where
  "secret_used f k = (case f k of None \<Rightarrow> False | Some s \<Rightarrow> sec_annotation s used_at \<noteq> [])"

definition kube_inv_spent :: "('w \<Rightarrow> string \<times> string \<rightharpoonup> secret) \<Rightarrow> 'w \<Rightarrow> string \<times> string \<Rightarrow> bool" where
  "kube_inv_spent at w k = secret_used (at w) (fst k, ''among-clusters-invite-'' @ snd k)"

definition kube_claim_spent :: "('w \<Rightarrow> string \<times> string \<rightharpoonup> secret) \<Rightarrow> 'w \<Rightarrow> string \<times> string \<Rightarrow> bool" where
  "kube_claim_spent at w k = secret_used (at w) (fst k, ''among-clusters-claim-'' @ snd k)"

text \<open>The requests of the Secrets, under \<open>api_secrets\<close>.\<close>

lemma secrets_getD:
  assumes "api_secrets K at" and "secrets_get K ns n w = (Inr s, w')"
  shows "at w' (ns, n) = Some s" "mt_Namespace (sec_Meta s) = ns" "mt_Name (sec_Meta s) = n"
  using assms unfolding api_secrets_def by blast+

lemma secrets_createD:
  assumes "api_secrets K at" and "secrets_create K ns s w = (r, w')"
  shows "at w' = at w \<or> (at w (ns, mt_Name (sec_Meta s)) = None \<and>
    (\<exists>version. at w' = (at w)((ns, mt_Name (sec_Meta s)) \<mapsto> stored_secret s version)))"
  using assms unfolding api_secrets_def by blast

lemma secrets_updateD:
  assumes "api_secrets K at" and "secrets_update K ns s w = (r, w')"
  shows "(at w' = at w \<and> r \<noteq> Inr ()) \<or>
    (\<exists>version. at w' = (at w)((ns, mt_Name (sec_Meta s)) \<mapsto> stored_secret s version))"
  using assms unfolding api_secrets_def by blast

lemma secrets_update_Inr:
  assumes "api_secrets K at" and "secrets_update K ns s w = (Inr u, w')"
  obtains version where "at w' = (at w)((ns, mt_Name (sec_Meta s)) \<mapsto> stored_secret s version)"
  using secrets_updateD [OF assms] by auto

lemma identities_getD:
  assumes "api_identities K at" and "identities_get K ns n w = (Inr v, w')"
  shows "at w' (ns, n) = Some v" "mt_Name (ci_Meta v) = n"
  using assms unfolding api_identities_def by blast+

lemma identities_createD:
  assumes "api_identities K at" and "identities_create K ns v w = (r, w')"
  shows "at w' = at w \<or> (at w (ns, mt_Name (ci_Meta v)) = None \<and>
    (\<exists>version. at w' = (at w)((ns, mt_Name (ci_Meta v)) \<mapsto> stored_identity v version)))"
  using assms unfolding api_identities_def by blast

lemma identities_updateD:
  assumes "api_identities K at" and "identities_update_status K ns v w = (r, w')"
  shows "(at w' = at w \<and> r \<noteq> Inr ()) \<or>
    (\<exists>version. at w' = (at w)((ns, mt_Name (ci_Meta v)) \<mapsto> stored_identity v version))"
  using assms unfolding api_identities_def by blast

lemma secret_keepsD:
  assumes "api_secrets K at"
  shows "others_keep (\<lambda>w. Q (at w)) K" "keeps (\<lambda>w. Q (at w)) (identities_create K ns v)"
    "keeps (\<lambda>w. Q (at w)) (identities_update_status K ns v)"
proof -
  show "others_keep (\<lambda>w. Q (at w)) K"
    by (rule others_keep_of_value [of at]) (use assms in \<open>simp add: api_secrets_def\<close>)
  show "keeps (\<lambda>w. Q (at w)) (identities_create K ns v)"
    by (rule keeps_of_value [of at]) (use assms in \<open>simp add: api_secrets_def\<close>)
  show "keeps (\<lambda>w. Q (at w)) (identities_update_status K ns v)"
    by (rule keeps_of_value [of at]) (use assms in \<open>simp add: api_secrets_def\<close>)
qed

lemma identity_keepsD:
  assumes "api_identities K at"
  shows "others_keep (\<lambda>w. Q (at w)) K" "keeps (\<lambda>w. Q (at w)) (secrets_create K ns s)"
    "keeps (\<lambda>w. Q (at w)) (secrets_update K ns s)"
proof -
  show "others_keep (\<lambda>w. Q (at w)) K"
    by (rule others_keep_of_value [of at]) (use assms in \<open>simp add: api_identities_def\<close>)
  show "keeps (\<lambda>w. Q (at w)) (secrets_create K ns s)"
    by (rule keeps_of_value [of at]) (use assms in \<open>simp add: api_identities_def\<close>)
  show "keeps (\<lambda>w. Q (at w)) (secrets_update K ns s)"
    by (rule keeps_of_value [of at]) (use assms in \<open>simp add: api_identities_def\<close>)
qed

text \<open>A Secret once marked as used stays so.\<close>

lemma kube_used_kept:
  assumes api: "api_secrets K at" and nano: "\<And>t. rfc3339nano_format j t \<noteq> []"
  shows "store_keeps (\<lambda>w. secret_used (at w) k) (kube_ops K j)"
proof (rule kube_store_keeps)
  show "others_keep (\<lambda>w. secret_used (at w) k) K"
    by (rule secret_keepsD [OF api])
next
  fix ns s
  show "keeps (\<lambda>w. secret_used (at w) k) (secrets_create K ns s)"
  proof (rule keeps_runI)
    fix w r w'
    assume "secret_used (at w) k" and "secrets_create K ns s w = (r, w')"
    with secrets_createD [OF api this(2)] show "secret_used (at w') k"
      by (auto simp: secret_used_def)
  qed
next
  fix ns s now
  show "keeps (\<lambda>w. secret_used (at w) k)
    (secrets_update K ns (annotate used_at (rfc3339nano_format j now) s))"
  proof (rule keeps_runI)
    fix w r w'
    assume "secret_used (at w) k"
      and "secrets_update K ns (annotate used_at (rfc3339nano_format j now) s) w = (r, w')"
    with secrets_updateD [OF api this(2)] show "secret_used (at w') k"
      by (auto simp: secret_used_def nano)
  qed
next
  fix ns v
  show "keeps (\<lambda>w. secret_used (at w) k) (identities_create K ns v)"
    by (rule secret_keepsD [OF api])
next
  fix t i g n
  show "keeps (\<lambda>w. secret_used (at w) k) (kube_RecordGeneration K j t i g n)"
    unfolding kube_RecordGeneration_def
    by (intro keeps_intros others_keep_reads secret_keepsD [OF api])
qed

text \<open>\<open>RecordGeneration\<close> either stores a higher generation in the identity or leaves it alone.\<close>

lemma kube_RecordGeneration_run:
  assumes api: "api_identities K at" and run: "kube_RecordGeneration K j t i h n w = (r, w')"
  shows "(at w' = at w \<and> r \<noteq> Inr ()) \<or>
    (\<exists>obj obj'. at w (t, i) = Some obj \<and> ci_lastGeneration obj < h \<and>
       at w' = (at w)((t, i) \<mapsto> obj') \<and> ci_lastGeneration obj' = h \<and>
       ci_publicKey obj' = ci_publicKey obj \<and> ci_bundleDigest obj' = ci_bundleDigest obj)"
proof -
  obtain got w1 where get: "identities_get K t i w = (got, w1)" by fastforce
  have reads: "reads_keep (\<lambda>x. at x = at w) K"
    by (rule others_keep_reads [OF identity_keepsD(1) [OF api]])
  from keeps_run [OF reads_keepD(3) [OF reads] refl get] have w1: "at w1 = at w" .
  show ?thesis
  proof (cases got)
    case (Inl e)
    with run get w1 show ?thesis
      by (auto simp: kube_RecordGeneration_def and_then_def)
  next
    case (Inr obj)
    with get have obj: "at w (t, i) = Some obj" "mt_Name (ci_Meta obj) = i"
      using identities_getD [OF api] w1 by metis+
    obtain clock w2 where now: "api_now K w1 = (clock, w2)" by fastforce
    from keeps_run [OF reads_keepD(1) [OF reads] w1 now] have w2: "at w2 = at w" .
    show ?thesis
    proof (cases "\<exists>t0. clock = Inr t0 \<and> ci_lastGeneration obj < h")
      case False
      with run get Inr now w1 w2 show ?thesis
        by (cases clock; cases "h \<le> ci_lastGeneration obj")
          (auto simp: kube_RecordGeneration_def and_then_def)
    next
      case True
      then obtain t0 where t0: "clock = Inr t0" "ci_lastGeneration obj < h" by blast
      let ?new = "obj\<lparr>ci_lastGeneration := h, ci_lastNonce := n, ci_state := ''Ready'',
        ci_lastSeenAt := rfc3339_format j t0, ci_observedGeneration := mt_Generation (ci_Meta obj)\<rparr>"
      have "identities_update_status K t ?new w2 = (r, w')"
        using run get Inr now t0 not_le [THEN iffD2, OF t0(2)]
        by (simp add: kube_RecordGeneration_def and_then_def)
      from identities_updateD [OF api this] consider "at w' = at w2" "r \<noteq> Inr ()"
        | version where "at w' = (at w2)((t, i) \<mapsto> stored_identity ?new version)"
        using obj(2) by auto
      then show ?thesis
      proof cases
        case 2
        then have "at w' = (at w)((t, i) \<mapsto> stored_identity ?new version)"
          "ci_lastGeneration (stored_identity ?new version) = h"
          "ci_publicKey (stored_identity ?new version) = ci_publicKey obj"
          "ci_bundleDigest (stored_identity ?new version) = ci_bundleDigest obj"
          by (simp_all add: w2)
        with obj(1) t0(2) show ?thesis
          by blast
      qed (simp add: w2)
    qed
  qed
qed

text \<open>The generation of an identity never falls.\<close>

lemma kube_gen_kept:
  assumes api: "api_identities K at"
  shows "store_keeps (\<lambda>w. g \<le> kube_gen at w k) (kube_ops K j)"
proof (rule kube_store_keeps)
  show "others_keep (\<lambda>w. g \<le> kube_gen at w k) K"
    unfolding kube_gen_def by (rule identity_keepsD [OF api])
next
  fix ns s now
  show "keeps (\<lambda>w. g \<le> kube_gen at w k) (secrets_create K ns s)"
    "keeps (\<lambda>w. g \<le> kube_gen at w k) (secrets_update K ns (annotate used_at (rfc3339nano_format j now) s))"
    unfolding kube_gen_def by (rule identity_keepsD [OF api])+
next
  fix ns v
  show "keeps (\<lambda>w. g \<le> kube_gen at w k) (identities_create K ns v)"
  proof (rule keeps_runI)
    fix w r w'
    assume "g \<le> kube_gen at w k" and "identities_create K ns v w = (r, w')"
    with identities_createD [OF api this(2)] show "g \<le> kube_gen at w' k"
      by (auto simp: kube_gen_def)
  qed
next
  fix t i h n
  show "keeps (\<lambda>w. g \<le> kube_gen at w k) (kube_RecordGeneration K j t i h n)"
  proof (rule keeps_runI)
    fix w r w'
    assume le: "g \<le> kube_gen at w k" and run: "kube_RecordGeneration K j t i h n w = (r, w')"
    show "g \<le> kube_gen at w' k"
      using kube_RecordGeneration_run [OF api run] le by (fastforce simp: kube_gen_def)
  qed
qed

lemma kube_record_gen:
  assumes "api_identities K at" and "kube_RecordGeneration K j t i g n w = (Inr u, w')"
  shows "kube_gen at w (t, i) < g \<and> g \<le> kube_gen at w' (t, i)"
  using kube_RecordGeneration_run [OF assms] by (auto simp: kube_gen_def)

text \<open>Reading a Secret that is not marked and marking it.\<close>

lemma read_and_mark:
  assumes api: "api_secrets K at" and nano: "rfc3339nano_format j now \<noteq> []"
    and get: "secrets_get K ns n w = (Inr s, w1)" and fresh: "sec_annotation s used_at = []"
    and upd: "secrets_update K ns (annotate used_at (rfc3339nano_format j now) s) w1 = (Inr (), w')"
  shows "\<not> secret_used (at w) (ns, n) \<and> secret_used (at w') (ns, n)"
proof -
  have w1: "at w1 = at w"
    using keeps_run [OF reads_keepD(2) [OF others_keep_reads [OF secret_keepsD(1) [OF api]]] refl get] .
  have s: "at w (ns, n) = Some s" "mt_Name (sec_Meta s) = n"
    using secrets_getD [OF api get] by (simp_all add: w1)
  obtain version where "at w' = (at w1)((ns, mt_Name (sec_Meta (annotate used_at (rfc3339nano_format j now) s)))
      \<mapsto> stored_secret (annotate used_at (rfc3339nano_format j now) s) version)"
    using secrets_update_Inr [OF api upd] .
  then have "at w' (ns, n) = Some (stored_secret (annotate used_at (rfc3339nano_format j now) s) version)"
    by (simp add: s(2))
  with s(1) fresh nano show ?thesis
    by (simp add: secret_used_def)
qed

lemma kube_inv_consumed:
  assumes api: "api_secrets K at" and nano: "\<And>t. rfc3339nano_format j t \<noteq> []"
    and run: "kube_ConsumeInvitation K j i h t c r now w = (Inr v, w')"
  shows "\<not> kube_inv_spent at w (t, i) \<and> kube_inv_spent at w' (t, i)"
proof -
  let ?n = "''among-clusters-invite-'' @ i"
  from run obtain s w1 where get: "secrets_get K t ?n w = (Inr s, w1)"
    and fresh: "sec_annotation s used_at = []"
    and upd: "secrets_update K t (annotate used_at (rfc3339nano_format j now) s) w1 = (Inr (), w')"
    unfolding kube_ConsumeInvitation_def Let_def by (elim run_elims) auto
  from read_and_mark [OF api nano get fresh upd] show ?thesis
    by (simp add: kube_inv_spent_def)
qed

lemma claim_attempt_Inr:
  assumes api: "api_secrets K at" and nano: "\<And>t. rfc3339nano_format j t \<noteq> []"
    and run: "claim_attempt K j t i h now w = (Inr (Some v), w')"
  shows "\<not> kube_claim_spent at w (t, i) \<and> kube_claim_spent at w' (t, i)"
proof -
  let ?n = "''among-clusters-claim-'' @ i"
  from run obtain s w1 where get: "secrets_get K t ?n w = (Inr s, w1)"
    and fresh: "sec_annotation s used_at = []"
    and upd: "secrets_update K (mt_Namespace (sec_Meta s))
      (annotate used_at (rfc3339nano_format j now) s) w1 = (Inr (), w')"
    unfolding claim_attempt_def Let_def
    by (elim run_elims) (auto split: sum.splits if_splits elim!: run_elims)
  from secrets_getD(2) [OF api get] read_and_mark [OF api nano get fresh] upd show ?thesis
    by (simp add: kube_claim_spent_def)
qed

lemma claim_attempt_keeps:
  assumes "api_secrets K at" and "\<And>t. rfc3339nano_format j t \<noteq> []"
  shows "keeps (\<lambda>w. kube_claim_spent at w k) (claim_attempt K j t i h now)"
proof -
  have "keeps (\<lambda>w. secret_used (at w) k') (secrets_update K ns (annotate used_at (rfc3339nano_format j now) s))" for ns s k'
  proof (rule keeps_runI)
    fix w r w'
    assume "secret_used (at w) k'"
      and "secrets_update K ns (annotate used_at (rfc3339nano_format j now) s) w = (r, w')"
    with secrets_updateD [OF assms(1) this(2)] show "secret_used (at w') k'"
      by (auto simp: secret_used_def assms(2))
  qed
  then show ?thesis
    unfolding claim_attempt_def Let_def kube_claim_spent_def
    by (intro keeps_intros others_keep_reads secret_keepsD [OF assms(1)])
qed

lemma claim_attempts_Inr:
  assumes api: "api_secrets K at" and nano: "\<And>t. rfc3339nano_format j t \<noteq> []"
    and run: "claim_attempts m (claim_attempt K j t i h now) w = (Inr v, w')"
  shows "\<not> kube_claim_spent at w (t, i) \<and> kube_claim_spent at w' (t, i)"
  using run
proof (induction m arbitrary: w)
  case (Suc m)
  then obtain r w1 where turn: "claim_attempt K j t i h now w = (Inr r, w1)"
    and rest: "(case r of Some v \<Rightarrow> give v | None \<Rightarrow> claim_attempts m (claim_attempt K j t i h now)) w1
      = (Inr v, w')"
    by (auto elim!: run_elims)
  show ?case
  proof (cases r)
    case None
    with rest Suc.IH have "\<not> kube_claim_spent at w1 (t, i) \<and> kube_claim_spent at w' (t, i)"
      by simp
    then show ?thesis
      using keeps_run [OF claim_attempt_keeps [OF api nano] _ turn] by blast
  next
    case (Some x)
    with rest turn claim_attempt_Inr [OF api nano] show ?thesis by auto
  qed
qed simp

text \<open>The store over the API server is a sovereign store.\<close>

lemma kube_sovereign_store:
  assumes secrets: "api_secrets K sat" and identities: "api_identities K iat"
    and nano: "\<And>t. rfc3339nano_format j t \<noteq> []"
  shows "sovereign_store (kube_ops K j) (kube_gen iat) (kube_inv_spent sat) (kube_claim_spent sat)"
proof
  fix t i g n s u s'
  assume "RecordGeneration (kube_ops K j) t i g n s = (Inr u, s')"
  then show "kube_gen iat s (t, i) < g \<and> g \<le> kube_gen iat s' (t, i)"
    using kube_record_gen [OF identities] by (simp add: kube_ops_def)
next
  fix now i h t c r s v s'
  assume "ConsumeInvitation (kube_ops K j) i h t c r now s = (Inr v, s')"
  then show "\<not> kube_inv_spent sat s (t, i) \<and> kube_inv_spent sat s' (t, i)"
    using kube_inv_consumed [OF secrets nano] by (simp add: kube_ops_def)
next
  fix now t i h s v s'
  assume "ConsumeOnboardingClaim (kube_ops K j) t i h now s = (Inr v, s')"
  then show "\<not> kube_claim_spent sat s (t, i) \<and> kube_claim_spent sat s' (t, i)"
    using claim_attempts_Inr [OF secrets nano]
    by (simp add: kube_ops_def kube_ConsumeOnboardingClaim_def)
next
  fix g k
  show "store_keeps (\<lambda>s. g \<le> kube_gen iat s k) (kube_ops K j)"
    by (rule kube_gen_kept [OF identities])
next
  fix k
  show "store_keeps (\<lambda>s. kube_inv_spent sat s k) (kube_ops K j)"
    "store_keeps (\<lambda>s. kube_claim_spent sat s k) (kube_ops K j)"
    unfolding kube_inv_spent_def kube_claim_spent_def
    by (rule kube_used_kept [OF secrets nano])+
qed

end
