(* ===== verification/Demo_Cluster.thy ===== *)
theory Demo_Cluster
  imports Kubernetes_Contract "HOL-Library.AList"
begin

text \<open>
  A small API server in memory, one table of objects per kind, with the optimistic locking of
  the real one (a write names the resource version it replaces, and every write makes a new
  one). It instantiates the parameter \<open>kube\<close> in the witnesses: it shows that what the theorems
  ask of an API server can hold, and lets the model run on concrete clusters.
\<close>

type_synonym 'o table = "((string \<times> string) \<times> 'o) list"

definition table_get :: "('w \<Rightarrow> 'o table) \<Rightarrow> ('o \<Rightarrow> object_meta) \<Rightarrow> string \<Rightarrow> string \<Rightarrow>
    (go_error, 'o, 'w) prog" where
  "table_get sel meta ns n w =
     (case map_of (sel w) (ns, n) of
        None \<Rightarrow> (Inl (ApiNotFound ''not found''), w)
      | Some x \<Rightarrow> if mt_Namespace (meta x) = ns \<and> mt_Name (meta x) = n then (Inr x, w)
          else (Inl (ApiOther ''corrupt object''), w))"

definition table_list :: "('w \<Rightarrow> 'o table) \<Rightarrow> ('o \<Rightarrow> object_meta) \<Rightarrow> string \<Rightarrow> (go_error, 'o list, 'w) prog" where
  "table_list sel meta ns w =
     (Inr (map snd (filter (\<lambda>(k, x). (ns = [] \<or> fst k = ns) \<and> k = (mt_Namespace (meta x), mt_Name (meta x)) \<and>
        map_of (sel w) k = Some x) (sel w))), w)"

definition table_create :: "('w \<Rightarrow> 'o table) \<Rightarrow> ('o table \<Rightarrow> 'w \<Rightarrow> 'w) \<Rightarrow> ('o \<Rightarrow> object_meta) \<Rightarrow>
    ('o \<Rightarrow> server_fields \<Rightarrow> 'o) \<Rightarrow> string \<Rightarrow> 'o \<Rightarrow> (go_error, unit, 'w) prog" where
  "table_create sel put meta version ns x w =
     (let k = (ns, mt_Name (meta x)) in
      if map_of (sel w) k \<noteq> None then (Inl (ApiAlreadyExists ''already exists''), w)
      else (Inr (), put (AList.update k (version x \<lparr>sf_ResourceVersion = ''1'', sf_Generation = 1, sf_CreationTimestamp = 20 * second\<rparr>) (sel w)) w))"

definition table_update :: "('w \<Rightarrow> 'o table) \<Rightarrow> ('o table \<Rightarrow> 'w \<Rightarrow> 'w) \<Rightarrow> ('o \<Rightarrow> object_meta) \<Rightarrow>
    ('o \<Rightarrow> server_fields \<Rightarrow> 'o) \<Rightarrow> string \<Rightarrow> 'o \<Rightarrow> (go_error, unit, 'w) prog" where
  "table_update sel put meta version ns x w =
     (let k = (ns, mt_Name (meta x)) in
      case map_of (sel w) k of
        None \<Rightarrow> (Inl (ApiNotFound ''not found''), w)
      | Some old \<Rightarrow>
          if mt_ResourceVersion (meta old) \<noteq> mt_ResourceVersion (meta x)
          then (Inl (ApiConflict ''the object has been modified''), w)
          else (Inr (), put (AList.update k (version x \<lparr>sf_ResourceVersion = CHR ''1'' # mt_ResourceVersion (meta x),
                 sf_Generation = mt_Generation (meta old), sf_CreationTimestamp = mt_CreationTimestamp (meta old)\<rparr>) (sel w)) w))"

record demo_cluster =
  dc_now :: time
  dc_secrets :: "secret table"
  dc_identities :: "cluster_identity table"
  dc_peers :: "peer table"
  dc_links :: "authenticated_link table"
  dc_policies :: "peer_policy table"
  dc_ads :: "advertisement table"
  dc_imports :: "imported_service table"
  dc_grants :: "access_grant table"
  dc_services :: "kube_service table"

definition empty_cluster :: demo_cluster where
  "empty_cluster = \<lparr>dc_now = 20 * second, dc_secrets = [], dc_identities = [], dc_peers = [], dc_links = [],
     dc_policies = [], dc_ads = [], dc_imports = [], dc_grants = [], dc_services = []\<rparr>"

definition set_peer :: "peer \<Rightarrow> server_fields \<Rightarrow> peer" where
  "set_peer x v = x\<lparr>pe_Meta := server_meta (pe_Meta x) v\<rparr>"
definition set_link :: "authenticated_link \<Rightarrow> server_fields \<Rightarrow> authenticated_link" where
  "set_link x v = x\<lparr>al_Meta := server_meta (al_Meta x) v\<rparr>"
definition set_ad :: "advertisement \<Rightarrow> server_fields \<Rightarrow> advertisement" where
  "set_ad x v = x\<lparr>ad_Meta := server_meta (ad_Meta x) v\<rparr>"
definition set_import :: "imported_service \<Rightarrow> server_fields \<Rightarrow> imported_service" where
  "set_import x v = x\<lparr>is_Meta := server_meta (is_Meta x) v\<rparr>"
definition set_grant :: "access_grant \<Rightarrow> server_fields \<Rightarrow> access_grant" where
  "set_grant x v = x\<lparr>ag_Meta := server_meta (ag_Meta x) v\<rparr>"
definition set_service :: "kube_service \<Rightarrow> server_fields \<Rightarrow> kube_service" where
  "set_service x v = x\<lparr>sv_Meta := server_meta (sv_Meta x) v\<rparr>"

definition demo_kube :: "demo_cluster kube" where
  "demo_kube = \<lparr>wall_clock = (\<lambda>w. (dc_now w, w)),
     secrets_get = table_get dc_secrets sec_Meta,
     secrets_create = table_create dc_secrets (\<lambda>t. dc_secrets_update (\<lambda>_. t)) sec_Meta stored_secret,
     secrets_update = table_update dc_secrets (\<lambda>t. dc_secrets_update (\<lambda>_. t)) sec_Meta stored_secret,
     identities_get = table_get dc_identities ci_Meta,
     identities_create = table_create dc_identities (\<lambda>t. dc_identities_update (\<lambda>_. t)) ci_Meta stored_identity,
     identities_update_status = table_update dc_identities (\<lambda>t. dc_identities_update (\<lambda>_. t)) ci_Meta stored_identity,
     peers_get = table_get dc_peers pe_Meta, peers_list = table_list dc_peers pe_Meta,
     peers_update_status = table_update dc_peers (\<lambda>t. dc_peers_update (\<lambda>_. t)) pe_Meta set_peer,
     links_get = table_get dc_links al_Meta, links_list = table_list dc_links al_Meta,
     links_update_status = table_update dc_links (\<lambda>t. dc_links_update (\<lambda>_. t)) al_Meta set_link,
     policies_get = table_get dc_policies pp_Meta,
     ads_get = table_get dc_ads ad_Meta,
     ads_list = (\<lambda>ns sel. and_then (table_list dc_ads ad_Meta ns) (\<lambda>ads. give (case sel of
        None \<Rightarrow> ads | Some (key, value) \<Rightarrow> filter (\<lambda>a. mt_Labels (ad_Meta a) key = Some value) ads))),
     ads_create = table_create dc_ads (\<lambda>t. dc_ads_update (\<lambda>_. t)) ad_Meta set_ad,
     ads_update = table_update dc_ads (\<lambda>t. dc_ads_update (\<lambda>_. t)) ad_Meta set_ad,
     ads_update_status = table_update dc_ads (\<lambda>t. dc_ads_update (\<lambda>_. t)) ad_Meta set_ad,
     imports_list = table_list dc_imports is_Meta,
     imports_create = table_create dc_imports (\<lambda>t. dc_imports_update (\<lambda>_. t)) is_Meta set_import,
     imports_update_status = table_update dc_imports (\<lambda>t. dc_imports_update (\<lambda>_. t)) is_Meta set_import,
     grants_get = table_get dc_grants ag_Meta, grants_list = table_list dc_grants ag_Meta,
     grants_update_status = table_update dc_grants (\<lambda>t. dc_grants_update (\<lambda>_. t)) ag_Meta set_grant,
     services_get = table_get dc_services sv_Meta,
     services_create = table_create dc_services (\<lambda>t. dc_services_update (\<lambda>_. t)) sv_Meta set_service\<rparr>"

lemma demo_kube_simps:
  "wall_clock demo_kube = (\<lambda>w. (dc_now w, w))"
  "secrets_get demo_kube = table_get dc_secrets sec_Meta"
  "secrets_create demo_kube = table_create dc_secrets (\<lambda>t. dc_secrets_update (\<lambda>_. t)) sec_Meta stored_secret"
  "secrets_update demo_kube = table_update dc_secrets (\<lambda>t. dc_secrets_update (\<lambda>_. t)) sec_Meta stored_secret"
  "identities_get demo_kube = table_get dc_identities ci_Meta"
  "identities_create demo_kube = table_create dc_identities (\<lambda>t. dc_identities_update (\<lambda>_. t)) ci_Meta stored_identity"
  "identities_update_status demo_kube = table_update dc_identities (\<lambda>t. dc_identities_update (\<lambda>_. t)) ci_Meta stored_identity"
  "peers_get demo_kube = table_get dc_peers pe_Meta"
  "peers_list demo_kube = table_list dc_peers pe_Meta"
  "peers_update_status demo_kube = table_update dc_peers (\<lambda>t. dc_peers_update (\<lambda>_. t)) pe_Meta set_peer"
  "links_get demo_kube = table_get dc_links al_Meta"
  "links_list demo_kube = table_list dc_links al_Meta"
  "links_update_status demo_kube = table_update dc_links (\<lambda>t. dc_links_update (\<lambda>_. t)) al_Meta set_link"
  "policies_get demo_kube = table_get dc_policies pp_Meta"
  "ads_get demo_kube = table_get dc_ads ad_Meta"
  "ads_list demo_kube = (\<lambda>ns sel. and_then (table_list dc_ads ad_Meta ns) (\<lambda>ads. give (case sel of None \<Rightarrow> ads | Some (key, value) \<Rightarrow> filter (\<lambda>a. mt_Labels (ad_Meta a) key = Some value) ads)))"
  "ads_create demo_kube = table_create dc_ads (\<lambda>t. dc_ads_update (\<lambda>_. t)) ad_Meta set_ad"
  "ads_update demo_kube = table_update dc_ads (\<lambda>t. dc_ads_update (\<lambda>_. t)) ad_Meta set_ad"
  "ads_update_status demo_kube = table_update dc_ads (\<lambda>t. dc_ads_update (\<lambda>_. t)) ad_Meta set_ad"
  "imports_list demo_kube = table_list dc_imports is_Meta"
  "imports_create demo_kube = table_create dc_imports (\<lambda>t. dc_imports_update (\<lambda>_. t)) is_Meta set_import"
  "imports_update_status demo_kube = table_update dc_imports (\<lambda>t. dc_imports_update (\<lambda>_. t)) is_Meta set_import"
  "grants_get demo_kube = table_get dc_grants ag_Meta"
  "grants_list demo_kube = table_list dc_grants ag_Meta"
  "grants_update_status demo_kube = table_update dc_grants (\<lambda>t. dc_grants_update (\<lambda>_. t)) ag_Meta set_grant"
  "services_get demo_kube = table_get dc_services sv_Meta"
  "services_create demo_kube = table_create dc_services (\<lambda>t. dc_services_update (\<lambda>_. t)) sv_Meta set_service"
  by (simp_all add: demo_kube_def)

section \<open>Its tables behave as stored objects\<close>

definition secrets_at :: "demo_cluster \<Rightarrow> string \<times> string \<rightharpoonup> secret" where
  "secrets_at w = map_of (dc_secrets w)"

definition identities_at :: "demo_cluster \<Rightarrow> string \<times> string \<rightharpoonup> cluster_identity" where
  "identities_at w = map_of (dc_identities w)"

lemma table_get_keeps: "keeps P (table_get sel meta ns n)"
  by (auto simp: keeps_def table_get_def split: option.splits)

lemma table_list_keeps: "keeps P (table_list sel meta ns)"
  by (simp add: keeps_def table_list_def)

lemma table_write_keeps:
  assumes "\<And>t w. P w \<Longrightarrow> P (put t w)"
  shows "keeps P (table_create sel put meta version ns x)" "keeps P (table_update sel put meta version ns x)"
  by (auto simp: keeps_def table_create_def table_update_def Let_def assms split: option.splits)

lemma demo_others_keep:
  assumes "\<And>t w. P w \<Longrightarrow> P (dc_peers_update (\<lambda>_. t) w)" "\<And>t w. P w \<Longrightarrow> P (dc_links_update (\<lambda>_. t) w)"
    "\<And>t w. P w \<Longrightarrow> P (dc_ads_update (\<lambda>_. t) w)" "\<And>t w. P w \<Longrightarrow> P (dc_imports_update (\<lambda>_. t) w)"
    "\<And>t w. P w \<Longrightarrow> P (dc_grants_update (\<lambda>_. t) w)"
  shows "others_keep P demo_kube"
  unfolding others_keep_def reads_keep_def demo_kube_def kube.simps
  by (intro conjI allI table_get_keeps table_list_keeps table_write_keeps assms keeps_and_then keeps_give)
    (simp_all add: keeps_def api_now_def)

lemma demo_secrets: "api_secrets demo_kube secrets_at"
  unfolding api_secrets_def
proof (intro conjI)
  show "\<forall>f. others_keep (\<lambda>w. secrets_at w = f) demo_kube"
    by (intro allI demo_others_keep) (simp_all add: secrets_at_def)
  show "\<forall>f ns v. keeps (\<lambda>w. secrets_at w = f) (identities_create demo_kube ns v)"
    "\<forall>f ns v. keeps (\<lambda>w. secrets_at w = f) (identities_update_status demo_kube ns v)"
    unfolding demo_kube_def kube.simps by (intro allI table_write_keeps; simp add: secrets_at_def)+
  show "\<forall>ns n w s w'. secrets_get demo_kube ns n w = (Inr s, w') \<longrightarrow>
      secrets_at w' (ns, n) = Some s \<and> mt_Namespace (sec_Meta s) = ns \<and> mt_Name (sec_Meta s) = n"
    by (auto simp: demo_kube_def table_get_def secrets_at_def split: option.splits if_splits)
  show "\<forall>ns s w r w'. secrets_create demo_kube ns s w = (r, w') \<longrightarrow>
      secrets_at w' = secrets_at w \<or> (secrets_at w (ns, mt_Name (sec_Meta s)) = None \<and>
        (\<exists>version. secrets_at w' = (secrets_at w)((ns, mt_Name (sec_Meta s)) \<mapsto> stored_secret s version)))"
    by (auto simp: demo_kube_def table_create_def secrets_at_def Let_def update_conv' split: if_splits)
  show "\<forall>ns s w r w'. secrets_update demo_kube ns s w = (r, w') \<longrightarrow>
      (secrets_at w' = secrets_at w \<and> r \<noteq> Inr ()) \<or>
      (\<exists>version. secrets_at w' = (secrets_at w)((ns, mt_Name (sec_Meta s)) \<mapsto> stored_secret s version))"
    by (auto simp: demo_kube_def table_update_def secrets_at_def Let_def update_conv'
        split: if_splits option.splits)
qed

lemma demo_identities: "api_identities demo_kube identities_at"
  unfolding api_identities_def
proof (intro conjI)
  show "\<forall>f. others_keep (\<lambda>w. identities_at w = f) demo_kube"
    by (intro allI demo_others_keep) (simp_all add: identities_at_def)
  show "\<forall>f ns v. keeps (\<lambda>w. identities_at w = f) (secrets_create demo_kube ns v)"
    "\<forall>f ns v. keeps (\<lambda>w. identities_at w = f) (secrets_update demo_kube ns v)"
    unfolding demo_kube_def kube.simps by (intro allI table_write_keeps; simp add: identities_at_def)+
  show "\<forall>ns n w v w'. identities_get demo_kube ns n w = (Inr v, w') \<longrightarrow>
      identities_at w' (ns, n) = Some v \<and> mt_Name (ci_Meta v) = n"
    by (auto simp: demo_kube_def table_get_def identities_at_def split: option.splits if_splits)
  show "\<forall>ns v w r w'. identities_create demo_kube ns v w = (r, w') \<longrightarrow>
      identities_at w' = identities_at w \<or> (identities_at w (ns, mt_Name (ci_Meta v)) = None \<and>
        (\<exists>version. identities_at w' = (identities_at w)((ns, mt_Name (ci_Meta v)) \<mapsto> stored_identity v version)))"
    by (auto simp: demo_kube_def table_create_def identities_at_def Let_def update_conv' split: if_splits)
  show "\<forall>ns v w r w'. identities_update_status demo_kube ns v w = (r, w') \<longrightarrow>
      (identities_at w' = identities_at w \<and> r \<noteq> Inr ()) \<or>
      (\<exists>version. identities_at w' = (identities_at w)((ns, mt_Name (ci_Meta v)) \<mapsto> stored_identity v version))"
    by (auto simp: demo_kube_def table_update_def identities_at_def Let_def update_conv'
        split: if_splits option.splits)
qed

lemma demo_codec_nano: "rfc3339nano_format demo_codec t \<noteq> []"
  by (simp add: demo_codec_def)

section \<open>The Hub over the API server\<close>

text \<open>
  C9: over the Kubernetes store, on any API server whose Secrets and identities behave as
  stored objects, the generations of the control messages accepted for one identity are strictly
  increasing through any sequence of requests to the Hub.
\<close>

theorem kube_hub_no_replay:
  assumes "api_secrets K sat" and "api_identities K iat" and "\<And>t. rfc3339nano_format j t \<noteq> []"
  shows "sorted_wrt (<) (accepted message_key (t, i) rs
    (fst (run_calls (hub_handler srv (kube_ops K j)) rs w)))"
  by (rule hub_service.no_replay [OF hub_service.intro [OF kube_sovereign_store [OF assms]]])

definition demo_heartbeat :: control_message where
  "demo_heartbeat = demo_message\<lparr>cm_Signature := RawStd_Encode (demo_key ''priv'' @ ''identity.heartbeat'')\<rparr>"

definition demo_hub_cluster :: demo_cluster where
  "demo_hub_cluster = empty_cluster\<lparr>dc_identities := [((''t'', ''c''),
     \<lparr>ci_Meta = new_meta ''t'' ''c'', ci_clusterID = ''c'', ci_region = ''r'', ci_trustDomain = ''d'',
      ci_spiffeID = ''spiffe://d/cluster/c'', ci_bundleDigest = ''b'',
      ci_publicKey = RawStd_Encode (demo_key ''priv''), ci_capabilities = [], ci_gatewayEndpoints = [],
      ci_lastGeneration = 0, ci_lastNonce = [], ci_state = [], ci_lastSeenAt = [],
      ci_observedGeneration = 0\<rparr>)]\<rparr>"

theorem kube_hub_no_replay_witness:
  "sorted_wrt (<) (accepted message_key (''t'', ''c'')
     [PostMessage ''t'' ''c'' (Some demo_heartbeat) (\<lambda>_. 20 * second),
      PostMessage ''t'' ''c'' (Some demo_heartbeat) (\<lambda>_. 21 * second)]
     (fst (run_calls (hub_handler demo_server (kube_ops demo_kube demo_codec))
        [PostMessage ''t'' ''c'' (Some demo_heartbeat) (\<lambda>_. 20 * second),
         PostMessage ''t'' ''c'' (Some demo_heartbeat) (\<lambda>_. 21 * second)] demo_hub_cluster)))"
  by (rule kube_hub_no_replay [OF demo_secrets demo_identities demo_codec_nano])

text \<open>
  C10: over the same store, each invitation is accepted at most once and each onboarding link
  yields a document at most once, through any sequence of requests.
\<close>

theorem kube_hub_single_use:
  assumes "api_secrets K sat" and "api_identities K iat" and "\<And>t. rfc3339nano_format j t \<noteq> []"
  shows "distinct (List.map_filter accept_key
      (successes rs (fst (run_calls (hub_handler srv (kube_ops K j)) rs w)))) \<and>
    distinct (List.map_filter (link_key srv)
      (successes rs (fst (run_calls (hub_handler srv (kube_ops K j)) rs w))))"
  using hub_service.invitation_once [OF hub_service.intro [OF kube_sovereign_store [OF assms]]]
    hub_service.link_once [OF hub_service.intro [OF kube_sovereign_store [OF assms]]]
  by blast

theorem kube_hub_single_use_witness:
  "distinct (List.map_filter (link_key demo_server) (successes
     [claim_request ''i'' ''t'' ''n'' ''m'' (\<lambda>_. 5), claim_request ''i'' ''t'' ''n2'' ''m2'' (\<lambda>_. 6)]
     (fst (run_calls (hub_handler demo_server (kube_ops demo_kube demo_codec))
        [claim_request ''i'' ''t'' ''n'' ''m'' (\<lambda>_. 5), claim_request ''i'' ''t'' ''n2'' ''m2'' (\<lambda>_. 6)] empty_cluster))))"
  using kube_hub_single_use [OF demo_secrets demo_identities demo_codec_nano] by blast

end
