(* ===== verification/Reconciler.thy ===== *)
theory Reconciler
  imports Kube Platform
begin

text \<open>
  \<open>SovereignReconciler\<close> of \<open>internal/api/sovereign_reconciler.go\<close>: the loop of the Hub that
  lists the peers, advertisements, links, imports and grants of all namespaces every 15 seconds
  and writes the state it derives from each into the object's status. The decision taken for an
  object is a function of its own (\<open>peer_state\<close>, \<open>advertisement_state\<close>, \<open>link_state\<close>,
  \<open>grant_state\<close>); a pass is the list request and one status update per object, whose failure
  is ignored.
\<close>

record reconciler =
  rc_codec :: codec
  rc_HasCore :: bool
  rc_ManagedAccessEnabled :: bool

section \<open>Peers\<close>

definition peer_state :: "peer \<Rightarrow> string" where
  "peer_state p =
     (if pe_suspended p then ''Suspended''
      else if pe_localBundleConfirmed p \<and> pe_remoteBundleConfirmed p then ''Ready''
      else ''PendingConfirmation'')"

definition reconcile_peer :: "'w kube \<Rightarrow> peer \<Rightarrow> (go_error, unit, 'w) prog" where
  "reconcile_peer K p = ignore (peers_update_status K (mt_Namespace (pe_Meta p))
     (p\<lparr>pe_state := peer_state p, pe_observedGeneration := mt_Generation (pe_Meta p)\<rparr>))"

text \<open>A pass: nothing happens when the list request fails.\<close>

definition over_list :: "(go_error, 'o list, 'w) prog \<Rightarrow> ('o \<Rightarrow> (go_error, unit, 'w) prog) \<Rightarrow> (go_error, unit, 'w) prog" where
  "over_list request body =
     and_then (attempt request) (\<lambda>r. case r of Inl _ \<Rightarrow> give () | Inr items \<Rightarrow> for_each body items)"

definition reconcilePeers :: "'w kube \<Rightarrow> (go_error, unit, 'w) prog" where
  "reconcilePeers K = over_list (peers_list K []) (reconcile_peer K)"

section \<open>Advertisements\<close>

definition advertisement_published :: "codec \<Rightarrow> advertisement \<Rightarrow> time" where
  "advertisement_published j ad =
     (let value = annotation (ad_Meta ad) ''peering.re8ch.com/last-published-at'' in
      if value = [] then mt_CreationTimestamp (ad_Meta ad)
      else (case rfc3339_parse j value of
          None \<Rightarrow> mt_CreationTimestamp (ad_Meta ad) | Some parsed \<Rightarrow> parsed))"

definition advertisement_expires :: "codec \<Rightarrow> advertisement \<Rightarrow> time" where
  "advertisement_expires j ad = advertisement_published j ad + go_seconds (ad_ttlSeconds ad)"

definition advertisement_state :: "codec \<Rightarrow> time \<Rightarrow> advertisement \<Rightarrow> string" where
  "advertisement_state j now ad =
     (if ad_revoked ad then ''Revoked''
      else if \<not> Before now (advertisement_expires j ad) then ''Expired'' else ''Active'')"

definition reconcile_advertisement :: "'w kube \<Rightarrow> codec \<Rightarrow> time \<Rightarrow> advertisement \<Rightarrow> (go_error, unit, 'w) prog" where
  "reconcile_advertisement K j now ad = ignore (ads_update_status K (mt_Namespace (ad_Meta ad))
     (ad\<lparr>ad_state := advertisement_state j now ad,
         ad_expiresAt := rfc3339_format j (advertisement_expires j ad)\<rparr>))"

definition reconcileAdvertisements :: "'w kube \<Rightarrow> codec \<Rightarrow> (go_error, unit, 'w) prog" where
  "reconcileAdvertisements K j =
     and_then (api_now K) (\<lambda>now. over_list (ads_list K [] None) (reconcile_advertisement K j now))"

section \<open>Links\<close>

definition observation_limit :: duration where
  "observation_limit = 45 * second"

definition freshly_observed :: "codec \<Rightarrow> time \<Rightarrow> string \<Rightarrow> bool" where
  "freshly_observed j now value =
     (case rfc3339_parse j value of
        None \<Rightarrow> False | Some observed \<Rightarrow> go_sub now observed \<le> observation_limit)"

text \<open>The state and the reason written; \<open>None\<close> leaves the link as it is (\<open>continue\<close>).\<close>

definition link_state :: "codec \<Rightarrow> time \<Rightarrow> authenticated_link \<Rightarrow> (string \<times> string) option" where
  "link_state j now l =
     (if al_localGateway l = [] \<and> al_remoteGateway l = [] then Some (''Blocked'', ''NATUnreachable'')
      else (case al_lastObservedAt l of
          None \<Rightarrow> Some (''Connecting'', [])
        | Some value \<Rightarrow> if freshly_observed j now value then None
            else Some (''Disconnected'', ''ObservationStale'')))"

definition reconcile_link :: "'w kube \<Rightarrow> codec \<Rightarrow> authenticated_link \<Rightarrow> (go_error, unit, 'w) prog" where
  "reconcile_link K j l =
     and_then (api_now K) (\<lambda>now.
     case link_state j now l of
       None \<Rightarrow> give ()
     | Some (state, reason) \<Rightarrow> ignore (links_update_status K (mt_Namespace (al_Meta l))
         (l\<lparr>al_state := state, al_reason := reason,
            al_observedGeneration := mt_Generation (al_Meta l)\<rparr>)))"

definition reconcileLinks :: "'w kube \<Rightarrow> codec \<Rightarrow> (go_error, unit, 'w) prog" where
  "reconcileLinks K j = over_list (links_list K []) (reconcile_link K j)"

section \<open>Imports\<close>

definition import_service :: "imported_service \<Rightarrow> kube_service" where
  "import_service o1 =
     \<lparr>sv_Meta = (new_meta (mt_Namespace (is_Meta o1)) (is_localServiceName o1))
        \<lparr>mt_Labels := [''app.kubernetes.io/managed-by'' \<mapsto> ''among-clusters'',
                       ''peering.re8ch.com/import'' \<mapsto> mt_Name (is_Meta o1)]\<rparr>,
      sv_Selector = [''app.kubernetes.io/name'' \<mapsto> ''among-clusters-gateway''],
      sv_PortName = ''service'', sv_Port = 6443,
      sv_TargetPort = ucast (case is_localPort o1 of None \<Rightarrow> 8443 | Some p \<Rightarrow> p),
      sv_Protocol = ''TCP''\<rparr>"

text \<open>
  The state of an import that is not suspended: the Service is created; where that fails, an
  existing Service of the name that belongs to another import makes the import Failed.
\<close>

definition publish_import :: "'w kube \<Rightarrow> imported_service \<Rightarrow> (go_error, string, 'w) prog" where
  "publish_import K o1 =
     (let ns = mt_Namespace (is_Meta o1) in
      and_then (attempt (services_create K ns (import_service o1))) (\<lambda>created.
      case created of
        Inr _ \<Rightarrow> give ''Ready''
      | Inl _ \<Rightarrow> and_then (attempt (services_get K ns (is_localServiceName o1))) (\<lambda>existing.
          case existing of
            Inr svc \<Rightarrow> give (if labelled (sv_Meta svc) ''peering.re8ch.com/import'' \<noteq> mt_Name (is_Meta o1)
                then ''Failed'' else ''Ready'')
          | Inl _ \<Rightarrow> give ''Ready'')))"

definition reconcile_import :: "'w kube \<Rightarrow> imported_service \<Rightarrow> (go_error, unit, 'w) prog" where
  "reconcile_import K o1 =
     and_then (if is_suspended o1 then give ''Suspended'' else publish_import K o1) (\<lambda>state.
     ignore (imports_update_status K (mt_Namespace (is_Meta o1))
       (o1\<lparr>is_state := state,
           is_serviceRef := mt_Namespace (is_Meta o1) @ ''/'' @ is_localServiceName o1\<rparr>)))"

definition reconcileImports :: "reconciler \<Rightarrow> 'w kube \<Rightarrow> (go_error, unit, 'w) prog" where
  "reconcileImports r K =
     (if \<not> rc_HasCore r then give () else over_list (imports_list K []) (reconcile_import K))"

section \<open>Grants\<close>

definition grant_state :: "codec \<Rightarrow> bool \<Rightarrow> time \<Rightarrow> access_grant \<Rightarrow> string \<times> string" where
  "grant_state j enabled now g =
     (if \<not> enabled then (''Pending'', ''ManagedAccessDisabled'')
      else if ag_revoked g then (''Revoked'', [])
      else if \<not> Before now (parsed_time j (ag_expiresAt g)) then (''Expired'', [])
      else if ag_approved g
        then (if ag_credentialRef g = [] then (''AwaitingLocalApproval'', []) else (''Active'', []))
      else (''Pending'', []))"

definition reconcile_grant :: "'w kube \<Rightarrow> reconciler \<Rightarrow> time \<Rightarrow> access_grant \<Rightarrow> (go_error, unit, 'w) prog" where
  "reconcile_grant K r now g =
     (case grant_state (rc_codec r) (rc_ManagedAccessEnabled r) now g of (state, reason) \<Rightarrow>
      ignore (grants_update_status K (mt_Namespace (ag_Meta g)) (g\<lparr>ag_state := state, ag_reason := reason\<rparr>)))"

definition reconcileGrants :: "reconciler \<Rightarrow> 'w kube \<Rightarrow> (go_error, unit, 'w) prog" where
  "reconcileGrants r K =
     over_list (and_then (grants_list K []) (\<lambda>items. and_then (api_now K) (\<lambda>now. give (map (Pair now) items))))
       (\<lambda>(now, g). reconcile_grant K r now g)"

section \<open>A pass and the loop\<close>

definition Once :: "reconciler \<Rightarrow> 'w kube \<Rightarrow> (go_error, unit, 'w) prog" where
  "Once r K =
     and_then (reconcilePeers K) (\<lambda>_.
     and_then (reconcileAdvertisements K (rc_codec r)) (\<lambda>_.
     and_then (reconcileLinks K (rc_codec r)) (\<lambda>_.
     and_then (reconcileImports r K) (\<lambda>_.
     reconcileGrants r K))))"

text \<open>The loop until the context is done, as the number of passes made.\<close>

fun Run :: "nat \<Rightarrow> reconciler \<Rightarrow> 'w kube \<Rightarrow> (go_error, unit, 'w) prog" where
  "Run 0 r K = give ()"
| "Run (Suc n) r K = and_then (Once r K) (\<lambda>_. Run n r K)"

end
