(* ===== verification/Peer_Confirmation.thy ===== *)
theory Peer_Confirmation
  imports Demo_Cluster Reconciler
begin

text \<open>
  How a peer becomes Ready: the Hub's handlers (over the Kubernetes store) and the passes of the
  reconciler, interleaved. The theorem follows the two confirmation flags of a peer's status from
  the signed message that sets them to the state the reconciler derives from them.
\<close>

section \<open>Requests and passes\<close>

datatype hub_event = Request hub_request | Pass

definition hub_event_step :: "hub_server \<Rightarrow> reconciler \<Rightarrow> 'w kube \<Rightarrow> hub_event \<Rightarrow> 'w \<Rightarrow> 'w" where
  "hub_event_step srv rc K e w =
     (case e of
        Request r \<Rightarrow> snd (serve srv (kube_ops K (hs_codec srv)) r w)
      | Pass \<Rightarrow> snd (Once rc K w))"

abbreviation hub_events :: "hub_server \<Rightarrow> reconciler \<Rightarrow> 'w kube \<Rightarrow> hub_event list \<Rightarrow> 'w \<Rightarrow> 'w" where
  "hub_events srv rc K es w \<equiv> foldl (\<lambda>w e. hub_event_step srv rc K e w) w es"

section \<open>What is asked of the API server\<close>

definition stored_peer :: "peer \<Rightarrow> server_fields \<Rightarrow> peer" where
  "stored_peer p version = p\<lparr>pe_Meta := server_meta (pe_Meta p) version\<rparr>"

lemma stored_peer_simps [simp]:
  "pe_localIdentityRef (stored_peer p v) = pe_localIdentityRef p"
  "pe_remoteIdentityRef (stored_peer p v) = pe_remoteIdentityRef p"
  "pe_localBundleConfirmed (stored_peer p v) = pe_localBundleConfirmed p"
  "pe_remoteBundleConfirmed (stored_peer p v) = pe_remoteBundleConfirmed p"
  "pe_state (stored_peer p v) = pe_state p"
  by (simp_all add: stored_peer_def)

text \<open>No request but a status update of peers changes the peers.\<close>

definition no_peer_updates :: "'w kube \<Rightarrow> 'w kube" where
  "no_peer_updates K = K\<lparr>peers_update_status := (\<lambda>ns p. fail (ApiOther []))\<rparr>"

lemma no_peer_updates_simps [simp]:
  "wall_clock (no_peer_updates K) = wall_clock K" "secrets_get (no_peer_updates K) = secrets_get K"
  "secrets_create (no_peer_updates K) = secrets_create K" "secrets_update (no_peer_updates K) = secrets_update K"
  "identities_get (no_peer_updates K) = identities_get K"
  "identities_create (no_peer_updates K) = identities_create K"
  "identities_update_status (no_peer_updates K) = identities_update_status K"
  "peers_get (no_peer_updates K) = peers_get K" "peers_list (no_peer_updates K) = peers_list K"
  "peers_update_status (no_peer_updates K) = (\<lambda>ns p. fail (ApiOther []))"
  "links_get (no_peer_updates K) = links_get K" "links_list (no_peer_updates K) = links_list K"
  "links_update_status (no_peer_updates K) = links_update_status K"
  "policies_get (no_peer_updates K) = policies_get K" "ads_get (no_peer_updates K) = ads_get K"
  "ads_list (no_peer_updates K) = ads_list K" "ads_create (no_peer_updates K) = ads_create K"
  "ads_update (no_peer_updates K) = ads_update K" "imports_list (no_peer_updates K) = imports_list K"
  "imports_create (no_peer_updates K) = imports_create K" "grants_get (no_peer_updates K) = grants_get K"
  "grants_list (no_peer_updates K) = grants_list K"
  "grants_update_status (no_peer_updates K) = grants_update_status K"
  "services_get (no_peer_updates K) = services_get K" "api_now (no_peer_updates K) = api_now K"
  by (simp_all add: no_peer_updates_def api_now_def fun_eq_iff)

definition reconciler_keeps :: "('w \<Rightarrow> bool) \<Rightarrow> 'w kube \<Rightarrow> bool" where
  "reconciler_keeps P K \<longleftrightarrow>
     (\<forall>ns v. keeps P (ads_update_status K ns v)) \<and> (\<forall>ns v. keeps P (imports_update_status K ns v)) \<and>
     (\<forall>ns v. keeps P (services_create K ns v))"

definition api_peers :: "'w kube \<Rightarrow> ('w \<Rightarrow> string \<times> string \<rightharpoonup> peer) \<Rightarrow> bool" where
  "api_peers K at \<longleftrightarrow>
     (\<forall>f. others_keep (\<lambda>w. at w = f) (no_peer_updates K)) \<and>
     (\<forall>f. reconciler_keeps (\<lambda>w. at w = f) K) \<and>
     (\<forall>f ns s. keeps (\<lambda>w. at w = f) (secrets_create K ns s) \<and> keeps (\<lambda>w. at w = f) (secrets_update K ns s)) \<and>
     (\<forall>f ns v. keeps (\<lambda>w. at w = f) (identities_create K ns v) \<and> keeps (\<lambda>w. at w = f) (identities_update_status K ns v)) \<and>
     (\<forall>ns n w p w'. peers_get K ns n w = (Inr p, w') \<longrightarrow> at w' (ns, n) = Some p \<and> mt_Name (pe_Meta p) = n) \<and>
     (\<forall>ns w ps w'. peers_list K ns w = (Inr ps, w') \<longrightarrow>
        (\<forall>p \<in> set ps. at w' (mt_Namespace (pe_Meta p), mt_Name (pe_Meta p)) = Some p)) \<and>
     (\<forall>ns p w r w'. peers_update_status K ns p w = (r, w') \<longrightarrow>
        at w' = at w \<or> (\<exists>version. at w' = (at w)((ns, mt_Name (pe_Meta p)) \<mapsto> stored_peer p version)))"

section \<open>A confirmation and where it came from\<close>

text \<open>
  Among \<open>rs\<close> is a message, signed with the registered key of \<open>a\<close>, in which \<open>a\<close> quotes the
  digest registered for \<open>b\<close> and names the peer \<open>n\<close>.
\<close>

definition confirmation_sent :: "hub_server \<Rightarrow> hub_request set \<Rightarrow> (string \<times> string \<rightharpoonup> cluster_identity) \<Rightarrow>
    string \<Rightarrow> string \<Rightarrow> string \<Rightarrow> string \<Rightarrow> bool" where
  "confirmation_sent srv rs ids t n a b \<longleftrightarrow>
     (\<exists>m clock c ia ib key prev. PostMessage t a (Some m) clock \<in> rs \<and> cm_Type m = ''peer.bundle.confirm'' \<and>
        json_confirmation (hs_codec srv) (cm_Payload m) = Some c \<and> bc_PeerRef c = n \<and>
        ids (t, a) = Some ia \<and> RawStd_Decode (ci_publicKey ia) = Some key \<and>
        Verify (hs_crypto srv) (hs_codec srv) m key ''hub'' (clock 0) prev None = None \<and>
        ids (t, b) = Some ib \<and> bc_BundleDigest c = ci_bundleDigest ib)"

definition peer_backed :: "hub_server \<Rightarrow> hub_request set \<Rightarrow> (string \<times> string \<rightharpoonup> cluster_identity) \<Rightarrow>
    string \<times> string \<Rightarrow> peer \<Rightarrow> bool" where
  "peer_backed srv rs ids k p \<longleftrightarrow>
     (pe_localBundleConfirmed p \<longrightarrow> confirmation_sent srv rs ids (fst k) (snd k) (pe_localIdentityRef p) (pe_remoteIdentityRef p)) \<and>
     (pe_remoteBundleConfirmed p \<longrightarrow> confirmation_sent srv rs ids (fst k) (snd k) (pe_remoteIdentityRef p) (pe_localIdentityRef p)) \<and>
     (pe_state p = ''Ready'' \<longrightarrow> pe_localBundleConfirmed p \<and> pe_remoteBundleConfirmed p)"

definition peers_backed :: "hub_server \<Rightarrow> hub_request set \<Rightarrow> (string \<times> string \<rightharpoonup> cluster_identity) \<Rightarrow>
    (string \<times> string \<rightharpoonup> peer) \<Rightarrow> bool" where
  "peers_backed srv rs ids ps \<longleftrightarrow> (\<forall>k p. ps k = Some p \<longrightarrow> peer_backed srv rs ids k p)"

text \<open>Registered keys and digests do not change.\<close>

definition ids_grow :: "(string \<times> string \<rightharpoonup> cluster_identity) \<Rightarrow> (string \<times> string \<rightharpoonup> cluster_identity) \<Rightarrow> bool" where
  "ids_grow f g \<longleftrightarrow> (\<forall>k v. f k = Some v \<longrightarrow> (\<exists>v'. g k = Some v' \<and>
     ci_publicKey v' = ci_publicKey v \<and> ci_bundleDigest v' = ci_bundleDigest v))"

lemma confirmation_sent_grow:
  assumes "ids_grow f g" and "confirmation_sent srv rs f t n a b"
  shows "confirmation_sent srv rs g t n a b"
proof -
  from assms(2) obtain m clock c ia ib key prev where *: "PostMessage t a (Some m) clock \<in> rs"
    "cm_Type m = ''peer.bundle.confirm''" "json_confirmation (hs_codec srv) (cm_Payload m) = Some c"
    "bc_PeerRef c = n" "RawStd_Decode (ci_publicKey ia) = Some key"
    "Verify (hs_crypto srv) (hs_codec srv) m key ''hub'' (clock 0) prev None = None"
    "bc_BundleDigest c = ci_bundleDigest ib" and ids: "f (t, a) = Some ia" "f (t, b) = Some ib"
    unfolding confirmation_sent_def by blast
  from assms(1) ids obtain ja jb where "g (t, a) = Some ja" "ci_publicKey ja = ci_publicKey ia"
    "g (t, b) = Some jb" "ci_bundleDigest jb = ci_bundleDigest ib"
    unfolding ids_grow_def by blast
  with * show ?thesis
    unfolding confirmation_sent_def by metis
qed

lemma peers_backed_grow: "ids_grow f g \<Longrightarrow> peers_backed srv rs f ps \<Longrightarrow> peers_backed srv rs g ps"
  unfolding peers_backed_def peer_backed_def by (blast intro: confirmation_sent_grow)

lemma peers_backed_upd:
  "peers_backed srv rs ids ps \<Longrightarrow> peer_backed srv rs ids k p \<Longrightarrow> peers_backed srv rs ids (ps(k \<mapsto> p))"
  by (simp add: peers_backed_def)

lemma peer_backed_stored [simp]: "peer_backed srv rs ids k (stored_peer p v) = peer_backed srv rs ids k p"
  by (simp add: peer_backed_def)

section \<open>The invariant\<close>

definition api_hub :: "'w kube \<Rightarrow> ('w \<Rightarrow> string \<times> string \<rightharpoonup> cluster_identity) \<Rightarrow> ('w \<Rightarrow> string \<times> string \<rightharpoonup> peer) \<Rightarrow> bool" where
  "api_hub K iat pat \<longleftrightarrow> api_identities K iat \<and> api_peers K pat \<and> (\<forall>f. reconciler_keeps (\<lambda>w. iat w = f) K)"

lemma keeps_of_pair:
  assumes "\<And>f. keeps (\<lambda>w. a w = f) m" and "\<And>f. keeps (\<lambda>w. b w = f) m"
  shows "keeps (\<lambda>w. Q (a w) (b w)) m"
  using assms unfolding keeps_def by metis

lemma others_keep_no_peer_updates: "others_keep P K \<Longrightarrow> others_keep P (no_peer_updates K)"
  by (simp add: others_keep_def reads_keep_def keeps_fail)

lemma others_keep_of_pair:
  assumes "\<And>f. others_keep (\<lambda>w. a w = f) K" and "\<And>f. others_keep (\<lambda>w. b w = f) K"
  shows "others_keep (\<lambda>w. Q (a w) (b w)) K"
  unfolding others_keep_def reads_keep_def
  by (intro conjI allI; rule keeps_of_pair [of a _ b]; insert assms; simp add: others_keep_def reads_keep_def)

lemma api_hubD:
  assumes "api_hub K iat pat"
  shows "api_identities K iat" and "api_peers K pat"
    and "others_keep (\<lambda>w. Q (iat w) (pat w)) (no_peer_updates K)"
    and "reads_keep (\<lambda>w. Q (iat w) (pat w)) K"
    and "reconciler_keeps (\<lambda>w. Q (iat w) (pat w)) K"
    and "keeps (\<lambda>w. Q (iat w) (pat w)) (secrets_create K ns s)"
    and "keeps (\<lambda>w. Q (iat w) (pat w)) (secrets_update K ns s)"
    and "keeps (\<lambda>w. Q (iat w) (pat w)) (links_update_status K ns l)"
    and "keeps (\<lambda>w. Q (iat w) (pat w)) (grants_update_status K ns g)"
proof -
  note api = assms [unfolded api_hub_def]
  show ids: "api_identities K iat" and peers: "api_peers K pat"
    using api by blast+
  have iat: "others_keep (\<lambda>w. iat w = f) K" for f
    using ids by (simp add: api_identities_def)
  have pat: "others_keep (\<lambda>w. pat w = f) (no_peer_updates K)" for f
    using peers by (simp add: api_peers_def)
  show others: "others_keep (\<lambda>w. Q (iat w) (pat w)) (no_peer_updates K)"
    by (rule others_keep_of_pair [of iat _ pat]) (intro others_keep_no_peer_updates iat, rule pat)
  then show "reads_keep (\<lambda>w. Q (iat w) (pat w)) K"
    "keeps (\<lambda>w. Q (iat w) (pat w)) (links_update_status K ns l)"
    "keeps (\<lambda>w. Q (iat w) (pat w)) (grants_update_status K ns g)"
    by (simp_all add: others_keep_def reads_keep_def)
  show "reconciler_keeps (\<lambda>w. Q (iat w) (pat w)) K"
    unfolding reconciler_keeps_def
    by (intro conjI allI; rule keeps_of_pair [of iat _ pat]; insert api;
        simp add: api_peers_def reconciler_keeps_def)
  show "keeps (\<lambda>w. Q (iat w) (pat w)) (secrets_create K ns s)"
    "keeps (\<lambda>w. Q (iat w) (pat w)) (secrets_update K ns s)"
    by (rule keeps_of_pair [of iat _ pat]; insert api; simp add: api_peers_def api_identities_def)+
qed

lemma identities_keep_peers:
  assumes "api_hub K iat pat"
  shows "keeps (\<lambda>w. pat w = f) (identities_create K ns v)" "keeps (\<lambda>w. pat w = f) (identities_update_status K ns v)"
  using assms unfolding api_hub_def api_peers_def by blast+

lemma keeps_register_backed:
  assumes api: "api_hub K iat pat"
  shows "keeps (\<lambda>w. peers_backed srv rs (iat w) (pat w)) (identities_create K ns v)"
proof (rule keeps_runI)
  fix w r w'
  assume inv: "peers_backed srv rs (iat w) (pat w)" and run: "identities_create K ns v w = (r, w')"
  have "pat w' = pat w"
    by (rule keeps_run [OF identities_keep_peers(1) [OF api] refl run])
  moreover have "ids_grow (iat w) (iat w')"
    using identities_createD [OF api_hubD(1) [OF api] run] by (auto simp: ids_grow_def)
  ultimately show "peers_backed srv rs (iat w') (pat w')"
    using inv by (auto intro: peers_backed_grow)
qed

lemma keeps_record_backed:
  assumes api: "api_hub K iat pat"
  shows "keeps (\<lambda>w. peers_backed srv rs (iat w) (pat w)) (kube_RecordGeneration K j t i g n)"
proof (rule keeps_runI)
  fix w r w'
  assume inv: "peers_backed srv rs (iat w) (pat w)" and run: "kube_RecordGeneration K j t i g n w = (r, w')"
  have "keeps (\<lambda>w. pat w = f) (kube_RecordGeneration K j t i g n)" for f
    unfolding kube_RecordGeneration_def
    by (intro keeps_intros identities_keep_peers [OF api] api_hubD(4) [OF api])
  from keeps_run [OF this refl run] have "pat w' = pat w" .
  moreover have "ids_grow (iat w) (iat w')"
    using kube_RecordGeneration_run [OF api_hubD(1) [OF api] run] by (auto simp: ids_grow_def)
  ultimately show "peers_backed srv rs (iat w') (pat w')"
    using inv by (auto intro: peers_backed_grow)
qed

text \<open>Every store method but \<open>ConfirmPeerBundle\<close>, which alone updates peers.\<close>

definition no_confirm :: "'s store_ops \<Rightarrow> 's store_ops" where
  "no_confirm ops = ops\<lparr>ConfirmPeerBundle := (\<lambda>t i c. fail (Msg []))\<rparr>"

lemma no_peer_updates_parts:
  "kube_Identity (no_peer_updates K) = kube_Identity K" "claim_attempt (no_peer_updates K) = claim_attempt K"
  "target_peers (no_peer_updates K) = target_peers K" "check_target (no_peer_updates K) = check_target K"
  "write_advertisement (no_peer_updates K) = write_advertisement K"
  "write_import (no_peer_updates K) = write_import K" "revoke_unseen (no_peer_updates K) = revoke_unseen K"
  "pending_grant (no_peer_updates K) = pending_grant K"
  by (intro ext, simp only: kube_Identity_def claim_attempt_def target_peers_def check_target_def
      write_advertisement_def write_import_def revoke_unseen_def pending_grant_def no_peer_updates_simps)+

lemma no_peer_updates_methods:
  "sync_service (no_peer_updates K) = sync_service K"
  "kube_CreateOnboardingClaim (no_peer_updates K) = kube_CreateOnboardingClaim K"
  "kube_ConsumeOnboardingClaim (no_peer_updates K) = kube_ConsumeOnboardingClaim K"
  "kube_CreateInvitation (no_peer_updates K) = kube_CreateInvitation K"
  "kube_ConsumeInvitation (no_peer_updates K) = kube_ConsumeInvitation K"
  "kube_RegisterIdentity (no_peer_updates K) = kube_RegisterIdentity K"
  "kube_LastGeneration (no_peer_updates K) = kube_LastGeneration K"
  "kube_RecordGeneration (no_peer_updates K) = kube_RecordGeneration K"
  "kube_ObserveLink (no_peer_updates K) = kube_ObserveLink K"
  "kube_PendingGrants (no_peer_updates K) = kube_PendingGrants K"
  "kube_FulfillGrant (no_peer_updates K) = kube_FulfillGrant K"
  by (intro ext, simp only: sync_service_def kube_CreateOnboardingClaim_def kube_ConsumeOnboardingClaim_def
      kube_CreateInvitation_def kube_ConsumeInvitation_def kube_RegisterIdentity_def kube_LastGeneration_def
      kube_RecordGeneration_def kube_ObserveLink_def kube_PendingGrants_def kube_FulfillGrant_def
      no_peer_updates_simps no_peer_updates_parts)+

lemma no_peer_updates_sync: "kube_SyncAdvertisements (no_peer_updates K) = kube_SyncAdvertisements K"
  by (intro ext, simp only: kube_SyncAdvertisements_def no_peer_updates_simps no_peer_updates_parts
      no_peer_updates_methods)

lemma no_confirm_kube:
  "no_confirm (kube_ops K j) = no_confirm (kube_ops (no_peer_updates K) j)"
  by (simp only: no_confirm_def kube_ops_def store_ops.simps no_peer_updates_parts no_peer_updates_methods
      no_peer_updates_sync)

lemma store_keeps_no_confirm: "store_keeps P ops \<Longrightarrow> store_keeps P (no_confirm ops)"
  by (simp add: store_keeps_def no_confirm_def keeps_fail)

lemma no_confirm_backed:
  assumes api: "api_hub K iat pat"
  shows "store_keeps (\<lambda>w. peers_backed srv rs (iat w) (pat w)) (no_confirm (kube_ops K j))"
  unfolding no_confirm_kube [of K j]
proof (intro store_keeps_no_confirm kube_store_keeps)
  show "others_keep (\<lambda>w. peers_backed srv rs (iat w) (pat w)) (no_peer_updates K)"
    by (rule api_hubD [OF api])
  fix ns s now v t i g n
  show "keeps (\<lambda>w. peers_backed srv rs (iat w) (pat w)) (secrets_create (no_peer_updates K) ns s)"
    "keeps (\<lambda>w. peers_backed srv rs (iat w) (pat w))
      (secrets_update (no_peer_updates K) ns (annotate used_at (rfc3339nano_format j now) s))"
    "keeps (\<lambda>w. peers_backed srv rs (iat w) (pat w)) (identities_create (no_peer_updates K) ns v)"
    "keeps (\<lambda>w. peers_backed srv rs (iat w) (pat w)) (kube_RecordGeneration (no_peer_updates K) j t i g n)"
    unfolding no_peer_updates_simps no_peer_updates_methods
    by (rule api_hubD(6,7) [OF api] keeps_register_backed [OF api] keeps_record_backed [OF api])+
qed

section \<open>The handlers and the passes keep the invariant\<close>

lemma kube_IdentityD:
  assumes "api_identities K at" and "kube_Identity K t b w = (Inr e, w')"
  shows "\<exists>v. at w' (t, b) = Some v \<and> id_BundleDigest e = ci_bundleDigest v \<and> id_PublicKey e = ci_publicKey v"
  using assms(2) by (auto simp: kube_Identity_def dest: identities_getD [OF assms(1)] elim!: run_elims)

lemma peers_getD:
  assumes "api_peers K at" and "peers_get K ns n w = (Inr p, w')"
  shows "at w' (ns, n) = Some p" "mt_Name (pe_Meta p) = n"
  using assms unfolding api_peers_def by blast+

lemma peers_listD:
  assumes "api_peers K at" and "peers_list K ns w = (Inr ps, w')" and "p \<in> set ps"
  shows "at w' (mt_Namespace (pe_Meta p), mt_Name (pe_Meta p)) = Some p"
  using assms unfolding api_peers_def by blast

lemma peers_update_statusD:
  assumes "api_peers K at" and "peers_update_status K ns p w = (r, w')"
  shows "at w' = at w \<or> (\<exists>version. at w' = (at w)((ns, mt_Name (pe_Meta p)) \<mapsto> stored_peer p version))"
  using assms unfolding api_peers_def by blast

lemma peers_update_keeps_ids:
  assumes "api_hub K iat pat"
  shows "keeps (\<lambda>w. iat w = f) (peers_update_status K ns p)"
  using assms by (simp add: api_hub_def api_identities_def others_keep_def)

text \<open>A computation that writes no peer and no identity leaves both tables as they are.\<close>

definition frames :: "('w \<Rightarrow> 'a) \<Rightarrow> ('w \<Rightarrow> 'b) \<Rightarrow> ('e, 'c, 'w) prog \<Rightarrow> bool" where
  "frames iat pat m \<longleftrightarrow> (\<forall>w r w'. m w = (r, w') \<longrightarrow> iat w' = iat w \<and> pat w' = pat w)"

lemma framesD:
  assumes "frames iat pat m" and "m w = (r, w')"
  shows "iat w' = iat w" "pat w' = pat w"
  using assms by (auto simp: frames_def)

lemma reads_frame:
  assumes api: "api_hub K iat pat"
  shows "frames iat pat (peers_get K ns n)" "frames iat pat (kube_Identity K ns n)"
proof -
  have pair: "frames iat pat m" if "\<And>Q. keeps (\<lambda>w. Q (iat w) (pat w)) m" for m :: "(go_error, 'c, 'a) prog"
  proof -
    have "iat w' = iat w \<and> pat w' = pat w" if "m w = (r, w')" for w r w'
      using keeps_run [OF \<open>\<And>Q. keeps (\<lambda>w. Q (iat w) (pat w)) m\<close> [of "\<lambda>f g. f = iat w \<and> g = pat w"] _ that]
      by simp
    then show ?thesis by (simp add: frames_def)
  qed
  show "frames iat pat (peers_get K ns n)" "frames iat pat (kube_Identity K ns n)"
    by (intro pair keeps_intros api_hubD(4) [OF api])+
qed

text \<open>One side's branch of \<open>ConfirmPeerBundle\<close>, for the flag \<open>f\<close> and the other side \<open>b\<close>.\<close>

lemma confirm_side_run:
  assumes api: "api_hub K iat pat"
    and run: "and_then (kube_Identity K t b) (\<lambda>expected.
       and_then (guard (id_BundleDigest expected \<noteq> d) e) (\<lambda>_. peers_update_status K t p)) w = (r, w')"
  shows "iat w' = iat w \<and> (pat w' = pat w \<or>
    (\<exists>ib version. iat w (t, b) = Some ib \<and> d = ci_bundleDigest ib \<and>
       pat w' = (pat w)((t, mt_Name (pe_Meta p)) \<mapsto> stored_peer p version)))"
proof -
  obtain r1 w1 where ident: "kube_Identity K t b w = (r1, w1)" by fastforce
  note same = framesD [OF reads_frame(2) [OF api] ident]
  show ?thesis
  proof (cases "\<exists>x. r1 = Inr x \<and> id_BundleDigest x = d")
    case False
    with run ident same show ?thesis
      by (cases r1) (auto simp: and_then_def)
  next
    case True
    then obtain x where x: "r1 = Inr x" "id_BundleDigest x = d" by blast
    with run ident have upd: "peers_update_status K t p w1 = (r, w')"
      by (simp add: and_then_def)
    from kube_IdentityD [OF api_hubD(1) [OF api]] ident x
    obtain ib where "iat w (t, b) = Some ib" "d = ci_bundleDigest ib"
      unfolding same(1) [symmetric] by fastforce
    with peers_update_statusD [OF api_hubD(2) [OF api] upd]
      keeps_run [OF peers_update_keeps_ids [OF api] same(1) upd] same
    show ?thesis by auto
  qed
qed
text \<open>A verified confirmation of \<open>i\<close> for the peer \<open>c\<close> names is among the requests.\<close>

definition confirming :: "hub_server \<Rightarrow> hub_request set \<Rightarrow> (string \<times> string \<rightharpoonup> cluster_identity) \<Rightarrow>
    string \<Rightarrow> string \<Rightarrow> bundle_confirmation \<Rightarrow> bool" where
  "confirming srv rs ids t i c \<longleftrightarrow>
     (\<exists>m clock ia key prev. PostMessage t i (Some m) clock \<in> rs \<and> cm_Type m = ''peer.bundle.confirm'' \<and>
        json_confirmation (hs_codec srv) (cm_Payload m) = Some c \<and> ids (t, i) = Some ia \<and>
        RawStd_Decode (ci_publicKey ia) = Some key \<and>
        Verify (hs_crypto srv) (hs_codec srv) m key ''hub'' (clock 0) prev None = None)"

lemma confirming_sent:
  assumes "confirming srv rs ids t i c" and "ids (t, b) = Some ib" and "bc_BundleDigest c = ci_bundleDigest ib"
  shows "confirmation_sent srv rs ids t (bc_PeerRef c) i b"
  using assms unfolding confirming_def confirmation_sent_def by blast

lemma keeps_confirm_backed:
  assumes api: "api_hub K iat pat" and inv: "peers_backed srv rs (iat w) (pat w)"
    and msg: "confirming srv rs (iat w) t i c" and run: "kube_ConfirmPeerBundle K t i c w = (r, w')"
  shows "peers_backed srv rs (iat w') (pat w')"
proof -
  obtain r1 w1 where get: "peers_get K t (bc_PeerRef c) w = (r1, w1)" by fastforce
  note same = framesD [OF reads_frame(1) [OF api] get]
  show ?thesis
  proof (cases r1)
    case (Inl e)
    with run get same inv show ?thesis
      by (auto simp: kube_ConfirmPeerBundle_def and_then_def)
  next
    case (Inr p)
    with get have p: "pat w (t, bc_PeerRef c) = Some p" "mt_Name (pe_Meta p) = bc_PeerRef c"
      using peers_getD [OF api_hubD(2) [OF api]] same by metis+
    from inv p have backed: "peer_backed srv rs (iat w) (t, bc_PeerRef c) p"
      by (auto simp: peers_backed_def)
    have side: ?thesis
      if confirmed: "\<And>ib. iat w (t, b) = Some ib \<Longrightarrow> bc_BundleDigest c = ci_bundleDigest ib \<Longrightarrow>
            peer_backed srv rs (iat w) (t, bc_PeerRef c) p'"
        and name: "mt_Name (pe_Meta p') = bc_PeerRef c"
        and branch: "and_then (kube_Identity K t b) (\<lambda>expected.
          and_then (guard (id_BundleDigest expected \<noteq> bc_BundleDigest c) (Msg ''bundle digest mismatch''))
            (\<lambda>_. peers_update_status K t p')) w1 = (r, w')" for b p'
      using confirm_side_run [OF api branch] inv confirmed
      by (auto simp: same name intro!: peers_backed_upd)
    consider "i = pe_localIdentityRef p" | "i \<noteq> pe_localIdentityRef p" "i = pe_remoteIdentityRef p"
      | "i \<noteq> pe_localIdentityRef p" "i \<noteq> pe_remoteIdentityRef p" by blast
    then show ?thesis
    proof cases
      case 1
      show ?thesis
      proof (rule side)
        show "peer_backed srv rs (iat w) (t, bc_PeerRef c) (p\<lparr>pe_localBundleConfirmed := True\<rparr>)"
          if "iat w (t, pe_remoteIdentityRef p) = Some ib" "bc_BundleDigest c = ci_bundleDigest ib" for ib
          using backed confirming_sent [OF msg that] 1 by (auto simp: peer_backed_def)
      qed (use run get Inr 1 p in \<open>simp_all add: kube_ConfirmPeerBundle_def and_then_def [of "peers_get K t (bc_PeerRef c)"]\<close>)
    next
      case 2
      show ?thesis
      proof (rule side)
        show "peer_backed srv rs (iat w) (t, bc_PeerRef c) (p\<lparr>pe_remoteBundleConfirmed := True\<rparr>)"
          if "iat w (t, pe_localIdentityRef p) = Some ib" "bc_BundleDigest c = ci_bundleDigest ib" for ib
          using backed confirming_sent [OF msg that] 2 by (auto simp: peer_backed_def)
      qed (use run get Inr 2 p in \<open>simp_all add: kube_ConfirmPeerBundle_def and_then_def [of "peers_get K t (bc_PeerRef c)"]\<close>)
    next
      case 3
      with run get Inr same inv show ?thesis
        by (auto simp: kube_ConfirmPeerBundle_def and_then_def)
    qed
  qed
qed
text \<open>Requests other than a confirmation never call \<open>ConfirmPeerBundle\<close>.\<close>

fun confirmation_request :: "hub_request \<Rightarrow> bool" where
  "confirmation_request (PostMessage t i (Some m) clock) \<longleftrightarrow> cm_Type m = ''peer.bundle.confirm''"
| "confirmation_request _ \<longleftrightarrow> False"

lemma hub_handler_no_confirm:
  assumes "\<not> confirmation_request r"
  shows "hub_handler srv (no_confirm ops) r = hub_handler srv ops r"
proof (cases r)
  case (PostMessage t i body clock)
  with assms show ?thesis
    by (cases body) (simp_all add: no_confirm_def controlMessage_def apply_message_def Let_def)
qed (simp_all add: no_confirm_def createInvitation_def createOnboardingLink_def consumeOnboarding_def
    acceptInvitation_def getIdentity_def)

text \<open>Checks of values, which leave the state alone.\<close>

lemma hoare_need_then:
  "(\<And>v. x = Some v \<Longrightarrow> hoare P (k v) Q R) \<Longrightarrow> (\<And>s. P s \<Longrightarrow> R s) \<Longrightarrow> hoare P (and_then (need x e) k) Q R"
  by (cases x) (simp_all add: hoare_fail)

lemma hoare_guard_then:
  "(\<not> c \<Longrightarrow> hoare P (k ()) Q R) \<Longrightarrow> (\<And>s. P s \<Longrightarrow> R s) \<Longrightarrow> hoare P (and_then (guard c e) k) Q R"
  by (simp add: hoare_def)

lemma hoare_verify_then:
  "(Verify (hs_crypto srv) (hs_codec srv) m key ''hub'' now prev None = None \<Longrightarrow> hoare P (k ()) Q R) \<Longrightarrow>
   (\<And>s. P s \<Longrightarrow> R s) \<Longrightarrow> hoare P (and_then (verify_message srv m key now prev) k) Q R"
  by (cases "Verify (hs_crypto srv) (hs_codec srv) m key ''hub'' now prev None")
    (simp_all add: verify_message_def hoare_fail)

lemma keeps_confirmation_request:
  assumes api: "api_hub K iat pat" and req: "PostMessage t i (Some m) clock \<in> rs"
    and confirm: "cm_Type m = ''peer.bundle.confirm''"
  shows "keeps (\<lambda>w. peers_backed srv rs (iat w) (pat w))
    (controlMessage srv (kube_ops K (hs_codec srv)) t i (Some m) clock)" (is "keeps ?I _")
proof (rule keeps_hoare)
  let ?ops = "kube_ops K (hs_codec srv)"
  let ?key = "\<lambda>k w. ?I w \<and> (\<exists>ia. iat w (t, i) = Some ia \<and> ci_publicKey ia = k)"
  have ident: "hoare ?I (on_error f (Identity ?ops t i)) (\<lambda>ident. ?key (id_PublicKey ident)) ?I" for f
  proof (rule hoare_map_error, rule hoareI)
    fix w x w'
    assume "?I w" and "Identity ?ops t i w = (Inr x, w')"
    with framesD [OF reads_frame(2) [OF api], of t i w "Inr x" w']
      kube_IdentityD [OF api_hubD(1) [OF api], of t i w x w']
    show "?key (id_PublicKey x) w'"
      by (auto simp: kube_ops_def)
  next
    fix w e w'
    assume "?I w" and "Identity ?ops t i w = (Inl e, w')"
    with framesD [OF reads_frame(2) [OF api], of t i w "Inl e" w'] show "?I w'"
      by (simp add: kube_ops_def)
  qed
  have last: "hoare (?key k) (on_error f (LastGeneration ?ops t i)) (\<lambda>_. ?key k) ?I" for f k
    by (rule hoare_keeps, simp add: kube_ops_def kube_LastGeneration_def)
      (intro keeps_intros api_hubD(4) [OF api], simp)
  have effect: "hoare (?key k) (on_error f (ConfirmPeerBundle ?ops t i c)) (\<lambda>_. ?I) ?I"
    if "RawStd_Decode k = Some key" "json_confirmation (hs_codec srv) (cm_Payload m) = Some c"
      "Verify (hs_crypto srv) (hs_codec srv) m key ''hub'' (clock 0) prev None = None" for f k key prev c
  proof (rule hoare_map_error)
    have "?I w'" if "?key k w" "kube_ConfirmPeerBundle K t i c w = (r, w')" for w r w'
    proof (rule keeps_confirm_backed [OF api _ _ that(2)])
      show "confirming srv rs (iat w) t i c"
        unfolding confirming_def using that(1) \<open>RawStd_Decode k = Some key\<close> req confirm
          \<open>json_confirmation (hs_codec srv) (cm_Payload m) = Some c\<close>
          \<open>Verify (hs_crypto srv) (hs_codec srv) m key ''hub'' (clock 0) prev None = None\<close> by blast
    qed (use that(1) in blast)
    then show "hoare (?key k) (ConfirmPeerBundle ?ops t i c) (\<lambda>_. ?I) ?I"
      by (auto simp: kube_ops_def intro!: hoareI)
  qed
  have recorded: "hoare ?I (on_error f (RecordGeneration ?ops t i g n)) (\<lambda>_. ?I) ?I" for f g n
    by (rule hoare_keeps, simp add: kube_ops_def) (intro keeps_map_error keeps_record_backed [OF api], simp)
  have rest: "hoare (?key k) (and_then (apply_message srv ?ops t i m clock) (\<lambda>grants.
      and_then (on_error f (RecordGeneration ?ops t i g n)) (\<lambda>_. give (h grants)))) (\<lambda>_. ?I) ?I"
    if "RawStd_Decode k = Some key"
      "Verify (hs_crypto srv) (hs_codec srv) m key ''hub'' (clock 0) prev None = None" for k key prev f g n h
  proof (rule hoare_and_then)
    show "hoare (?key k) (apply_message srv ?ops t i m clock) (\<lambda>_. ?I) ?I"
      by (simp only: apply_message_def Let_def confirm if_P [OF refl])
        (intro hoare_need_then hoare_guard_then hoare_and_then [OF effect [OF that(1) _ that(2)]] hoare_give; simp)
    show "hoare ?I (and_then (on_error f (RecordGeneration ?ops t i g n)) (\<lambda>_. give (h grants))) (\<lambda>_. ?I) ?I" for grants
      by (intro hoare_and_then [OF recorded] hoare_give)
  qed
  show "hoare ?I (controlMessage srv ?ops t i (Some m) clock) (\<lambda>_. ?I) ?I"
    unfolding controlMessage_def
    by (intro hoare_and_then [OF ident] hoare_and_then [OF last] hoare_need_then hoare_guard_then hoare_verify_then)
      (auto intro: rest)
qed

lemma keeps_hub_backed:
  assumes "api_hub K iat pat" and "r \<in> rs"
  shows "keeps (\<lambda>w. peers_backed srv rs (iat w) (pat w)) (hub_handler srv (kube_ops K (hs_codec srv)) r)"
proof (cases "confirmation_request r")
  case True
  then obtain t i m clock where "r = PostMessage t i (Some m) clock" "cm_Type m = ''peer.bundle.confirm''"
    by (cases r rule: confirmation_request.cases) simp_all
  with assms show ?thesis
    by (simp add: keeps_confirmation_request)
next
  case False
  show ?thesis
    using hub_handler_keeps [OF no_confirm_backed [OF assms(1)]]
    by (simp only: hub_handler_no_confirm [OF False, of srv "kube_ops K (hs_codec srv)", symmetric])
qed

section \<open>The reconciler\<close>

lemma reconciler_keepsD [keeps_intros]:
  assumes "reconciler_keeps P K"
  shows "keeps P (ads_update_status K ns ad)" "keeps P (imports_update_status K ns im)" "keeps P (services_create K ns sv)"
  using assms by (simp_all add: reconciler_keeps_def)

lemma keeps_over_list:
  assumes "keeps P request" and "\<And>x. keeps P (body x)"
  shows "keeps P (over_list request body)"
  unfolding over_list_def by (intro keeps_intros assms)

lemma keeps_other_passes:
  assumes api: "api_hub K iat pat"
  shows "keeps (\<lambda>w. Q (iat w) (pat w)) (reconcileAdvertisements K j)"
    "keeps (\<lambda>w. Q (iat w) (pat w)) (reconcileLinks K j)"
    "keeps (\<lambda>w. Q (iat w) (pat w)) (reconcileImports rc K)"
    "keeps (\<lambda>w. Q (iat w) (pat w)) (reconcileGrants rc K)"
  unfolding reconcileAdvertisements_def reconcile_advertisement_def reconcileLinks_def reconcile_link_def
    reconcileImports_def reconcile_import_def publish_import_def reconcileGrants_def reconcile_grant_def Let_def
  by (intro keeps_intros keeps_over_list api_hubD(4,5,8,9) [OF api])+

lemma peer_backed_reconciled:
  assumes "peer_backed srv rs ids k p"
  shows "peer_backed srv rs ids k (p\<lparr>pe_state := peer_state p, pe_observedGeneration := g\<rparr>)"
  using assms by (auto simp: peer_backed_def peer_state_def)

lemma keeps_reconcilePeers:
  assumes api: "api_hub K iat pat"
  shows "keeps (\<lambda>w. peers_backed srv rs (iat w) (pat w)) (reconcilePeers K)" (is "keeps ?I _")
proof (rule keeps_runI)
  fix w r w'
  assume inv: "?I w" and run: "reconcilePeers K w = (r, w')"
  let ?J = "\<lambda>x. iat x = iat w \<and> peers_backed srv rs (iat w) (pat x)"
  have update: "keeps ?J (peers_update_status K ns p)"
    if "peer_backed srv rs (iat w) (ns, mt_Name (pe_Meta p)) p" for ns p
  proof (rule keeps_runI)
    fix x r x'
    assume J: "?J x" and run: "peers_update_status K ns p x = (r, x')"
    have "iat x' = iat x"
      by (rule keeps_run [OF peers_update_keeps_ids [OF api] refl run])
    with peers_update_statusD [OF api_hubD(2) [OF api] run] J that show "?J x'"
      by (auto simp: peers_backed_upd)
  qed
  obtain got w1 where list: "peers_list K [] w = (got, w1)" by fastforce
  have "keeps (\<lambda>x. iat x = iat w \<and> pat x = pat w) (peers_list K [])"
    by (intro reads_keepD api_hubD(4) [OF api])
  from keeps_run [OF this _ list] have same: "iat w1 = iat w" "pat w1 = pat w" by simp_all
  show "?I w'"
  proof (cases got)
    case (Inl e)
    with run list inv same show ?thesis
      by (auto simp: reconcilePeers_def over_list_def and_then_def attempt_def)
  next
    case (Inr ps)
    have "peer_backed srv rs (iat w) (mt_Namespace (pe_Meta p), mt_Name (pe_Meta p)) p" if "p \<in> set ps" for p
      using peers_listD [OF api_hubD(2) [OF api] list [unfolded Inr] that] inv same by (auto simp: peers_backed_def)
    then have "keeps ?J (for_each (reconcile_peer K) ps)"
      unfolding reconcile_peer_def by (intro keeps_for_each keeps_ignore update) (simp add: peer_backed_reconciled)
    moreover from run list Inr have "for_each (reconcile_peer K) ps w1 = (r, w')"
      by (simp add: reconcilePeers_def over_list_def and_then_def attempt_def)
    ultimately have "?J w'"
      using inv same by (auto elim!: keeps_run)
    then show ?thesis by simp
  qed
qed

lemma keeps_Once:
  assumes "api_hub K iat pat"
  shows "keeps (\<lambda>w. peers_backed srv rs (iat w) (pat w)) (Once rc K)"
  unfolding Once_def by (intro keeps_intros keeps_reconcilePeers keeps_other_passes assms)
section \<open>A peer is Ready only after both members confirmed\<close>

lemma snd_serve: "snd (serve srv ops r w) = snd (hub_handler srv ops r w)"
  by (auto simp: serve_def finish_def split: prod.splits sum.splits)

lemma hub_events_backed:
  assumes api: "api_hub K iat pat" and "{r. Request r \<in> set es} \<subseteq> rs"
    and "peers_backed srv rs (iat w) (pat w)"
  shows "peers_backed srv rs (iat (hub_events srv rc K es w)) (pat (hub_events srv rc K es w))"
  using assms(2,3)
proof (induction es arbitrary: w)
  case (Cons e es)
  have "peers_backed srv rs (iat (hub_event_step srv rc K e w)) (pat (hub_event_step srv rc K e w))"
  proof (cases e)
    case (Request r)
    with Cons.prems keepsD [OF keeps_hub_backed [OF api, of r]] show ?thesis
      by (auto simp: hub_event_step_def snd_serve)
  next
    case Pass
    with Cons.prems keepsD [OF keeps_Once [OF api]] show ?thesis
      by (simp add: hub_event_step_def)
  qed
  with Cons show ?case
    by auto
qed simp

text \<open>
  C2: however the requests to the Hub and the passes of the reconciler interleave, a peer
  that was unconfirmed at the start is Ready only when each of its two identities has sent the
  Hub a message, signed with the key registered for it, that names the peer and quotes the bundle
  digest registered for the other.
\<close>

theorem ready_peer_confirmed_by_both:
  assumes "api_hub K iat pat"
    and "\<And>k p. pat w k = Some p \<Longrightarrow>
      \<not> pe_localBundleConfirmed p \<and> \<not> pe_remoteBundleConfirmed p \<and> pe_state p \<noteq> ''Ready''"
    and "pat (hub_events srv rc K es w) (t, n) = Some p" and "pe_state p = ''Ready''"
  shows "confirmation_sent srv {r. Request r \<in> set es} (iat (hub_events srv rc K es w)) t n
      (pe_localIdentityRef p) (pe_remoteIdentityRef p) \<and>
    confirmation_sent srv {r. Request r \<in> set es} (iat (hub_events srv rc K es w)) t n
      (pe_remoteIdentityRef p) (pe_localIdentityRef p)"
proof -
  have "peers_backed srv {r. Request r \<in> set es} (iat w) (pat w)"
    using assms(2) by (auto simp: peers_backed_def peer_backed_def)
  from hub_events_backed [OF assms(1) subset_refl this] assms(3,4) show ?thesis
    by (auto simp: peers_backed_def peer_backed_def)
qed

definition peers_at :: "demo_cluster \<Rightarrow> string \<times> string \<rightharpoonup> peer" where
  "peers_at w = map_of (dc_peers w)"

lemma demo_api_peers: "api_peers demo_kube peers_at"
  unfolding api_peers_def
proof (intro conjI)
  show "\<forall>f. others_keep (\<lambda>w. peers_at w = f) (no_peer_updates demo_kube)"
    unfolding others_keep_def reads_keep_def no_peer_updates_simps demo_kube_def kube.simps
    by (intro allI conjI table_get_keeps table_list_keeps table_write_keeps keeps_and_then keeps_give keeps_fail)
      (simp_all add: peers_at_def keeps_def api_now_def)
  show "\<forall>f. reconciler_keeps (\<lambda>w. peers_at w = f) demo_kube"
    "\<forall>f ns s. keeps (\<lambda>w. peers_at w = f) (secrets_create demo_kube ns s) \<and>
       keeps (\<lambda>w. peers_at w = f) (secrets_update demo_kube ns s)"
    "\<forall>f ns v. keeps (\<lambda>w. peers_at w = f) (identities_create demo_kube ns v) \<and>
       keeps (\<lambda>w. peers_at w = f) (identities_update_status demo_kube ns v)"
    unfolding reconciler_keeps_def demo_kube_def kube.simps
    by (intro allI conjI table_write_keeps; simp add: peers_at_def)+
  show "\<forall>ns n w p w'. peers_get demo_kube ns n w = (Inr p, w') \<longrightarrow>
      peers_at w' (ns, n) = Some p \<and> mt_Name (pe_Meta p) = n"
    by (auto simp: demo_kube_def table_get_def peers_at_def split: option.splits if_splits)
  show "\<forall>ns w ps w'. peers_list demo_kube ns w = (Inr ps, w') \<longrightarrow>
      (\<forall>p \<in> set ps. peers_at w' (mt_Namespace (pe_Meta p), mt_Name (pe_Meta p)) = Some p)"
    by (auto simp: demo_kube_def table_list_def peers_at_def)
  show "\<forall>ns p w r w'. peers_update_status demo_kube ns p w = (r, w') \<longrightarrow> peers_at w' = peers_at w \<or>
      (\<exists>version. peers_at w' = (peers_at w)((ns, mt_Name (pe_Meta p)) \<mapsto> stored_peer p version))"
    by (auto simp: demo_kube_def table_update_def peers_at_def Let_def update_conv' set_peer_def stored_peer_def
        split: if_splits option.splits)
qed

lemma demo_api_hub: "api_hub demo_kube identities_at peers_at"
  unfolding api_hub_def
proof (intro conjI demo_identities demo_api_peers)
  show "\<forall>f. reconciler_keeps (\<lambda>w. identities_at w = f) demo_kube"
    unfolding reconciler_keeps_def demo_kube_def kube.simps
    by (intro allI conjI table_write_keeps; simp add: identities_at_def)
qed

definition demo_member :: "string \<Rightarrow> cluster_identity" where
  "demo_member i = \<lparr>ci_Meta = new_meta ''t'' i, ci_clusterID = i, ci_region = ''r'', ci_trustDomain = ''d'',
     ci_spiffeID = ''spiffe://d/cluster/'' @ i, ci_bundleDigest = ''p'',
     ci_publicKey = RawStd_Encode (demo_key ''priv''), ci_capabilities = [], ci_gatewayEndpoints = [],
     ci_lastGeneration = 0, ci_lastNonce = [], ci_state = [], ci_lastSeenAt = [], ci_observedGeneration = 0\<rparr>"

definition demo_pair :: demo_cluster where
  "demo_pair = empty_cluster\<lparr>
     dc_identities := [((''t'', ''a''), demo_member ''a''), ((''t'', ''b''), demo_member ''b'')],
     dc_peers := [((''t'', ''p''), \<lparr>pe_Meta = new_meta ''t'' ''p'', pe_localIdentityRef = ''a'',
       pe_remoteIdentityRef = ''b'', pe_suspended = False, pe_localBundleConfirmed = False,
       pe_remoteBundleConfirmed = False, pe_state = [], pe_observedGeneration = 0\<rparr>)]\<rparr>"

definition demo_confirm :: "string \<Rightarrow> control_message" where
  "demo_confirm i = \<lparr>cm_Issuer = ''spiffe://d/cluster/'' @ i, cm_Audience = ''hub'', cm_Generation = 5,
     cm_IssuedAt = 10 * second, cm_ExpiresAt = 70 * second, cm_Nonce = ''c-5'',
     cm_Type = ''peer.bundle.confirm'', cm_Payload = ''p'',
     cm_Signature = RawStd_Encode (demo_key ''priv'' @ ''peer.bundle.confirm'' @ ''p'')\<rparr>"

definition demo_confirm_request :: "string \<Rightarrow> hub_request" where
  "demo_confirm_request i = PostMessage ''t'' i (Some (demo_confirm i)) (\<lambda>_. 20 * second)"

definition demo_reconciler :: reconciler where
  "demo_reconciler = \<lparr>rc_codec = demo_codec, rc_HasCore = True, rc_ManagedAccessEnabled = True\<rparr>"

lemma demo_confirm_verifies:
  "Verify demo_crypto demo_codec (demo_confirm i) (demo_key ''priv'') ''hub'' (20 * second) 0 None = None"
  by (simp add: Verify_None_iff demo_confirm_def message_window_def Before_def
      authentic_def canonical_def demo_codec_def ed25519_Verify_def) (simp add: demo_crypto_def)

lemmas demo_eval = hub_event_step_def snd_serve demo_confirm_request_def controlMessage_def and_then_apply
  map_error_apply attempt_apply ignore_apply kube_ops_def kube_Identity_def kube_LastGeneration_def
  kube_RecordGeneration_def kube_ConfirmPeerBundle_def demo_kube_simps table_get_def table_update_def table_list_def
  api_now_def stored_identity_def set_peer_def

lemma demo_verify:
  "verify_message demo_server (demo_confirm i) (demo_key ''priv'') 20000000000 0 w = (Inr (), w)"
  using demo_confirm_verifies by (simp add: verify_message_def demo_server_def)

lemma demo_apply:
  "apply_message demo_server ops ''t'' i (demo_confirm j) clock =
     and_then (on_error (\<lambda>e. http_error (error_text e) 403)
       (ConfirmPeerBundle ops ''t'' i \<lparr>bc_PeerRef = ''p'', bc_BundleDigest = ''p''\<rparr>)) (\<lambda>_. give None)"
  by (simp add: apply_message_def demo_server_def demo_confirm_def demo_codec_def fun_eq_iff)

lemma demo_confirm_fields:
  "cm_Issuer (demo_confirm i) = ''spiffe://d/cluster/'' @ i" "\<not> HasPrefix (cm_Type (demo_confirm i)) ''route.''"
  "cm_Generation (demo_confirm i) = 5"
  by (simp_all add: demo_confirm_def HasPrefix_def)

lemma demo_codec_of [simp]: "hs_codec demo_server = demo_codec"
  by (simp add: demo_server_def)

lemmas demo_passes = Once_def reconcilePeers_def reconcile_peer_def over_list_def reconcileAdvertisements_def
  reconcileLinks_def reconcileImports_def reconcileGrants_def peer_state_def

definition demo_confirmed :: demo_cluster where
  "demo_confirmed = hub_events demo_server demo_reconciler demo_kube
     [Request (demo_confirm_request ''a''), Request (demo_confirm_request ''b''), Pass] demo_pair"

lemma demo_confirmed_ready:
  "\<exists>p. peers_at demo_confirmed (''t'', ''p'') = Some p \<and> pe_state p = ''Ready'' \<and>
     pe_localIdentityRef p = ''a'' \<and> pe_remoteIdentityRef p = ''b''"
  by (simp add: demo_confirmed_def demo_eval demo_passes demo_verify demo_apply demo_confirm_fields demo_pair_def
      demo_member_def empty_cluster_def new_meta_def peers_at_def demo_reconciler_def)

theorem ready_peer_confirmed_by_both_witness:
  "confirmation_sent demo_server {demo_confirm_request ''a'', demo_confirm_request ''b''}
     (identities_at demo_confirmed) ''t'' ''p'' ''a'' ''b''"
proof -
  obtain p where p: "peers_at demo_confirmed (''t'', ''p'') = Some p" "pe_state p = ''Ready''"
    and refs: "pe_localIdentityRef p = ''a''" "pe_remoteIdentityRef p = ''b''"
    using demo_confirmed_ready by blast
  let ?es = "[Request (demo_confirm_request ''a''), Request (demo_confirm_request ''b''), Pass]"
  have "{r. Request r \<in> set ?es} = {demo_confirm_request ''a'', demo_confirm_request ''b''}"
    by auto
  moreover have "confirmation_sent demo_server {r. Request r \<in> set ?es} (identities_at demo_confirmed)
      ''t'' ''p'' (pe_localIdentityRef p) (pe_remoteIdentityRef p)"
    unfolding demo_confirmed_def
    by (rule ready_peer_confirmed_by_both [THEN conjunct1, OF demo_api_hub _ p [unfolded demo_confirmed_def]])
      (auto simp: demo_pair_def peers_at_def split: if_splits)
  ultimately show ?thesis
    by (simp add: refs)
qed

end
