(* ===== verification/Hub_Policy.thy ===== *)
theory Hub_Policy
  imports Peer_Confirmation
begin

text \<open>
  What the Hub publishes, and for how long: every advertisement in the cluster conforms to the
  policy it names, its publisher is a member of every peer it is offered to, a published
  advertisement is Active exactly for its time to live, a link stays as observed exactly for the
  observation limit, and the grants a cluster is told of are approved grants of its own
  advertisements.
\<close>

section \<open>What is asked of the API server\<close>

definition stored_ad :: "advertisement \<Rightarrow> server_fields \<Rightarrow> advertisement" where
  "stored_ad ad version = ad\<lparr>ad_Meta := server_meta (ad_Meta ad) version\<rparr>"

text \<open>
  The Hub never writes a policy or the spec of a peer: \<open>pols\<close> are the policies, \<open>mems\<close> the two
  identities of each peer. Advertisements behave as stored objects.
\<close>

definition api_ads :: "'w kube \<Rightarrow> ('w \<Rightarrow> string \<times> string \<rightharpoonup> advertisement) \<Rightarrow> (string \<times> string \<rightharpoonup> peer_policy) \<Rightarrow>
    (string \<times> string \<rightharpoonup> string \<times> string) \<Rightarrow> bool" where
  "api_ads K at pols mems \<longleftrightarrow>
     (\<forall>f. plain_keep (\<lambda>w. at w = f) K) \<and>
     (\<forall>f ns s. keeps (\<lambda>w. at w = f) (secrets_create K ns s) \<and> keeps (\<lambda>w. at w = f) (secrets_update K ns s)) \<and>
     (\<forall>f ns v. keeps (\<lambda>w. at w = f) (identities_create K ns v) \<and> keeps (\<lambda>w. at w = f) (identities_update_status K ns v)) \<and>
     (\<forall>ns n w p w'. policies_get K ns n w = (Inr p, w') \<longrightarrow> pols (ns, n) = Some p) \<and>
     (\<forall>ns n w p w'. peers_get K ns n w = (Inr p, w') \<longrightarrow> mems (ns, n) = Some (pe_localIdentityRef p, pe_remoteIdentityRef p)) \<and>
     (\<forall>ns ad w r w'. ads_create K ns ad w = (r, w') \<or> ads_update K ns ad w = (r, w') \<longrightarrow>
        at w' = at w \<or> (\<exists>version. at w' = (at w)((ns, mt_Name (ad_Meta ad)) \<mapsto> stored_ad ad version)))"

section \<open>Conforming advertisements\<close>

definition offered_to :: "peer_policy \<Rightarrow> (string \<times> string \<rightharpoonup> string \<times> string) \<Rightarrow> string \<Rightarrow> string \<Rightarrow> string \<Rightarrow> bool" where
  "offered_to policy mems tenant publisher peerRef \<longleftrightarrow>
     (pp_matchAllReady policy \<or> peerRef \<in> set (pp_matchNames policy)) \<and>
     (\<exists>a b. mems (tenant, peerRef) = Some (a, b) \<and> publisher \<in> {a, b})"

definition ad_conforms :: "(string \<times> string \<rightharpoonup> peer_policy) \<Rightarrow> (string \<times> string \<rightharpoonup> string \<times> string) \<Rightarrow> string \<Rightarrow> advertisement \<Rightarrow> bool" where
  "ad_conforms pols mems tenant ad \<longleftrightarrow> ad_revoked ad \<or>
     (\<exists>policy. pols (tenant, ad_policyRef ad) = Some policy \<and>
        ad_serviceClass ad \<in> set (pp_serviceClasses policy) \<and> ad_protocol ad \<in> set (pp_protocols policy) \<and>
        ''export'' \<in> set (pp_directions policy) \<and>
        (pp_ports policy = [] \<or> ad_port ad \<in> set (pp_ports policy)) \<and>
        (\<forall>peerRef \<in> set (ad_targetPeers ad). offered_to policy mems tenant (ad_publisherRef ad) peerRef))"

definition ads_conform :: "(string \<times> string \<rightharpoonup> peer_policy) \<Rightarrow> (string \<times> string \<rightharpoonup> string \<times> string) \<Rightarrow>
    (string \<times> string \<rightharpoonup> advertisement) \<Rightarrow> bool" where
  "ads_conform pols mems ads \<longleftrightarrow> (\<forall>ns n ad. ads (ns, n) = Some ad \<longrightarrow> ad_conforms pols mems ns ad)"

lemma ad_conforms_stored [simp]:
  "ad_conforms pols mems ns (stored_ad ad version) = ad_conforms pols mems ns ad"
  "ad_conforms pols mems ns (ad\<lparr>ad_Meta := mt\<rparr>) = ad_conforms pols mems ns ad"
  "ad_conforms pols mems ns (ad\<lparr>ad_revoked := True\<rparr>)"
  by (simp_all add: ad_conforms_def stored_ad_def)

lemma sint_scast: "sint (scast (p :: 32 word) :: 64 word) = sint p"
  by (simp add: sint_up_scast is_up)

lemma port_allowed_ad:
  assumes "port_allowed policy service"
  shows "pp_ports policy = [] \<or> scast (as_Port service) \<in> set (pp_ports policy)"
  using assms unfolding port_allowed_def by (metis sint_scast signed_word_eqI)

abbreviation conforming :: "('w \<Rightarrow> string \<times> string \<rightharpoonup> advertisement) \<Rightarrow> (string \<times> string \<rightharpoonup> peer_policy) \<Rightarrow>
    (string \<times> string \<rightharpoonup> string \<times> string) \<Rightarrow> 'w \<Rightarrow> bool" where
  "conforming at pols mems w \<equiv> ads_conform pols mems (at w)"

lemma api_adsD:
  assumes "api_ads K at pols mems"
  shows "plain_keep (conforming at pols mems) K" "reads_keep (conforming at pols mems) K"
    "keeps (conforming at pols mems) (secrets_create K ns s)" "keeps (conforming at pols mems) (secrets_update K ns s)"
    "keeps (conforming at pols mems) (identities_create K ns v)" "keeps (conforming at pols mems) (identities_update_status K ns v)"
proof -
  have K: "plain_keep (\<lambda>w. at w = f) K" for f using assms by (simp add: api_ads_def)
  show "plain_keep (conforming at pols mems) K"
    unfolding plain_keep_def reads_keep_def
    by (intro conjI allI; rule keeps_of_value [of at]; insert K; simp add: plain_keep_def reads_keep_def)
  then show "reads_keep (conforming at pols mems) K" by (simp add: plain_keep_def)
  show "keeps (conforming at pols mems) (secrets_create K ns s)" "keeps (conforming at pols mems) (secrets_update K ns s)"
    "keeps (conforming at pols mems) (identities_create K ns v)" "keeps (conforming at pols mems) (identities_update_status K ns v)"
    by (rule keeps_of_value [of at]; insert assms; simp add: api_ads_def)+
qed

text \<open>A request whose only effect on the advertisements is to store one that conforms.\<close>

lemma keeps_ad_write:
  assumes "api_ads K at pols mems" and "ad_conforms pols mems ns ad"
  shows "keeps (conforming at pols mems) (ads_create K ns ad)" "keeps (conforming at pols mems) (ads_update K ns ad)"
proof -
  have step: "conforming at pols mems w'" if "conforming at pols mems w"
    and "ads_create K ns ad w = (r, w') \<or> ads_update K ns ad w = (r, w')" for w r w'
  proof -
    from assms(1) that(2) have "at w' = at w \<or> (\<exists>version. at w' = (at w)((ns, mt_Name (ad_Meta ad)) \<mapsto> stored_ad ad version))"
      unfolding api_ads_def by blast
    with that(1) assms(2) show ?thesis by (auto simp: ads_conform_def split: if_splits)
  qed
  show "keeps (conforming at pols mems) (ads_create K ns ad)" "keeps (conforming at pols mems) (ads_update K ns ad)"
    by (rule keeps_runI; blast intro: step)+
qed

section \<open>A snapshot keeps the advertisements conforming\<close>

lemma yields_read:
  assumes "keeps P m" and "\<And>s x s'. m s = (Inr x, s') \<Longrightarrow> F x"
  shows "yields P m F"
  using assms by (auto intro!: yieldsI dest: keeps_run)

lemma policies_get_yields:
  assumes "api_ads K at pols mems"
  shows "yields (conforming at pols mems) (policies_get K ns n) (\<lambda>policy. pols (ns, n) = Some policy)"
  by (rule yields_read [OF reads_keepD(8) [OF api_adsD(2) [OF assms]]]) (use assms in \<open>unfold api_ads_def, blast\<close>)

lemma check_target_yields:
  assumes api: "api_ads K at pols mems"
  shows "yields (conforming at pols mems) (check_target K tenant issuer policy service peerRef)
    (\<lambda>_. offered_to policy mems tenant issuer peerRef)"
  unfolding check_target_def
proof (rule yields_guard_then, rule yields_and_then)
  show "yields (conforming at pols mems) (peers_get K tenant peerRef)
      (\<lambda>p. mems (tenant, peerRef) = Some (pe_localIdentityRef p, pe_remoteIdentityRef p))"
    by (rule yields_read [OF reads_keepD(4) [OF api_adsD(2) [OF api]]]) (use api in \<open>unfold api_ads_def, blast\<close>)
  fix p :: peer
  assume "\<not> (\<not> pp_matchAllReady policy \<and> peerRef \<notin> set (pp_matchNames policy))"
    and "mems (tenant, peerRef) = Some (pe_localIdentityRef p, pe_remoteIdentityRef p)"
  then show "yields (conforming at pols mems) (guard (\<not> peer_member issuer p) (Msg ''publisher is not a member of target peer''))
      (\<lambda>_. offered_to policy mems tenant issuer peerRef)"
    by (intro yields_weaken [OF yields_guard]) (auto simp: offered_to_def peer_member_def)
qed

lemma advertisement_for_conforms:
  assumes "pols (tenant, as_PolicyRef service) = Some policy" and "contract_allowed policy service"
    and "\<forall>peerRef \<in> set targets. offered_to policy mems tenant issuer peerRef"
  shows "ad_conforms pols mems tenant (advertisement_for j tenant issuer ident now service targets)"
  using assms port_allowed_ad [of policy service]
  by (auto simp: ad_conforms_def advertisement_for_def contract_allowed_def)

lemma sync_service_conforms:
  assumes api: "api_ads K at pols mems"
  shows "keeps (conforming at pols mems) (sync_service K j tenant issuer ident now services service)"
  unfolding sync_service_def
proof (rule keeps_yields, rule yields_guard_then, rule yields_and_then)
  show "yields (conforming at pols mems) (map_error (Wrapped (''policy '' @ as_PolicyRef service @ '' unavailable''))
      (policies_get K tenant (as_PolicyRef service))) (\<lambda>policy. pols (tenant, as_PolicyRef service) = Some policy)"
    by (rule yields_map_error [OF policies_get_yields [OF api]])
  fix policy :: peer_policy
  assume policy: "pols (tenant, as_PolicyRef service) = Some policy"
  note reads = api_adsD(2) [OF api]
  show "yields (conforming at pols mems)
     (and_then (guard (quota_exceeded policy services) (policy_error (as_PolicyRef service) '' advertisement quota exceeded'')) (\<lambda>_.
      and_then (target_peers K tenant issuer policy service) (\<lambda>targets.
      and_then (guard (\<not> contract_allowed policy service) (policy_error (as_PolicyRef service) '' denies service contract'')) (\<lambda>_.
      and_then (for_each (check_target K tenant issuer policy service) targets) (\<lambda>_.
      and_then (write_advertisement K tenant (advertisement_for j tenant issuer ident now service targets)) (\<lambda>_.
      for_each (write_import K tenant (advertisementName issuer service)) targets)))))) (\<lambda>_. True)"
  proof (rule yields_guard_then, rule yields_keeps_then, goal_cases)
    case 1
    show ?case unfolding target_peers_def by (intro keeps_intros reads)
  next
    case (2 targets)
    show ?case
    proof (rule yields_guard_then, rule yields_and_then)
      show "yields (conforming at pols mems) (for_each (check_target K tenant issuer policy service) targets)
          (\<lambda>_. \<forall>peerRef \<in> set targets. offered_to policy mems tenant issuer peerRef)"
        by (intro yields_for_each check_target_yields api)
      assume "\<not> \<not> contract_allowed policy service" and "\<forall>peerRef \<in> set targets. offered_to policy mems tenant issuer peerRef"
      then have "ad_conforms pols mems tenant (advertisement_for j tenant issuer ident now service targets)"
        using policy by (intro advertisement_for_conforms) auto
      then show "yields (conforming at pols mems)
          (and_then (write_advertisement K tenant (advertisement_for j tenant issuer ident now service targets)) (\<lambda>_.
           for_each (write_import K tenant (advertisementName issuer service)) targets)) (\<lambda>_. True)"
        unfolding write_advertisement_def write_import_def
        by (intro yields_keeps keeps_intros reads api_adsD(1) [OF api] keeps_ad_write [OF api]) simp_all
    qed
  qed
qed

lemma sync_conforms:
  assumes api: "api_ads K at pols mems"
  shows "keeps (conforming at pols mems) (kube_SyncAdvertisements K j t i ss now)"
  unfolding kube_SyncAdvertisements_def revoke_unseen_def
  by (intro keeps_intros api_adsD(2) [OF api] sync_service_conforms [OF api] keeps_ad_write [OF api] ad_conforms_stored)

lemma store_conforms:
  assumes api: "api_ads K at pols mems"
  shows "store_keeps (conforming at pols mems) (kube_ops K j)"
proof (rule kube_store_keeps_but_ads)
  show "keeps (conforming at pols mems) (kube_RecordGeneration K j t i g n)" for t i g n
    unfolding kube_RecordGeneration_def by (intro keeps_intros api_adsD(2,6) [OF api])
qed (intro api_adsD [OF api] sync_conforms [OF api])+

text \<open>
  C7: through any sequence of requests to the Hub, every advertisement in the cluster that is
  not revoked conforms to the policy it names: its class, protocol and port are allowed, the
  policy allows exports, and every peer it is offered to is one the policy selects and one the
  publishing cluster is a member of. Nothing a cluster puts into a snapshot gets around it.
\<close>

theorem advertisements_conform:
  assumes "api_ads K at pols mems" and "ads_conform pols mems (at w)"
  shows "ads_conform pols mems (at (snd (run_calls (hub_handler srv (kube_ops K j)) rs w)))"
  by (rule run_calls_keeps [where P = "\<lambda>w. ads_conform pols mems (at w)"])
    (intro hub_handler_keeps store_conforms [OF assms(1)], rule assms(2))

section \<open>Lifetimes\<close>

text \<open>
  C36: an advertisement that a snapshot published at \<open>t\<close> is Active for exactly its time to live,
  counted from \<open>t\<close> cut to the second (the text of an instant has no fraction), and Expired from
  then on, for as long as no later snapshot publishes it again.
\<close>

theorem advertisement_lifetime:
  assumes "rfc3339_ok j" and "valid_instant t" and "rfc3339_format j t \<noteq> []"
    and "\<bar>sint (as_TTLSeconds service)\<bar> \<le> 9000000000"
  shows "advertisement_state j now (stored_ad (advertisement_for j tenant issuer ident t service targets) version) =
    (if now < truncate_second t + sint (as_TTLSeconds service) * second then ''Active'' else ''Expired'')"
proof -
  let ?ad = "stored_ad (advertisement_for j tenant issuer ident t service targets) version"
  have "annotation (ad_Meta ?ad) ''peering.re8ch.com/last-published-at'' = rfc3339_format j t"
    by (simp add: stored_ad_def advertisement_for_def published_at_def)
  moreover have "rfc3339_parse j (rfc3339_format j t) = Some (truncate_second t)"
    using assms(1,2) by (simp add: rfc3339_ok_def)
  ultimately have "advertisement_published j ?ad = truncate_second t"
    using assms(3) by (simp add: advertisement_published_def Let_def)
  moreover have "ad_ttlSeconds ?ad = as_TTLSeconds service" "\<not> ad_revoked ?ad"
    by (simp_all add: stored_ad_def advertisement_for_def)
  ultimately show ?thesis
    using go_seconds_exact [OF assms(4)]
    by (simp add: advertisement_state_def advertisement_expires_def Before_def)
qed

definition observed_link :: "authenticated_link \<Rightarrow> codec \<Rightarrow> time \<Rightarrow> link_observation \<Rightarrow> authenticated_link" where
  "observed_link l j seen obs =
     l\<lparr>al_state := (if lo_Ready obs then ''Ready'' else ''Disconnected''), al_reason := lo_Reason obs,
       al_latencyMillis := lo_LatencyMillis obs, al_lastHandshakeAt := rfc3339_format j (lo_LastHandshakeAt obs),
       al_lastObservedAt := Some (rfc3339_format j seen)\<rparr>"

lemma kube_ObserveLink_writes:
  assumes "kube_ObserveLink K j tenant i obs w = (Inr (), w')"
  shows "\<exists>l w1 seen w2. fst (links_get K tenant (lo_LinkRef obs) w) = Inr l \<and> al_peerRef l = lo_PeerRef obs \<and>
    api_now K w1 = (Inr seen, w2) \<and> links_update_status K tenant (observed_link l j seen obs) w2 = (Inr (), w')"
  using assms unfolding kube_ObserveLink_def observed_link_def [symmetric] by (fastforce elim!: run_elims)

text \<open>
  C40: what a member observed of a link stands for 45 seconds. An accepted observation is written
  to the link it names, of the peer it names, with the Hub's reading of its own clock; whatever
  metadata the server stores it under, a pass of the reconciler leaves what was observed as it is
  until 45 seconds after that reading, cut to the second, and makes the link Disconnected
  (ObservationStale) afterwards. A link without a gateway on either side is Blocked whatever was
  observed.
\<close>

theorem link_lifetime:
  assumes "rfc3339_ok j" and "kube_ObserveLink K j tenant i obs w = (Inr (), w')"
    and "\<And>w1 t w2. api_now K w1 = (Inr t, w2) \<Longrightarrow> valid_instant t"
  shows "\<exists>l w1 seen w2. fst (links_get K tenant (lo_LinkRef obs) w) = Inr l \<and> al_peerRef l = lo_PeerRef obs \<and>
    api_now K w1 = (Inr seen, w2) \<and> links_update_status K tenant (observed_link l j seen obs) w2 = (Inr (), w') \<and>
    (\<forall>now version. link_state j now ((observed_link l j seen obs)\<lparr>al_Meta := server_meta (al_Meta l) version\<rparr>) =
       (if al_localGateway l = [] \<and> al_remoteGateway l = [] then Some (''Blocked'', ''NATUnreachable'')
        else if now \<le> truncate_second seen + 45 * second then None
        else Some (''Disconnected'', ''ObservationStale'')))"
proof -
  from kube_ObserveLink_writes [OF assms(2)] obtain l w1 seen w2
    where l: "fst (links_get K tenant (lo_LinkRef obs) w) = Inr l" "al_peerRef l = lo_PeerRef obs"
      "api_now K w1 = (Inr seen, w2)" "links_update_status K tenant (observed_link l j seen obs) w2 = (Inr (), w')"
    by blast
  then have "rfc3339_parse j (rfc3339_format j seen) = Some (truncate_second seen)"
    using assms(1,3) by (simp add: rfc3339_ok_def)
  then have "link_state j now ((observed_link l j seen obs)\<lparr>al_Meta := mt\<rparr>) =
       (if al_localGateway l = [] \<and> al_remoteGateway l = [] then Some (''Blocked'', ''NATUnreachable'')
        else if now \<le> truncate_second seen + 45 * second then None
        else Some (''Disconnected'', ''ObservationStale''))" for now mt
    using go_sub_le_iff [of "45 * second" now "truncate_second seen"]
    by (auto simp: link_state_def observed_link_def freshly_observed_def observation_limit_def)
  with l show ?thesis by blast
qed

section \<open>Grants\<close>

text \<open>Reads of grants and advertisements give stored objects.\<close>

definition api_grants :: "'w kube \<Rightarrow> ('w \<Rightarrow> string \<times> string \<rightharpoonup> access_grant) \<Rightarrow> ('w \<Rightarrow> string \<times> string \<rightharpoonup> advertisement) \<Rightarrow> bool" where
  "api_grants K gat aat \<longleftrightarrow>
     (\<forall>f g. reads_keep (\<lambda>w. gat w = f \<and> aat w = g) K) \<and>
     (\<forall>ns n w ad w'. ads_get K ns n w = (Inr ad, w') \<longrightarrow> aat w' (ns, n) = Some ad) \<and>
     (\<forall>ns w gs w' g. ns \<noteq> [] \<longrightarrow> grants_list K ns w = (Inr gs, w') \<longrightarrow> g \<in> set gs \<longrightarrow>
        gat w' (ns, mt_Name (ag_Meta g)) = Some g)"

text \<open>A grant that the cluster \<open>issuer\<close> may be told of.\<close>

definition owned_grant :: "codec \<Rightarrow> (string \<times> string \<rightharpoonup> access_grant) \<Rightarrow> (string \<times> string \<rightharpoonup> advertisement) \<Rightarrow>
    string \<Rightarrow> string \<Rightarrow> grant_instruction \<Rightarrow> bool" where
  "owned_grant j grants ads tenant issuer gi \<longleftrightarrow>
     (\<exists>g ad expires. grants (tenant, gi_Name gi) = Some g \<and> ag_approved g \<and> gi_Revoked gi = ag_revoked g \<and>
        rfc3339_parse j (ag_expiresAt g) = Some expires \<and> gi_ExpiresAt gi = expires \<and> gi_Rules gi = ag_rules g \<and>
        gi_Generation gi = mt_Generation (ag_Meta g) \<and>
        ads (tenant, ag_advertisementRef g) = Some ad \<and> ad_publisherRef ad = issuer \<and> ad_protocol ad = ''kubernetes-api'')"

lemma pending_grant_yields:
  assumes api: "api_grants K gat aat" and g: "grants (tenant, mt_Name (ag_Meta g)) = Some g"
  shows "yields (\<lambda>w. gat w = grants \<and> aat w = ads) (pending_grant K j tenant issuer g)
    (\<lambda>r. \<forall>gi. r = Some gi \<longrightarrow> owned_grant j grants ads tenant issuer gi)"
proof (cases "rfc3339_parse j (ag_expiresAt g)")
  case None
  then show ?thesis by (simp add: pending_grant_def yields_give)
next
  case (Some expires)
  from api have reads: "reads_keep (\<lambda>w. gat w = grants \<and> aat w = ads) K" by (simp add: api_grants_def)
  have get: "yields (\<lambda>w. gat w = grants \<and> aat w = ads) (ads_get K tenant (ag_advertisementRef g))
      (\<lambda>ad. ads (tenant, ag_advertisementRef g) = Some ad)"
  proof (rule yieldsI)
    fix s r s'
    assume s: "gat s = grants \<and> aat s = ads" and run: "ads_get K tenant (ag_advertisementRef g) s = (r, s')"
    from keeps_run [OF reads_keepD(9) [OF reads] s run] have s': "gat s' = grants \<and> aat s' = ads" .
    moreover have "\<forall>ad. r = Inr ad \<longrightarrow> aat s' (tenant, ag_advertisementRef g) = Some ad"
      using api run by (auto simp: api_grants_def)
    ultimately show "(gat s' = grants \<and> aat s' = ads) \<and> (\<forall>ad. r = Inr ad \<longrightarrow> ads (tenant, ag_advertisementRef g) = Some ad)"
      by simp
  qed
  show ?thesis
  proof (cases "ag_approved g")
    case False
    with Some show ?thesis by (simp add: pending_grant_def yields_give)
  next
    case True
    show ?thesis
      unfolding pending_grant_def using Some True
      by (auto intro!: yields_and_then [OF yields_attempt [OF get]] yields_give split: sum.splits
          simp: owned_grant_def grant_instruction_of_def g)
  qed
qed

lemma kube_PendingGrants_yields:
  assumes api: "api_grants K gat aat" and "tenant \<noteq> []"
  shows "yields (\<lambda>w. gat w = grants \<and> aat w = ads) (kube_PendingGrants K j tenant issuer now)
    (\<lambda>gis. \<forall>gi \<in> set gis. owned_grant j grants ads tenant issuer gi)"
  unfolding kube_PendingGrants_def
proof (rule yields_and_then)
  from api have reads: "reads_keep (\<lambda>w. gat w = grants \<and> aat w = ads) K" by (simp add: api_grants_def)
  show "yields (\<lambda>w. gat w = grants \<and> aat w = ads) (grants_list K tenant)
      (\<lambda>gs. \<forall>g \<in> set gs. grants (tenant, mt_Name (ag_Meta g)) = Some g)"
  proof (rule yieldsI)
    fix s r s'
    assume s: "gat s = grants \<and> aat s = ads" and run: "grants_list K tenant s = (r, s')"
    from keeps_run [OF reads_keepD(13) [OF reads] s run] have s': "gat s' = grants \<and> aat s' = ads" .
    then show "(gat s' = grants \<and> aat s' = ads) \<and>
        (\<forall>gs. r = Inr gs \<longrightarrow> (\<forall>g \<in> set gs. grants (tenant, mt_Name (ag_Meta g)) = Some g))"
      using api run assms(2) by (auto simp: api_grants_def)
  qed
  fix gs
  assume "\<forall>g \<in> set gs. grants (tenant, mt_Name (ag_Meta g)) = Some g"
  then show "yields (\<lambda>w. gat w = grants \<and> aat w = ads) (collect (pending_grant K j tenant issuer) gs)
      (\<lambda>gis. \<forall>gi \<in> set gis. owned_grant j grants ads tenant issuer gi)"
    by (intro yields_collect pending_grant_yields [OF api]) simp
qed

text \<open>
  C8: the Hub discloses a grant to its owner only. A snapshot of grants is the answer to a
  message that was signed with the registered key of the cluster named by the path, and each of
  its grants is one the customer approved, with a readable expiry, on an advertisement of a
  Kubernetes API that this very cluster published.
\<close>

theorem grants_disclosed_to_owner:
  assumes "api_grants K gat aat" and "tenant \<noteq> []"
    and "serve srv (kube_ops K (hs_codec srv)) (PostMessage tenant i body clock) w = (r, w')"
    and "rs_Status r = 200" and "rs_Body r = Doc (GrantSnapshot gis)"
  shows "(\<exists>m ident key w1. body = Some m \<and> kube_Identity K tenant i w = (Inr ident, w1) \<and>
       RawStd_Decode (id_PublicKey ident) = Some key \<and> authentic (hs_crypto srv) (hs_codec srv) m key) \<and>
    (\<forall>gi \<in> set gis. owned_grant (hs_codec srv) (gat w) (aat w) tenant i gi)"
proof -
  let ?ops = "kube_ops K (hs_codec srv)" and ?P = "\<lambda>w1. gat w1 = gat w \<and> aat w1 = aat w"
  have "\<not> error_response r" using assms(4) by (auto simp: error_response_def)
  from serve_success [OF assms(3) this] obtain ident s1 m key prev s2 grants s3 where
    run: "Identity ?ops tenant i w = (Inr ident, s1)" "LastGeneration ?ops tenant i s1 = (Inr prev, s2)"
      "apply_message srv ?ops tenant i m clock s2 = (Inr grants, s3)"
    and m: "body = Some m" "RawStd_Decode (id_PublicKey ident) = Some key" "r = accepted_response m grants"
      "authentic (hs_crypto srv) (hs_codec srv) m key"
    by (auto simp: controlMessage_Inr Verify_None_iff)
  from m(3) assms(5) have grants: "grants = Some gis"
    by (auto simp: accepted_response_def write_json_def split: option.splits)
  from run(3) grants obtain s4 where pending: "kube_PendingGrants K (hs_codec srv) tenant i (clock 1) s2 = (Inr gis, s4)"
    by (auto simp: apply_message_def Let_def kube_ops_def elim!: run_elims split: if_splits)
  from assms(1) have reads: "reads_keep ?P K" by (simp add: api_grants_def)
  have "keeps ?P (kube_Identity K tenant i)" "keeps ?P (kube_LastGeneration K tenant i)"
    unfolding kube_LastGeneration_def by (intro keeps_intros reads)+
  with run(1,2) have "?P s2"
    by (auto simp: kube_ops_def dest!: keeps_run)
  from yieldsD [OF kube_PendingGrants_yields [OF assms(1,2)] this pending]
  have "\<forall>gi \<in> set gis. owned_grant (hs_codec srv) (gat w) (aat w) tenant i gi" .
  with m run(1) show ?thesis by (auto simp: kube_ops_def)
qed

section \<open>Concrete clusters\<close>

lemma demo_codec_times: "rfc3339_ok demo_codec"
  unfolding rfc3339_ok_def
proof (intro conjI allI impI)
  fix t
  assume "valid_instant t"
  then have t: "0 \<le> t" "t < 315537897600 * second" by (simp_all add: valid_instant_def)
  then have "t div second < 315537897600" by simp
  with t(1) have "nat (t div second) < 2 ^ 64" by simp
  then have "fst (ParseUint (decimal (nat (t div second)))) = of_nat (nat (t div second))"
    by (simp add: ParseUint_def parse_digits_decimal)
  moreover have "int (unat (of_nat (nat (t div second)) :: u64)) = t div second"
  proof -
    from \<open>nat (t div second) < 2 ^ 64\<close> have "unat (of_nat (nat (t div second)) :: u64) = nat (t div second)"
      by (simp add: unat_of_nat take_bit_eq_mod)
    then show ?thesis using t(1) by (simp only: int_nat_eq) simp
  qed
  moreover have "t div second * second = truncate_second t"
    by (simp add: truncate_second_def minus_mod_eq_div_mult)
  ultimately have "int (unat (fst (ParseUint (decimal (nat (t div second)))))) * second = truncate_second t"
    by (simp only:)
  then show "rfc3339_parse demo_codec (rfc3339_format demo_codec t) = Some (truncate_second t)"
    by (simp add: demo_codec_def del: of_int_of_nat_eq)
qed (simp add: demo_codec_def)

definition demo_db :: advertised_service where
  "demo_db = \<lparr>as_Name = ''db'', as_Namespace = ''prod'', as_ServiceClass = ''sql'', as_Protocol = ''tcp'', as_Port = 5432,
     as_TargetPeers = [''p''], as_TTLSeconds = 60, as_PolicyRef = ''pol'', as_Generation = 1, as_GatewayTarget = []\<rparr>"

definition demo_fields :: server_fields where
  "demo_fields = \<lparr>sf_ResourceVersion = ''1'', sf_Generation = 1, sf_CreationTimestamp = 5\<rparr>"

theorem advertisement_lifetime_witness:
  "advertisement_state demo_codec (60 * second) (stored_ad (advertisement_for demo_codec ''t'' ''a'' demo_identity 5 demo_db [''p'']) demo_fields) = ''Expired''"
  using advertisement_lifetime [OF demo_codec_times, of 5 demo_db "60 * second" "''t''" "''a''" demo_identity "[''p'']" demo_fields]
  by (simp add: valid_instant_def demo_codec_def demo_db_def truncate_second_def)

definition demo_observed :: link_observation where
  "demo_observed = \<lparr>lo_LinkRef = ''l'', lo_PeerRef = ''p'', lo_Ready = True, lo_LatencyMillis = 3, lo_Reason = [], lo_LastHandshakeAt = 0\<rparr>"

definition demo_linked :: demo_cluster where
  "demo_linked = demo_pair\<lparr>dc_links := [((''t'', ''l''), \<lparr>al_Meta = new_meta ''t'' ''l'', al_peerRef = ''p'', al_localGateway = ''g'',
     al_remoteGateway = [], al_state = [], al_reason = [], al_latencyMillis = 0, al_lastHandshakeAt = [],
     al_lastObservedAt = None, al_observedGeneration = 0\<rparr>)]\<rparr>"

definition demo_clocked :: "demo_cluster kube" where
  "demo_clocked = demo_kube\<lparr>wall_clock := (\<lambda>w. (20000000000, w))\<rparr>"

theorem link_lifetime_witness:
  "\<exists>w' l seen. kube_ObserveLink demo_clocked demo_codec ''t'' ''a'' demo_observed demo_linked = (Inr (), w') \<and>
     al_peerRef l = ''p'' \<and>
     link_state demo_codec (20 * second + 46 * second)
       ((observed_link l demo_codec seen demo_observed)\<lparr>al_Meta := server_meta (al_Meta l) demo_fields\<rparr>) =
     Some (''Disconnected'', ''ObservationStale'')"
proof -
  obtain w' where run: "kube_ObserveLink demo_clocked demo_codec ''t'' ''a'' demo_observed demo_linked = (Inr (), w')"
    by (simp add: kube_ObserveLink_def and_then_apply demo_clocked_def demo_kube_simps table_get_def table_update_def
        demo_linked_def demo_pair_def demo_observed_def new_meta_def peer_member_def api_now_def)
  have clock: "t = 20 * second" if "api_now demo_clocked w1 = (Inr t, w2)" for w1 t w2
    using that by (auto simp: demo_clocked_def api_now_def)
  have stored: "l = \<lparr>al_Meta = new_meta ''t'' ''l'', al_peerRef = ''p'', al_localGateway = ''g'',
     al_remoteGateway = [], al_state = [], al_reason = [], al_latencyMillis = 0, al_lastHandshakeAt = [],
     al_lastObservedAt = None, al_observedGeneration = 0\<rparr>"
    if "fst (links_get demo_clocked ''t'' (lo_LinkRef demo_observed) demo_linked) = Inr l" for l
    using that by (simp add: demo_clocked_def demo_kube_simps table_get_def demo_linked_def demo_observed_def new_meta_def)
  have valid: "valid_instant t" if "api_now demo_clocked w1 = (Inr t, w2)" for w1 t w2
    unfolding clock [OF that] by (simp add: valid_instant_def)
  from link_lifetime [OF demo_codec_times run] valid obtain l w1 seen w2
    where read: "fst (links_get demo_clocked ''t'' (lo_LinkRef demo_observed) demo_linked) = Inr l"
      and now: "api_now demo_clocked w1 = (Inr seen, w2)"
      and limit: "\<forall>now version. link_state demo_codec now ((observed_link l demo_codec seen demo_observed)\<lparr>al_Meta := server_meta (al_Meta l) version\<rparr>) =
       (if al_localGateway l = [] \<and> al_remoteGateway l = [] then Some (''Blocked'', ''NATUnreachable'')
        else if now \<le> truncate_second seen + 45 * second then None else Some (''Disconnected'', ''ObservationStale''))"
    by blast
  from clock [OF now] have now: "seen = 20 * second" .
  from stored [OF read] have l: "al_peerRef l = ''p''" "al_localGateway l \<noteq> []"
    by simp_all
  have "link_state demo_codec (20 * second + 46 * second)
      ((observed_link l demo_codec seen demo_observed)\<lparr>al_Meta := server_meta (al_Meta l) demo_fields\<rparr>) = Some (''Disconnected'', ''ObservationStale'')"
    using l(2) now limit [rule_format, of "20 * second + 46 * second" demo_fields] by (simp add: truncate_second_def)
  with run l(1) show ?thesis by blast
qed

definition grants_at :: "demo_cluster \<Rightarrow> string \<times> string \<rightharpoonup> access_grant" where
  "grants_at w = map_of (dc_grants w)"

definition ads_at :: "demo_cluster \<Rightarrow> string \<times> string \<rightharpoonup> advertisement" where
  "ads_at w = map_of (dc_ads w)"

lemma demo_reads_keep: "reads_keep P demo_kube"
  unfolding reads_keep_def demo_kube_simps
  by (intro conjI allI table_get_keeps table_list_keeps keeps_and_then keeps_give) (simp add: keeps_def api_now_def demo_kube_simps)

lemma demo_api_grants: "api_grants demo_kube grants_at ads_at"
  unfolding api_grants_def
  by (auto simp: demo_reads_keep demo_kube_simps table_get_def table_list_def grants_at_def ads_at_def
      split: option.splits if_splits)

definition demo_granted :: demo_cluster where
  "demo_granted = demo_pair\<lparr>
     dc_ads := [((''t'', ''ad''), (advertisement_for demo_codec ''t'' ''a'' demo_identity 5 (demo_db\<lparr>as_Protocol := ''kubernetes-api''\<rparr>) [''p''])
        \<lparr>ad_Meta := new_meta ''t'' ''ad''\<rparr>)],
     dc_grants := [((''t'', ''g''), \<lparr>ag_Meta = new_meta ''t'' ''g'', ag_peerRef = ''p'', ag_advertisementRef = ''ad'',
       ag_expiresAt = ''9'', ag_scope = [], ag_namespaces = [''default''], ag_rules = [], ag_approved = True, ag_revoked = False,
       ag_credentialRef = [], ag_lastRenewedAt = [], ag_state = [], ag_reason = []\<rparr>)]\<rparr>"

definition demo_poll :: control_message where
  "demo_poll = \<lparr>cm_Issuer = ''spiffe://d/cluster/a'', cm_Audience = ''hub'', cm_Generation = 5,
     cm_IssuedAt = 10 * second, cm_ExpiresAt = 70 * second, cm_Nonce = ''a-5'', cm_Type = ''grant.poll'', cm_Payload = [],
     cm_Signature = RawStd_Encode (demo_key ''priv'' @ ''grant.poll'')\<rparr>"

lemma demo_poll_verifies:
  "Verify demo_crypto demo_codec demo_poll (demo_key ''priv'') ''hub'' (20 * second) 0 None = None"
  by (simp add: Verify_None_iff demo_poll_def message_window_def Before_def
      authentic_def canonical_def demo_codec_def ed25519_Verify_def) (simp add: demo_crypto_def)

definition demo_instruction :: grant_instruction where
  "demo_instruction = \<lparr>gi_Name = ''g'', gi_Tenant = ''t'', gi_PeerRef = ''p'', gi_AdvertisementRef = ''ad'', gi_Generation = 0,
     gi_Scope = ''Namespaced'', gi_Namespaces = [''default''], gi_Rules = [], gi_ExpiresAt = 9 * second, gi_Revoked = False,
     gi_ProxyURL = ''https://ad-p.t.svc.cluster.local:6443''\<rparr>"

lemma demo_poll_verified: "verify_message demo_server demo_poll (demo_key ''priv'') 20000000000 0 w = (Inr (), w)"
  using demo_poll_verifies by (simp add: verify_message_def demo_server_def)

lemma demo_poll_applied:
  "apply_message demo_server ops ''t'' ''a'' demo_poll clock =
     and_then (on_error (\<lambda>_. http_error ''grant state unavailable'' 503) (PendingGrants ops ''t'' ''a'' (clock 1))) (\<lambda>gs. give (Some gs))"
  by (simp add: apply_message_def demo_poll_def fun_eq_iff)

lemma demo_poll_fields:
  "cm_Issuer demo_poll = ''spiffe://d/cluster/a''" "\<not> HasPrefix (cm_Type demo_poll) ''route.''" "cm_Generation demo_poll = 5"
  by (simp_all add: demo_poll_def HasPrefix_def)

lemma demo_expiry: "rfc3339_parse demo_codec ''9'' = Some 9000000000"
  by (simp add: demo_codec_def ParseUint_def)

lemma demo_poll_answer:
  "fst (serve demo_server (kube_ops demo_kube demo_codec) (PostMessage ''t'' ''a'' (Some demo_poll) (\<lambda>_. 20 * second)) demo_granted)
    = accepted_response demo_poll (Some [demo_instruction])"
  by (simp add: serve_def finish_def demo_eval demo_poll_verified demo_poll_applied demo_poll_fields demo_granted_def demo_pair_def
      demo_member_def empty_cluster_def new_meta_def kube_PendingGrants_def pending_grant_def demo_expiry advertisement_for_def
      demo_db_def grant_instruction_of_def grant_scope_def demo_instruction_def)

theorem grants_disclosed_to_owner_witness:
  "owned_grant demo_codec (grants_at demo_granted) (ads_at demo_granted) ''t'' ''a'' demo_instruction"
proof -
  obtain r w' where run: "serve demo_server (kube_ops demo_kube demo_codec) (PostMessage ''t'' ''a'' (Some demo_poll) (\<lambda>_. 20 * second)) demo_granted = (r, w')"
    by fastforce
  with demo_poll_answer have r: "r = accepted_response demo_poll (Some [demo_instruction])" by simp
  have "rs_Status r = 200" "rs_Body r = Doc (GrantSnapshot [demo_instruction])"
    unfolding r by (simp_all add: accepted_response_def write_json_def)
  from grants_disclosed_to_owner [OF demo_api_grants _ _ this, of "''t''" demo_server "''a''" "Some demo_poll" "\<lambda>_. 20 * second" demo_granted w'] run
  show ?thesis by simp
qed

text \<open>A server with fixed policies and peer specs, for snapshots.\<close>

definition demo_policies :: "string \<times> string \<rightharpoonup> peer_policy" where
  "demo_policies = [(''t'', ''pol'') \<mapsto> \<lparr>pp_Meta = new_meta ''t'' ''pol'', pp_serviceClasses = [''sql''], pp_protocols = [''tcp''],
     pp_ports = [], pp_directions = [''export''], pp_maxAdvertisements = None, pp_matchNames = [''p''], pp_matchAllReady = False\<rparr>]"

definition demo_peer_spec :: peer where
  "demo_peer_spec = \<lparr>pe_Meta = new_meta ''t'' ''p'', pe_localIdentityRef = ''a'', pe_remoteIdentityRef = ''b'', pe_suspended = False,
     pe_localBundleConfirmed = False, pe_remoteBundleConfirmed = False, pe_state = [], pe_observedGeneration = 0\<rparr>"

definition demo_policy_kube :: "demo_cluster kube" where
  "demo_policy_kube = demo_kube
     \<lparr>policies_get := (\<lambda>ns n w. (case demo_policies (ns, n) of None \<Rightarrow> Inl (ApiNotFound []) | Some p \<Rightarrow> Inr p, w)),
      peers_get := (\<lambda>ns n w. (if (ns, n) = (''t'', ''p'') then Inr demo_peer_spec else Inl (ApiNotFound []), w))\<rparr>"

lemma demo_api_ads: "api_ads demo_policy_kube ads_at demo_policies [(''t'', ''p'') \<mapsto> (''a'', ''b'')]"
  unfolding api_ads_def
proof (intro conjI)
  show "\<forall>f. plain_keep (\<lambda>w. ads_at w = f) demo_policy_kube"
  proof
    fix f
    have "reads_keep (\<lambda>w. ads_at w = f) demo_policy_kube"
      using demo_reads_keep [of "\<lambda>w. ads_at w = f"]
      unfolding reads_keep_def by (simp add: demo_policy_kube_def api_now_def [abs_def]) (simp add: keeps_def)
    then show "plain_keep (\<lambda>w. ads_at w = f) demo_policy_kube"
      unfolding plain_keep_def
      by (simp add: demo_policy_kube_def demo_kube_simps table_write_keeps ads_at_def)
  qed
  show "\<forall>f ns s. keeps (\<lambda>w. ads_at w = f) (secrets_create demo_policy_kube ns s) \<and> keeps (\<lambda>w. ads_at w = f) (secrets_update demo_policy_kube ns s)"
    "\<forall>f ns v. keeps (\<lambda>w. ads_at w = f) (identities_create demo_policy_kube ns v) \<and>
      keeps (\<lambda>w. ads_at w = f) (identities_update_status demo_policy_kube ns v)"
    by (simp_all add: demo_policy_kube_def demo_kube_simps table_write_keeps ads_at_def)
  show "\<forall>ns n w p w'. policies_get demo_policy_kube ns n w = (Inr p, w') \<longrightarrow> demo_policies (ns, n) = Some p"
    by (auto simp: demo_policy_kube_def split: option.splits)
  show "\<forall>ns n w p w'. peers_get demo_policy_kube ns n w = (Inr p, w') \<longrightarrow>
      [(''t'', ''p'') \<mapsto> (''a'', ''b'')] (ns, n) = Some (pe_localIdentityRef p, pe_remoteIdentityRef p)"
    by (auto simp: demo_policy_kube_def demo_peer_spec_def split: if_splits)
  show "\<forall>ns ad w r w'. ads_create demo_policy_kube ns ad w = (r, w') \<or> ads_update demo_policy_kube ns ad w = (r, w') \<longrightarrow>
      ads_at w' = ads_at w \<or> (\<exists>version. ads_at w' = (ads_at w)((ns, mt_Name (ad_Meta ad)) \<mapsto> stored_ad ad version))"
    by (auto simp: demo_policy_kube_def demo_kube_simps table_create_def table_update_def ads_at_def Let_def update_conv'
        set_ad_def stored_ad_def split: if_splits option.splits)
qed

definition demo_snapshot :: control_message where
  "demo_snapshot = \<lparr>cm_Issuer = ''spiffe://d/cluster/a'', cm_Audience = ''hub'', cm_Generation = 5,
     cm_IssuedAt = 10 * second, cm_ExpiresAt = 70 * second, cm_Nonce = ''a-5'', cm_Type = ''service.snapshot'', cm_Payload = [],
     cm_Signature = RawStd_Encode (demo_key ''priv'' @ ''service.snapshot'')\<rparr>"

definition demo_snapshot_server :: hub_server where
  "demo_snapshot_server = demo_server\<lparr>hs_codec := demo_codec\<lparr>json_snapshot := (\<lambda>_. Some [demo_db])\<rparr>\<rparr>"

theorem advertisements_conform_witness:
  "ads_conform demo_policies [(''t'', ''p'') \<mapsto> (''a'', ''b'')]
     (ads_at (snd (run_calls (hub_handler demo_snapshot_server (kube_ops demo_policy_kube demo_codec))
        [PostMessage ''t'' ''a'' (Some demo_snapshot) (\<lambda>_. 20 * second)] demo_pair)))"
  by (rule advertisements_conform [OF demo_api_ads])
    (simp add: ads_conform_def ads_at_def demo_pair_def empty_cluster_def)

text \<open>
  A fulfilment is recorded whatever the grant says. The grant of this cluster is revoked and
  its expiry has passed, yet the message of the publishing cluster that it has stored a
  credential makes it Active with that credential, until the next pass of the reconciler makes
  it Revoked again.
\<close>

theorem revoked_grant_shown_active:
  "\<exists>w' g. kube_FulfillGrant demo_kube demo_codec ''t'' ''a''
       \<lparr>gf_GrantRef = ''g'', gf_CredentialRef = ''credential://among-clusters/t/g'', gf_RenewedAt = 20 * second\<rparr>
       (demo_granted\<lparr>dc_grants := map (map_prod id (\<lambda>g. g\<lparr>ag_revoked := True\<rparr>)) (dc_grants demo_granted)\<rparr>) = (Inr (), w') \<and>
     grants_at w' (''t'', ''g'') = Some g \<and> ag_revoked g \<and> \<not> Before (dc_now w') (parsed_time demo_codec (ag_expiresAt g)) \<and>
     ag_state g = ''Active'' \<and> ag_credentialRef g = ''credential://among-clusters/t/g'' \<and>
     grant_state demo_codec True (dc_now w') g = (''Revoked'', [])"
  by (simp add: kube_FulfillGrant_def and_then_apply demo_kube_simps table_get_def table_update_def demo_granted_def demo_pair_def
      new_meta_def advertisement_for_def credential_scheme_def HasPrefix_def grants_at_def set_grant_def empty_cluster_def
      parsed_time_def demo_expiry Before_def grant_state_def)

end
