(* ===== verification/Gateway.thy ===== *)
theory Gateway
  imports Platform "HOL-Library.Multiset"
begin

text \<open>
  The gateway (\<open>cmd/gateway/main.go\<close>): it keeps the mutual-TLS QUIC sessions of the cluster,
  answers the streams a peer opens on them (\<open>handleExport\<close>) and opens streams for local
  clients (\<open>proxyImport\<close>). QUIC, TLS, X.509 and TCP are outside the repository: a connection is
  an identity of an unknown type, the result of a dial, of a stream operation or of a chain
  verification is an argument, and a stream is the byte string that can be read from it before
  it ends. What is modelled is every decision the code takes on them, with the session registry
  as its state.
\<close>

record export_route =
  xr_ServiceIdentity :: string
  xr_Target :: string
  xr_TargetPeers :: "string list"

record import_route =
  mr_Listen :: string
  mr_Endpoint :: string
  mr_ServiceIdentity :: string
  mr_ExpectedSPIFFEID :: string
  mr_SessionOnly :: bool

record peer_session =
  ps_Endpoint :: string
  ps_ExpectedSPIFFEID :: string

definition sessionHeartbeatIdentity :: string where
  "sessionHeartbeatIdentity = ''among-clusters.internal/session-heartbeat''"

definition canonicalIdentity :: "string \<Rightarrow> string" where
  "canonicalIdentity identity = TrimSuffix identity ''/''"

section \<open>The session registry\<close>

type_synonym 'c registry = "string \<rightharpoonup> 'c list"

definition newSessionRegistry :: "'c registry" where
  "newSessionRegistry = Map.empty"

definition registry_put :: "string \<Rightarrow> 'c \<Rightarrow> 'c registry \<Rightarrow> 'c registry" where
  "registry_put identity connection r =
     (let key = canonicalIdentity identity in r(key \<mapsto> map_get [] r key @ [connection]))"

definition registry_get :: "string \<Rightarrow> 'c registry \<Rightarrow> 'c option" where
  "registry_get identity r =
     (let connections = map_get [] r (canonicalIdentity identity) in
      if 0 < length connections then Some (connections ! 0) else None)"

definition registry_has :: "string \<Rightarrow> 'c registry \<Rightarrow> bool" where
  "registry_has identity r \<longleftrightarrow> 0 < length (map_get [] r (canonicalIdentity identity))"

definition registry_remove :: "string \<Rightarrow> 'c \<Rightarrow> 'c registry \<Rightarrow> 'c registry" where
  "registry_remove identity connection r =
     (let key = canonicalIdentity identity; connections = remove1 connection (map_get [] r key) in
      if length connections = 0 then r(key := None) else r(key \<mapsto> connections))"

text \<open>The readiness endpoint.\<close>

definition readyz :: "string \<Rightarrow> 'c registry \<Rightarrow> nat" where
  "readyz identity r = (if identity = [] \<or> \<not> registry_has identity r then 503 else 204)"

text \<open>
  What a user of the registry relies on: per canonical identity it holds the connections put
  and not yet removed, oldest first.
\<close>

locale session_table =
  fixes put :: "string \<Rightarrow> 'c \<Rightarrow> 'r \<Rightarrow> 'r"
    and get :: "string \<Rightarrow> 'r \<Rightarrow> 'c option"
    and has :: "string \<Rightarrow> 'r \<Rightarrow> bool"
    and remove :: "string \<Rightarrow> 'c \<Rightarrow> 'r \<Rightarrow> 'r"
    and held :: "'r \<Rightarrow> string \<Rightarrow> 'c list"
    and canon :: "string \<Rightarrow> string"
  assumes held_put: "held (put i c r) k = (if k = canon i then held r k @ [c] else held r k)"
    and held_remove: "held (remove i c r) k = (if k = canon i then remove1 c (held r k) else held r k)"
    and get_held: "get i r = (case held r (canon i) of [] \<Rightarrow> None | c # cs \<Rightarrow> Some c)"
    and has_held: "has i r \<longleftrightarrow> held r (canon i) \<noteq> []"
begin

text \<open>A session that is open stays the one that is used while younger ones come and go.\<close>

lemma get_stable:
  assumes "get i r = Some c"
  shows "get i (put j d r) = Some c" and "d \<noteq> c \<Longrightarrow> get i (remove j d r) = Some c"
  using assms by (auto simp: get_held held_put held_remove split: list.splits if_splits)

lemma remove_put:
  assumes "d \<notin> set (held r (canon i))"
  shows "held (remove i d (put i d r)) k = held r k"
  using assms by (simp add: held_put held_remove remove1_append)

lemma has_get: "has i r \<longleftrightarrow> get i r \<noteq> None"
  by (simp add: has_held get_held split: list.splits)

lemma same_identity: "canon i = canon j \<Longrightarrow> get i r = get j r \<and> (has i r \<longleftrightarrow> has j r)"
  by (simp add: get_held has_held)

end

definition registry_held :: "'c registry \<Rightarrow> string \<Rightarrow> 'c list" where
  "registry_held r k = map_get [] r k"

interpretation sessions: session_table registry_put registry_get registry_has registry_remove
    registry_held canonicalIdentity
  by unfold_locales
    (auto simp: registry_put_def registry_get_def registry_has_def registry_remove_def
      registry_held_def Let_def map_get_def nth_Cons split: list.splits option.splits)

section \<open>Peer authentication\<close>

text \<open>
  \<open>VerifyConnection\<close> of a dialling gateway (and of the agent's probe): \<open>chain\<close> is the result of
  verifying the first certificate against the peer bundle, \<open>uris\<close> its URI names, \<open>None\<close> when
  the peer sent no certificate.
\<close>

definition verifyConnection :: "(bool \<times> string list) option \<Rightarrow> string \<Rightarrow> go_error option" where
  "verifyConnection certificates expected =
     (case certificates of
        None \<Rightarrow> Some (Msg ''peer certificate missing'')
      | Some (chain, uris) \<Rightarrow>
          if \<not> chain then Some (Msg ''x509: certificate signed by unknown authority'')
          else if length uris \<noteq> 1 \<or> TrimSuffix (uris ! 0) ''/'' \<noteq> TrimSuffix expected ''/''
            then Some (Msg ''peer SPIFFE identity mismatch'')
          else None)"

text \<open>The identity under which an accepted connection is served; \<open>None\<close> closes it.\<close>

definition acceptedIdentity :: "string list option \<Rightarrow> string option" where
  "acceptedIdentity certificates =
     (case certificates of
        None \<Rightarrow> None
      | Some uris \<Rightarrow> if length uris \<noteq> 1 then None else Some (canonicalIdentity (uris ! 0)))"

section \<open>The identity frame\<close>

text \<open>\<open>binary.Write\<close> of \<open>uint16(len(identity))\<close> in big-endian order, then the identity.\<close>

definition put_uint16 :: "u16 \<Rightarrow> string" where
  "put_uint16 n = [char_of (unat n div 256), char_of (unat n mod 256)]"

definition identity_frame :: "string \<Rightarrow> string" where
  "identity_frame identity = put_uint16 (of_nat (length identity)) @ identity"

definition get_uint16 :: "string \<Rightarrow> (u16 \<times> string) option" where
  "get_uint16 input =
     (case input of
        a # b # rest \<Rightarrow> Some (of_nat (256 * of_char a + of_char b), rest)
      | _ \<Rightarrow> None)"

datatype frame = BadFrame | ShortIdentity | Frame string string

definition read_frame :: "string \<Rightarrow> frame" where
  "read_frame input =
     (case get_uint16 input of
        None \<Rightarrow> BadFrame
      | Some (n, rest) \<Rightarrow>
          if n = 0 \<or> 2048 < n then BadFrame
          else if length rest < unat n then ShortIdentity
          else Frame (take (unat n) rest) (drop (unat n) rest))"

section \<open>Exports\<close>

fun routeAllowsIdentity :: "string list \<Rightarrow> (string \<rightharpoonup> string list) \<Rightarrow> string \<Rightarrow> bool" where
  "routeAllowsIdentity [] peerIdentities identity = False"
| "routeAllowsIdentity (peer # peers) peerIdentities identity =
     (if peer = ''*'' then True
      else if \<exists>allowed \<in> set (map_get [] peerIdentities peer). TrimSuffix allowed ''/'' = TrimSuffix identity ''/''
        then True
      else routeAllowsIdentity peers peerIdentities identity)"

text \<open>The routes of the configuration, overridden by those of the routes file.\<close>

definition add_route :: "export_route \<Rightarrow> (string \<rightharpoonup> export_route) \<Rightarrow> (string \<rightharpoonup> export_route)" where
  "add_route route m = m(xr_ServiceIdentity route \<mapsto> route)"

definition readExportFile :: "export_route list option \<Rightarrow> export_route list" where
  "readExportFile content = (case content of None \<Rightarrow> [] | Some routes \<Rightarrow> routes)"

definition resolved_routes :: "(string \<rightharpoonup> export_route) \<Rightarrow> export_route list option \<Rightarrow> (string \<rightharpoonup> export_route)" where
  "resolved_routes routes content = fold add_route (readExportFile content) routes"

datatype export_result =
    FrameRejected
  | IdentityTruncated
  | HeartbeatAcknowledged
  | NotAdvertised string
  | OutsideTargetPeers string
  | UpstreamUnreachable string
  | Proxied string string

text \<open>
  A stream of an authenticated peer: \<open>input\<close> is what it sends, \<open>dial\<close> tells whether the
  upstream accepts a connection. \<open>Proxied target rest\<close> copies \<open>rest\<close> to the target and back.
\<close>

definition handleExport :: "(string \<rightharpoonup> export_route) \<Rightarrow> export_route list option \<Rightarrow> (string \<rightharpoonup> string list) \<Rightarrow>
    (string \<Rightarrow> bool) \<Rightarrow> string \<Rightarrow> string \<Rightarrow> export_result" where
  "handleExport routes content peerIdentities dial peerIdentity input =
     (case read_frame input of
        BadFrame \<Rightarrow> FrameRejected
      | ShortIdentity \<Rightarrow> IdentityTruncated
      | Frame identity rest \<Rightarrow>
          if identity = sessionHeartbeatIdentity then HeartbeatAcknowledged
          else (case resolved_routes routes content identity of
              None \<Rightarrow> NotAdvertised identity
            | Some route \<Rightarrow>
                if \<not> routeAllowsIdentity (xr_TargetPeers route) peerIdentities peerIdentity
                  then OutsideTargetPeers (xr_ServiceIdentity route)
                else if \<not> dial (xr_Target route) then UpstreamUnreachable (xr_Target route)
                else Proxied (xr_Target route) rest))"

text \<open>What the peer can read back before its request is proxied.\<close>

definition export_reply :: "export_result \<Rightarrow> string" where
  "export_reply r = (case r of HeartbeatAcknowledged \<Rightarrow> [char_of (1::nat)] | _ \<Rightarrow> [])"

section \<open>Imports\<close>

datatype 'c import_result =
    SessionUnavailable
  | NoFallbackEndpoint
  | DialFailed
  | StreamUnavailable 'c bool
  | FrameUnwritten 'c bool
  | Tunnel 'c bool string

text \<open>
  \<open>dial\<close> is the result of dialling the fallback endpoint, \<open>opens\<close> tells whether a stream opens
  on a connection, \<open>writes\<close> whether the frame is written. The flag of a result says that the
  connection was dialled for this client and is closed with it; the string of \<open>Tunnel\<close> is what
  was written on the stream before the client's bytes.
\<close>

definition proxyImport :: "(string \<Rightarrow> 'c option) \<Rightarrow> ('c \<Rightarrow> bool) \<Rightarrow> ('c \<Rightarrow> bool) \<Rightarrow> import_route \<Rightarrow>
    'c registry \<Rightarrow> 'c import_result \<times> 'c registry" where
  "proxyImport dial opens writes route r =
     (let use_connection = (\<lambda>connection owned.
        if \<not> opens connection
          then (StreamUnavailable connection owned, registry_remove (mr_ExpectedSPIFFEID route) connection r)
        else if \<not> writes connection then (FrameUnwritten connection owned, r)
        else (Tunnel connection owned (identity_frame (mr_ServiceIdentity route)), r)) in
      case registry_get (mr_ExpectedSPIFFEID route) r of
        Some connection \<Rightarrow> use_connection connection False
      | None \<Rightarrow>
          if mr_SessionOnly route then (SessionUnavailable, r)
          else if mr_Endpoint route = [] then (NoFallbackEndpoint, r)
          else (case dial (TrimPrefix (mr_Endpoint route) ''quic://'') of
              None \<Rightarrow> (DialFailed, r)
            | Some connection \<Rightarrow> use_connection connection True))"

section \<open>Heartbeats\<close>

datatype heartbeat_result = SessionAlive | HeartbeatFailed | HeartbeatUnacknowledged

text \<open>
  A tick of the dialling side: a stream may not open, the frame may not be written, and the
  peer's reply may be cut short.
\<close>

definition heartbeat_tick :: "bool \<Rightarrow> bool \<Rightarrow> string \<Rightarrow> heartbeat_result" where
  "heartbeat_tick opened written reply =
     (if \<not> opened \<or> \<not> written then HeartbeatFailed
      else (case reply of
          [] \<Rightarrow> HeartbeatUnacknowledged
        | ack # _ \<Rightarrow> if of_char ack = (1::nat) then SessionAlive else HeartbeatUnacknowledged))"

definition heartbeat_frame :: string where
  "heartbeat_frame = identity_frame sessionHeartbeatIdentity"

section \<open>Configuration\<close>

fun configured_routes :: "export_route list \<Rightarrow> (string \<rightharpoonup> export_route) \<Rightarrow> (string \<rightharpoonup> export_route) option" where
  "configured_routes [] m = Some m"
| "configured_routes (route # routes) m =
     (if xr_ServiceIdentity route = [] \<or> xr_Target route = [] then None
      else configured_routes routes (m(xr_ServiceIdentity route \<mapsto> route)))"

definition sessions_valid :: "peer_session list \<Rightarrow> bool" where
  "sessions_valid ss \<longleftrightarrow> (\<forall>s \<in> set ss. ps_Endpoint s \<noteq> [] \<and> ps_ExpectedSPIFFEID s \<noteq> [])"

end
