(* ===== verification/Gateway_Tunnel.thy ===== *)
theory Gateway_Tunnel
  imports Gateway
begin

text \<open>
  What two gateways achieve together: an identity frame survives the wire, a tunnel ends at the
  target of the route that was asked for and only for peers the route names, heartbeats are
  always acknowledged, and the registry of a running gateway holds live sessions only. The last
  is an invariant of the step relation \<open>gateway_step\<close>, whose steps are the places where the code
  touches the registry.
\<close>

section \<open>Frames\<close>

lemma of_char_char_of [simp]: "n < 256 \<Longrightarrow> of_char (char_of n :: char) = (n :: nat)"
  by (simp add: take_bit_eq_mod)

lemma get_put_uint16: "get_uint16 (put_uint16 n @ rest) = Some (n, rest)"
proof -
  have "unat n < 65536"
    using unsigned_less [of n] by simp
  then have "unat n div 256 < 256" by simp
  then have "(of_nat (256 * (unat n div 256) + unat n mod 256) :: u16) = n"
    by (simp only: mult_div_mod_eq) simp
  with \<open>unat n div 256 < 256\<close> show ?thesis
    by (simp add: get_uint16_def put_uint16_def del: of_nat_add of_nat_mult)
qed

text \<open>The size that is sent is the length modulo \<open>2 ^ 16\<close>.\<close>

lemma unat_length16: "unat (of_nat (length i) :: u16) = length i mod 65536"
  by (simp add: unat_of_nat)

lemma read_identity_frame:
  "read_frame (identity_frame i @ rest) =
     (let n = length i mod 65536 in
      if n = 0 \<or> 2048 < n then BadFrame
      else Frame (take n i) (drop n i @ rest))"
proof -
  let ?n = "of_nat (length i) :: u16"
  have zero: "?n = 0 \<longleftrightarrow> length i mod 65536 = 0"
    by (metis unat_length16 unat_eq_zero)
  have big: "2048 < ?n \<longleftrightarrow> 2048 < length i mod 65536"
    by (simp add: word_less_nat_alt unat_length16)
  have "length i mod 65536 \<le> length i" by simp
  then show ?thesis
    by (simp add: read_frame_def identity_frame_def get_put_uint16 zero big unat_length16 Let_def)
qed

lemma frame_roundtrip: "i \<noteq> [] \<Longrightarrow> length i \<le> 2048 \<Longrightarrow> read_frame (identity_frame i @ rest) = Frame i rest"
  by (simp add: read_identity_frame Let_def)

text \<open>
  An identity of 1 to 2048 bytes that a gateway writes as a frame is read back by the peer
  exactly, with every byte that follows it left for the tunnel.
\<close>

theorem identity_frame_roundtrip:
  assumes "i \<noteq> []" and "length i \<le> 2048"
  shows "read_frame (identity_frame i @ rest) = Frame i rest"
  using assms by (simp add: read_identity_frame Let_def)

theorem identity_frame_roundtrip_witness:
  "read_frame (identity_frame ''spiffe://d/ns/n/service/s'' @ ''ping'') = Frame ''spiffe://d/ns/n/service/s'' ''ping''"
  by (rule identity_frame_roundtrip) simp_all

text \<open>
  The frame has no check against long identities on the writing side: one of 65536 + n
  bytes is announced as n bytes, and its tail arrives as the first bytes of the tunnel.
\<close>

theorem long_identity_truncated:
  assumes "length i = 65536 + n" and "0 < n" and "n \<le> 2048"
  shows "read_frame (identity_frame i @ rest) = Frame (take n i) (drop n i @ rest)"
  using assms by (simp add: read_identity_frame Let_def)

theorem long_identity_truncated_witness:
  "read_frame (identity_frame (replicate 65537 CHR ''x'') @ ''ping'') =
     Frame (take 1 (replicate 65537 CHR ''x'')) (drop 1 (replicate 65537 CHR ''x'') @ ''ping'')"
  by (rule long_identity_truncated [of _ 1]) simp_all

section \<open>Tunnels\<close>

lemma routeAllowsIdentity_iff:
  "routeAllowsIdentity peers ids identity \<longleftrightarrow>
     (\<exists>peer \<in> set peers. peer = ''*'' \<or>
        (\<exists>allowed \<in> set (map_get [] ids peer). canonicalIdentity allowed = canonicalIdentity identity))"
  by (induction peers) (auto simp: canonicalIdentity_def)

text \<open>
  C3: whatever bytes a peer sends, its stream reaches an upstream only if they start with a
  frame naming an advertised service, the upstream is the target of that service's route, and
  the identity of the peer's certificate belongs to one of the route's target peers, or the
  route is open to every authenticated peer.
\<close>

theorem export_only_to_target_peers:
  assumes "handleExport routes content ids dial peer input = Proxied target rest"
  shows "\<exists>identity route. read_frame input = Frame identity rest \<and>
    resolved_routes routes content identity = Some route \<and> xr_Target route = target \<and>
    (''*'' \<in> set (xr_TargetPeers route) \<or>
     (\<exists>p \<in> set (xr_TargetPeers route). \<exists>allowed \<in> set (map_get [] ids p).
        canonicalIdentity allowed = canonicalIdentity peer))"
proof -
  from assms obtain identity route where
    "read_frame input = Frame identity rest" "resolved_routes routes content identity = Some route"
    "xr_Target route = target" "routeAllowsIdentity (xr_TargetPeers route) ids peer"
    by (auto simp: handleExport_def split: frame.splits option.splits if_splits)
  then show ?thesis
    unfolding routeAllowsIdentity_iff by blast
qed

definition demo_route :: export_route where
  "demo_route = \<lparr>xr_ServiceIdentity = ''spiffe://d/ns/n/service/s'', xr_Target = ''10.0.0.1:5432'',
     xr_TargetPeers = [''remote'']\<rparr>"

definition demo_import :: import_route where
  "demo_import = \<lparr>mr_Listen = '':17891'', mr_Endpoint = [], mr_ServiceIdentity = ''spiffe://d/ns/n/service/s'',
     mr_ExpectedSPIFFEID = ''spiffe://d/cluster/d'', mr_SessionOnly = True\<rparr>"

lemma demo_export:
  "handleExport Map.empty (Some [demo_route]) [''remote'' \<mapsto> [''spiffe://e/cluster/e/'']] (\<lambda>_. True)
     ''spiffe://e/cluster/e'' (identity_frame ''spiffe://d/ns/n/service/s'' @ ''ping'') =
   Proxied ''10.0.0.1:5432'' ''ping''"
  by (simp add: handleExport_def read_identity_frame Let_def sessionHeartbeatIdentity_def resolved_routes_def
      readExportFile_def add_route_def demo_route_def TrimSuffix_def HasSuffix_def)

theorem export_only_to_target_peers_witness:
  "\<exists>identity (route :: export_route). xr_Target route = ''10.0.0.1:5432'' \<and>
     read_frame (identity_frame ''spiffe://d/ns/n/service/s'' @ ''ping'') = Frame identity ''ping''"
  using export_only_to_target_peers [OF demo_export] by blast

text \<open>
  C19: a tunnel end to end. When \<open>proxyImport\<close> of one gateway opens a tunnel for an import and
  the gateway at the other end serves a route for the service, the client's bytes go to the
  route's target exactly when the importing cluster's identity is among the route's target
  peers and the target answers; the bytes arrive complete and nothing is put before them.
\<close>

theorem tunnel_end_to_end:
  assumes tunnel: "proxyImport dial opens writes imp r = (Tunnel c owned sent, r')"
    and identity: "mr_ServiceIdentity imp \<noteq> []" "length (mr_ServiceIdentity imp) \<le> 2048"
      "mr_ServiceIdentity imp \<noteq> sessionHeartbeatIdentity"
    and route: "resolved_routes routes content (mr_ServiceIdentity imp) = Some route"
  shows "handleExport routes content ids connects peer (sent @ bytes) =
    (if \<not> routeAllowsIdentity (xr_TargetPeers route) ids peer then OutsideTargetPeers (xr_ServiceIdentity route)
     else if connects (xr_Target route) then Proxied (xr_Target route) bytes
     else UpstreamUnreachable (xr_Target route))"
proof -
  from tunnel have "sent = identity_frame (mr_ServiceIdentity imp)"
    by (auto simp: proxyImport_def Let_def split: option.splits if_splits)
  with identity route show ?thesis
    by (simp add: handleExport_def frame_roundtrip)
qed

definition demo_gateway_registry :: "nat registry" where
  "demo_gateway_registry = registry_put ''spiffe://d/cluster/d'' 7 newSessionRegistry"

theorem tunnel_end_to_end_witness:
  "handleExport Map.empty (Some [demo_route]) [''remote'' \<mapsto> [''spiffe://e/cluster/e/'']] (\<lambda>_. True)
     ''spiffe://e/cluster/e'' (identity_frame ''spiffe://d/ns/n/service/s'' @ ''ping'') =
   Proxied ''10.0.0.1:5432'' ''ping''"
proof -
  have tunnel: "proxyImport (\<lambda>_. None) (\<lambda>_. True) (\<lambda>_. True) demo_import demo_gateway_registry =
      (Tunnel 7 False (identity_frame ''spiffe://d/ns/n/service/s''), demo_gateway_registry)"
    by (simp add: proxyImport_def demo_import_def demo_gateway_registry_def newSessionRegistry_def
        registry_put_def registry_get_def Let_def)
  have route: "resolved_routes Map.empty (Some [demo_route]) (mr_ServiceIdentity demo_import) = Some demo_route"
    by (simp add: resolved_routes_def readExportFile_def add_route_def demo_import_def demo_route_def)
  have "routeAllowsIdentity (xr_TargetPeers demo_route) [''remote'' \<mapsto> [''spiffe://e/cluster/e/'']]
      ''spiffe://e/cluster/e''"
    by (simp add: demo_route_def TrimSuffix_def HasSuffix_def)
  then show ?thesis
    using tunnel_end_to_end [OF tunnel _ _ _ route, of "[''remote'' \<mapsto> [''spiffe://e/cluster/e/'']]"
        "\<lambda>_. True" "''spiffe://e/cluster/e''" "''ping''"]
    by (simp add: demo_import_def sessionHeartbeatIdentity_def demo_route_def)
qed

text \<open>
  Whatever routes the accepting gateway serves, it acknowledges the heartbeat of the
  dialling one, so a session whose streams work is never torn down for a missing heartbeat.
\<close>

theorem heartbeat_acknowledged:
  "heartbeat_tick True True (export_reply (handleExport routes content ids dial peer heartbeat_frame)) = SessionAlive"
proof -
  have "handleExport routes content ids dial peer heartbeat_frame = HeartbeatAcknowledged"
    using frame_roundtrip [of sessionHeartbeatIdentity "[]"]
    by (simp add: handleExport_def heartbeat_frame_def sessionHeartbeatIdentity_def)
  then show ?thesis
    by (simp add: export_reply_def heartbeat_tick_def)
qed

section \<open>Peer authentication\<close>

text \<open>
  A dialled connection is used only if the peer's certificate chains to the peer bundle and
  names exactly one URI, the expected identity up to a trailing slash.
\<close>

theorem verifyConnection_sound:
  "verifyConnection certificates expected = None \<longleftrightarrow>
     (\<exists>uri. certificates = Some (True, [uri]) \<and> canonicalIdentity uri = canonicalIdentity expected)"
  by (auto simp: verifyConnection_def canonicalIdentity_def length_Suc_conv split: option.splits if_splits)

section \<open>Sessions of a running gateway\<close>

text \<open>
  \<open>gw_live\<close> holds the \<open>handleConnection\<close> loops that are running, each with the identity it was
  started for. A loop puts its connection when it starts and removes it when it ends; a client
  whose stream does not open removes the connection it was given.
\<close>

record 'c gateway =
  gw_live :: "(string \<times> 'c) set"
  gw_registry :: "'c registry"

inductive gateway_step :: "'c gateway \<Rightarrow> 'c gateway \<Rightarrow> bool" where
  connected: "c \<notin> snd ` gw_live g \<Longrightarrow> gateway_step g
    (g\<lparr>gw_live := insert (i, c) (gw_live g), gw_registry := registry_put i c (gw_registry g)\<rparr>)"
| closed: "(i, c) \<in> gw_live g \<Longrightarrow> gateway_step g
    (g\<lparr>gw_live := gw_live g - {(i, c)}, gw_registry := registry_remove i c (gw_registry g)\<rparr>)"
| client: "proxyImport dial opens writes imp (gw_registry g) = (res, r') \<Longrightarrow>
    gateway_step g (g\<lparr>gw_registry := r'\<rparr>)"

inductive gateway_reachable :: "'c gateway \<Rightarrow> bool" where
  started: "gateway_reachable \<lparr>gw_live = {}, gw_registry = newSessionRegistry\<rparr>"
| stepped: "gateway_reachable g \<Longrightarrow> gateway_step g g' \<Longrightarrow> gateway_reachable g'"

inductive_cases gateway_stepE: "gateway_step g g'"

text \<open>Every connection in the registry belongs to a running loop, once.\<close>

definition sessions_live :: "'c gateway \<Rightarrow> bool" where
  "sessions_live g \<longleftrightarrow>
     (\<forall>k c. c \<in> set (registry_held (gw_registry g) k) \<longrightarrow> (\<exists>i. (i, c) \<in> gw_live g \<and> canonicalIdentity i = k)) \<and>
     (\<forall>k. distinct (registry_held (gw_registry g) k)) \<and>
     (\<forall>i j c. (i, c) \<in> gw_live g \<longrightarrow> (j, c) \<in> gw_live g \<longrightarrow> i = j)"

lemma registry_held_remove:
  "registry_held (registry_remove i c r) k =
     (if k = canonicalIdentity i then remove1 c (registry_held r k) else registry_held r k)"
  by (rule sessions.held_remove)

lemma proxyImport_registry:
  assumes "proxyImport dial opens writes imp r = (res, r')"
  shows "r' = r \<or> (\<exists>i c. r' = registry_remove i c r)"
  using assms by (auto simp: proxyImport_def Let_def split: option.splits if_splits)

lemma sessions_live_step:
  assumes "gateway_step g g'" and live: "sessions_live g"
  shows "sessions_live g'"
  using assms(1)
proof cases
  case (connected c i)
  from live connected(2) show ?thesis
    unfolding connected(1) sessions_live_def
    by (auto simp: sessions.held_put image_iff) (metis snd_conv)+
next
  case (closed i c)
  from live closed(2) show ?thesis
    unfolding closed(1) sessions_live_def
    by (auto simp: registry_held_remove set_remove1_eq split: if_splits)
next
  case (client dial opens writes imp res r')
  from proxyImport_registry [OF client(2)] consider "r' = gw_registry g"
    | i c where "r' = registry_remove i c (gw_registry g)"
    by blast
  then show ?thesis
  proof cases
    case 1
    with live show ?thesis by (simp add: client(1))
  next
    case 2
    with live show ?thesis
      unfolding client(1) sessions_live_def
      by (auto simp: registry_held_remove split: if_splits)
  qed
qed

lemma sessions_live_reachable: "gateway_reachable g \<Longrightarrow> sessions_live g"
proof (induction rule: gateway_reachable.induct)
  case started
  show ?case
    by (simp add: sessions_live_def registry_held_def newSessionRegistry_def)
next
  case (stepped g g')
  then show ?case
    using sessions_live_step by blast
qed

text \<open>
  C20: in every reachable state of a gateway, the readiness endpoint answers 204 for an identity
  only while a session of that identity is open, and the connection that an import of that
  identity is given is such a session.
\<close>

theorem readiness_sound:
  assumes "gateway_reachable g" and "readyz i (gw_registry g) = 204"
  shows "\<exists>c j. registry_get i (gw_registry g) = Some c \<and> (j, c) \<in> gw_live g \<and>
    canonicalIdentity j = canonicalIdentity i"
proof -
  from assms(2) obtain c where c: "registry_get i (gw_registry g) = Some c"
    by (auto simp: readyz_def sessions.has_get split: if_splits)
  then have "c \<in> set (registry_held (gw_registry g) (canonicalIdentity i))"
    by (auto simp: sessions.get_held split: list.splits)
  with sessions_live_reachable [OF assms(1)] c show ?thesis
    unfolding sessions_live_def by blast
qed

theorem readiness_sound_witness:
  "\<exists>c j. registry_get ''spiffe://d/cluster/d'' (registry_put ''spiffe://d/cluster/d/'' (7::nat) newSessionRegistry) = Some c \<and>
     (j, c) \<in> {(''spiffe://d/cluster/d/'', 7)}"
proof -
  have "gateway_reachable \<lparr>gw_live = {(''spiffe://d/cluster/d/'', 7::nat)},
      gw_registry = registry_put ''spiffe://d/cluster/d/'' 7 newSessionRegistry\<rparr>"
    using gateway_reachable.stepped [OF gateway_reachable.started
        gateway_step.connected [of "7::nat" _ "''spiffe://d/cluster/d/''"]]
    by simp
  from readiness_sound [OF this, of "''spiffe://d/cluster/d''"] show ?thesis
    by (auto simp: readyz_def registry_has_def registry_put_def newSessionRegistry_def canonicalIdentity_def
        TrimSuffix_def HasSuffix_def)
qed

end
