(* ===== verification/Gateway_Sessions.thy ===== *)
theory Gateway_Sessions
  imports Gateway_Tunnel
begin

text \<open>
  The gateway process (\<open>main\<close>, \<open>credentials\<close>, \<open>tlsConfig\<close>, \<open>serveQUIC\<close>, \<open>handleConnection\<close>,
  \<open>maintainConnectionHeartbeat\<close>, \<open>maintainSession\<close> and \<open>serveImport\<close> of \<open>cmd/gateway/main.go\<close>) as a state
  machine: every goroutine that owns a session is a phase of the state, and everything that can
  happen to one (a dial ends, a timer fires, a stream or a connection breaks, a peer connects, a
  local client arrives, the process is told to stop) is an event. \<open>gateway_handle\<close> is what the
  code does then; any order of events is an interleaving of the goroutines.
\<close>

section \<open>Start\<close>

text \<open>
  \<open>loads i\<close> is the result of the \<open>i\<close>-th attempt to read the key pair, a second after the one
  before; the result comes with the number of seconds slept.
\<close>

fun load_certificate :: "(nat \<Rightarrow> go_error + 'k) \<Rightarrow> nat \<Rightarrow> nat \<Rightarrow> (go_error + 'k) \<times> nat" where
  "load_certificate loads i 0 = (Inl (Msg ''no attempt''), 0)"
| "load_certificate loads i (Suc n) =
     (case loads i of
        Inr cert \<Rightarrow> (Inr cert, 0)
      | Inl e \<Rightarrow>
          if n = 0 then (Inl e, 1)
          else (case load_certificate loads (Suc i) n of (r, slept) \<Rightarrow> (r, Suc slept)))"

definition credentials :: "(nat \<Rightarrow> go_error + 'k) \<Rightarrow> go_error + string \<Rightarrow> (string \<Rightarrow> bool) \<Rightarrow> (go_error + 'k \<times> string) \<times> nat" where
  "credentials loads file pool =
     (case load_certificate loads 0 60 of
        (Inl e, slept) \<Rightarrow> (Inl e, slept)
      | (Inr cert, slept) \<Rightarrow>
          (case file of
             Inl e \<Rightarrow> Inl e
           | Inr peers \<Rightarrow> if \<not> pool peers then Inl (Msg ''invalid peer bundle'') else Inr (cert, peers), slept))"

text \<open>A handshake uses the key pair on disk, and the one of the start when that cannot be read.\<close>

definition currentCertificate :: "go_error + 'k \<Rightarrow> 'k \<Rightarrow> 'k" where
  "currentCertificate loaded fallback = (case loaded of Inl _ \<Rightarrow> fallback | Inr certificate \<Rightarrow> certificate)"

section \<open>TLS\<close>

text \<open>
  The fields of \<open>tls.Config\<close> that the code sets. A peer presents \<open>None\<close> or a chain, of which it
  matters whether it verifies against the peer bundle, and the URI names of its first certificate.
\<close>

type_synonym presented = "(bool \<times> string list) option"

record tls_config =
  tc_MinVersion :: nat
  tc_NextProtos :: "string list"
  tc_RequireAndVerifyClientCert :: bool
  tc_InsecureSkipVerify :: bool
  tc_VerifyConnection :: "(presented \<Rightarrow> go_error option) option"

definition tlsConfig :: "string \<Rightarrow> bool \<Rightarrow> tls_config" where
  "tlsConfig expected server =
     (if server then
        \<lparr>tc_MinVersion = 0x0304, tc_NextProtos = [''among-clusters/1''], tc_RequireAndVerifyClientCert = True,
         tc_InsecureSkipVerify = False, tc_VerifyConnection = None\<rparr>
      else
        \<lparr>tc_MinVersion = 0x0304, tc_NextProtos = [''among-clusters/1''], tc_RequireAndVerifyClientCert = False,
         tc_InsecureSkipVerify = True, tc_VerifyConnection = Some (\<lambda>p. verifyConnection p expected)\<rparr>)"

text \<open>
  What \<open>crypto/tls\<close> does with these fields: a listener that requires and verifies client
  certificates accepts only a chain that verifies, a dialler that skips the verification leaves
  it to the callback.
\<close>

definition handshake :: "tls_config \<Rightarrow> presented \<Rightarrow> bool" where
  "handshake config p \<longleftrightarrow>
     (tc_RequireAndVerifyClientCert config \<longrightarrow> (case p of None \<Rightarrow> False | Some (chain, _) \<Rightarrow> chain)) \<and>
     (case tc_VerifyConnection config of None \<Rightarrow> True | Some verify \<Rightarrow> verify p = None)"

section \<open>The process\<close>

text \<open>The loop of \<open>maintainSession\<close>: dialling, waiting three seconds, inside \<open>handleConnection\<close>, returned.\<close>

datatype 'c phase = Dialing | Waiting | Serving 'c | Ended

record 'c process =
  pr_stopped :: bool
  pr_sessions :: "(peer_session \<times> 'c phase) list"
  pr_accepted :: "(string \<times> 'c) list"
  pr_registry :: "'c registry"
  pr_peers :: "'c \<rightharpoonup> presented"
  pr_closed :: "('c \<times> nat \<times> string) list"

text \<open>
  \<open>pr_accepted\<close> holds the running \<open>handleConnection\<close> loops of accepted connections, \<open>pr_peers\<close> what
  the peer of each connection presented, \<open>pr_closed\<close> the calls of \<open>CloseWithError\<close>. An import is
  a local client of an import route. A heartbeat tick says whether the stream opened, whether
  the frame was written, and what came back.
\<close>

datatype 'c gateway_event =
    DialFailed nat
  | Dialed nat 'c presented
  | WaitOver nat
  | SessionBroken nat
  | HeartbeatTick nat bool bool string
  | Accepted 'c presented
  | AcceptedBroken string 'c
  | Client "string \<Rightarrow> 'c option" "'c \<Rightarrow> bool" "'c \<Rightarrow> bool" import_route
  | Stop

definition close_connection :: "'c \<Rightarrow> nat \<Rightarrow> string \<Rightarrow> 'c process \<Rightarrow> 'c process" where
  "close_connection c code reason p = p\<lparr>pr_closed := pr_closed p @ [(c, code, reason)]\<rparr>"

definition set_phase :: "nat \<Rightarrow> 'c phase \<Rightarrow> 'c process \<Rightarrow> 'c process" where
  "set_phase i ph p = p\<lparr>pr_sessions := (pr_sessions p)[i := (fst (pr_sessions p ! i), ph)]\<rparr>"

text \<open>The head of the loop: \<open>for ctx.Err() == nil\<close>.\<close>

definition loop_head :: "'c process \<Rightarrow> 'c phase" where
  "loop_head p = (if pr_stopped p then Ended else Dialing)"

definition start_handling :: "string \<Rightarrow> 'c \<Rightarrow> presented \<Rightarrow> 'c process \<Rightarrow> 'c process" where
  "start_handling identity c cert p =
     p\<lparr>pr_registry := registry_put identity c (pr_registry p), pr_peers := (pr_peers p)(c \<mapsto> cert)\<rparr>"

definition end_handling :: "string \<Rightarrow> 'c \<Rightarrow> 'c process \<Rightarrow> 'c process" where
  "end_handling identity c p = p\<lparr>pr_registry := registry_remove identity c (pr_registry p)\<rparr>"

definition maintainSession :: "nat \<Rightarrow> 'c \<Rightarrow> presented \<Rightarrow> 'c process \<Rightarrow> 'c process" where
  "maintainSession i c cert p =
     (let expected = ps_ExpectedSPIFFEID (fst (pr_sessions p ! i)) in
      if handshake (tlsConfig expected False) cert then set_phase i (Serving c) (start_handling expected c cert p)
      else set_phase i Waiting p)"

definition session_broken :: "nat \<Rightarrow> 'c process \<Rightarrow> 'c process" where
  "session_broken i p =
     (case pr_sessions p ! i of
        (s, Serving c) \<Rightarrow> set_phase i (loop_head p)
          (close_connection c 0 ''reconnecting'' (end_handling (ps_ExpectedSPIFFEID s) c p))
      | _ \<Rightarrow> p)"

definition maintainConnectionHeartbeat :: "'c \<Rightarrow> bool \<Rightarrow> bool \<Rightarrow> string \<Rightarrow> 'c process \<Rightarrow> 'c process" where
  "maintainConnectionHeartbeat c opened written reply p =
     (case heartbeat_tick opened written reply of
        SessionAlive \<Rightarrow> p
      | HeartbeatFailed \<Rightarrow> close_connection c 1 ''session heartbeat failed'' p
      | HeartbeatUnacknowledged \<Rightarrow> close_connection c 1 ''session heartbeat unacknowledged'' p)"

definition serveQUIC :: "'c \<Rightarrow> presented \<Rightarrow> 'c process \<Rightarrow> 'c process" where
  "serveQUIC c cert p =
     (if \<not> handshake (tlsConfig [] True) cert then p
      else (case acceptedIdentity (map_option snd cert) of
          None \<Rightarrow> close_connection c 0 ''closed'' p
        | Some identity \<Rightarrow> (start_handling identity c cert p)\<lparr>pr_accepted := pr_accepted p @ [(identity, c)]\<rparr>))"

definition accepted_broken :: "string \<Rightarrow> 'c \<Rightarrow> 'c process \<Rightarrow> 'c process" where
  "accepted_broken identity c p =
     (if (identity, c) \<in> set (pr_accepted p)
      then (close_connection c 0 ''closed'' (end_handling identity c p))\<lparr>pr_accepted := remove1 (identity, c) (pr_accepted p)\<rparr>
      else p)"

text \<open>A client of \<open>serveImport\<close>: \<open>proxyImport\<close>, with the connections it closes.\<close>

definition serveImport :: "(string \<Rightarrow> 'c option) \<Rightarrow> ('c \<Rightarrow> bool) \<Rightarrow> ('c \<Rightarrow> bool) \<Rightarrow> import_route \<Rightarrow> 'c process \<Rightarrow> 'c process" where
  "serveImport dial opens writes imp p =
     (case proxyImport dial opens writes imp (pr_registry p) of
        (res, r) \<Rightarrow>
          (case res of
             StreamUnavailable c _ \<Rightarrow> close_connection c 1 ''import stream unavailable'' (p\<lparr>pr_registry := r\<rparr>)
           | FrameUnwritten c True \<Rightarrow> close_connection c 0 ''closed'' (p\<lparr>pr_registry := r\<rparr>)
           | _ \<Rightarrow> p\<lparr>pr_registry := r\<rparr>))"

definition phase_of :: "'c process \<Rightarrow> nat \<Rightarrow> 'c phase" where
  "phase_of p i = (if i < length (pr_sessions p) then snd (pr_sessions p ! i) else Ended)"

definition gateway_handle :: "'c gateway_event \<Rightarrow> 'c process \<Rightarrow> 'c process" where
  "gateway_handle e p =
     (case e of
        DialFailed i \<Rightarrow> if phase_of p i = Dialing then set_phase i Waiting p else p
      | Dialed i c cert \<Rightarrow> if phase_of p i = Dialing then maintainSession i c cert p else p
      | WaitOver i \<Rightarrow> if phase_of p i = Waiting then set_phase i (loop_head p) p else p
      | SessionBroken i \<Rightarrow> if i < length (pr_sessions p) then session_broken i p else p
      | HeartbeatTick i opened written reply \<Rightarrow>
          (case phase_of p i of
             Serving c \<Rightarrow> if pr_stopped p then p else maintainConnectionHeartbeat c opened written reply p
           | _ \<Rightarrow> p)
      | Accepted c cert \<Rightarrow> if pr_stopped p then p else serveQUIC c cert p
      | AcceptedBroken identity c \<Rightarrow> accepted_broken identity c p
      | Client dial opens writes imp \<Rightarrow> if pr_stopped p then p else serveImport dial opens writes imp p
      | Stop \<Rightarrow> p\<lparr>pr_stopped := True\<rparr>)"

text \<open>\<open>main\<close> up to the goroutines; \<open>None\<close> is a text of the environment that does not decode.\<close>

definition gateway_start :: "export_route list option \<Rightarrow> peer_session list option \<Rightarrow>
    go_error + (string \<rightharpoonup> export_route) \<times> 'c process" where
  "gateway_start exports sessions =
     (case (exports, sessions) of
        (Some xs, Some ss) \<Rightarrow>
          (case configured_routes xs Map.empty of
             None \<Rightarrow> Inl (Msg ''invalid export route'')
           | Some routes \<Rightarrow>
               if \<not> sessions_valid ss then Inl (Msg ''peer session requires endpoint and expectedSPIFFEID'')
               else Inr (routes, \<lparr>pr_stopped = False, pr_sessions = map (\<lambda>s. (s, Dialing)) ss, pr_accepted = [],
                 pr_registry = newSessionRegistry, pr_peers = Map.empty, pr_closed = []\<rparr>))
      | _ \<Rightarrow> Inl (Msg ''invalid service routing configuration''))"

text \<open>A connection is a new one each time one is dialled or accepted.\<close>

fun event_fresh :: "'c gateway_event \<Rightarrow> 'c process \<Rightarrow> bool" where
  "event_fresh (Dialed i c cert) p \<longleftrightarrow> pr_peers p c = None"
| "event_fresh (Accepted c cert) p \<longleftrightarrow> pr_peers p c = None"
| "event_fresh e p \<longleftrightarrow> True"

inductive process_reachable :: "'c process \<Rightarrow> bool" where
  started: "gateway_start exports sessions = Inr (routes, p) \<Longrightarrow> process_reachable p"
| happened: "process_reachable p \<Longrightarrow> event_fresh e p \<Longrightarrow> process_reachable (gateway_handle e p)"

section \<open>Refinement of the abstract gateway\<close>

text \<open>
  The abstract gateway of \<open>Gateway_Tunnel\<close> knows the running loops as a set and nothing of
  phases, timers and closing: \<open>running\<close> collects the loops.
\<close>

definition serving :: "(peer_session \<times> 'c phase) list \<Rightarrow> (string \<times> 'c) list" where
  "serving ss = concat (map (\<lambda>(s, ph). case ph of Serving c \<Rightarrow> [(ps_ExpectedSPIFFEID s, c)] | _ \<Rightarrow> []) ss)"

definition running :: "'c process \<Rightarrow> (string \<times> 'c) list" where
  "running p = serving (pr_sessions p) @ pr_accepted p"

definition abstract_gateway :: "'c process \<Rightarrow> 'c gateway" where
  "abstract_gateway p = \<lparr>gw_live = set (running p), gw_registry = pr_registry p\<rparr>"

text \<open>
  What holds in every reachable state: each loop has a connection of its own, and the peer of
  each connection was authenticated as the identity its loop runs under.
\<close>

definition authentic_peer :: "presented \<Rightarrow> string \<Rightarrow> bool" where
  "authentic_peer cert key \<longleftrightarrow>
     (case cert of
        Some (True, [uri]) \<Rightarrow> canonicalIdentity uri = key \<or> canonicalIdentity (canonicalIdentity uri) = key
      | _ \<Rightarrow> False)"

definition process_ok :: "'c process \<Rightarrow> bool" where
  "process_ok p \<longleftrightarrow>
     distinct (map snd (running p)) \<and>
     (\<forall>(i, c) \<in> set (running p). \<exists>cert. pr_peers p c = Some cert \<and> authentic_peer cert (canonicalIdentity i))"

text \<open>Only stopping the process ends the loop of a session.\<close>

definition sessions_maintained :: "'c process \<Rightarrow> bool" where
  "sessions_maintained p \<longleftrightarrow> 
     (\<forall>i < length (pr_sessions p). ps_ExpectedSPIFFEID (fst (pr_sessions p ! i)) \<noteq> [] \<and>
        (snd (pr_sessions p ! i) = Ended \<longrightarrow> pr_stopped p))"

lemma mset_add_distinct:
  assumes "mset xs = add_mset a (mset ys)"
  shows "distinct (map f xs) \<longleftrightarrow> f a \<notin> f ` set ys \<and> distinct (map f ys)" and "set xs = insert a (set ys)"
proof -
  from assms have "mset xs = mset (a # ys)" by simp
  then have "mset (map f xs) = mset (map f (a # ys))" by (simp only: mset_map)
  from mset_eq_imp_distinct_iff [OF this] show "distinct (map f xs) \<longleftrightarrow> f a \<notin> f ` set ys \<and> distinct (map f ys)"
    by simp
  from assms show "set xs = insert a (set ys)"
    by (metis set_mset_add_mset_insert set_mset_mset)
qed

lemma serving_append [simp]: "serving (xs @ ys) = serving xs @ serving ys"
  by (simp add: serving_def)

lemma serving_at:
  assumes "i < length ss"
  shows "serving ss = serving (take i ss) @ serving [ss ! i] @ serving (drop (Suc i) ss)"
    and "serving (ss[i := x]) = serving (take i ss) @ serving [x] @ serving (drop (Suc i) ss)"
proof -
  show "serving ss = serving (take i ss) @ serving [ss ! i] @ serving (drop (Suc i) ss)"
    by (subst id_take_nth_drop [OF assms]) (simp add: serving_def)
  show "serving (ss[i := x]) = serving (take i ss) @ serving [x] @ serving (drop (Suc i) ss)"
    by (subst upd_conv_take_nth_drop [OF assms]) (simp add: serving_def)
qed

lemma serving_one [simp]:
  "serving [(s, Serving c)] = [(ps_ExpectedSPIFFEID s, c)]" "serving [(s, Dialing)] = []"
  "serving [(s, Waiting)] = []" "serving [(s, Ended)] = []"
  by (simp_all add: serving_def)

lemma running_simps [simp]:
  "running (start_handling j c cert p) = running p" "running (end_handling j c p) = running p"
  "running (close_connection c code reason p) = running p" "running (p\<lparr>pr_stopped := b\<rparr>) = running p"
  "running (p\<lparr>pr_registry := r\<rparr>) = running p"
  by (simp_all add: running_def start_handling_def end_handling_def close_connection_def)

lemma set_phase_commute [simp]:
  "pr_registry (set_phase i ph p) = pr_registry p" "pr_peers (set_phase i ph p) = pr_peers p"
  "pr_stopped (set_phase i ph p) = pr_stopped p" "pr_accepted (set_phase i ph p) = pr_accepted p"
  "pr_sessions (set_phase i ph p) = (pr_sessions p)[i := (fst (pr_sessions p ! i), ph)]"
  "pr_registry (start_handling j c cert p) = registry_put j c (pr_registry p)"
  "pr_peers (start_handling j c cert p) = (pr_peers p)(c \<mapsto> cert)"
  "pr_sessions (start_handling j c cert p) = pr_sessions p" "pr_accepted (start_handling j c cert p) = pr_accepted p"
  "pr_stopped (start_handling j c cert p) = pr_stopped p"
  "pr_registry (end_handling j c p) = registry_remove j c (pr_registry p)" "pr_peers (end_handling j c p) = pr_peers p"
  "pr_sessions (end_handling j c p) = pr_sessions p" "pr_accepted (end_handling j c p) = pr_accepted p"
  "pr_stopped (end_handling j c p) = pr_stopped p"
  "pr_registry (close_connection c code reason p) = pr_registry p" "pr_peers (close_connection c code reason p) = pr_peers p"
  "pr_sessions (close_connection c code reason p) = pr_sessions p" "pr_accepted (close_connection c code reason p) = pr_accepted p"
  "pr_stopped (close_connection c code reason p) = pr_stopped p"
  by (simp_all add: set_phase_def start_handling_def end_handling_def close_connection_def)

lemma phase_ofD: "phase_of p i = ph \<Longrightarrow> ph \<noteq> Ended \<Longrightarrow> i < length (pr_sessions p) \<and> pr_sessions p ! i = (fst (pr_sessions p ! i), ph)"
  by (auto simp: phase_of_def split: if_splits)

lemma running_idle:
  assumes "phase_of p i \<in> {Dialing, Waiting}" and "ph \<in> {Dialing, Waiting, Ended}"
  shows "running (set_phase i ph p) = running p"
proof -
  from assms(1) obtain s where i: "i < length (pr_sessions p)" and "pr_sessions p ! i \<in> {(s, Dialing), (s, Waiting)}"
    using phase_ofD [of p i] by fastforce
  with assms(2) show ?thesis
    using serving_at [OF i] by (auto simp: running_def)
qed

lemma running_start:
  assumes "phase_of p i \<in> {Dialing, Waiting}"
  shows "mset (running (set_phase i (Serving c) p)) =
    add_mset (ps_ExpectedSPIFFEID (fst (pr_sessions p ! i)), c) (mset (running p))"
proof -
  from assms obtain s where i: "i < length (pr_sessions p)" and "pr_sessions p ! i \<in> {(s, Dialing), (s, Waiting)}"
    using phase_ofD [of p i] by fastforce
  then show ?thesis
    using serving_at [OF i] by (auto simp: running_def)
qed

lemma running_stop:
  assumes "i < length (pr_sessions p)" and "pr_sessions p ! i = (s, Serving c)" and "ph \<in> {Dialing, Waiting, Ended}"
  shows "mset (running p) = add_mset (ps_ExpectedSPIFFEID s, c) (mset (running (set_phase i ph p)))"
  using assms serving_at [OF assms(1)] by (auto simp: running_def)

lemma loop_head_phase: "loop_head p \<in> {Dialing, Waiting, Ended}"
  by (simp add: loop_head_def)

lemma handshake_accepts:
  "handshake (tlsConfig expected False) cert \<longleftrightarrow> (\<exists>uri. cert = Some (True, [uri]) \<and> canonicalIdentity uri = canonicalIdentity expected)"
  "handshake (tlsConfig expected True) cert \<longleftrightarrow> (\<exists>uris. cert = Some (True, uris))"
  by (auto simp: handshake_def tlsConfig_def verifyConnection_def canonicalIdentity_def length_Suc_conv
      split: option.splits if_splits prod.splits)

lemma canonicalIdentity_accepted:
  assumes "acceptedIdentity (map_option snd (Some (True, uris))) = Some identity"
  shows "\<exists>uri. uris = [uri] \<and> identity = canonicalIdentity uri"
  using assms by (auto simp: acceptedIdentity_def length_Suc_conv split: if_splits)

lemma authentic_dialed: "handshake (tlsConfig expected False) cert \<Longrightarrow> authentic_peer cert (canonicalIdentity expected)"
  by (auto simp: handshake_accepts authentic_peer_def)

lemma authentic_accepted:
  "handshake (tlsConfig [] True) cert \<Longrightarrow> acceptedIdentity (map_option snd cert) = Some identity \<Longrightarrow>
    authentic_peer cert (canonicalIdentity identity)"
  by (auto simp: handshake_accepts authentic_peer_def dest: canonicalIdentity_accepted)

section \<open>Every event is a step of the abstract gateway\<close>

text \<open>What one event does to the loops, the registry and the rest: the four cases of the proof.\<close>

datatype 'c change = Idle | Began string 'c presented | Finished string 'c | Served "string \<Rightarrow> 'c option" "'c \<Rightarrow> bool" "'c \<Rightarrow> bool" import_route

fun changed :: "'c change \<Rightarrow> 'c process \<Rightarrow> 'c process \<Rightarrow> bool" where
  "changed Idle p q \<longleftrightarrow> running q = running p \<and> pr_registry q = pr_registry p \<and> pr_peers q = pr_peers p"
| "changed (Began i c cert) p q \<longleftrightarrow> mset (running q) = add_mset (i, c) (mset (running p)) \<and>
     pr_registry q = registry_put i c (pr_registry p) \<and> pr_peers q = (pr_peers p)(c \<mapsto> cert) \<and>
     authentic_peer cert (canonicalIdentity i) \<and> pr_peers p c = None"
| "changed (Finished i c) p q \<longleftrightarrow> mset (running p) = add_mset (i, c) (mset (running q)) \<and>
     pr_registry q = registry_remove i c (pr_registry p) \<and> pr_peers q = pr_peers p"
| "changed (Served dial opens writes imp) p q \<longleftrightarrow> running q = running p \<and> pr_peers q = pr_peers p \<and>
     (\<exists>res. proxyImport dial opens writes imp (pr_registry p) = (res, pr_registry q))"

lemma changed_maintainSession:
  assumes "phase_of p i = Dialing" and "pr_peers p c = None"
  shows "\<exists>k. changed k p (maintainSession i c cert p)"
proof (cases "handshake (tlsConfig (ps_ExpectedSPIFFEID (fst (pr_sessions p ! i))) False) cert")
  case True
  let ?e = "ps_ExpectedSPIFFEID (fst (pr_sessions p ! i))"
  from assms(1) have "phase_of (start_handling ?e c cert p) i \<in> {Dialing, Waiting}"
    by (simp add: phase_of_def split: if_splits)
  from running_start [OF this, of c] have "changed (Began ?e c cert) p (maintainSession i c cert p)"
    using True assms(2) authentic_dialed [OF True] by (simp add: maintainSession_def)
  then show ?thesis ..
next
  case False
  then have "changed Idle p (maintainSession i c cert p)"
    using assms(1) running_idle [of p i Waiting] by (simp add: maintainSession_def)
  then show ?thesis ..
qed

lemma changed_session_broken:
  assumes "i < length (pr_sessions p)"
  shows "\<exists>k. changed k p (session_broken i p)"
proof -
  consider (serving) s c where "pr_sessions p ! i = (s, Serving c)" | (idle) "session_broken i p = p"
    by (cases "pr_sessions p ! i"; cases "snd (pr_sessions p ! i)") (auto simp: session_broken_def)
  then show ?thesis
  proof cases
    case serving
    let ?q = "close_connection c 0 ''reconnecting'' (end_handling (ps_ExpectedSPIFFEID s) c p)"
    have "changed (Finished (ps_ExpectedSPIFFEID s) c) p (session_broken i p)"
      using running_stop [of i ?q s c "loop_head p"] assms serving loop_head_phase [of p]
      by (simp add: session_broken_def)
    then show ?thesis ..
  next
    case idle
    have "changed Idle p (session_broken i p)" by (simp add: idle)
    then show ?thesis ..
  qed
qed

lemma changed_serveQUIC:
  assumes "pr_peers p c = None"
  shows "\<exists>k. changed k p (serveQUIC c cert p)"
proof -
  consider (rejected) "\<not> handshake (tlsConfig [] True) cert" | (unnamed) "handshake (tlsConfig [] True) cert" "acceptedIdentity (map_option snd cert) = None"
    | (named) identity where "handshake (tlsConfig [] True) cert" "acceptedIdentity (map_option snd cert) = Some identity"
    by (cases "acceptedIdentity (map_option snd cert)") auto
  then show ?thesis
  proof cases
    case rejected
    then have "changed Idle p (serveQUIC c cert p)" by (simp add: serveQUIC_def)
    then show ?thesis ..
  next
    case unnamed
    then have "changed Idle p (serveQUIC c cert p)" by (simp add: serveQUIC_def)
    then show ?thesis ..
  next
    case named
    then have "changed (Began identity c cert) p (serveQUIC c cert p)"
      using assms authentic_accepted by (simp add: serveQUIC_def running_def)
    then show ?thesis ..
  qed
qed

lemma changed_accepted_broken: "\<exists>k. changed k p (accepted_broken identity c p)"
proof (cases "(identity, c) \<in> set (pr_accepted p)")
  case True
  then have "changed (Finished identity c) p (accepted_broken identity c p)"
    by (simp add: accepted_broken_def running_def)
  then show ?thesis ..
next
  case False
  then have "changed Idle p (accepted_broken identity c p)" by (simp add: accepted_broken_def)
  then show ?thesis ..
qed

lemma changed_serveImport: "changed (Served dial opens writes imp) p (serveImport dial opens writes imp p)"
  by (cases "proxyImport dial opens writes imp (pr_registry p)")
    (auto simp: serveImport_def running_def close_connection_def split: import_result.splits bool.splits)

lemma changed_idle:
  assumes "running q = running p" "pr_registry q = pr_registry p" "pr_peers q = pr_peers p"
  shows "\<exists>k. changed k p q"
proof -
  from assms have "changed Idle p q" by simp
  then show ?thesis ..
qed

lemma gateway_handle_changed:
  assumes "event_fresh e p"
  shows "\<exists>k. changed k p (gateway_handle e p)"
proof (cases e)
  case (DialFailed i)
  then show ?thesis by (auto simp: gateway_handle_def running_idle intro!: changed_idle)
next
  case (Dialed i c cert)
  with assms show ?thesis
    by (auto simp: gateway_handle_def changed_maintainSession intro: changed_idle)
next
  case (WaitOver i)
  then show ?thesis using loop_head_phase [of p]
    by (auto simp: gateway_handle_def running_idle intro!: changed_idle)
next
  case (SessionBroken i)
  then show ?thesis by (auto simp: gateway_handle_def changed_session_broken intro: changed_idle)
next
  case (HeartbeatTick i opened written reply)
  then show ?thesis
    by (auto simp: gateway_handle_def maintainConnectionHeartbeat_def split: phase.splits heartbeat_result.splits
        intro!: changed_idle)
next
  case (Accepted c cert)
  with assms show ?thesis by (auto simp: gateway_handle_def changed_serveQUIC intro: changed_idle)
next
  case (AcceptedBroken identity c)
  then show ?thesis by (simp add: gateway_handle_def changed_accepted_broken)
next
  case (Client dial opens writes imp)
  have "\<exists>k. changed k p (serveImport dial opens writes imp p)"
    by (rule exI) (rule changed_serveImport)
  then show ?thesis
    by (auto simp add: Client gateway_handle_def simp del: changed.simps intro: changed_idle)
next
  case Stop
  then show ?thesis by (auto simp: gateway_handle_def intro!: changed_idle)
qed

lemma process_ok_changed:
  assumes ok: "process_ok p" and changed: "changed k p q"
  shows "process_ok q"
proof (cases k)
  case Idle
  with ok changed show ?thesis by (simp add: process_ok_def)
next
  case (Began i c cert)
  with changed have m: "mset (running q) = add_mset (i, c) (mset (running p))"
    and q: "pr_peers q = (pr_peers p)(c \<mapsto> cert)" "authentic_peer cert (canonicalIdentity i)" and new: "pr_peers p c = None"
    by simp_all
  from ok new have other: "(j, c) \<notin> set (running p)" for j
    unfolding process_ok_def by fastforce
  then have "c \<notin> snd ` set (running p)" by force
  with ok q other show ?thesis
    unfolding process_ok_def mset_add_distinct [OF m] by auto
next
  case (Finished i c)
  with changed have m: "mset (running p) = add_mset (i, c) (mset (running q))" and q: "pr_peers q = pr_peers p"
    by simp_all
  from ok show ?thesis
    unfolding process_ok_def q mset_add_distinct [OF m] by auto
next
  case (Served dial opens writes imp)
  with ok changed show ?thesis by (auto simp: process_ok_def)
qed

lemma abstract_changed:
  assumes ok: "process_ok p" and changed: "changed k p q"
  shows "abstract_gateway q = abstract_gateway p \<or> gateway_step (abstract_gateway p) (abstract_gateway q)"
proof (cases k)
  case Idle
  with changed show ?thesis by (simp add: abstract_gateway_def)
next
  case (Began i c cert)
  with changed have m: "mset (running q) = add_mset (i, c) (mset (running p))" and r: "pr_registry q = registry_put i c (pr_registry p)"
    and new: "pr_peers p c = None" by simp_all
  from ok new have "c \<notin> snd ` gw_live (abstract_gateway p)"
    unfolding process_ok_def abstract_gateway_def by fastforce
  from gateway_step.connected [OF this, of i] show ?thesis
    by (simp add: abstract_gateway_def r mset_add_distinct(2) [OF m])
next
  case (Finished i c)
  with changed have m: "mset (running p) = add_mset (i, c) (mset (running q))" and r: "pr_registry q = registry_remove i c (pr_registry p)"
    by simp_all
  from ok have "(i, c) \<notin> set (running q)"
    unfolding process_ok_def mset_add_distinct(1) [OF m] by force
  then have "set (running q) = gw_live (abstract_gateway p) - {(i, c)}"
    by (simp add: abstract_gateway_def mset_add_distinct(2) [OF m])
  moreover have "(i, c) \<in> gw_live (abstract_gateway p)"
    by (simp add: abstract_gateway_def mset_add_distinct(2) [OF m])
  from gateway_step.closed [OF this] have "gateway_step (abstract_gateway p)
      \<lparr>gw_live = gw_live (abstract_gateway p) - {(i, c)}, gw_registry = pr_registry q\<rparr>"
    by (simp add: abstract_gateway_def r)
  ultimately show ?thesis
    by (simp add: abstract_gateway_def)
next
  case (Served dial opens writes imp)
  with changed obtain res where "proxyImport dial opens writes imp (pr_registry p) = (res, pr_registry q)" and same: "running q = running p"
    by auto
  then have "proxyImport dial opens writes imp (gw_registry (abstract_gateway p)) = (res, pr_registry q)"
    by (simp add: abstract_gateway_def)
  from gateway_step.client [OF this] show ?thesis
    by (simp add: abstract_gateway_def same)
qed

lemma gateway_start_process:
  assumes "gateway_start exports ss = Inr (routes, p)"
  obtains sessions where "sessions_valid sessions" "p = \<lparr>pr_stopped = False, pr_sessions = map (\<lambda>s. (s, Dialing)) sessions,
    pr_accepted = [], pr_registry = newSessionRegistry, pr_peers = Map.empty, pr_closed = []\<rparr>"
  using assms by (auto simp: gateway_start_def split: option.splits if_splits)

lemma running_started [simp]: "serving (map (\<lambda>s. (s, Dialing)) ss) = []"
  by (induction ss) (auto simp: serving_def)

lemma process_reachable_ok:
  "process_reachable p \<Longrightarrow> process_ok p \<and> gateway_reachable (abstract_gateway p)"
proof (induction rule: process_reachable.induct)
  case (started exports ss routes p)
  then show ?case
    by (auto elim!: gateway_start_process simp: process_ok_def abstract_gateway_def running_def
        intro: gateway_reachable.started)
next
  case (happened p e)
  from gateway_handle_changed [OF happened(2)] obtain k where k: "changed k p (gateway_handle e p)" ..
  from happened(3) have ok: "process_ok p" and reach: "gateway_reachable (abstract_gateway p)" by simp_all
  from abstract_changed [OF ok k] reach show ?case
    using process_ok_changed [OF ok k] gateway_reachable.stepped by metis
qed

text \<open>
  C6: the process implements the abstract gateway: under every interleaving of its goroutines
  each event changes the running loops and the registry not at all or in one step of the
  abstract gateway, so what holds of that one's reachable states holds of the process.
\<close>

theorem gateway_process_refines:
  assumes "process_reachable p" and "event_fresh e p"
  shows "gateway_reachable (abstract_gateway p) \<and>
    (abstract_gateway (gateway_handle e p) = abstract_gateway p \<or>
     gateway_step (abstract_gateway p) (abstract_gateway (gateway_handle e p)))"
proof -
  from gateway_handle_changed [OF assms(2)] obtain k where "changed k p (gateway_handle e p)" ..
  then show ?thesis
    using process_reachable_ok [OF assms(1)] abstract_changed by blast
qed

text \<open>
  C5: mutual authentication. In every reachable state, whatever an import finds in the registry
  for an identity is a connection whose peer presented a chain that verifies against the peer
  bundle and whose certificate has one URI, that identity up to trailing slashes. This holds for
  dialled and for accepted connections alike.
\<close>

theorem registered_sessions_authenticated:
  assumes "process_reachable p" and "registry_get i (pr_registry p) = Some c"
  shows "\<exists>uri. pr_peers p c = Some (Some (True, [uri])) \<and>
    (canonicalIdentity uri = canonicalIdentity i \<or> canonicalIdentity (canonicalIdentity uri) = canonicalIdentity i)"
proof -
  note ok = process_reachable_ok [OF assms(1)]
  from assms(2) have "c \<in> set (registry_held (gw_registry (abstract_gateway p)) (canonicalIdentity i))"
    by (auto simp: sessions.get_held abstract_gateway_def split: list.splits)
  then obtain j where "(j, c) \<in> gw_live (abstract_gateway p)" and j: "canonicalIdentity j = canonicalIdentity i"
    using sessions_live_reachable [OF conjunct2 [OF ok]] unfolding sessions_live_def by blast
  then have "(j, c) \<in> set (running p)" by (simp add: abstract_gateway_def)
  with conjunct1 [OF ok] j obtain cert where "pr_peers p c = Some cert" "authentic_peer cert (canonicalIdentity i)"
    unfolding process_ok_def by fastforce
  then show ?thesis
    by (auto simp: authentic_peer_def split: option.splits prod.splits bool.splits list.splits)
qed

section \<open>Sessions come back\<close>

lemma sessions_maintained_set_phase:
  assumes "sessions_maintained q" and "ph = Ended \<longrightarrow> pr_stopped q"
  shows "sessions_maintained (set_phase i ph q)"
  using assms by (cases "i < length (pr_sessions q)") (auto simp: sessions_maintained_def nth_list_update)

lemma sessions_maintained_same:
  assumes "sessions_maintained p" and "pr_sessions q = pr_sessions p" and "pr_stopped p \<longrightarrow> pr_stopped q"
  shows "sessions_maintained q"
  using assms by (auto simp: sessions_maintained_def)

lemma loop_head_Ended: "loop_head p = Ended \<longrightarrow> pr_stopped p"
  by (simp add: loop_head_def)

lemma sessions_maintained_handle:
  assumes "sessions_maintained p"
  shows "sessions_maintained (gateway_handle e p)"
proof (cases e)
  case (SessionBroken i)
  with assms show ?thesis
    by (auto simp: gateway_handle_def session_broken_def loop_head_Ended split: prod.splits phase.splits
        intro!: sessions_maintained_set_phase elim: sessions_maintained_same)
next
  case (Dialed i c cert)
  with assms show ?thesis
    by (auto simp: gateway_handle_def maintainSession_def Let_def
        intro!: sessions_maintained_set_phase elim: sessions_maintained_same)
next
  case (Client dial opens writes imp)
  with assms show ?thesis
    by (cases "proxyImport dial opens writes imp (pr_registry p)")
      (auto simp: gateway_handle_def serveImport_def close_connection_def split: import_result.splits bool.splits
        elim!: sessions_maintained_same)
qed (use assms in \<open>auto simp: gateway_handle_def maintainConnectionHeartbeat_def serveQUIC_def accepted_broken_def loop_head_Ended
    split: option.splits phase.splits heartbeat_result.splits intro!: sessions_maintained_set_phase elim: sessions_maintained_same\<close>)

lemma process_reachable_maintained: "process_reachable p \<Longrightarrow> sessions_maintained p"
proof (induction rule: process_reachable.induct)
  case (started exports ss routes p)
  then show ?case
    by (auto elim!: gateway_start_process simp: sessions_maintained_def sessions_valid_def)
qed (rule sessions_maintained_handle)

text \<open>What brings session \<open>i\<close> back: its old connection ends, its wait is over, its dial succeeds.\<close>

definition reconnect :: "'c process \<Rightarrow> nat \<Rightarrow> 'c \<Rightarrow> presented \<Rightarrow> 'c gateway_event list" where
  "reconnect p i c cert =
     (case phase_of p i of
        Dialing \<Rightarrow> [Dialed i c cert]
      | Waiting \<Rightarrow> [WaitOver i, Dialed i c cert]
      | Serving _ \<Rightarrow> [SessionBroken i, Dialed i c cert]
      | Ended \<Rightarrow> [])"

definition gateway_run :: "'c gateway_event list \<Rightarrow> 'c process \<Rightarrow> 'c process" where
  "gateway_run es p = fold gateway_handle es p"

lemma dialed_ready:
  assumes "phase_of p i = Dialing" and "ps_ExpectedSPIFFEID (fst (pr_sessions p ! i)) = e" and "e \<noteq> []"
    and "cert = Some (True, [uri])" "canonicalIdentity uri = canonicalIdentity e"
  shows "readyz e (pr_registry (gateway_handle (Dialed i c cert) p)) = 204"
proof -
  from assms have "handshake (tlsConfig e False) cert" by (auto simp: handshake_accepts)
  with assms show ?thesis
    by (simp add: gateway_handle_def maintainSession_def readyz_def registry_has_def registry_put_def Let_def)
qed

text \<open>
  C21: a session always comes back. From every reachable state of a gateway that was not told to
  stop, whatever failed before, each configured session is ready again as soon as its peer
  answers: at most two events of its own loop, the end of the old connection or of the wait and
  then the dial, make the readiness endpoint answer 204 for its identity.
\<close>

theorem session_recovers:
  assumes "process_reachable p" and "\<not> pr_stopped p" and "i < length (pr_sessions p)"
    and "expected = ps_ExpectedSPIFFEID (fst (pr_sessions p ! i))"
    and "canonicalIdentity uri = canonicalIdentity expected"
  shows "length (reconnect p i c (Some (True, [uri]))) \<in> {1, 2} \<and>
    readyz expected (pr_registry (gateway_run (reconnect p i c (Some (True, [uri]))) p)) = 204"
proof -
  let ?cert = "Some (True, [uri]) :: presented"
  from process_reachable_maintained [OF assms(1)] assms(3,4) have e: "expected \<noteq> []"
    unfolding sessions_maintained_def by auto
  from process_reachable_maintained [OF assms(1)] assms(2,3) have "phase_of p i \<noteq> Ended"
    unfolding sessions_maintained_def phase_of_def by auto
  then consider "phase_of p i = Dialing" | "phase_of p i = Waiting" | c' where "phase_of p i = Serving c'"
    by (cases "phase_of p i") auto
  then show ?thesis
  proof cases
    case 1
    then show ?thesis
      using dialed_ready [OF 1 _ e refl assms(5)] assms(4) by (simp add: reconnect_def gateway_run_def)
  next
    case 2
    have "phase_of (gateway_handle (WaitOver i) p) i = Dialing"
      "ps_ExpectedSPIFFEID (fst (pr_sessions (gateway_handle (WaitOver i) p) ! i)) = expected"
      using 2 assms(2-4) by (simp_all add: gateway_handle_def phase_of_def loop_head_def)
    from dialed_ready [OF this e refl assms(5)] 2 show ?thesis
      by (simp add: reconnect_def gateway_run_def)
  next
    case (3 c')
    then obtain s where s: "pr_sessions p ! i = (s, Serving c')"
      using assms(3) by (cases "pr_sessions p ! i") (auto simp: phase_of_def)
    have "phase_of (gateway_handle (SessionBroken i) p) i = Dialing"
      "ps_ExpectedSPIFFEID (fst (pr_sessions (gateway_handle (SessionBroken i) p) ! i)) = expected"
      using s assms(2-4) by (simp_all add: gateway_handle_def phase_of_def loop_head_def session_broken_def)
    from dialed_ready [OF this e refl assms(5)] 3 show ?thesis
      by (simp add: reconnect_def gateway_run_def)
  qed
qed

section \<open>Credentials\<close>

abbreviation loaded :: "(nat \<Rightarrow> go_error + 'k) \<Rightarrow> nat \<Rightarrow> bool" where
  "loaded loads k \<equiv> (case loads k of Inl _ \<Rightarrow> False | Inr _ \<Rightarrow> True)"

lemma load_certificate_find:
  "0 < n \<Longrightarrow> load_certificate loads i n =
     (case find (loaded loads) [i..<i + n] of None \<Rightarrow> (loads (i + n - 1), n) | Some k \<Rightarrow> (loads k, k - i))"
proof (induction n arbitrary: i)
  case (Suc n)
  have range: "[i..<i + Suc n] = i # [Suc i..<Suc i + n]"
    by (simp add: upt_rec [of i])
  show ?case
  proof (cases "loads i")
    case (Inr cert)
    then show ?thesis unfolding range by simp
  next
    case (Inl e)
    show ?thesis
    proof (cases "n = 0")
      case True
      with Inl show ?thesis by simp
    next
      case False
      then have IH: "load_certificate loads (Suc i) n = (case find (loaded loads) [Suc i..<Suc i + n] of
          None \<Rightarrow> (loads (Suc i + n - 1), n) | Some k \<Rightarrow> (loads k, k - Suc i))"
        using Suc.IH by simp
      have step: "load_certificate loads i (Suc n) = (case load_certificate loads (Suc i) n of (r, slept) \<Rightarrow> (r, Suc slept))"
        using Inl False by simp
      show ?thesis
      proof (cases "find (loaded loads) [Suc i..<Suc i + n]")
        case None
        have "find (loaded loads) (i # [Suc i..<Suc i + n]) = None"
          unfolding find.simps None using Inl by simp
        then show ?thesis unfolding step IH None range by simp
      next
        case (Some k)
        then have "k \<in> set [Suc i..<Suc i + n]"
          unfolding find_Some_iff by (metis nth_mem)
        then have "Suc (k - Suc i) = k - i" by auto
        moreover have "find (loaded loads) (i # [Suc i..<Suc i + n]) = Some k"
          unfolding find.simps Some using Inl by simp
        ultimately show ?thesis unfolding step IH Some range by simp
      qed
    qed
  qed
qed simp

text \<open>
  C37: the start waits for the identity of the cluster, but not forever: the key pair that is
  used is the first of sixty attempts that succeeds, one second apart; if all fail the process
  gives up after a minute with the error of the last.
\<close>

theorem credentials_first_success:
  "credentials loads file pool =
    (let first = find (\<lambda>k. case loads k of Inl _ \<Rightarrow> False | Inr _ \<Rightarrow> True) [0..<60] in
     ((case loads (case first of None \<Rightarrow> 59 | Some k \<Rightarrow> k) of
         Inl e \<Rightarrow> Inl e
       | Inr cert \<Rightarrow>
           (case file of Inl e \<Rightarrow> Inl e
            | Inr peers \<Rightarrow> if pool peers then Inr (cert, peers) else Inl (Msg ''invalid peer bundle''))),
      case first of None \<Rightarrow> 60 | Some k \<Rightarrow> k))"
  using load_certificate_find [of 60 loads 0]
  by (auto simp: credentials_def Let_def split: option.splits sum.splits)

section \<open>A gateway with one session\<close>

definition demo_session :: peer_session where
  "demo_session = \<lparr>ps_Endpoint = ''quic://b:8443'', ps_ExpectedSPIFFEID = ''spiffe://d/cluster/b''\<rparr>"

definition demo_cert :: presented where
  "demo_cert = Some (True, [''spiffe://d/cluster/b''])"

definition demo_process :: "nat process" where
  "demo_process = \<lparr>pr_stopped = False, pr_sessions = [(demo_session, Dialing)], pr_accepted = [],
     pr_registry = newSessionRegistry, pr_peers = Map.empty, pr_closed = []\<rparr>"

lemma demo_process_reachable: "process_reachable demo_process"
  by (rule process_reachable.started [of "Some []" "Some [demo_session]" Map.empty])
    (simp add: gateway_start_def sessions_valid_def demo_session_def demo_process_def)

definition demo_served :: "nat process" where
  "demo_served = gateway_handle (Dialed 0 7 demo_cert) demo_process"

lemma demo_served_reachable: "process_reachable demo_served"
  unfolding demo_served_def
  by (rule process_reachable.happened [OF demo_process_reachable]) (simp add: demo_process_def)

lemma demo_served_state:
  "pr_sessions demo_served = [(demo_session, Serving 7)]" "\<not> pr_stopped demo_served" "pr_accepted demo_served = []"
  by (simp_all add: demo_served_def gateway_handle_def phase_of_def demo_process_def maintainSession_def handshake_accepts
      demo_cert_def demo_session_def Let_def)

lemma demo_served_registry: "registry_get ''spiffe://d/cluster/b/'' (pr_registry demo_served) = Some 7"
  by (simp add: demo_served_def gateway_handle_def phase_of_def demo_process_def maintainSession_def handshake_accepts
      demo_cert_def demo_session_def registry_get_def registry_put_def newSessionRegistry_def Let_def
      canonicalIdentity_def TrimSuffix_def HasSuffix_def)

theorem gateway_process_refines_witness:
  "gateway_reachable (abstract_gateway demo_served) \<and>
     gateway_step (abstract_gateway demo_served) (abstract_gateway (gateway_handle (SessionBroken 0) demo_served))"
proof -
  have refined: "gateway_reachable (abstract_gateway demo_served) \<and>
    (abstract_gateway (gateway_handle (SessionBroken 0) demo_served) = abstract_gateway demo_served \<or>
     gateway_step (abstract_gateway demo_served) (abstract_gateway (gateway_handle (SessionBroken 0) demo_served)))"
    by (rule gateway_process_refines [OF demo_served_reachable]) simp
  note sessions = demo_served_state(1)
  then have "(ps_ExpectedSPIFFEID demo_session, 7) \<in> gw_live (abstract_gateway demo_served)"
    by (simp add: abstract_gateway_def running_def)
  moreover have "(ps_ExpectedSPIFFEID demo_session, 7) \<notin> gw_live (abstract_gateway (gateway_handle (SessionBroken 0) demo_served))"
    using sessions
    by (simp add: gateway_handle_def session_broken_def loop_head_def abstract_gateway_def running_def)
      (simp add: demo_served_state)
  ultimately show ?thesis using refined by metis
qed

theorem registered_sessions_authenticated_witness:
  "\<exists>uri. pr_peers demo_served 7 = Some (Some (True, [uri])) \<and>
     (canonicalIdentity uri = canonicalIdentity ''spiffe://d/cluster/b/'' \<or>
      canonicalIdentity (canonicalIdentity uri) = canonicalIdentity ''spiffe://d/cluster/b/'')"
  by (rule registered_sessions_authenticated [OF demo_served_reachable demo_served_registry])

theorem session_recovers_witness:
  "readyz ''spiffe://d/cluster/b'' (pr_registry (gateway_run [SessionBroken 0, Dialed 0 8 demo_cert] demo_served)) = 204"
  using session_recovers [OF demo_served_reachable, of 0 "''spiffe://d/cluster/b''" "''spiffe://d/cluster/b''" 8]
  by (simp add: reconnect_def phase_of_def demo_served_state) (simp add: demo_session_def demo_cert_def)

end
