(* ===== verification/Envelope.thy ===== *)
theory Envelope
  imports Platform
begin

text \<open>
  The credential envelope (\<open>internal/credential/envelope.go\<close>): X25519 key agreement with a fresh
  key, AES-GCM under the shared secret, base64 fields. The primitives are the parameter
  \<open>ecies\<close>; \<open>None\<close> is their error.
\<close>

record envelope =
  env_EphemeralKey :: string
  env_Nonce :: string
  env_Ciphertext :: string

record ecies =
  x_public :: "string \<Rightarrow> string"
  x_valid_public :: "string \<Rightarrow> bool"
  x_valid_private :: "string \<Rightarrow> bool"
  x_ecdh :: "string \<Rightarrow> string \<Rightarrow> string option"
  gcm_seal :: "string \<Rightarrow> string \<Rightarrow> string \<Rightarrow> string"
  gcm_open :: "string \<Rightarrow> string \<Rightarrow> string \<Rightarrow> string option"
  payload_json :: "credential_payload \<Rightarrow> string option"
  payload_parse :: "string \<Rightarrow> credential_payload option"

definition aes_key :: "string \<Rightarrow> bool" where
  "aes_key k \<longleftrightarrow> length k \<in> {16, 24, 32}"

text \<open>\<open>draw\<close> is the fresh private key, \<open>nonce\<close> the random nonce; \<open>None\<close> is a failing source.\<close>

definition Encrypt :: "ecies \<Rightarrow> string \<Rightarrow> credential_payload \<Rightarrow> string option \<Rightarrow> string option \<Rightarrow> go_error + envelope" where
  "Encrypt x remote payload draw nonce =
     (if \<not> x_valid_public x remote then Inl (Msg ''crypto/ecdh: invalid public key'')
      else (case draw of
          None \<Rightarrow> Inl (Msg ''entropy'')
        | Some priv \<Rightarrow>
            (case x_ecdh x priv remote of
               None \<Rightarrow> Inl (Msg ''crypto/ecdh: bad X25519 remote ECDH input'')
             | Some shared \<Rightarrow>
                 if \<not> aes_key shared then Inl (Msg ''crypto/aes: invalid key size'')
                 else (case nonce of
                     None \<Rightarrow> Inl (Msg ''entropy'')
                   | Some n \<Rightarrow>
                       (case payload_json x payload of
                          None \<Rightarrow> Inl (Msg ''json'')
                        | Some clear \<Rightarrow>
                            Inr \<lparr>env_EphemeralKey = RawStd_Encode (x_public x priv),
                                 env_Nonce = RawStd_Encode n,
                                 env_Ciphertext = RawStd_Encode (gcm_seal x shared n clear)\<rparr>)))))"

text \<open>\<open>aead.Open\<close> panics for a nonce that does not have 12 bytes.\<close>

definition open_sealed :: "ecies \<Rightarrow> string \<Rightarrow> string \<Rightarrow> string \<Rightarrow> go_error + credential_payload" where
  "open_sealed x shared n sealed =
     (if length n \<noteq> 12 then Inl (Panic ''crypto/cipher: incorrect nonce length given to GCM'')
      else (case gcm_open x shared n sealed of
          None \<Rightarrow> Inl (Msg ''credential envelope authentication failed'')
        | Some clear \<Rightarrow> (case payload_parse x clear of None \<Rightarrow> Inl (Msg ''json'') | Some p \<Rightarrow> Inr p)))"

definition Decrypt :: "ecies \<Rightarrow> string \<Rightarrow> envelope \<Rightarrow> go_error + credential_payload" where
  "Decrypt x privateKey e =
     (if \<not> x_valid_private x privateKey then Inl (Msg ''crypto/ecdh: invalid private key'')
      else (case RawStd_Decode (env_EphemeralKey e) of
          None \<Rightarrow> Inl (Msg ''illegal base64 data'')
        | Some peerBytes \<Rightarrow>
            if \<not> x_valid_public x peerBytes then Inl (Msg ''crypto/ecdh: invalid public key'')
            else (case x_ecdh x privateKey peerBytes of
                None \<Rightarrow> Inl (Msg ''crypto/ecdh: bad X25519 remote ECDH input'')
              | Some shared \<Rightarrow>
                  if \<not> aes_key shared then Inl (Msg ''crypto/aes: invalid key size'')
                  else (case (RawStd_Decode (env_Nonce e), RawStd_Decode (env_Ciphertext e)) of
                      (Some n, Some sealed) \<Rightarrow> open_sealed x shared n sealed
                    | _ \<Rightarrow> Inl (Msg ''illegal base64 data'')))))"

text \<open>
  What is documented of the primitives: key agreement gives both sides the same 32 bytes, opening
  undoes sealing. That JSON decoding undoes encoding holds for payloads of valid UTF-8, so it is a
  hypothesis about the one payload.
\<close>

definition ecies_sound :: "ecies \<Rightarrow> bool" where
  "ecies_sound x \<longleftrightarrow>
     (\<forall>a b k. x_valid_private x a \<longrightarrow> x_valid_private x b \<longrightarrow> x_ecdh x a (x_public x b) = Some k \<longrightarrow>
        x_ecdh x b (x_public x a) = Some k \<and> length k = 32) \<and>
     (\<forall>a. x_valid_private x a \<longrightarrow> x_valid_public x (x_public x a)) \<and>
     (\<forall>k n m. gcm_open x k n (gcm_seal x k n m) = Some m)"

text \<open>
  An envelope that was encrypted for a public key is decrypted by the matching private key
  to exactly the payload, whatever key and nonce were drawn.
\<close>

theorem envelope_roundtrip:
  assumes "ecies_sound x" and "x_valid_private x priv" "x_valid_private x fresh" "length nonce = 12"
    and json: "\<And>clear. payload_json x payload = Some clear \<Longrightarrow> payload_parse x clear = Some payload"
    and enc: "Encrypt x (x_public x priv) payload (Some fresh) (Some nonce) = Inr e"
  shows "Decrypt x priv e = Inr payload"
proof -
  from enc obtain shared clear where shared: "x_ecdh x fresh (x_public x priv) = Some shared"
    and clear: "payload_json x payload = Some clear"
    and e: "e = \<lparr>env_EphemeralKey = RawStd_Encode (x_public x fresh), env_Nonce = RawStd_Encode nonce,
      env_Ciphertext = RawStd_Encode (gcm_seal x shared nonce clear)\<rparr>"
    by (auto simp: Encrypt_def split: if_splits option.splits)
  from assms(1-3) shared have agreed: "x_ecdh x priv (x_public x fresh) = Some shared" "length shared = 32"
    unfolding ecies_sound_def by blast+
  from assms(1,3) have "x_valid_public x (x_public x fresh)"
    unfolding ecies_sound_def by blast
  moreover from assms(1) have "gcm_open x shared nonce (gcm_seal x shared nonce clear) = Some clear"
    unfolding ecies_sound_def by blast
  moreover note json [OF clear]
  ultimately show ?thesis
    using assms(2,4) agreed by (simp add: Decrypt_def e aes_key_def open_sealed_def)
qed

definition demo_ecies :: ecies where
  "demo_ecies = \<lparr>x_public = rev, x_valid_public = (\<lambda>k. length k = 32), x_valid_private = (\<lambda>k. length k = 32),
     x_ecdh = (\<lambda>a b. Some (if length a = 32 \<and> length b = 32
       then map2 (\<lambda>c d. char_of ((of_char c + of_char d) mod 256 :: nat)) a (rev b) else replicate 32 CHR ''s'')),
     gcm_seal = (\<lambda>k n m. rev m), gcm_open = (\<lambda>k n c. Some (rev c)), payload_json = (\<lambda>p. Some (cp_Token p)),
     payload_parse = (\<lambda>s. Some \<lparr>cp_Token = s, cp_CertificateAuthority = [], cp_Server = [], cp_TLSServerName = [],
       cp_ExpiresAt = 0\<rparr>)\<rparr>"

lemma map2_commute: "(\<And>a b. f a b = f b a) \<Longrightarrow> map2 f xs ys = map2 f ys xs"
  by (induction xs ys rule: list_induct2') auto

lemma demo_ecies_sound: "ecies_sound demo_ecies"
  by (auto simp: ecies_sound_def demo_ecies_def intro!: map2_commute arg_cong [where f = char_of])

definition demo_cleartext :: credential_payload where
  "demo_cleartext = \<lparr>cp_Token = ''bearer'', cp_CertificateAuthority = [], cp_Server = [], cp_TLSServerName = [],
     cp_ExpiresAt = 0\<rparr>"

definition demo_private :: string where
  "demo_private = replicate 32 CHR ''p''"

definition demo_nonce :: string where
  "demo_nonce = replicate 12 CHR ''n''"

theorem envelope_roundtrip_witness:
  "\<exists>e. Encrypt demo_ecies (x_public demo_ecies demo_private) demo_cleartext (Some (replicate 32 CHR ''f'')) (Some demo_nonce) = Inr e
     \<and> Decrypt demo_ecies demo_private e = Inr demo_cleartext"
proof -
  have "\<exists>e. Encrypt demo_ecies (x_public demo_ecies demo_private) demo_cleartext (Some (replicate 32 CHR ''f'')) (Some demo_nonce) = Inr e"
    by (simp add: Encrypt_def demo_ecies_def demo_private_def aes_key_def)
  then obtain e where e: "Encrypt demo_ecies (x_public demo_ecies demo_private) demo_cleartext (Some (replicate 32 CHR ''f'')) (Some demo_nonce) = Inr e" ..
  have "Decrypt demo_ecies demo_private e = Inr demo_cleartext"
    by (rule envelope_roundtrip [OF demo_ecies_sound _ _ _ _ e])
      (simp_all add: demo_private_def demo_nonce_def demo_cleartext_def demo_ecies_def)
  with e show ?thesis by blast
qed

end
