(* ===== verification/Go_URL.thy ===== *)
theory Go_URL
  imports Go_Strings
begin

text \<open>
  The part of Go's \<open>net/url\<close> and \<open>net/http/httputil\<close> that the broker's proxy rests on: the
  fields of a parsed URL, the percent encoding of its path, and the rewriting of a request's URL
  by \<open>NewSingleHostReverseProxy\<close>. A path is kept decoded (\<open>ur_Path\<close>); the encoded form is kept
  beside it (\<open>ur_RawPath\<close>) where it is not the default encoding, and is used when it still is an
  encoding of the path.
\<close>

record url =
  ur_Scheme :: string
  ur_Host :: string
  ur_Path :: string
  ur_RawPath :: string
  ur_RawQuery :: string
  ur_ForceQuery :: bool

section \<open>Percent encoding\<close>

text \<open>\<open>shouldEscape\<close> for a whole path: unreserved characters and the separators stay.\<close>

definition url_unreserved :: "char \<Rightarrow> bool" where
  "url_unreserved c \<longleftrightarrow>
     (let n = (of_char c :: nat) in 97 \<le> n \<and> n \<le> 122 \<or> 65 \<le> n \<and> n \<le> 90 \<or> 48 \<le> n \<and> n \<le> 57) \<or>
     c \<in> set ''-_.~''"

definition shouldEscape :: "char \<Rightarrow> bool" where
  "shouldEscape c \<longleftrightarrow> \<not> url_unreserved c \<and> c \<notin> set ''$&+,/:;=@''"

definition upper_hex_digit :: "nat \<Rightarrow> char" where
  "upper_hex_digit n = (if n < 10 then char_of (48 + n) else char_of (55 + n))"

fun url_escape :: "string \<Rightarrow> string" where
  "url_escape [] = []"
| "url_escape (c # s) =
     (if shouldEscape c
      then CHR ''%'' # upper_hex_digit (of_char c div 16) # upper_hex_digit (of_char c mod 16) # url_escape s
      else c # url_escape s)"

definition unhex :: "char \<Rightarrow> nat option" where
  "unhex c =
     (let n = (of_char c :: nat) in
      if 48 \<le> n \<and> n \<le> 57 then Some (n - 48)
      else if 97 \<le> n \<and> n \<le> 102 then Some (n - 87)
      else if 65 \<le> n \<and> n \<le> 70 then Some (n - 55)
      else None)"

fun url_unescape :: "string \<Rightarrow> string option" where
  "url_unescape [] = Some []"
| "url_unescape (c # s) =
     (if c \<noteq> CHR ''%'' then map_option ((#) c) (url_unescape s)
      else (case s of
          a # b # t \<Rightarrow> (case (unhex a, unhex b) of
              (Some x, Some y) \<Rightarrow> map_option ((#) (char_of (16 * x + y))) (url_unescape t)
            | _ \<Rightarrow> None)
        | _ \<Rightarrow> None))"

text \<open>The characters that may stand in an encoded path.\<close>

definition validEncoded :: "string \<Rightarrow> bool" where
  "validEncoded s \<longleftrightarrow> (\<forall>c \<in> set s. c \<in> set (CHR 0x27 # ''!$&()*+,;=:@[]%'') \<or> \<not> shouldEscape c)"

definition EscapedPath :: "url \<Rightarrow> string" where
  "EscapedPath u =
     (if ur_RawPath u \<noteq> [] \<and> validEncoded (ur_RawPath u) \<and> url_unescape (ur_RawPath u) = Some (ur_Path u)
      then ur_RawPath u
      else if ur_Path u = ''*'' then ''*''
      else url_escape (ur_Path u))"

text \<open>What stands in the request line.\<close>

definition RequestURI :: "url \<Rightarrow> string" where
  "RequestURI u =
     (let p = EscapedPath u; q = (if p = [] then ''/'' else p) in
      if ur_ForceQuery u \<or> ur_RawQuery u \<noteq> [] then q @ ''?'' @ ur_RawQuery u else q)"

section \<open>The rewriting of a request\<close>

definition singleJoiningSlash :: "string \<Rightarrow> string \<Rightarrow> string" where
  "singleJoiningSlash a b =
     (if HasSuffix a ''/'' \<and> HasPrefix b ''/'' then a @ tl b
      else if \<not> HasSuffix a ''/'' \<and> \<not> HasPrefix b ''/'' then a @ ''/'' @ b
      else a @ b)"

definition joinURLPath :: "url \<Rightarrow> url \<Rightarrow> string \<times> string" where
  "joinURLPath a b =
     (if ur_RawPath a = [] \<and> ur_RawPath b = [] then (singleJoiningSlash (ur_Path a) (ur_Path b), [])
      else
        (let apath = EscapedPath a; bpath = EscapedPath b in
         if HasSuffix apath ''/'' \<and> HasPrefix bpath ''/'' then (ur_Path a @ tl (ur_Path b), apath @ tl bpath)
         else if \<not> HasSuffix apath ''/'' \<and> \<not> HasPrefix bpath ''/''
           then (ur_Path a @ ''/'' @ ur_Path b, apath @ ''/'' @ bpath)
         else (ur_Path a @ ur_Path b, apath @ bpath)))"

definition rewriteRequestURL :: "url \<Rightarrow> url \<Rightarrow> url" where
  "rewriteRequestURL target u =
     u\<lparr>ur_Scheme := ur_Scheme target, ur_Host := ur_Host target,
       ur_Path := fst (joinURLPath target u), ur_RawPath := snd (joinURLPath target u),
       ur_RawQuery :=
         (if ur_RawQuery target = [] \<or> ur_RawQuery u = [] then ur_RawQuery target @ ur_RawQuery u
          else ur_RawQuery target @ ''&'' @ ur_RawQuery u)\<rparr>"

section \<open>Decoding an encoded path\<close>

lemma unhex_upper_hex_digit: "n < 16 \<Longrightarrow> unhex (upper_hex_digit n) = Some n"
  by (auto simp: unhex_def upper_hex_digit_def Let_def)

lemma percent_escaped: "shouldEscape CHR ''%''"
  by (simp add: shouldEscape_def url_unreserved_def)

lemma url_unescape_percent:
  assumes "n < 256"
  shows "url_unescape (CHR ''%'' # upper_hex_digit (n div 16) # upper_hex_digit (n mod 16) # s) =
    map_option ((#) (char_of n)) (url_unescape s)"
proof -
  have "unhex (upper_hex_digit (n div 16)) = Some (n div 16)" "unhex (upper_hex_digit (n mod 16)) = Some (n mod 16)"
    using assms by (auto intro!: unhex_upper_hex_digit)
  then show ?thesis by simp
qed

lemma url_unescape_escape [simp]: "url_unescape (url_escape s) = Some s"
proof (induction s)
  case (Cons c s)
  show ?case
  proof (cases "shouldEscape c")
    case True
    with Cons url_unescape_percent [of "of_char c" "url_escape s"] show ?thesis by simp
  next
    case False
    then have "c \<noteq> CHR ''%''" using percent_escaped by blast
    with False Cons show ?thesis by simp
  qed
qed simp

lemma url_unescape_append: "url_unescape s = Some a \<Longrightarrow> url_unescape (s @ t) = map_option ((@) a) (url_unescape t)"
proof (induction s arbitrary: a rule: url_unescape.induct)
  case 1
  then show ?case by (cases "url_unescape t") simp_all
next
  case (2 c s)
  show ?case
  proof (cases "c = CHR ''%''")
    case False
    with 2 show ?thesis by (cases "url_unescape t") auto
  next
    case True
    with 2(3) obtain x y u m n b where s: "s = x # y # u" and m: "unhex x = Some m" and n: "unhex y = Some n"
      and u: "url_unescape u = Some b" "a = char_of (16 * m + n) # b"
      by (auto split: list.splits option.splits)
    have "url_unescape (u @ t) = map_option ((@) b) (url_unescape t)"
      using 2(2) True s m n u(1) by simp
    with True s m n u show ?thesis by (cases "url_unescape t") auto
  qed
qed

lemma url_unescape_EscapedPath [simp]: "url_unescape (EscapedPath u) = Some (ur_Path u)"
  by (simp add: EscapedPath_def)

lemma url_escape_append: "url_escape (s @ t) = url_escape s @ url_escape t"
  by (induction s) simp_all

lemma slash_not_escaped: "\<not> shouldEscape CHR ''/''"
  by (simp add: shouldEscape_def)

lemma EscapedPath_default: "ur_RawPath u = [] \<Longrightarrow> ur_Path u \<noteq> ''*'' \<Longrightarrow> EscapedPath u = url_escape (ur_Path u)"
  by (simp add: EscapedPath_def)

section \<open>A path that replaces the joined one\<close>

lemma url_unescape_NilD: "url_unescape s = Some [] \<Longrightarrow> s = []"
  by (cases s) (auto split: if_splits list.splits option.splits)

lemma url_unescape_single_slash:
  assumes "url_unescape s = Some [c]" and "HasSuffix s ''/''"
  shows "s = [c]"
proof -
  obtain d r where s: "s = d # r" using assms(1) by (cases s) auto
  have "unhex CHR ''/'' = None" by (simp add: unhex_def)
  with assms show ?thesis
    by (auto simp: s HasSuffix_iff append_eq_Cons_conv Cons_eq_append_conv dest!: url_unescape_NilD
        split: if_splits list.splits option.splits)
qed

text \<open>
  The encoded path that the joining leaves is used only where it still is an encoding of the path.
  For a request whose own encoding is the default one it never makes a difference: the path that
  replaces the joined one is sent in its default encoding.
\<close>

lemma EscapedPath_rewritten:
  assumes raw: "ur_RawPath u = []" and slash: "HasPrefix (ur_Path u) ''/''" "HasPrefix p ''/''"
    and p: "p = ur_Path u \<or> length p + 1 < length (ur_Path u)"
  shows "EscapedPath ((rewriteRequestURL target u)\<lparr>ur_Path := p\<rparr>) = url_escape p"
proof -
  let ?v = "(rewriteRequestURL target u)\<lparr>ur_Path := p\<rparr>" and ?a = "EscapedPath target"
  obtain q where q: "ur_Path u = CHR ''/'' # q" using slash(1) by (auto simp: HasPrefix_iff)
  have bpath: "EscapedPath u = CHR ''/'' # url_escape q"
    using raw by (simp add: EscapedPath_def q slash_not_escaped)
  have notstar: "p \<noteq> ''*''" using slash(2) by (auto simp: HasPrefix_iff)
  have same: "ur_RawPath ?v = url_escape p" if "ur_RawPath ?v \<noteq> []" "url_unescape (ur_RawPath ?v) = Some p"
  proof (cases "HasSuffix ?a ''/''")
    case True
    with that(1) raw have r: "ur_RawPath ?v = ?a @ url_escape q"
      by (auto simp: rewriteRequestURL_def joinURLPath_def bpath HasPrefix_def Let_def split: if_splits)
    with that(2) have joined: "p = ur_Path target @ q"
      by (simp add: url_unescape_append)
    then have "length p \<ge> length q" by simp
    with p have "ur_Path target @ q = CHR ''/'' # q" using q joined by auto
    then have "ur_Path target = ''/''" by simp
    then have "url_unescape ?a = Some ''/''" by simp
    from url_unescape_single_slash [OF this True] r joined \<open>ur_Path target = ''/''\<close> show ?thesis
      by (simp add: slash_not_escaped)
  next
    case False
    with that(1) raw have r: "ur_RawPath ?v = ?a @ CHR ''/'' # url_escape q"
      by (auto simp: rewriteRequestURL_def joinURLPath_def bpath HasPrefix_def Let_def split: if_splits)
    have "url_unescape (CHR ''/'' # url_escape q) = Some (CHR ''/'' # q)" by simp
    with that(2) r have joined: "p = ur_Path target @ CHR ''/'' # q"
      by (simp add: url_unescape_append)
    then have "length p > length q" by simp
    with p q have "ur_Path target @ CHR ''/'' # q = CHR ''/'' # q" using joined by auto
    then have "ur_Path target = []" by simp
    then have "url_unescape ?a = Some []" by simp
    from url_unescape_NilD [OF this] r joined \<open>ur_Path target = []\<close> show ?thesis
      by (simp add: slash_not_escaped)
  qed
  show ?thesis
  proof (cases "ur_RawPath ?v \<noteq> [] \<and> url_unescape (ur_RawPath ?v) = Some p")
    case True
    with same have "ur_RawPath ?v = url_escape p" by blast
    with notstar show ?thesis by (simp add: EscapedPath_def)
  next
    case False
    with notstar show ?thesis by (auto simp: EscapedPath_def)
  qed
qed

end
