(* ===== verification/Broker.thy ===== *)
theory Broker
  imports Kube Protocol Names Envelope Go_URL
begin

text \<open>
  The credential broker (\<open>cmd/broker/main.go\<close>). It keeps the encrypted credentials of grants in
  Secrets of its namespace and forwards Kubernetes requests with the credential put in. Its
  own state is the map of the last generation per issuer; the rest of the world (the Secrets,
  the Hub's identity endpoint, token and access reviews) is the parameter \<open>'w broker_api\<close>, and
  the JSON decodings are the parameter \<open>broker_codec\<close>. Envelopes are opened by \<open>Decrypt\<close> with the
  broker's private key \<open>bk_private\<close>, which \<open>loadKey\<close> loads.
  A handler that takes the mutex twice, \<open>store\<close>, is made of the pieces between the locks
  (\<open>store_admit\<close>, \<open>store_save\<close>, \<open>store_record\<close>), so that interleavings can be stated.
\<close>

record store_meta =
  sm_Tenant :: string
  sm_ClusterID :: string
  sm_GrantRef :: string
  sm_Envelope :: envelope

record reviewed_user =
  ru_Username :: string
  ru_UID :: string
  ru_Groups :: "string list"
  ru_Extra :: "string \<rightharpoonup> string list"

text \<open>The spec of the access review: the user, and the attributes of the resource to be used.\<close>

record access_spec =
  as_User :: reviewed_user
  as_Namespace :: string
  as_Verb :: string
  as_Group :: string
  as_Resource :: string
  as_Name :: string

record broker_codec =
  decode_meta :: "string \<Rightarrow> store_meta option"
  decode_revoke :: "string \<Rightarrow> (string \<times> string \<times> string) option"
  encode_envelope :: "envelope \<Rightarrow> string"
  decode_envelope :: "string \<Rightarrow> envelope option"

text \<open>
  \<open>hub_identity\<close> is the GET request to the Hub's identity endpoint, with the status and the
  decoded body of the answer; \<open>token_review\<close> gives the user of an authenticated token, \<open>None\<close> for
  another token.
\<close>

record 'w broker_api =
  ba_get :: "string \<Rightarrow> (go_error, secret, 'w) prog"
  ba_create :: "secret \<Rightarrow> (go_error, unit, 'w) prog"
  ba_update :: "secret \<Rightarrow> (go_error, unit, 'w) prog"
  ba_delete :: "string \<Rightarrow> (go_error, unit, 'w) prog"
  hub_identity :: "string \<Rightarrow> string \<Rightarrow> (go_error, nat \<times> identity_registration option, 'w) prog"
  token_review :: "string \<Rightarrow> (go_error, reviewed_user option, 'w) prog"
  access_review :: "access_spec \<Rightarrow> (go_error, bool, 'w) prog"

record broker =
  bk_crypto :: crypto
  bk_codec :: codec
  bk_broker_codec :: broker_codec
  bk_ecies :: ecies
  bk_namespace :: string
  bk_private :: string

record 'w broker_state =
  bs_generations :: "string \<rightharpoonup> u64"
  bs_world :: 'w

definition in_world :: "('e, 'a, 'w) prog \<Rightarrow> ('e, 'a, 'w broker_state) prog" where
  "in_world m s = (case m (bs_world s) of (r, w) \<Rightarrow> (r, s\<lparr>bs_world := w\<rparr>))"

datatype broker_reply = BrokerError string nat | BrokerAborted string | NoContent | Stored string

section \<open>The key and the identities\<close>

definition loadKey :: "broker \<Rightarrow> 'w broker_api \<Rightarrow> string option \<Rightarrow> (go_error, string, 'w broker_state) prog" where
  "loadKey b api draw =
     and_then (attempt (in_world (ba_get api ''among-clusters-broker-key''))) (\<lambda>got.
     and_then (case got of
         Inr s \<Rightarrow> give s
       | Inl e \<Rightarrow>
           if IsNotFound e then
             (case draw of
                None \<Rightarrow> fail (Msg ''entropy unavailable'')
              | Some key \<Rightarrow>
                  let s = \<lparr>sec_Meta = (new_meta (bk_namespace b) ''among-clusters-broker-key'')
                        \<lparr>mt_Labels := [''app.kubernetes.io/managed-by'' \<mapsto> ''among-clusters'']\<rparr>,
                      sec_Data = [''private-key'' \<mapsto> key]\<rparr> in
                  and_then (in_world (ba_create api s)) (\<lambda>_. give s))
           else fail e) (\<lambda>s.
     let key = map_get [] (sec_Data s) ''private-key'' in
     if x_valid_private (bk_ecies b) key then give key
     else fail (Msg ''crypto/ecdh: invalid private key size'')))"

text \<open>
  The start: \<open>config\<close> and \<open>client\<close> are the errors of making the client of the API server; the
  result is the broker with its namespace and key, and the address of the Hub.
\<close>

definition broker_main :: "broker \<Rightarrow> 'w broker_api \<Rightarrow> go_error option \<Rightarrow> go_error option \<Rightarrow> (string \<Rightarrow> string) \<Rightarrow> string option \<Rightarrow>
    (go_error, broker \<times> string, 'w broker_state) prog" where
  "broker_main b0 api config client getenv draw =
     and_then (case config of Some e \<Rightarrow> fail e | None \<Rightarrow> give ()) (\<lambda>_.
     and_then (case client of Some e \<Rightarrow> fail e | None \<Rightarrow> give ()) (\<lambda>_.
     and_then (must getenv ''HUB_ENDPOINT'') (\<lambda>hub.
     let b = b0\<lparr>bk_namespace := env getenv ''CREDENTIAL_NAMESPACE'' ''credential-broker''\<rparr> in
     and_then (loadKey b api draw) (\<lambda>key.
     give (b\<lparr>bk_private := key\<rparr>, TrimSuffix hub ''/'')))))"

text \<open>The document that the public-key endpoint answers with.\<close>

definition publicKey :: "broker \<Rightarrow> string" where
  "publicKey b = RawStd_Encode (x_public (bk_ecies b) (bk_private b))"

text \<open>Opening an envelope; a panic of the cipher ends the request, another error is answered.\<close>

definition open_envelope :: "broker \<Rightarrow> envelope \<Rightarrow> broker_reply \<Rightarrow> (broker_reply, credential_payload, 'w broker_state) prog" where
  "open_envelope b e reply =
     (case Decrypt (bk_ecies b) (bk_private b) e of
        Inr payload \<Rightarrow> give payload
      | Inl (Panic what) \<Rightarrow> fail (BrokerAborted what)
      | Inl _ \<Rightarrow> fail reply)"

definition broker_identity :: "'w broker_api \<Rightarrow> string \<Rightarrow> string \<Rightarrow> (go_error, identity_registration, 'w broker_state) prog" where
  "broker_identity api tenant i =
     and_then (in_world (hub_identity api tenant i)) (\<lambda>(status, body).
     and_then (guard (status \<noteq> 200) (Msg ''identity lookup returned an error'')) (\<lambda>_.
     case body of None \<Rightarrow> fail (Msg ''invalid identity'') | Some v \<Rightarrow> give v))"

text \<open>
  The check both handlers make: issuer and type of the message, then \<open>protocol.Verify\<close>, whose
  panic on a key of a wrong length ends the request.
\<close>

definition broker_check :: "broker \<Rightarrow> control_message \<Rightarrow> string \<Rightarrow> string \<Rightarrow> string \<Rightarrow> time \<Rightarrow> u64 \<Rightarrow>
    (broker_reply, unit, 'w broker_state) prog" where
  "broker_check b m spiffe kind key now prev =
     (if cm_Issuer m \<noteq> spiffe \<or> cm_Type m \<noteq> kind then fail (BrokerError ''unauthorized'' 401)
      else (case Verify (bk_crypto b) (bk_codec b) m key ''credential-broker'' now prev None of
          None \<Rightarrow> give ()
        | Some (Panic what) \<Rightarrow> fail (BrokerAborted what)
        | Some e \<Rightarrow> fail (BrokerError ''unauthorized'' 401)))"

section \<open>Storing a credential\<close>

text \<open>
  Up to the check of the message. What the rest of the handler needs of it: the metadata and the
  identity's SPIFFE ID.
\<close>

definition store_admit :: "broker \<Rightarrow> 'w broker_api \<Rightarrow> control_message option \<Rightarrow> time \<Rightarrow>
    (broker_reply, control_message \<times> store_meta \<times> string, 'w broker_state) prog" where
  "store_admit b api body now =
     and_then (case body of None \<Rightarrow> fail (BrokerError ''invalid message'' 400) | Some m \<Rightarrow> give m) (\<lambda>m.
     and_then (case decode_meta (bk_broker_codec b) (cm_Payload m) of
         None \<Rightarrow> fail (BrokerError ''invalid payload'' 400) | Some meta \<Rightarrow> give meta) (\<lambda>meta.
     and_then (guard (sm_Tenant meta = [] \<or> sm_ClusterID meta = [] \<or> sm_GrantRef meta = [])
        (BrokerError ''invalid payload'' 400)) (\<lambda>_.
     and_then (map_error (\<lambda>_. BrokerError ''unknown identity'' 401)
        (broker_identity api (sm_Tenant meta) (sm_ClusterID meta))) (\<lambda>ident.
     and_then (case RawStd_Decode (id_PublicKey ident) of
         None \<Rightarrow> fail (BrokerError ''invalid identity'' 401) | Some key \<Rightarrow> give key) (\<lambda>key.
     and_then (\<lambda>s. (Inr (map_get 0 (bs_generations s) (id_SPIFFEID ident)), s)) (\<lambda>prev.
     and_then (broker_check b m (id_SPIFFEID ident) ''credential.store'' key now prev) (\<lambda>_.
     give (m, meta, id_SPIFFEID ident))))))))"

definition credentialName :: "string \<Rightarrow> string \<Rightarrow> string" where
  "credentialName tenant grantRef = resourceName (tenant @ ''-'' @ grantRef)"

definition credential_secret :: "broker \<Rightarrow> store_meta \<Rightarrow> credential_payload \<Rightarrow> secret" where
  "credential_secret b meta payload =
     \<lparr>sec_Meta = (new_meta (bk_namespace b) (credentialName (sm_Tenant meta) (sm_GrantRef meta)))
        \<lparr>mt_Labels := [''app.kubernetes.io/managed-by'' \<mapsto> ''among-clusters''],
         mt_Annotations := [''peering.re8ch.com/expires-at'' \<mapsto> rfc3339_format (bk_codec b) (cp_ExpiresAt payload)]\<rparr>,
      sec_Data = [''envelope.json'' \<mapsto> encode_envelope (bk_broker_codec b) (sm_Envelope meta)]\<rparr>"

definition store_save :: "broker \<Rightarrow> 'w broker_api \<Rightarrow> store_meta \<Rightarrow> time \<Rightarrow> (broker_reply, unit, 'w broker_state) prog" where
  "store_save b api meta now =
     and_then (open_envelope b (sm_Envelope meta) (BrokerError ''invalid credential'' 400)) (\<lambda>payload.
     and_then (guard (cp_Token payload = [] \<or> \<not> Before now (cp_ExpiresAt payload))
       (BrokerError ''invalid credential'' 400)) (\<lambda>_.
     let s = credential_secret b meta payload in
     and_then (attempt (in_world (ba_get api (mt_Name (sec_Meta s))))) (\<lambda>existing.
     map_error (\<lambda>_. BrokerError ''store failed'' 500)
       (in_world (case existing of
          Inr old \<Rightarrow> ba_update api (s\<lparr>sec_Meta := (sec_Meta s)
            \<lparr>mt_ResourceVersion := mt_ResourceVersion (sec_Meta old)\<rparr>\<rparr>)
        | Inl _ \<Rightarrow> ba_create api s)))))"

definition store_record :: "control_message \<Rightarrow> store_meta \<Rightarrow> string \<Rightarrow> (broker_reply, broker_reply, 'w broker_state) prog" where
  "store_record m meta spiffe s =
     (Inr (Stored (''credential://among-clusters/'' @ sm_Tenant meta @ ''/'' @ sm_GrantRef meta)),
      s\<lparr>bs_generations := (bs_generations s)(spiffe \<mapsto> cm_Generation m)\<rparr>)"

definition broker_store :: "broker \<Rightarrow> 'w broker_api \<Rightarrow> control_message option \<Rightarrow> (nat \<Rightarrow> time) \<Rightarrow>
    (broker_reply, broker_reply, 'w broker_state) prog" where
  "broker_store b api body clock =
     and_then (store_admit b api body (clock 0)) (\<lambda>(m, meta, spiffe).
     and_then (store_save b api meta (clock 1)) (\<lambda>_.
     store_record m meta spiffe))"

section \<open>Revoking a credential\<close>

definition broker_revoke :: "broker \<Rightarrow> 'w broker_api \<Rightarrow> control_message option \<Rightarrow> time \<Rightarrow>
    (broker_reply, broker_reply, 'w broker_state) prog" where
  "broker_revoke b api body now =
     and_then (case body of None \<Rightarrow> fail (BrokerError ''invalid message'' 400) | Some m \<Rightarrow> give m) (\<lambda>m.
     and_then (case decode_revoke (bk_broker_codec b) (cm_Payload m) of
         None \<Rightarrow> fail (BrokerError ''invalid payload'' 400) | Some meta \<Rightarrow> give meta) (\<lambda>(tenant, clusterID, grantRef).
     and_then (map_error (\<lambda>_. BrokerError ''unknown identity'' 401)
        (broker_identity api tenant clusterID)) (\<lambda>ident.
     and_then (case RawStd_Decode (id_PublicKey ident) of
         None \<Rightarrow> fail (BrokerError ''unauthorized'' 401) | Some key \<Rightarrow> give key) (\<lambda>key.
     and_then (broker_check b m (id_SPIFFEID ident) ''credential.revoke'' key now 0) (\<lambda>_.
     and_then (map_error (\<lambda>e. if IsNotFound e then BrokerError ''404 page not found'' 404
           else BrokerError ''revoke failed'' 500)
        (in_world (ba_delete api (credentialName tenant grantRef)))) (\<lambda>_.
     give NoContent))))))"

section \<open>The proxy\<close>

definition reference_prefix :: string where
  "reference_prefix = ''Bearer credential://among-clusters/''"

text \<open>
  Tenant, grant and, if there is one, the path of the request, from the path of the URL or from
  the bearer reference; the flag says that they come from the reference.
\<close>

definition kubernetesProxyParts :: "string \<Rightarrow> string \<Rightarrow> string list \<times> bool" where
  "kubernetesProxyParts path provided =
     (if HasPrefix path ''/k8s/'' then (SplitN 3 CHR ''/'' (TrimPrefix path ''/k8s/''), False)
      else if \<not> HasPrefix provided reference_prefix then ([], True)
      else
        (let grant = Split CHR ''/'' (TrimPrefix provided reference_prefix) in
         if length grant \<noteq> 2 \<or> grant ! 0 = [] \<or> grant ! 1 = [] then ([], True)
         else if TrimPrefix path ''/'' = [] then (grant, True)
         else ([grant ! 0, grant ! 1, TrimPrefix path ''/''], True)))"

text \<open>A copy of the extra fields, in the type of the other API.\<close>

definition tokenReviewExtra :: "(string \<rightharpoonup> string list) \<Rightarrow> (string \<rightharpoonup> string list)" where
  "tokenReviewExtra extra = (\<lambda>key. case extra key of None \<Rightarrow> None | Some values \<Rightarrow> Some values)"

lemma tokenReviewExtra_id [simp]: "tokenReviewExtra extra = extra"
  by (rule ext) (simp add: tokenReviewExtra_def split: option.splits)

text \<open>The use of a grant, as access control sees it.\<close>

definition use_of_grant :: "reviewed_user \<Rightarrow> string \<Rightarrow> string \<Rightarrow> access_spec" where
  "use_of_grant user tenant grant =
     \<lparr>as_User = user, as_Namespace = tenant, as_Verb = ''use'', as_Group = ''peering.re8ch.com'',
      as_Resource = ''managedaccessgrants'', as_Name = grant\<rparr>"

definition authorizeKubernetesUser :: "'w broker_api \<Rightarrow> string \<Rightarrow> string \<Rightarrow> string \<Rightarrow> (broker_reply, bool, 'w broker_state) prog" where
  "authorizeKubernetesUser api token tenant grant =
     (if token = [] then give False
      else and_then (attempt (in_world (token_review api token))) (\<lambda>review.
        case review of
          Inl _ \<Rightarrow> give False
        | Inr None \<Rightarrow> give False
        | Inr (Some user) \<Rightarrow>
            if ru_Username user = [] then give False
            else and_then (attempt (in_world (access_review api
              (use_of_grant (user\<lparr>ru_Extra := tokenReviewExtra (ru_Extra user)\<rparr>) tenant grant)))) (\<lambda>allowed.
              give (allowed = Inr True))))"

text \<open>
  What the proxy reads and changes of a request: its URL and its authorization. The \<open>Host\<close> header is
  passed on as it came; the method, the body and the other headers are the reverse proxy's own
  business.
\<close>

record proxy_request =
  pr_URL :: url
  pr_Host :: string
  pr_Authorization :: string

text \<open>A request passed on, with the roots and the name that the target's certificate is verified with.\<close>

record forwarded =
  fw_URL :: url
  fw_Host :: string
  fw_CertificateAuthority :: string
  fw_TLSServerName :: string
  fw_Authorization :: string

text \<open>
  The director: that of \<open>NewSingleHostReverseProxy\<close>, whose path is then replaced and whose encoded
  path stays.
\<close>

definition forward :: "credential_payload \<Rightarrow> url \<Rightarrow> proxy_request \<Rightarrow> string list \<Rightarrow> forwarded" where
  "forward payload target r parts =
     \<lparr>fw_URL = (rewriteRequestURL target (pr_URL r))
        \<lparr>ur_Path := (if length parts = 3 then ''/'' @ parts ! 2 else ''/'')\<rparr>,
      fw_Host = pr_Host r,
      fw_CertificateAuthority = cp_CertificateAuthority payload,
      fw_TLSServerName = cp_TLSServerName payload,
      fw_Authorization = ''Bearer '' @ cp_Token payload\<rparr>"

text \<open>\<open>parses\<close> is \<open>url.Parse\<close>, applied to the server of the credential.\<close>

definition broker_proxy :: "broker \<Rightarrow> 'w broker_api \<Rightarrow> (string \<Rightarrow> url option) \<Rightarrow> proxy_request \<Rightarrow> time \<Rightarrow>
    (broker_reply, forwarded, 'w broker_state) prog" where
  "broker_proxy b api parses r now =
     (case kubernetesProxyParts (ur_Path (pr_URL r)) (pr_Authorization r) of (parts, opaqueRoute) \<Rightarrow>
      and_then (guard (length parts < 2) (BrokerError ''404 page not found'' 404)) (\<lambda>_.
      let tenant = parts ! 0; grant = parts ! 1; provided = pr_Authorization r;
          expected = reference_prefix @ tenant @ ''/'' @ grant in
      and_then (if provided = expected then give True
          else if opaqueRoute then give False
          else authorizeKubernetesUser api (TrimPrefix provided ''Bearer '') tenant grant) (\<lambda>ok.
      and_then (guard (\<not> ok) (BrokerError ''opaque credential reference required'' 401)) (\<lambda>_.
      and_then (map_error (\<lambda>_. BrokerError ''credential unavailable'' 403)
         (in_world (ba_get api (credentialName tenant grant)))) (\<lambda>s.
      case decode_envelope (bk_broker_codec b) (map_get [] (sec_Data s) ''envelope.json'') of
        None \<Rightarrow> fail (BrokerError ''credential expired'' 403)
      | Some e \<Rightarrow>
          and_then (open_envelope b e (BrokerError ''credential expired'' 403)) (\<lambda>payload.
          and_then (guard (\<not> Before now (cp_ExpiresAt payload)) (BrokerError ''credential expired'' 403)) (\<lambda>_.
          case parses (cp_Server payload) of
            None \<Rightarrow> fail (BrokerError ''invalid target'' 500)
          | Some target \<Rightarrow> give (forward payload target r parts))))))))"

section \<open>Requests\<close>

datatype broker_request =
    GetBrokerHealth
  | GetPublicKey
  | PostCredential "control_message option" "nat \<Rightarrow> time"
  | PostRevoke "control_message option" time
  | AnyPath proxy_request time

datatype broker_answer = Healthy | PublicKeyDoc string | Replied broker_reply | Forwarded forwarded

fun broker_handler :: "broker \<Rightarrow> 'w broker_api \<Rightarrow> (string \<Rightarrow> url option) \<Rightarrow> broker_request \<Rightarrow>
    (broker_reply, broker_answer, 'w broker_state) prog" where
  "broker_handler b api parses GetBrokerHealth = give Healthy"
| "broker_handler b api parses GetPublicKey = give (PublicKeyDoc (publicKey b))"
| "broker_handler b api parses (PostCredential body clock) =
     and_then (broker_store b api body clock) (\<lambda>r. give (Replied r))"
| "broker_handler b api parses (PostRevoke body now) =
     and_then (broker_revoke b api body now) (\<lambda>r. give (Replied r))"
| "broker_handler b api parses (AnyPath r now) =
     and_then (broker_proxy b api parses r now) (\<lambda>f. give (Forwarded f))"

end
