(* ===== verification/Broker_Service.thy ===== *)
theory Broker_Service
  imports Broker Sovereign_Store
begin

text \<open>
  What the credential broker promises: a request is forwarded only with the reference of the
  grant or for a user whom access control allows to use the grant, always with the stored token
  in place of the caller's; a credential is stored only for a signed message of a registered
  cluster; handled one after the other, the generations of stored messages increase (an
  interpretation of the same contract as the Hub's). Interleaved requests do not have the last
  property, and two grants of different tenants can share one stored credential; both are
  shown by example.
\<close>

section \<open>What the handlers keep\<close>

lemma keeps_in_world [keeps_intros]: "keeps (\<lambda>s. Q (bs_generations s)) (in_world m)"
  by (auto simp: keeps_def in_world_def split: prod.splits)

lemma in_world_run:
  "in_world m s = (r, s') \<longleftrightarrow> m (bs_world s) = (r, bs_world s') \<and> bs_generations s' = bs_generations s"
  by (cases s; cases s') (auto simp: in_world_def split: prod.splits)

lemma broker_identity_keeps [keeps_intros]: "keeps (\<lambda>s. Q (bs_generations s)) (broker_identity api t i)"
  unfolding broker_identity_def case_prod_beta by (intro keeps_intros)

lemma keeps_broker_check [keeps_intros]: "keeps P (broker_check b m spiffe kind key now prev)"
  unfolding broker_check_def
  by (auto intro!: keeps_intros split: option.splits go_error.splits)

lemma open_envelope_Inr_iff [simp]:
  "open_envelope b e reply s = (Inr payload, s') \<longleftrightarrow>
     Decrypt (bk_ecies b) (bk_private b) e = Inr payload \<and> s' = s"
  by (auto simp: open_envelope_def split: sum.splits go_error.splits)

lemma open_envelope_InrE [run_elims]:
  assumes "open_envelope b e reply s = (Inr payload, s')"
  obtains "Decrypt (bk_ecies b) (bk_private b) e = Inr payload" "s' = s"
  using assms by simp

lemma keeps_open_envelope [keeps_intros]: "keeps P (open_envelope b e reply)"
  unfolding open_envelope_def by (auto intro!: keeps_intros split: sum.splits go_error.splits)

lemma keeps_read: "keeps P (\<lambda>s. (Inr (f s), s))"
  by (simp add: keeps_def)

lemma store_admit_keeps [keeps_intros]: "keeps (\<lambda>s. Q (bs_generations s)) (store_admit b api body now)"
  unfolding store_admit_def by (intro keeps_intros keeps_read)

lemma store_save_keeps [keeps_intros]: "keeps (\<lambda>s. Q (bs_generations s)) (store_save b api meta now)"
  unfolding store_save_def Let_def by (intro keeps_intros)

lemma broker_revoke_keeps: "keeps (\<lambda>s. Q (bs_generations s)) (broker_revoke b api body now)"
  unfolding broker_revoke_def case_prod_beta by (intro keeps_intros)

lemma broker_proxy_keeps: "keeps (\<lambda>s. Q (bs_generations s)) (broker_proxy b api parses r now)"
  unfolding broker_proxy_def Let_def case_prod_beta authorizeKubernetesUser_def
  by (intro keeps_intros)

section \<open>Storing\<close>

lemma broker_check_InrE:
  assumes "broker_check b m spiffe kind key now prev s = (Inr u, s')"
  obtains "cm_Issuer m = spiffe" "cm_Type m = kind" "s' = s"
    "Verify (bk_crypto b) (bk_codec b) m key ''credential-broker'' now prev None = None"
  using assms that
  by (auto simp: broker_check_def split: if_splits option.splits go_error.splits)

lemma store_admit_InrE:
  assumes "store_admit b api body now s = (Inr (m, meta, spiffe), s')"
  obtains ident key where "sm_Tenant meta \<noteq> []" "sm_GrantRef meta \<noteq> []" "body = Some m" "decode_meta (bk_broker_codec b) (cm_Payload m) = Some meta"
    "broker_identity api (sm_Tenant meta) (sm_ClusterID meta) s = (Inr ident, s')"
    "spiffe = id_SPIFFEID ident" "cm_Issuer m = spiffe" "cm_Type m = ''credential.store''"
    "RawStd_Decode (id_PublicKey ident) = Some key" "bs_generations s' = bs_generations s"
    "Verify (bk_crypto b) (bk_codec b) m key ''credential-broker'' now
       (map_get 0 (bs_generations s) spiffe) None = None"
proof -
  from assms obtain ident key s1 where names: "sm_Tenant meta \<noteq> []" "sm_GrantRef meta \<noteq> []"
    and steps: "body = Some m"
    "decode_meta (bk_broker_codec b) (cm_Payload m) = Some meta"
    "broker_identity api (sm_Tenant meta) (sm_ClusterID meta) s = (Inr ident, s1)"
    "RawStd_Decode (id_PublicKey ident) = Some key" "spiffe = id_SPIFFEID ident"
    and check: "broker_check b m (id_SPIFFEID ident) ''credential.store'' key now
      (map_get 0 (bs_generations s1) (id_SPIFFEID ident)) s1 = (Inr (), s')"
    unfolding store_admit_def
    by (elim run_elims) (auto split: option.splits)
  have s1: "bs_generations s1 = bs_generations s"
    using keeps_run [OF broker_identity_keeps [of "\<lambda>g. g = bs_generations s"] refl steps(3)] .
  from check show thesis
    by (rule broker_check_InrE) (use names steps s1 that in auto)
qed

lemma broker_store_InrE:
  assumes "broker_store b api body clock s = (Inr r, s')"
  obtains m meta spiffe s1 s2 where "store_admit b api body (clock 0) s = (Inr (m, meta, spiffe), s1)"
    "store_save b api meta (clock 1) s1 = (Inr (), s2)"
    "bs_generations s2 = bs_generations s1" "bs_world s' = bs_world s2"
    "bs_generations s' = (bs_generations s)(spiffe \<mapsto> cm_Generation m)"
    "r = Stored (''credential://among-clusters/'' @ sm_Tenant meta @ ''/'' @ sm_GrantRef meta)"
proof -
  from assms obtain m meta spiffe s1 s2 where steps:
    "store_admit b api body (clock 0) s = (Inr (m, meta, spiffe), s1)"
    "store_save b api meta (clock 1) s1 = (Inr (), s2)" "store_record m meta spiffe s2 = (Inr r, s')"
    unfolding broker_store_def case_prod_beta by (elim run_elims) (metis prod.collapse old.unit.exhaust)
  have s1: "bs_generations s1 = bs_generations s"
    using keeps_run [OF store_admit_keeps [of "\<lambda>g. g = bs_generations s"] refl steps(1)] .
  have s2: "bs_generations s2 = bs_generations s1"
    using keeps_run [OF store_save_keeps [of "\<lambda>g. g = bs_generations s1"] refl steps(2)] .
  show thesis
    by (rule that [OF steps(1,2) s2]) (use steps(3) s1 s2 in \<open>auto simp: store_record_def\<close>)
qed

lemma store_save_InrE:
  assumes "store_save b api meta now s = (Inr u, s')"
  obtains payload where "Decrypt (bk_ecies b) (bk_private b) (sm_Envelope meta) = Inr payload"
    "cp_Token payload \<noteq> []" "Before now (cp_ExpiresAt payload)"
  using assms that unfolding store_save_def Let_def
  by (elim run_elims) auto

text \<open>
  C16: the broker stores a credential only for a message of type "credential.store" that is
  signed by the registered key of the cluster its payload names, addressed to the broker, inside
  its time window and newer than every credential stored for that issuer; the credential
  decrypts under the broker's key and has not expired. The generation is recorded, and the
  reference returned names the payload's tenant and grant.
\<close>

theorem broker_store_authentic:
  assumes "broker_store b api body clock s = (Inr r, s')"
  shows "\<exists>m meta ident key payload s1. body = Some m \<and>
    decode_meta (bk_broker_codec b) (cm_Payload m) = Some meta \<and>
    broker_identity api (sm_Tenant meta) (sm_ClusterID meta) s = (Inr ident, s1) \<and>
    cm_Issuer m = id_SPIFFEID ident \<and> cm_Type m = ''credential.store'' \<and>
    RawStd_Decode (id_PublicKey ident) = Some key \<and>
    cm_Audience m = ''credential-broker'' \<and> message_window m (clock 0) \<and>
    map_get 0 (bs_generations s) (cm_Issuer m) < cm_Generation m \<and>
    authentic (bk_crypto b) (bk_codec b) m key \<and>
    Decrypt (bk_ecies b) (bk_private b) (sm_Envelope meta) = Inr payload \<and> Before (clock 1) (cp_ExpiresAt payload) \<and>
    bs_generations s' = (bs_generations s)(cm_Issuer m \<mapsto> cm_Generation m) \<and>
    r = Stored (''credential://among-clusters/'' @ sm_Tenant meta @ ''/'' @ sm_GrantRef meta)"
proof -
  from assms obtain m meta spiffe s1 s2 where
    admit: "store_admit b api body (clock 0) s = (Inr (m, meta, spiffe), s1)"
    and save: "store_save b api meta (clock 1) s1 = (Inr (), s2)"
    and gens: "bs_generations s' = (bs_generations s)(spiffe \<mapsto> cm_Generation m)"
    and r: "r = Stored (''credential://among-clusters/'' @ sm_Tenant meta @ ''/'' @ sm_GrantRef meta)"
    by (rule broker_store_InrE)
  from save obtain payload where payload:
    "Decrypt (bk_ecies b) (bk_private b) (sm_Envelope meta) = Inr payload" "Before (clock 1) (cp_ExpiresAt payload)"
    by (rule store_save_InrE)
  from admit obtain ident key where "body = Some m" "decode_meta (bk_broker_codec b) (cm_Payload m) = Some meta"
    "broker_identity api (sm_Tenant meta) (sm_ClusterID meta) s = (Inr ident, s1)"
    "spiffe = id_SPIFFEID ident" "cm_Issuer m = spiffe" "cm_Type m = ''credential.store''"
    "RawStd_Decode (id_PublicKey ident) = Some key"
    "Verify (bk_crypto b) (bk_codec b) m key ''credential-broker'' (clock 0)
       (map_get 0 (bs_generations s) spiffe) None = None"
    by (rule store_admit_InrE)
  with gens r payload show ?thesis
    by (auto simp: Verify_None_iff)
qed

section \<open>Replays\<close>

text \<open>The issuer and the generation of a request to store.\<close>

fun stored_generation :: "broker_request \<Rightarrow> (string \<times> u64) option" where
  "stored_generation (PostCredential (Some m) clock) = Some (cm_Issuer m, cm_Generation m)"
| "stored_generation _ = None"

definition broker_gen :: "'w broker_state \<Rightarrow> string \<Rightarrow> u64" where
  "broker_gen s k = map_get 0 (bs_generations s) k"

lemma broker_store_gen:
  assumes "broker_store b api (Some m) clock s = (Inr r, s')"
  shows "broker_gen s (cm_Issuer m) < cm_Generation m" "broker_gen s' (cm_Issuer m) = cm_Generation m"
    "k \<noteq> cm_Issuer m \<Longrightarrow> broker_gen s' k = broker_gen s k"
proof -
  from assms obtain m1 meta spiffe s1 s2 where
    admit: "store_admit b api (Some m) (clock 0) s = (Inr (m1, meta, spiffe), s1)"
    and gens: "bs_generations s' = (bs_generations s)(spiffe \<mapsto> cm_Generation m1)"
    by (rule broker_store_InrE)
  from admit have "m1 = m" "spiffe = cm_Issuer m"
    "map_get 0 (bs_generations s) (cm_Issuer m) < cm_Generation m"
    by (auto elim!: store_admit_InrE simp: Verify_None_iff)
  with gens show "broker_gen s (cm_Issuer m) < cm_Generation m" "broker_gen s' (cm_Issuer m) = cm_Generation m"
    "k \<noteq> cm_Issuer m \<Longrightarrow> broker_gen s' k = broker_gen s k"
    by (simp_all add: broker_gen_def)
qed

lemma store_fails_keeps:
  assumes "broker_store b api body clock s = (Inl e, s')"
  shows "bs_generations s' = bs_generations s"
proof -
  let ?P = "\<lambda>x :: 'a broker_state. bs_generations x = bs_generations s"
  have admit: "keeps ?P (store_admit b api body (clock 0))"
    using store_admit_keeps [of "\<lambda>g. g = bs_generations s"] .
  have save: "keeps ?P (store_save b api meta (clock 1))" for meta
    using store_save_keeps [of "\<lambda>g. g = bs_generations s"] .
  from assms show ?thesis
    unfolding broker_store_def and_then_Inl_iff case_prod_beta
    using keepsD [OF admit, of s] keepsD [OF save]
    by (auto simp: store_record_def) (metis keeps_run save snd_conv)+
qed

lemma broker_store_gen_kept: "keeps (\<lambda>s. g \<le> broker_gen s k) (broker_store b api body clock)"
proof (rule keeps_runI)
  fix s q s'
  assume le: "g \<le> broker_gen s k" and store: "broker_store b api body clock s = (q, s')"
  show "g \<le> broker_gen s' k"
  proof (cases q)
    case (Inl e)
    with store store_fails_keeps le show ?thesis
      by (fastforce simp: broker_gen_def)
  next
    case (Inr reply)
    with store obtain m where m: "body = Some m"
      by (auto elim!: broker_store_InrE store_admit_InrE)
    show ?thesis
      using broker_store_gen [of b api m clock s reply s'] store Inr m le
      by (cases "k = cm_Issuer m") auto
  qed
qed

interpretation broker_guard: generation_guard "broker_handler b api parses" stored_generation broker_gen
  for b api parses
proof unfold_locales
  fix c k g s x s'
  assume "stored_generation c = Some (k, g)" and "broker_handler b api parses c s = (Inr x, s')"
  then show "broker_gen s k < g \<and> g \<le> broker_gen s' k"
    by (cases c rule: stored_generation.cases) (auto elim!: run_elims dest: broker_store_gen)
next
  fix g k c
  show "keeps (\<lambda>s. g \<le> broker_gen s k) (broker_handler b api parses c)"
  proof (cases c)
    case GetBrokerHealth
    show ?thesis
      unfolding GetBrokerHealth broker_handler.simps by (intro keeps_intros)
  next
    case GetPublicKey
    show ?thesis
      unfolding GetPublicKey broker_handler.simps by (intro keeps_intros)
  next
    case (PostCredential body clock)
    have "keeps (\<lambda>s. g \<le> broker_gen s k) (broker_store b api body clock)"
      by (rule broker_store_gen_kept)
    then show ?thesis
      unfolding PostCredential broker_handler.simps by (intro keeps_intros)
  next
    case (PostRevoke body now)
    show ?thesis
      unfolding PostRevoke broker_handler.simps broker_gen_def
      by (intro keeps_and_then keeps_give broker_revoke_keeps [of "\<lambda>f. g \<le> map_get 0 f k"])
  next
    case (AnyPath r now)
    show ?thesis
      unfolding AnyPath broker_handler.simps broker_gen_def
      by (intro keeps_and_then keeps_give broker_proxy_keeps [of "\<lambda>f. g \<le> map_get 0 f k"])
  qed
qed

text \<open>
  C26: in any sequence of requests handled one after the other (the uploads, revocations and
  proxied requests of any number of clusters), the generations of the credentials stored for one
  issuer are strictly increasing: no upload is accepted twice.
\<close>

theorem broker_no_replay:
  "sorted_wrt (<) (accepted stored_generation issuer rs
     (fst (run_calls (broker_handler b api parses) rs s)))"
  by (rule broker_guard.accepted_increasing [OF prod.collapse [symmetric]])

section \<open>Forwarding\<close>

lemma authorizeKubernetesUser_True:
  assumes "authorizeKubernetesUser api token tenant grant s = (Inr True, s')"
  shows "\<exists>user w1 w2. token_review api token (bs_world s) = (Inr (Some user), w1) \<and>
    ru_Username user \<noteq> [] \<and> access_review api (use_of_grant user tenant grant) w1 = (Inr True, w2)"
  using assms unfolding authorizeKubernetesUser_def
  by (auto split: if_splits option.splits sum.splits elim!: run_elims simp: in_world_run)

lemma broker_proxy_InrE:
  assumes "broker_proxy b api parses r now s = (Inr f, s')"
  obtains tenant grant rest opaque x e payload target s1 s2 where
    "kubernetesProxyParts (ur_Path (pr_URL r)) (pr_Authorization r) = (tenant # grant # rest, opaque)"
    "(if pr_Authorization r = reference_prefix @ tenant @ ''/'' @ grant then give True else if opaque then give False
      else authorizeKubernetesUser api (TrimPrefix (pr_Authorization r) ''Bearer '') tenant grant) s = (Inr True, s1)"
    "in_world (ba_get api (credentialName tenant grant)) s1 = (Inr x, s2)"
    "decode_envelope (bk_broker_codec b) (map_get [] (sec_Data x) ''envelope.json'') = Some e"
    "Decrypt (bk_ecies b) (bk_private b) e = Inr payload" "Before now (cp_ExpiresAt payload)"
    "parses (cp_Server payload) = Some target" "f = forward payload target r (tenant # grant # rest)"
proof -
  obtain parts opaque where parts: "kubernetesProxyParts (ur_Path (pr_URL r)) (pr_Authorization r) = (parts, opaque)" by fastforce
  note run = assms [unfolded broker_proxy_def parts prod.case Let_def]
  from run have "2 \<le> length parts" by (auto split: if_splits)
  then obtain tenant grant rest where split: "parts = tenant # grant # rest"
    by (cases parts; cases "tl parts") auto
  from run [unfolded split nth_Cons_0 One_nat_def nth_Cons_Suc] obtain ok s1 x s2 where
    ok: "(if pr_Authorization r = reference_prefix @ tenant @ ''/'' @ grant then give True else if opaque then give False
      else authorizeKubernetesUser api (TrimPrefix (pr_Authorization r) ''Bearer '') tenant grant) s = (Inr ok, s1)" "ok"
    and get: "in_world (ba_get api (credentialName tenant grant)) s1 = (Inr x, s2)"
    and rest: "(case decode_envelope (bk_broker_codec b) (map_get [] (sec_Data x) ''envelope.json'') of
        None \<Rightarrow> fail (BrokerError ''credential expired'' 403)
      | Some e \<Rightarrow> and_then (open_envelope b e (BrokerError ''credential expired'' 403)) (\<lambda>payload.
          and_then (guard (\<not> Before now (cp_ExpiresAt payload)) (BrokerError ''credential expired'' 403)) (\<lambda>_.
          case parses (cp_Server payload) of
            None \<Rightarrow> fail (BrokerError ''invalid target'' 500)
          | Some target \<Rightarrow> give (forward payload target r (tenant # grant # rest))))) s2 = (Inr f, s')"
    by (elim run_elims) simp
  from rest obtain e where e: "decode_envelope (bk_broker_codec b) (map_get [] (sec_Data x) ''envelope.json'') = Some e"
    by (auto split: option.splits)
  from rest [unfolded e option.case] have "\<exists>payload target. Decrypt (bk_ecies b) (bk_private b) e = Inr payload \<and>
      Before now (cp_ExpiresAt payload) \<and> parses (cp_Server payload) = Some target \<and>
      f = forward payload target r (tenant # grant # rest)"
    by (elim run_elims) (auto split: option.splits)
  with that parts [unfolded split] ok get e show thesis
    by auto
qed

text \<open>
  C4: the broker forwards a request only if the caller presents the reference of the grant, or,
  on the route that names the grant in its path, a token that the local cluster authenticates as
  a user whom access control allows to "use" exactly that grant: the object of this name, of the
  kind managedaccessgrants of peering.re8ch.com, in the tenant's namespace. The request then
  carries the grant's unexpired stored token and never the caller's authorization, and goes to
  the server of the credential, which is verified against the credential's authority and name.
\<close>

theorem broker_proxy_authorized:
  assumes "broker_proxy b api parses r now s = (Inr f, s')"
  shows "\<exists>tenant grant rest opaque payload target.
    kubernetesProxyParts (ur_Path (pr_URL r)) (pr_Authorization r) = (tenant # grant # rest, opaque) \<and>
    (pr_Authorization r = reference_prefix @ tenant @ ''/'' @ grant \<or>
     (HasPrefix (ur_Path (pr_URL r)) ''/k8s/'' \<and> (\<exists>user w1 w2.
        token_review api (TrimPrefix (pr_Authorization r) ''Bearer '') (bs_world s) = (Inr (Some user), w1) \<and>
        ru_Username user \<noteq> [] \<and>
        access_review api \<lparr>as_User = user, as_Namespace = tenant, as_Verb = ''use'', as_Group = ''peering.re8ch.com'',
          as_Resource = ''managedaccessgrants'', as_Name = grant\<rparr> w1 = (Inr True, w2)))) \<and>
    Before now (cp_ExpiresAt payload) \<and> parses (cp_Server payload) = Some target \<and>
    ur_Scheme (fw_URL f) = ur_Scheme target \<and> ur_Host (fw_URL f) = ur_Host target \<and>
    fw_CertificateAuthority f = cp_CertificateAuthority payload \<and> fw_TLSServerName f = cp_TLSServerName payload \<and>
    fw_Authorization f = ''Bearer '' @ cp_Token payload \<and>
    (\<exists>x e w1 w2. ba_get api (credentialName tenant grant) w1 = (Inr x, w2) \<and>
       decode_envelope (bk_broker_codec b) (map_get [] (sec_Data x) ''envelope.json'') = Some e \<and>
       Decrypt (bk_ecies b) (bk_private b) e = Inr payload)"
proof -
  from assms obtain tenant grant rest opaque x e payload target s1 s2 where
    parts: "kubernetesProxyParts (ur_Path (pr_URL r)) (pr_Authorization r) = (tenant # grant # rest, opaque)"
    and auth: "(if pr_Authorization r = reference_prefix @ tenant @ ''/'' @ grant then give True else if opaque then give False
      else authorizeKubernetesUser api (TrimPrefix (pr_Authorization r) ''Bearer '') tenant grant) s = (Inr True, s1)"
    and get: "in_world (ba_get api (credentialName tenant grant)) s1 = (Inr x, s2)"
    and rest: "decode_envelope (bk_broker_codec b) (map_get [] (sec_Data x) ''envelope.json'') = Some e"
      "Decrypt (bk_ecies b) (bk_private b) e = Inr payload" "Before now (cp_ExpiresAt payload)"
      "parses (cp_Server payload) = Some target" "f = forward payload target r (tenant # grant # rest)"
    by (rule broker_proxy_InrE)
  let ?auth = "pr_Authorization r = reference_prefix @ tenant @ ''/'' @ grant"
  have opaque: "\<not> opaque \<Longrightarrow> HasPrefix (ur_Path (pr_URL r)) ''/k8s/''"
    using parts by (auto simp: kubernetesProxyParts_def Let_def split: if_splits)
  from auth have "?auth \<or> (\<not> opaque \<and>
      authorizeKubernetesUser api (TrimPrefix (pr_Authorization r) ''Bearer '') tenant grant s = (Inr True, s1))"
    by (auto split: if_splits)
  with opaque authorizeKubernetesUser_True [unfolded use_of_grant_def]
  have "?auth \<or> (HasPrefix (ur_Path (pr_URL r)) ''/k8s/'' \<and> (\<exists>user w1 w2.
      token_review api (TrimPrefix (pr_Authorization r) ''Bearer '') (bs_world s) = (Inr (Some user), w1) \<and>
      ru_Username user \<noteq> [] \<and>
      access_review api \<lparr>as_User = user, as_Namespace = tenant, as_Verb = ''use'', as_Group = ''peering.re8ch.com'',
        as_Resource = ''managedaccessgrants'', as_Name = grant\<rparr> w1 = (Inr True, w2)))"
    by blast
  moreover from get have "ba_get api (credentialName tenant grant) (bs_world s1) = (Inr x, bs_world s2)"
    by (simp add: in_world_run)
  ultimately show ?thesis
    using parts rest by (intro exI [of _ tenant] exI [of _ grant] exI [of _ rest] exI [of _ opaque] exI [of _ payload]
        exI [of _ target]) (auto simp: forward_def rewriteRequestURL_def)
qed

section \<open>What was stored is what requests are forwarded with\<close>

text \<open>A Secret that was written is what a read of its name returns next.\<close>

definition stored_reads :: "'w broker_api \<Rightarrow> bool" where
  "stored_reads api \<longleftrightarrow>
     (\<forall>x w w'. ba_create api x w = (Inr (), w') \<or> ba_update api x w = (Inr (), w') \<longrightarrow>
        (\<exists>y w2. ba_get api (mt_Name (sec_Meta x)) w' = (Inr y, w2) \<and> sec_Data y = sec_Data x))"

lemma store_save_writes:
  assumes "store_save b api meta now s = (Inr (), s')"
  obtains x w where "ba_create api x w = (Inr (), bs_world s') \<or> ba_update api x w = (Inr (), bs_world s')"
    "mt_Name (sec_Meta x) = credentialName (sm_Tenant meta) (sm_GrantRef meta)"
    "sec_Data x = [''envelope.json'' \<mapsto> encode_envelope (bk_broker_codec b) (sm_Envelope meta)]"
proof -
  have name: "mt_Name (sec_Meta (credential_secret b meta payload)) = credentialName (sm_Tenant meta) (sm_GrantRef meta)"
    "sec_Data (credential_secret b meta payload) = [''envelope.json'' \<mapsto> encode_envelope (bk_broker_codec b) (sm_Envelope meta)]"
    for payload
    by (simp_all add: credential_secret_def new_meta_def)
  have meta_upd: "mt_Name (sec_Meta (x\<lparr>sec_Meta := (sec_Meta x)\<lparr>mt_ResourceVersion := v\<rparr>\<rparr>)) = mt_Name (sec_Meta x)"
    "sec_Data (x\<lparr>sec_Meta := (sec_Meta x)\<lparr>mt_ResourceVersion := v\<rparr>\<rparr>) = sec_Data x" for x v
    by simp_all
  define written where "written w \<longleftrightarrow> (\<exists>x v. (ba_create api x v = (Inr (), w) \<or> ba_update api x v = (Inr (), w)) \<and>
      mt_Name (sec_Meta x) = credentialName (sm_Tenant meta) (sm_GrantRef meta) \<and>
      sec_Data x = [''envelope.json'' \<mapsto> encode_envelope (bk_broker_codec b) (sm_Envelope meta)])" for w
  have "written w" if "ba_create api (credential_secret b meta payload) v = (Inr (), w)" for payload v w
    using that name unfolding written_def by blast
  moreover have "written w" if "ba_update api (credential_secret b meta payload\<lparr>sec_Meta :=
      (sec_Meta (credential_secret b meta payload))\<lparr>mt_ResourceVersion := version\<rparr>\<rparr>) v = (Inr (), w)" for payload version v w
    using that name meta_upd unfolding written_def by metis
  ultimately have "written (bs_world s')"
    using assms unfolding store_save_def Let_def
    by (elim run_elims) (auto simp: in_world_run split: sum.splits)
  with that show thesis
    unfolding written_def by blast
qed

lemma store_save_stored:
  assumes "stored_reads api" and "store_save b api meta now s = (Inr (), s')"
  obtains y w where "ba_get api (credentialName (sm_Tenant meta) (sm_GrantRef meta)) (bs_world s') = (Inr y, w)"
    "sec_Data y = [''envelope.json'' \<mapsto> encode_envelope (bk_broker_codec b) (sm_Envelope meta)]"
proof -
  from assms(2) obtain x v where written: "ba_create api x v = (Inr (), bs_world s') \<or> ba_update api x v = (Inr (), bs_world s')"
    and "mt_Name (sec_Meta x) = credentialName (sm_Tenant meta) (sm_GrantRef meta)"
      "sec_Data x = [''envelope.json'' \<mapsto> encode_envelope (bk_broker_codec b) (sm_Envelope meta)]"
    by (rule store_save_writes)
  moreover from assms(1) written obtain y w where "ba_get api (mt_Name (sec_Meta x)) (bs_world s') = (Inr y, w)" "sec_Data y = sec_Data x"
    unfolding stored_reads_def by blast
  ultimately show thesis using that by simp
qed

lemma proxy_parts_of_reference:
  assumes "tenant \<noteq> []" "grant \<noteq> []" "CHR ''/'' \<notin> set tenant" "CHR ''/'' \<notin> set grant" "\<not> HasPrefix path ''/k8s/''"
  shows "kubernetesProxyParts path (reference_prefix @ tenant @ ''/'' @ grant) =
    (tenant # grant # (if TrimPrefix path ''/'' = [] then [] else [TrimPrefix path ''/'']), True)"
proof -
  have "Split CHR ''/'' (tenant @ CHR ''/'' # grant) = [tenant, grant]"
    using Split_append_sep [of "CHR ''/''" tenant grant] Split_no_sep [OF assms(3)] Split_no_sep [OF assms(4)] assms(3)
    by simp
  moreover have "TrimPrefix (reference_prefix @ tenant @ ''/'' @ grant) reference_prefix = tenant @ CHR ''/'' # grant"
    "HasPrefix (reference_prefix @ tenant @ ''/'' @ grant) reference_prefix"
    by (simp_all add: TrimPrefix_def HasPrefix_def)
  ultimately show ?thesis
    using assms(1,2,5) by (simp add: kubernetesProxyParts_def Let_def)
qed

text \<open>
  End to end: once the broker has answered an upload with a reference, a request that
  presents the reference as its bearer token is forwarded, until the credential expires, to the
  server of exactly the uploaded credential, with its token and the path of the request. This
  holds for tenants and grants without a slash, over Secrets that return what was written.
\<close>

theorem broker_store_then_proxy:
  assumes api: "stored_reads api"
    and codec: "decode_envelope (bk_broker_codec b) (encode_envelope (bk_broker_codec b) (sm_Envelope meta)) =
      Some (sm_Envelope meta)"
    and store: "broker_store b api (Some m) clock s = (Inr (Stored ref), s')"
    and meta: "decode_meta (bk_broker_codec b) (cm_Payload m) = Some meta"
      "CHR ''/'' \<notin> set (sm_Tenant meta)" "CHR ''/'' \<notin> set (sm_GrantRef meta)"
    and request: "pr_Authorization r = ''Bearer '' @ ref" "\<not> HasPrefix (ur_Path (pr_URL r)) ''/k8s/''"
  shows "\<exists>payload. Decrypt (bk_ecies b) (bk_private b) (sm_Envelope meta) = Inr payload \<and>
    (\<forall>now target. Before now (cp_ExpiresAt payload) \<and> parses (cp_Server payload) = Some target \<longrightarrow>
      (\<exists>s2. broker_proxy b api parses r now s' =
        (Inr (forward payload target r (sm_Tenant meta # sm_GrantRef meta #
           (if TrimPrefix (ur_Path (pr_URL r)) ''/'' = [] then [] else [TrimPrefix (ur_Path (pr_URL r)) ''/'']))), s2)))"
proof -
  from store obtain m1 meta1 spiffe s1 s2 where
    admit: "store_admit b api (Some m) (clock 0) s = (Inr (m1, meta1, spiffe), s1)"
    and save: "store_save b api meta1 (clock 1) s1 = (Inr (), s2)" and world: "bs_world s' = bs_world s2"
    and ref: "ref = ''credential://among-clusters/'' @ sm_Tenant meta1 @ ''/'' @ sm_GrantRef meta1"
    by (rule broker_store_InrE) simp
  from admit meta(1) have same: "meta1 = meta" and names: "sm_Tenant meta \<noteq> []" "sm_GrantRef meta \<noteq> []"
    by (auto elim!: store_admit_InrE)
  from save obtain payload where payload: "Decrypt (bk_ecies b) (bk_private b) (sm_Envelope meta) = Inr payload"
    by (rule store_save_InrE) (simp add: same)
  from store_save_stored [OF api save] obtain y w where
    get: "ba_get api (credentialName (sm_Tenant meta) (sm_GrantRef meta)) (bs_world s') = (Inr y, w)"
    and y: "sec_Data y = [''envelope.json'' \<mapsto> encode_envelope (bk_broker_codec b) (sm_Envelope meta)]"
    by (auto simp: same world)
  have provided: "''Bearer '' @ ref = reference_prefix @ sm_Tenant meta @ ''/'' @ sm_GrantRef meta"
    by (simp add: ref same reference_prefix_def)
  let ?parts = "sm_Tenant meta # sm_GrantRef meta #
      (if TrimPrefix (ur_Path (pr_URL r)) ''/'' = [] then [] else [TrimPrefix (ur_Path (pr_URL r)) ''/''])"
  have parts: "kubernetesProxyParts (ur_Path (pr_URL r)) (pr_Authorization r) = (?parts, True)"
    unfolding request(1) provided by (rule proxy_parts_of_reference [OF names meta(2,3) request(2)])
  have "broker_proxy b api parses r now s' = (Inr (forward payload target r ?parts), s'\<lparr>bs_world := w\<rparr>)"
    if "Before now (cp_ExpiresAt payload)" "parses (cp_Server payload) = Some target" for now target
    unfolding broker_proxy_def parts using that payload get y codec provided request(1)
    by (simp add: prog_simps Let_def in_world_def open_envelope_def)
  with payload show ?thesis
    by blast
qed

section \<open>Two ways to the same request\<close>

lemma proxy_parts_of_route:
  assumes "CHR ''/'' \<notin> set tenant" "CHR ''/'' \<notin> set grant"
  shows "kubernetesProxyParts (''/k8s/'' @ tenant @ ''/'' @ grant @ ''/'' @ path) provided = ([tenant, grant, path], False)"
proof -
  have "SplitN 3 CHR ''/'' (tenant @ CHR ''/'' # grant @ CHR ''/'' # path) = [tenant, grant, path]"
    using assms before_after_sep [of "CHR ''/''" tenant "grant @ CHR ''/'' # path"] before_after_sep [of "CHR ''/''" grant path]
    by (simp add: numeral_3_eq_3)
  then show ?thesis
    by (simp add: kubernetesProxyParts_def HasPrefix_def TrimPrefix_def)
qed

lemma forward_rest: "forward payload target r (t # g # (if path = [] then [] else [path])) = forward payload target r [t, g, path]"
  by (simp add: forward_def)

text \<open>What goes out: where to, the request line, the headers the proxy sets, and how the target is verified.\<close>

definition on_the_wire :: "forwarded \<Rightarrow> (string \<times> string) \<times> string \<times> (string \<times> string) \<times> string \<times> string" where
  "on_the_wire f = ((ur_Scheme (fw_URL f), ur_Host (fw_URL f)), RequestURI (fw_URL f), (fw_Host f, fw_Authorization f),
     fw_CertificateAuthority f, fw_TLSServerName f)"

definition seen :: "('e, forwarded, 's) prog \<Rightarrow> ('e, (string \<times> string) \<times> string \<times> (string \<times> string) \<times> string \<times> string, 's) prog" where
  "seen m s = apfst (map_sum id on_the_wire) (m s)"

lemma seen_and_then: "seen (and_then m k) = and_then m (\<lambda>x. seen (k x))"
  by (rule ext) (auto simp: seen_def and_then_def split: prod.splits sum.splits)

lemma seen_rules:
  "seen (fail e) = fail e" "seen (give f) = give (on_the_wire f)"
  "seen (case x of None \<Rightarrow> m | Some y \<Rightarrow> k y) = (case x of None \<Rightarrow> seen m | Some y \<Rightarrow> seen (k y))"
  by (auto simp: seen_def fun_eq_iff split: option.split)

text \<open>The two forms of a request for a path, which differ in the path of their URL only.\<close>

definition route_request :: "url \<Rightarrow> string \<Rightarrow> string \<Rightarrow> string \<Rightarrow> string \<Rightarrow> string \<Rightarrow> proxy_request" where
  "route_request u host provided tenant grant path =
     \<lparr>pr_URL = u\<lparr>ur_Path := ''/k8s/'' @ tenant @ ''/'' @ grant @ ''/'' @ path\<rparr>, pr_Host = host, pr_Authorization = provided\<rparr>"

definition root_request :: "url \<Rightarrow> string \<Rightarrow> string \<Rightarrow> string \<Rightarrow> proxy_request" where
  "root_request u host provided path =
     \<lparr>pr_URL = u\<lparr>ur_Path := ''/'' @ path\<rparr>, pr_Host = host, pr_Authorization = provided\<rparr>"

lemma forwarded_path:
  assumes "ur_RawPath u = []"
  shows "EscapedPath (fw_URL (forward payload target (route_request u h p t g path) [t, g, path])) = url_escape (''/'' @ path)"
    and "EscapedPath (fw_URL (forward payload target (root_request u h p path) [t, g, path])) = url_escape (''/'' @ path)"
proof -
  have "EscapedPath ((rewriteRequestURL target v)\<lparr>ur_Path := ''/'' @ path\<rparr>) = url_escape (''/'' @ path)"
    if "v = u\<lparr>ur_Path := q\<rparr>" "HasPrefix q ''/''" "''/'' @ path = q \<or> length (''/'' @ path) + 1 < length q" for v q
    by (rule EscapedPath_rewritten) (use assms that in \<open>simp_all add: HasPrefix_def\<close>)
  then show "EscapedPath (fw_URL (forward payload target (route_request u h p t g path) [t, g, path])) = url_escape (''/'' @ path)"
    and "EscapedPath (fw_URL (forward payload target (root_request u h p path) [t, g, path])) = url_escape (''/'' @ path)"
    by (simp_all add: forward_def route_request_def root_request_def HasPrefix_def)
qed

lemma same_on_the_wire:
  assumes "ur_RawPath u = []"
  shows "on_the_wire (forward payload target (route_request u h p t g path) [t, g, path]) =
    on_the_wire (forward payload target (root_request u h p path) [t, g, path])"
  unfolding on_the_wire_def RequestURI_def forwarded_path [OF assms]
  by (simp add: forward_def route_request_def root_request_def rewriteRequestURL_def slash_not_escaped Let_def)

text \<open>
  C25: for a path in its default encoding the two forms of a request are the same request. With the
  reference of a grant as authorization, the form that names the grant in the path and the form
  that a Kubernetes client uses, with the server at the root, end with the same answer and the
  same state, and put the same request on the wire (target, request line with path and query, host,
  authorization, roots and name of the target), whatever the credential is and whatever the API
  server answers, unless the path itself looks like the first form. The path on the wire is the
  caller's alone: a base path of the credential's server is not put in front of it. An
  authorization other than the reference, which only the first form admits, leaves the path the same.
\<close>

theorem proxy_routes_agree:
  assumes "tenant \<noteq> []" "grant \<noteq> []" "CHR ''/'' \<notin> set tenant" "CHR ''/'' \<notin> set grant" "\<not> HasPrefix path ''k8s/''"
    and "ur_RawPath u = []"
  shows "seen (broker_proxy b api parses (route_request u host (''Bearer credential://among-clusters/'' @ tenant @ ''/'' @ grant)
        tenant grant path) now) =
      seen (broker_proxy b api parses (root_request u host (''Bearer credential://among-clusters/'' @ tenant @ ''/'' @ grant) path) now) \<and>
    (\<forall>provided s f s'. broker_proxy b api parses (route_request u host provided tenant grant path) now s = (Inr f, s') \<longrightarrow>
      EscapedPath (fw_URL f) = url_escape (''/'' @ path))"
proof -
  let ?ref = "reference_prefix @ tenant @ ''/'' @ grant"
  have reference: "''Bearer credential://among-clusters/'' @ tenant @ ''/'' @ grant = ?ref"
    by (simp add: reference_prefix_def)
  have "\<not> HasPrefix (''/'' @ path) ''/k8s/''" "TrimPrefix (''/'' @ path) ''/'' = path"
    using assms(5) by (simp_all add: HasPrefix_def TrimPrefix_def)
  then have root: "kubernetesProxyParts (ur_Path (pr_URL (root_request u host ?ref path))) (pr_Authorization (root_request u host ?ref path)) =
      (tenant # grant # (if path = [] then [] else [path]), True)"
    using proxy_parts_of_reference [OF assms(1-4), of "''/'' @ path"] by (simp add: root_request_def)
  have route: "kubernetesProxyParts (ur_Path (pr_URL (route_request u host provided tenant grant path)))
      (pr_Authorization (route_request u host provided tenant grant path)) = ([tenant, grant, path], False)" for provided
    using proxy_parts_of_route [OF assms(3,4), of path provided] by (simp add: route_request_def)
  have provided: "pr_Authorization (route_request u host ?ref tenant grant path) = ?ref" "pr_Authorization (root_request u host ?ref path) = ?ref"
    by (simp_all add: route_request_def root_request_def)
  have parts: "(tenant # grant # rest) ! 0 = tenant" "(tenant # grant # rest) ! 1 = grant"
    "\<not> length (tenant # grant # rest) < 2" for rest by simp_all
  have "seen (broker_proxy b api parses (route_request u host ?ref tenant grant path) now) =
      seen (broker_proxy b api parses (root_request u host ?ref path) now)"
    unfolding broker_proxy_def root route prod.case Let_def
    unfolding provided parts forward_rest
    by (simp add: seen_and_then seen_rules same_on_the_wire [OF assms(6)] cong: option.case_cong)
  moreover have "EscapedPath (fw_URL f) = url_escape (''/'' @ path)"
    if run: "broker_proxy b api parses (route_request u host provided tenant grant path) now s = (Inr f, s')" for provided s f s'
    using run by (rule broker_proxy_InrE) (simp add: route forwarded_path [OF assms(6), simplified])
  ultimately show ?thesis unfolding reference by blast
qed

text \<open>
  For other paths they differ. The request for the path \<open>x%2Fy\<close> goes out as it came in the root form;
  in the form that names the grant the encoded path is dropped with the prefix, and another path,
  \<open>x/y\<close>, is asked for.
\<close>

definition encoded_slash :: "string \<Rightarrow> proxy_request" where
  "encoded_slash before = \<lparr>pr_URL = \<lparr>ur_Scheme = [], ur_Host = [], ur_Path = before @ ''/x/y'', ur_RawPath = before @ ''/x%2Fy'',
     ur_RawQuery = [], ur_ForceQuery = False\<rparr>, pr_Host = ''broker'', pr_Authorization = ''Bearer credential://among-clusters/t/ops''\<rparr>"

definition plain_server :: url where
  "plain_server = \<lparr>ur_Scheme = ''https'', ur_Host = ''api'', ur_Path = [], ur_RawPath = [], ur_RawQuery = [], ur_ForceQuery = False\<rparr>"

theorem proxy_routes_differ:
  "kubernetesProxyParts (ur_Path (pr_URL (encoded_slash []))) (pr_Authorization (encoded_slash [])) = ([''t'', ''ops'', ''x/y''], True) \<and>
   kubernetesProxyParts (ur_Path (pr_URL (encoded_slash ''/k8s/t/ops''))) (pr_Authorization (encoded_slash ''/k8s/t/ops'')) =
     ([''t'', ''ops'', ''x/y''], False) \<and>
   RequestURI (fw_URL (forward payload plain_server (encoded_slash []) [''t'', ''ops'', ''x/y''])) = ''/x%2Fy'' \<and>
   RequestURI (fw_URL (forward payload plain_server (encoded_slash ''/k8s/t/ops'') [''t'', ''ops'', ''x/y''])) = ''/x/y''"
  unfolding encoded_slash_def plain_server_def forward_def
  by code_simp

section \<open>A concrete broker\<close>

text \<open>Secrets in a map, one registered cluster, no reviews; the payload of a message is its grant.\<close>

definition demo_envelope :: "string \<Rightarrow> envelope" where
  "demo_envelope grant = \<lparr>env_EphemeralKey = RawStd_Encode [], env_Nonce = RawStd_Encode (replicate 12 CHR ''n''),
     env_Ciphertext = RawStd_Encode grant\<rparr>"

definition demo_broker_codec :: broker_codec where
  "demo_broker_codec = \<lparr>decode_meta = (\<lambda>p. Some \<lparr>sm_Tenant = ''t'', sm_ClusterID = ''c'', sm_GrantRef = p,
       sm_Envelope = demo_envelope p\<rparr>),
     decode_revoke = (\<lambda>p. Some (''t'', ''c'', p)),
     encode_envelope = env_Ciphertext,
     decode_envelope = (\<lambda>x. Some \<lparr>env_EphemeralKey = RawStd_Encode [], env_Nonce = RawStd_Encode (replicate 12 CHR ''n''),
       env_Ciphertext = x\<rparr>)\<rparr>"

definition demo_broker_ecies :: ecies where
  "demo_broker_ecies = \<lparr>x_public = id, x_valid_public = (\<lambda>k. True), x_valid_private = (\<lambda>k. True),
     x_ecdh = (\<lambda>_ _. Some (replicate 32 CHR ''k'')), gcm_seal = (\<lambda>_ _ m. m), gcm_open = (\<lambda>_ _ c. Some c),
     payload_json = (\<lambda>p. Some (cp_Token p)),
     payload_parse = (\<lambda>x. Some \<lparr>cp_Token = ''token-'' @ x, cp_CertificateAuthority = [],
       cp_Server = ''https://api'', cp_TLSServerName = [], cp_ExpiresAt = 100 * second\<rparr>)\<rparr>"

definition demo_broker :: broker where
  "demo_broker = \<lparr>bk_crypto = demo_crypto, bk_codec = demo_codec, bk_broker_codec = demo_broker_codec,
     bk_ecies = demo_broker_ecies, bk_namespace = ''credential-broker'', bk_private = []\<rparr>"

definition demo_broker_api :: "(string \<rightharpoonup> secret) broker_api" where
  "demo_broker_api = \<lparr>
     ba_get = (\<lambda>n w. (case w n of None \<Rightarrow> Inl (ApiNotFound ''not found'') | Some s \<Rightarrow> Inr s, w)),
     ba_create = (\<lambda>s w. (Inr (), w(mt_Name (sec_Meta s) \<mapsto> s))),
     ba_update = (\<lambda>s w. (Inr (), w(mt_Name (sec_Meta s) \<mapsto> s))),
     ba_delete = (\<lambda>n w. (Inr (), w(n := None))),
     hub_identity = (\<lambda>t i w. (Inr (200, Some \<lparr>id_ClusterID = ''c'', id_Region = [], id_Tenant = ''t'',
        id_TrustDomain = ''d'', id_SPIFFEID = ''spiffe://d/cluster/c'', id_BundleDigest = [],
        id_PublicKey = RawStd_Encode (demo_key ''priv''), id_Capabilities = [], id_GatewayEndpoints = []\<rparr>), w)),
     token_review = (\<lambda>_ w. (Inr None, w)), access_review = (\<lambda>_ w. (Inr False, w))\<rparr>"

definition demo_url :: url where
  "demo_url = \<lparr>ur_Scheme = [], ur_Host = [], ur_Path = [], ur_RawPath = [], ur_RawQuery = [], ur_ForceQuery = False\<rparr>"

definition demo_request :: "string \<Rightarrow> proxy_request" where
  "demo_request path = \<lparr>pr_URL = demo_url\<lparr>ur_Path := path\<rparr>, pr_Host = ''broker'',
     pr_Authorization = ''Bearer credential://among-clusters/t/ops''\<rparr>"

definition demo_parse :: "string \<Rightarrow> url option" where
  "demo_parse server = Some plain_server"

definition demo_upload :: "u64 \<Rightarrow> string \<Rightarrow> control_message" where
  "demo_upload g grant = \<lparr>cm_Issuer = ''spiffe://d/cluster/c'', cm_Audience = ''credential-broker'',
     cm_Generation = g, cm_IssuedAt = 10 * second, cm_ExpiresAt = 70 * second, cm_Nonce = ''n'',
     cm_Type = ''credential.store'', cm_Payload = grant,
     cm_Signature = RawStd_Encode (demo_key ''priv'' @ ''credential.store'' @ grant)\<rparr>"

definition demo_broker_start :: "(string \<rightharpoonup> secret) broker_state" where
  "demo_broker_start = \<lparr>bs_generations = Map.empty, bs_world = Map.empty\<rparr>"

lemma demo_upload_verified:
  assumes "prev < g"
  shows "Verify demo_crypto demo_codec (demo_upload g grant) (demo_key ''priv'') ''credential-broker'' (20 * second) prev None = None"
  using assms
  by (simp add: Verify_None_iff demo_upload_def message_window_def Before_def authentic_def canonical_def
      demo_codec_def ed25519_Verify_def) (simp add: demo_crypto_def)

lemma demo_admit:
  assumes "grant \<noteq> []" and "broker_gen s ''spiffe://d/cluster/c'' < g"
  shows "store_admit demo_broker demo_broker_api (Some (demo_upload g grant)) (20 * second) s =
    (Inr (demo_upload g grant, \<lparr>sm_Tenant = ''t'', sm_ClusterID = ''c'', sm_GrantRef = grant,
       sm_Envelope = demo_envelope grant\<rparr>, ''spiffe://d/cluster/c''), s)"
proof -
  have "cm_Issuer (demo_upload g grant) = ''spiffe://d/cluster/c''" "cm_Type (demo_upload g grant) = ''credential.store''"
    "cm_Payload (demo_upload g grant) = grant"
    by (simp_all add: demo_upload_def)
  with assms demo_upload_verified [of "map_get 0 (bs_generations s) ''spiffe://d/cluster/c''" g grant] show ?thesis
    by (simp add: store_admit_def demo_broker_def demo_broker_codec_def demo_broker_api_def broker_identity_def
        in_world_def broker_check_def broker_gen_def prog_simps)
qed

definition demo_payload :: "string \<Rightarrow> credential_payload" where
  "demo_payload grant = \<lparr>cp_Token = ''token-'' @ grant, cp_CertificateAuthority = [], cp_Server = ''https://api'',
     cp_TLSServerName = [], cp_ExpiresAt = 100 * second\<rparr>"

lemma demo_Decrypt [simp]: "Decrypt demo_broker_ecies k (demo_envelope grant) = Inr (demo_payload grant)"
  by (simp add: Decrypt_def open_sealed_def aes_key_def demo_broker_ecies_def demo_envelope_def demo_payload_def)

lemma demo_codec_envelope:
  "decode_envelope demo_broker_codec (encode_envelope demo_broker_codec (demo_envelope grant)) = Some (demo_envelope grant)"
  "decode_envelope demo_broker_codec (RawStd_Encode grant) = Some (demo_envelope grant)"
  "encode_envelope demo_broker_codec (demo_envelope grant) = RawStd_Encode grant"
  by (simp_all add: demo_broker_codec_def demo_envelope_def)

lemma demo_save:
  "\<exists>x. store_save demo_broker demo_broker_api \<lparr>sm_Tenant = ''t'', sm_ClusterID = ''c'', sm_GrantRef = grant,
     sm_Envelope = demo_envelope grant\<rparr> (20 * second) s =
   (Inr (), s\<lparr>bs_world := (bs_world s)(credentialName ''t'' grant \<mapsto> x)\<rparr>) \<and>
   map_get [] (sec_Data x) ''envelope.json'' = RawStd_Encode grant"
  by (cases "bs_world s (credentialName ''t'' grant)")
    (auto simp: store_save_def demo_broker_def demo_codec_envelope demo_broker_api_def in_world_def open_envelope_def
      credential_secret_def new_meta_def prog_simps Let_def Before_def demo_payload_def)

lemma demo_stored: "\<exists>ref s'. broker_store demo_broker demo_broker_api (Some (demo_upload 5 ''ops'')) (\<lambda>_. 20 * second)
    demo_broker_start = (Inr (Stored ref), s') \<and> ref = ''credential://among-clusters/t/ops''"
  using demo_admit [of "''ops''" demo_broker_start 5] demo_save [of "''ops''" demo_broker_start]
  by (auto simp: broker_store_def prog_simps store_record_def broker_gen_def demo_broker_start_def)

lemma demo_stored_reads: "stored_reads demo_broker_api"
  by (auto simp: stored_reads_def demo_broker_api_def)

theorem broker_store_then_proxy_witness:
  "\<exists>s' f s2. broker_store demo_broker demo_broker_api (Some (demo_upload 5 ''ops'')) (\<lambda>_. 20 * second) demo_broker_start =
      (Inr (Stored ''credential://among-clusters/t/ops''), s') \<and>
    broker_proxy demo_broker demo_broker_api demo_parse (demo_request ''/api/v1/pods'') (30 * second) s' = (Inr f, s2)"
proof -
  obtain s' where stored: "broker_store demo_broker demo_broker_api (Some (demo_upload 5 ''ops'')) (\<lambda>_. 20 * second)
      demo_broker_start = (Inr (Stored ''credential://among-clusters/t/ops''), s')"
    using demo_stored by blast
  have meta: "decode_meta (bk_broker_codec demo_broker) (cm_Payload (demo_upload 5 ''ops'')) =
      Some \<lparr>sm_Tenant = ''t'', sm_ClusterID = ''c'', sm_GrantRef = ''ops'', sm_Envelope = demo_envelope ''ops''\<rparr>"
    by (simp add: demo_broker_def demo_broker_codec_def demo_upload_def)
  from broker_store_then_proxy [OF demo_stored_reads _ stored meta, of "demo_request ''/api/v1/pods''" demo_parse]
  have "\<forall>now. Before now (100 * second) \<longrightarrow> (\<exists>f s2. broker_proxy demo_broker demo_broker_api demo_parse
      (demo_request ''/api/v1/pods'') now s' = (Inr f, s2))"
    by (simp add: demo_broker_def demo_codec_envelope HasPrefix_def demo_payload_def demo_request_def demo_parse_def) blast
  with stored show ?thesis
    by (auto simp: Before_def)
qed

theorem broker_proxy_authorized_witness:
  "\<exists>payload e. Decrypt demo_broker_ecies [] e = Inr payload \<and> Before (30 * second) (cp_ExpiresAt payload)"
proof -
  let ?x = "\<lparr>sec_Meta = new_meta [] [], sec_Data = [''envelope.json'' \<mapsto> RawStd_Encode ''ops'']\<rparr>"
  let ?s = "demo_broker_start\<lparr>bs_world := [credentialName ''t'' ''ops'' \<mapsto> ?x]\<rparr>"
  have parts: "kubernetesProxyParts ''/api'' (reference_prefix @ ''t'' @ ''/'' @ ''ops'') = ([''t'', ''ops'', ''api''], True)"
    using proxy_parts_of_reference [of "''t''" "''ops''" "''/api''"] by (simp add: HasPrefix_def TrimPrefix_def)
  have request: "ur_Path (pr_URL (demo_request ''/api'')) = ''/api''"
    "pr_Authorization (demo_request ''/api'') = reference_prefix @ ''t'' @ ''/'' @ ''ops''"
    by (simp_all add: demo_request_def reference_prefix_def)
  have "broker_proxy demo_broker demo_broker_api demo_parse (demo_request ''/api'') (30 * second) ?s =
      (Inr (forward (demo_payload ''ops'') plain_server (demo_request ''/api'') [''t'', ''ops'', ''api'']), ?s)"
    unfolding broker_proxy_def request parts
    by (simp add: demo_parse_def prog_simps Let_def demo_broker_def demo_codec_envelope demo_broker_api_def in_world_def
        open_envelope_def Before_def demo_payload_def)
  from broker_proxy_authorized [OF this] show ?thesis
    by (auto simp: demo_broker_def)
qed

theorem broker_store_authentic_witness:
  "\<exists>m payload. decode_meta demo_broker_codec (cm_Payload m) \<noteq> None \<and> authentic demo_crypto demo_codec m (demo_key ''priv'') \<and>
     (\<exists>e. Decrypt demo_broker_ecies [] e = Inr payload)"
proof -
  obtain r s' where "broker_store demo_broker demo_broker_api (Some (demo_upload 5 ''ops'')) (\<lambda>_. 20 * second) demo_broker_start = (Inr r, s')"
    using demo_stored by blast
  from broker_store_authentic [OF this] show ?thesis
    by (auto simp: demo_broker_def demo_broker_api_def broker_identity_def in_world_def prog_simps)
qed

section \<open>Two uploads at once\<close>

text \<open>
  The two critical sections of \<open>store\<close> are separate, so the pieces of two uploads can
  interleave: both are admitted before either is recorded.
\<close>

definition interleaved_uploads :: "broker \<Rightarrow> 'w broker_api \<Rightarrow> control_message \<Rightarrow> control_message \<Rightarrow> time \<Rightarrow>
    (broker_reply, broker_reply, 'w broker_state) prog" where
  "interleaved_uploads b api m1 m2 now =
     and_then (store_admit b api (Some m1) now) (\<lambda>(x1, meta1, spiffe1).
     and_then (store_admit b api (Some m2) now) (\<lambda>(x2, meta2, spiffe2).
     and_then (store_save b api meta1 now) (\<lambda>_.
     and_then (store_record x1 meta1 spiffe1) (\<lambda>_.
     and_then (store_save b api meta2 now) (\<lambda>_.
     store_record x2 meta2 spiffe2)))))"

text \<open>
  Two concurrent uploads can move the recorded generation backwards: after an upload of
  generation 6 and one of generation 5 that was admitted before it was recorded, the broker
  accepts the message of generation 6 again.
\<close>

theorem broker_generation_race:
  "\<exists>s1 r1 r2. interleaved_uploads demo_broker demo_broker_api (demo_upload 6 ''ops'') (demo_upload 5 ''ops'')
      (20 * second) demo_broker_start = (Inr r1, s1) \<and> broker_gen s1 ''spiffe://d/cluster/c'' = 5 \<and>
    fst (broker_store demo_broker demo_broker_api (Some (demo_upload 6 ''ops'')) (\<lambda>_. 20 * second) s1) = Inr r2"
proof -
  let ?meta = "\<lparr>sm_Tenant = ''t'', sm_ClusterID = ''c'', sm_GrantRef = ''ops'',
    sm_Envelope = demo_envelope ''ops''\<rparr>"
  let ?spiffe = "''spiffe://d/cluster/c''"
  obtain s2 where save1: "store_save demo_broker demo_broker_api ?meta (20 * second) demo_broker_start = (Inr (), s2)"
    and s2: "bs_generations s2 = Map.empty"
    using demo_save [of "''ops''" demo_broker_start] by (auto simp: demo_broker_start_def)
  let ?s3 = "s2\<lparr>bs_generations := (bs_generations s2)(?spiffe \<mapsto> 6)\<rparr>"
  obtain s4 where save2: "store_save demo_broker demo_broker_api ?meta (20 * second) ?s3 = (Inr (), s4)"
    and s4: "bs_generations s4 = [?spiffe \<mapsto> 6]"
    using demo_save [of "''ops''" ?s3] s2 by auto
  let ?s5 = "s4\<lparr>bs_generations := (bs_generations s4)(?spiffe \<mapsto> 5)\<rparr>"
  have admit: "store_admit demo_broker demo_broker_api (Some (demo_upload g ''ops'')) (20 * second) demo_broker_start =
      (Inr (demo_upload g ''ops'', ?meta, ?spiffe), demo_broker_start)" if "0 < g" for g
    by (rule demo_admit) (use that in \<open>simp_all add: broker_gen_def demo_broker_start_def\<close>)
  have run: "interleaved_uploads demo_broker demo_broker_api (demo_upload 6 ''ops'') (demo_upload 5 ''ops'')
      (20 * second) demo_broker_start = (Inr (Stored ''credential://among-clusters/t/ops''), ?s5)"
    using admit [of 6] admit [of 5] save1 save2
    by (simp add: interleaved_uploads_def prog_simps store_record_def demo_upload_def)
  have gen: "broker_gen ?s5 ?spiffe = 5"
    by (simp add: broker_gen_def)
  obtain s6 where "store_save demo_broker demo_broker_api ?meta (20 * second) ?s5 = (Inr (), s6)"
    using demo_save [of "''ops''" ?s5] by blast
  then have "fst (broker_store demo_broker demo_broker_api (Some (demo_upload 6 ''ops'')) (\<lambda>_. 20 * second) ?s5) =
      Inr (Stored ''credential://among-clusters/t/ops'')"
    using demo_admit [of "''ops''" ?s5 6] gen
    by (simp add: broker_store_def prog_simps store_record_def)
  with run gen show ?thesis
    by blast
qed

section \<open>Two grants, one credential\<close>

text \<open>
  The name of a stored credential joins tenant and grant with a dash, so the credentials of
  grant "c" of tenant "a-b" and of grant "b-c" of tenant "a" are one object, whatever the names.
\<close>

theorem credential_name_collision: "credentialName (a @ ''-'' @ b) c = credentialName a (b @ ''-'' @ c)"
  by (simp add: credentialName_def)

theorem proxy_routes_agree_witness:
  "seen (broker_proxy demo_broker demo_broker_api demo_parse
       (route_request demo_url ''broker'' ''Bearer credential://among-clusters/t/ops'' ''t'' ''ops'' ''api/v1/pods'') (30 * second)) =
     seen (broker_proxy demo_broker demo_broker_api demo_parse (demo_request ''/api/v1/pods'') (30 * second))"
  using proxy_routes_agree [of "''t''" "''ops''" "''api/v1/pods''" demo_url demo_broker demo_broker_api demo_parse "''broker''" "30 * second"]
  by (simp add: HasPrefix_def demo_url_def demo_request_def root_request_def)

end
