(* ===== verification/Broker_Restart.thy ===== *)
theory Broker_Restart
  imports Broker_Service
begin

text \<open>
  The credential broker across restarts and against replays: its key survives in a Secret, its
  record of generations does not, and a revocation is checked against no record at all.
\<close>

section \<open>The Secrets of the namespace\<close>

text \<open>
  What the API server promises for the Secrets of the broker's namespace, over the data of each
  Secret by its name: a read answers with the data, and with a NotFound error exactly where there
  is no Secret; it changes nothing. A write changes the Secret it names and no other; when it is
  accepted, the data are the ones that were sent. The metadata of what is read are the server's
  business. The other requests of the broker do not write Secrets, and nobody else does.
\<close>

definition serves_secrets :: "'w broker_api \<Rightarrow> ('w \<Rightarrow> string \<rightharpoonup> (string \<rightharpoonup> string)) \<Rightarrow> bool" where
  "serves_secrets api data \<longleftrightarrow>
     (\<forall>n w r w'. ba_get api n w = (r, w') \<longrightarrow> data w' = data w \<and>
        (\<forall>x. r = Inr x \<longrightarrow> data w n = Some (sec_Data x)) \<and> (\<forall>e. r = Inl e \<and> IsNotFound e \<longrightarrow> data w n = None)) \<and>
     (\<forall>x w r w'. ba_create api x w = (r, w') \<or> ba_update api x w = (r, w') \<longrightarrow>
        (\<forall>n. n \<noteq> mt_Name (sec_Meta x) \<longrightarrow> data w' n = data w n) \<and>
        (r = Inr () \<longrightarrow> data w' (mt_Name (sec_Meta x)) = Some (sec_Data x))) \<and>
     (\<forall>m w r w'. ba_delete api m w = (r, w') \<longrightarrow>
        (\<forall>n. n \<noteq> m \<longrightarrow> data w' n = data w n) \<and> (r = Inr () \<longrightarrow> data w' m = None)) \<and>
     (\<forall>t i w. data (snd (hub_identity api t i w)) = data w) \<and>
     (\<forall>t w. data (snd (token_review api t w)) = data w) \<and>
     (\<forall>a w. data (snd (access_review api a w)) = data w)"

lemma serves_get:
  assumes "serves_secrets api data" and "ba_get api n w = (r, w')"
  shows "data w' = data w" "r = Inr x \<Longrightarrow> data w n = Some (sec_Data x)" "r = Inl e \<Longrightarrow> IsNotFound e \<Longrightarrow> data w n = None"
proof -
  note laws = assms(1) [unfolded serves_secrets_def, THEN conjunct1, rule_format, OF assms(2)]
  show "data w' = data w" using laws by (elim conjE)
  show "r = Inr x \<Longrightarrow> data w n = Some (sec_Data x)" using laws by blast
  show "r = Inl e \<Longrightarrow> IsNotFound e \<Longrightarrow> data w n = None" using laws by blast
qed

lemma serves_write:
  assumes "serves_secrets api data" and "ba_create api x w = (r, w') \<or> ba_update api x w = (r, w')"
  shows "n \<noteq> mt_Name (sec_Meta x) \<Longrightarrow> data w' n = data w n" "r = Inr () \<Longrightarrow> data w' (mt_Name (sec_Meta x)) = Some (sec_Data x)"
proof -
  note laws = assms(1) [unfolded serves_secrets_def, THEN conjunct2, THEN conjunct1, rule_format, OF assms(2)]
  show "n \<noteq> mt_Name (sec_Meta x) \<Longrightarrow> data w' n = data w n" using laws by (elim conjE) (drule spec, drule mp)
  show "r = Inr () \<Longrightarrow> data w' (mt_Name (sec_Meta x)) = Some (sec_Data x)" using laws by (elim conjE) (drule mp)
qed

lemma serves_delete:
  assumes "serves_secrets api data" and "ba_delete api m w = (r, w')"
  shows "n \<noteq> m \<Longrightarrow> data w' n = data w n" "r = Inr () \<Longrightarrow> data w' m = None"
proof -
  note laws = assms(1) [unfolded serves_secrets_def, THEN conjunct2, THEN conjunct2, THEN conjunct1, rule_format, OF assms(2)]
  show "n \<noteq> m \<Longrightarrow> data w' n = data w n" using laws by (elim conjE) (drule spec, drule mp)
  show "r = Inr () \<Longrightarrow> data w' m = None" using laws by (elim conjE) (drule mp)
qed

text \<open>What a computation leaves the data of a Secret at.\<close>

abbreviation leaves :: "('w \<Rightarrow> string \<rightharpoonup> (string \<rightharpoonup> string)) \<Rightarrow> string \<Rightarrow> (string \<rightharpoonup> string) option \<Rightarrow>
    ('e, 'a, 'w broker_state) prog \<Rightarrow> bool" where
  "leaves data n d m \<equiv> keeps (\<lambda>s. data (bs_world s) n = d) m"

lemma keeps_world: "keeps (\<lambda>w. P w) m \<Longrightarrow> keeps (\<lambda>s. P (bs_world s)) (in_world m)"
  by (auto simp: keeps_def in_world_def split: prod.splits)

lemma keeps_field: "keeps (\<lambda>s. P (bs_world s)) (\<lambda>s. (Inr (f s), s))"
  by (simp add: keeps_def)

lemma serves_keeps:
  assumes "serves_secrets api data"
  shows "keeps (\<lambda>w. data w n = d) (ba_get api m)"
    and "mt_Name (sec_Meta x) \<noteq> n \<Longrightarrow> keeps (\<lambda>w. data w n = d) (ba_create api x)"
    and "mt_Name (sec_Meta x) \<noteq> n \<Longrightarrow> keeps (\<lambda>w. data w n = d) (ba_update api x)"
    and "m \<noteq> n \<Longrightarrow> keeps (\<lambda>w. data w n = d) (ba_delete api m)"
    and "keeps (\<lambda>w. data w n = d) (hub_identity api t i)"
    and "keeps (\<lambda>w. data w n = d) (token_review api t)"
    and "keeps (\<lambda>w. data w n = d) (access_review api a)"
proof -
  show "keeps (\<lambda>w. data w n = d) (ba_get api m)"
    by (rule keeps_runI) (simp add: serves_get(1) [OF assms])
  show "mt_Name (sec_Meta x) \<noteq> n \<Longrightarrow> keeps (\<lambda>w. data w n = d) (ba_create api x)"
    by (rule keeps_runI) (use serves_write(1) [OF assms, OF disjI1, of x _ _ _ n] in auto)
  show "mt_Name (sec_Meta x) \<noteq> n \<Longrightarrow> keeps (\<lambda>w. data w n = d) (ba_update api x)"
    by (rule keeps_runI) (use serves_write(1) [OF assms, OF disjI2, of x _ _ _ n] in auto)
  show "m \<noteq> n \<Longrightarrow> keeps (\<lambda>w. data w n = d) (ba_delete api m)"
    by (rule keeps_runI) (use serves_delete(1) [OF assms, of m _ _ _ n] in auto)
  show "keeps (\<lambda>w. data w n = d) (hub_identity api t i)" "keeps (\<lambda>w. data w n = d) (token_review api t)"
    "keeps (\<lambda>w. data w n = d) (access_review api a)"
    using assms by (simp_all add: serves_secrets_def keeps_def)
qed

section \<open>Requests and the Secret of the key\<close>

definition broker_key_name :: string where "broker_key_name = ''among-clusters-broker-key''"

text \<open>The requests that name the Secret of the key as the place of a credential.\<close>

fun names_key :: "broker \<Rightarrow> broker_request \<Rightarrow> bool" where
  "names_key b (PostCredential (Some m) clock) =
     (case decode_meta (bk_broker_codec b) (cm_Payload m) of None \<Rightarrow> False
      | Some meta \<Rightarrow> credentialName (sm_Tenant meta) (sm_GrantRef meta) = broker_key_name)"
| "names_key b (PostRevoke (Some m) now) =
     (case decode_revoke (bk_broker_codec b) (cm_Payload m) of None \<Rightarrow> False
      | Some (tenant, clusterID, grant) \<Rightarrow> credentialName tenant grant = broker_key_name)"
| "names_key b _ = False"

lemma leaves_identity:
  assumes "serves_secrets api data" shows "leaves data n d (broker_identity api t i)"
  unfolding broker_identity_def case_prod_beta
  by (intro keeps_intros keeps_world serves_keeps [OF assms])

lemma leaves_save:
  assumes "serves_secrets api data" and "credentialName (sm_Tenant meta) (sm_GrantRef meta) \<noteq> n"
  shows "leaves data n d (store_save b api meta now)"
proof -
  have name: "mt_Name (sec_Meta (credential_secret b meta payload)) \<noteq> n" for payload
    using assms(2) by (simp add: credential_secret_def new_meta_def)
  then have "mt_Name (sec_Meta ((credential_secret b meta payload)\<lparr>sec_Meta := (sec_Meta (credential_secret b meta payload))
      \<lparr>mt_ResourceVersion := v\<rparr>\<rparr>)) \<noteq> n" for payload v by simp
  with name show ?thesis
    unfolding store_save_def Let_def
    by (intro keeps_intros keeps_world serves_keeps [OF assms(1)])
qed

lemma leaves_store:
  assumes "serves_secrets api data" and "\<not> names_key b (PostCredential body clock)"
  shows "leaves data broker_key_name d (broker_store b api body clock)"
proof (cases body)
  case None
  then show ?thesis by (auto simp: keeps_def broker_store_def store_admit_def and_then_def fail_def)
next
  case (Some m)
  have admit: "leaves data broker_key_name d (store_admit b api body (clock 0))"
    unfolding store_admit_def by (intro keeps_intros keeps_field leaves_identity [OF assms(1)])
  show ?thesis
  proof (rule keeps_runI)
    fix s r s'
    assume at: "data (bs_world s) broker_key_name = d" and run: "broker_store b api body clock s = (r, s')"
    obtain q s1 where q: "store_admit b api body (clock 0) s = (q, s1)" by fastforce
    note kept = keeps_run [OF admit at q]
    show "data (bs_world s') broker_key_name = d"
    proof (cases q)
      case (Inl e)
      with run q kept show ?thesis by (simp add: broker_store_def and_then_apply)
    next
      case (Inr x)
      obtain m' meta spiffe where x: "x = (m', meta, spiffe)" by (cases x) auto
      from q [unfolded Inr x] have "body = Some m'" "decode_meta (bk_broker_codec b) (cm_Payload m') = Some meta"
        by (auto elim!: store_admit_InrE)
      with assms(2) have "credentialName (sm_Tenant meta) (sm_GrantRef meta) \<noteq> broker_key_name" by simp
      from keeps_run [OF leaves_save [OF assms(1) this] kept] run q Inr x show ?thesis
        by (auto simp: broker_store_def and_then_apply store_record_def split: prod.splits sum.splits)
    qed
  qed
qed

lemma broker_revoke_Some:
  assumes "decode_revoke (bk_broker_codec b) (cm_Payload m) = Some (tenant, clusterID, grant)"
  shows "broker_revoke b api (Some m) now =
     and_then (map_error (\<lambda>_. BrokerError ''unknown identity'' 401) (broker_identity api tenant clusterID)) (\<lambda>ident.
     and_then (case RawStd_Decode (id_PublicKey ident) of
         None \<Rightarrow> fail (BrokerError ''unauthorized'' 401) | Some key \<Rightarrow> give key) (\<lambda>key.
     and_then (broker_check b m (id_SPIFFEID ident) ''credential.revoke'' key now 0) (\<lambda>_.
     and_then (map_error (\<lambda>e. if IsNotFound e then BrokerError ''404 page not found'' 404
           else BrokerError ''revoke failed'' 500)
        (in_world (ba_delete api (credentialName tenant grant)))) (\<lambda>_.
     give NoContent))))"
  using assms by (auto simp: broker_revoke_def and_then_apply fun_eq_iff)

lemma leaves_revoke:
  assumes "serves_secrets api data" and "\<not> names_key b (PostRevoke body now)"
  shows "leaves data broker_key_name d (broker_revoke b api body now)"
proof (cases body)
  case None
  then show ?thesis by (auto simp: keeps_def broker_revoke_def and_then_def fail_def)
next
  case (Some m)
  show ?thesis
  proof (cases "decode_revoke (bk_broker_codec b) (cm_Payload m)")
    case None
    with Some show ?thesis by (auto simp: keeps_def broker_revoke_def and_then_def give_def fail_def)
  next
    case decoded: (Some r)
    obtain tenant clusterID grant where r: "r = (tenant, clusterID, grant)" by (cases r) auto
    from assms(2) Some decoded r have "credentialName tenant grant \<noteq> broker_key_name" by simp
    then show ?thesis
      unfolding Some broker_revoke_Some [OF decoded [unfolded r]]
      by (intro keeps_intros keeps_world leaves_identity [OF assms(1)] serves_keeps [OF assms(1)])
  qed
qed

lemma leaves_proxy:
  assumes "serves_secrets api data"
  shows "leaves data n d (broker_proxy b api parses r now)"
  unfolding broker_proxy_def Let_def case_prod_beta authorizeKubernetesUser_def
  by (intro keeps_intros keeps_world serves_keeps [OF assms])

lemma leaves_handler:
  assumes "serves_secrets api data" and "\<not> names_key b c"
  shows "leaves data broker_key_name d (broker_handler b api parses c)"
  using assms(2)
  by (cases c) (auto intro!: keeps_and_then keeps_give leaves_store [OF assms(1)] leaves_revoke [OF assms(1)] leaves_proxy [OF assms(1)])

section \<open>The key survives\<close>

lemma loadKey_stored:
  assumes "serves_secrets api data" and "loadKey b api draw s = (Inr key, s1)"
  shows "\<exists>d. data (bs_world s1) broker_key_name = Some d \<and> map_get [] d ''private-key'' = key \<and> x_valid_private (bk_ecies b) key"
proof -
  obtain got w1 where got: "ba_get api broker_key_name (bs_world s) = (got, w1)" by fastforce
  note got' = got [unfolded broker_key_name_def]
  show ?thesis
  proof (cases got)
    case (Inr x)
    from assms(2) have "bs_world s1 = w1" "map_get [] (sec_Data x) ''private-key'' = key" "x_valid_private (bk_ecies b) key"
      by (auto simp: loadKey_def Let_def and_then_apply attempt_apply in_world_def got' Inr split: if_splits)
    with serves_get [OF assms(1) got] Inr show ?thesis by auto
  next
    case (Inl e)
    from assms(2) obtain k where draw: "draw = Some k" and nf: "IsNotFound e"
      by (auto simp: loadKey_def and_then_apply attempt_apply in_world_def got' Inl split: if_splits option.splits)
    let ?x = "\<lparr>sec_Meta = (new_meta (bk_namespace b) broker_key_name)\<lparr>mt_Labels := [''app.kubernetes.io/managed-by'' \<mapsto> ''among-clusters'']\<rparr>,
      sec_Data = [''private-key'' \<mapsto> k]\<rparr>"
    from assms(2) obtain w2 where created: "ba_create api ?x w1 = (Inr (), w2)" and "bs_world s1 = w2" "key = k"
      "x_valid_private (bk_ecies b) key"
      by (auto simp: loadKey_def Let_def and_then_apply attempt_apply in_world_def got' Inl draw nf map_get_def broker_key_name_def
          split: if_splits sum.splits prod.splits)
    moreover have "mt_Name (sec_Meta ?x) = broker_key_name" "map_get [] (sec_Data ?x) ''private-key'' = k"
      by (simp_all add: new_meta_def map_get_def)
    ultimately show ?thesis using serves_write(2) [OF assms(1) disjI1 [OF created]] by auto
  qed
qed

lemma loadKey_from:
  assumes "serves_secrets api data" and "loadKey b api draw s = (r, s1)" and "data (bs_world s) broker_key_name = Some d"
  shows "r = (if x_valid_private (bk_ecies b) (map_get [] d ''private-key'') then Inr (map_get [] d ''private-key'')
      else Inl (Msg ''crypto/ecdh: invalid private key size'')) \<or>
    (\<exists>e w. ba_get api broker_key_name (bs_world s) = (Inl e, w) \<and> \<not> IsNotFound e \<and> r = Inl e)"
proof -
  obtain got w1 where got: "ba_get api broker_key_name (bs_world s) = (got, w1)" by fastforce
  note got' = got [unfolded broker_key_name_def]
  show ?thesis
  proof (cases got)
    case (Inr x)
    with serves_get(2) [OF assms(1) got] assms(3) have "sec_Data x = d" by simp
    with assms(2) show ?thesis
      by (auto simp: loadKey_def Let_def and_then_apply attempt_apply in_world_def got' Inr split: if_splits)
  next
    case (Inl e)
    with serves_get(3) [OF assms(1) got] assms(3) have "\<not> IsNotFound e" by auto
    with assms(2) got Inl show ?thesis
      by (auto simp: loadKey_def Let_def and_then_apply attempt_apply in_world_def got' split: if_splits)
  qed
qed

text \<open>
  C33: the broker survives a restart. After any number of uploads, revocations and proxied requests,
  as long as none of them names the Secret of the key as the place of a credential, and whatever
  random bytes it would draw, a second start comes back with the key of the first one, so every
  credential that was encrypted for that key can still be opened; the only other outcome is that
  the API server does not answer the read of the key, and then the start fails with its error.
  The record of generations is lost.
\<close>

theorem broker_survives_restart:
  assumes "serves_secrets api data" and "broker_main b0 api None None getenv draw s = (Inr (b, hub), s1)"
    and "run_calls (broker_handler b api parses) cs s1 = (answers, s2)" and "\<forall>c \<in> set cs. \<not> names_key b c"
    and "broker_main b0 api None None getenv draw' (s2\<lparr>bs_generations := Map.empty\<rparr>) = (r, s3)"
  shows "r = Inr (b, hub) \<or>
    (\<exists>e w. ba_get api ''among-clusters-broker-key'' (bs_world s2) = (Inl e, w) \<and> \<not> IsNotFound e \<and> r = Inl e)"
proof -
  let ?b = "b0\<lparr>bk_namespace := env getenv ''CREDENTIAL_NAMESPACE'' ''credential-broker''\<rparr>"
  from assms(2) obtain key where hub: "getenv ''HUB_ENDPOINT'' \<noteq> []" and key: "loadKey ?b api draw s = (Inr key, s1)"
    and b: "b = ?b\<lparr>bk_private := key\<rparr>" "hub = TrimSuffix (getenv ''HUB_ENDPOINT'') ''/''"
    by (auto simp: broker_main_def must_def Let_def split: if_splits elim!: run_elims)
  from loadKey_stored [OF assms(1) key] obtain d where d: "data (bs_world s1) broker_key_name = Some d"
    "map_get [] d ''private-key'' = key" "x_valid_private (bk_ecies ?b) key" by blast
  have "data (bs_world (snd (run_calls (broker_handler b api parses) cs s1))) broker_key_name = Some d"
    by (rule run_calls_keeps_on [of cs "\<lambda>s. data (bs_world s) broker_key_name = Some d"])
      (use assms(4) d(1) in \<open>auto intro: leaves_handler [OF assms(1)]\<close>)
  then have kept: "data (bs_world (s2\<lparr>bs_generations := Map.empty\<rparr>)) broker_key_name = Some d"
    by (simp add: assms(3))
  obtain q s4 where again: "loadKey ?b api draw' (s2\<lparr>bs_generations := Map.empty\<rparr>) = (q, s4)" by fastforce
  from assms(5) again hub b d have "r = (case q of Inl e \<Rightarrow> Inl e | Inr key' \<Rightarrow> Inr (?b\<lparr>bk_private := key'\<rparr>, hub))"
    by (auto simp: broker_main_def must_def Let_def and_then_apply split: sum.splits)
  with loadKey_from [OF assms(1) again kept] d b show ?thesis
    by (auto simp: broker_key_name_def)
qed

definition data_of :: "(string \<rightharpoonup> secret) \<Rightarrow> string \<rightharpoonup> (string \<rightharpoonup> string)" where
  "data_of w n = map_option sec_Data (w n)"

lemma demo_serves_secrets: "serves_secrets demo_broker_api data_of"
  by (auto simp: serves_secrets_def demo_broker_api_def data_of_def split: option.splits)

theorem broker_survives_restart_witness:
  "\<exists>b s1 s2 s3. broker_main demo_broker demo_broker_api None None (\<lambda>_. ''hub'') (Some ''key'') demo_broker_start = (Inr (b, ''hub''), s1) \<and>
     bk_private b = ''key'' \<and>
     snd (run_calls (broker_handler b demo_broker_api demo_parse) [PostCredential (Some (demo_upload 5 ''ops'')) (\<lambda>_. 20 * second)] s1) = s2 \<and>
     broker_main demo_broker demo_broker_api None None (\<lambda>_. ''hub'') None (s2\<lparr>bs_generations := Map.empty\<rparr>) = (Inr (b, ''hub''), s3)"
proof -
  let ?cs = "[PostCredential (Some (demo_upload 5 ''ops'')) (\<lambda>_. 20 * second)]"
  obtain b s1 where start: "broker_main demo_broker demo_broker_api None None (\<lambda>_. ''hub'') (Some ''key'') demo_broker_start = (Inr (b, ''hub''), s1)"
    and key: "bk_private b = ''key''" and codec: "bk_broker_codec b = demo_broker_codec"
    by (simp add: broker_main_def must_def loadKey_def Let_def and_then_apply attempt_apply in_world_def demo_broker_api_def
        demo_broker_start_def new_meta_def demo_broker_def demo_broker_ecies_def TrimSuffix_def HasSuffix_def map_get_def)
  obtain answers s2 where run: "run_calls (broker_handler b demo_broker_api demo_parse) ?cs s1 = (answers, s2)"
    by fastforce
  obtain r s3 where again: "broker_main demo_broker demo_broker_api None None (\<lambda>_. ''hub'') None (s2\<lparr>bs_generations := Map.empty\<rparr>) = (r, s3)"
    by fastforce
  have "credentialName ''t'' ''ops'' \<noteq> broker_key_name" unfolding broker_key_name_def by code_simp
  then have "\<forall>c \<in> set ?cs. \<not> names_key b c"
    by (simp add: codec demo_broker_codec_def demo_upload_def)
  from broker_survives_restart [OF demo_serves_secrets start run this again]
  have "r = Inr (b, ''hub'')"
    by (auto simp: demo_broker_api_def split: option.splits)
  with start key run again show ?thesis by auto
qed

section \<open>A credential in the place of the key\<close>

lemma store_save_data:
  assumes "serves_secrets api data" and "store_save b api meta now s = (Inr (), s')"
  shows "data (bs_world s') (credentialName (sm_Tenant meta) (sm_GrantRef meta)) =
    Some [''envelope.json'' \<mapsto> encode_envelope (bk_broker_codec b) (sm_Envelope meta)]"
  by (rule store_save_writes [OF assms(2)]) (metis serves_write(2) [OF assms(1)])

text \<open>
  The Secret of the key is not protected from credentials: an accepted upload whose tenant and grant
  make up its name replaces the key with an envelope, and no later start succeeds.
\<close>

theorem upload_destroys_the_key:
  assumes "serves_secrets api data" and "\<not> x_valid_private (bk_ecies b) []"
    and "decode_meta (bk_broker_codec b) (cm_Payload m) = Some meta" and "names_key b (PostCredential (Some m) clock)"
    and "broker_store b api (Some m) clock s = (Inr r, s1)" and "bs_world s2 = bs_world s1"
  shows "\<exists>e. fst (loadKey b api draw s2) = Inl e"
proof -
  from assms(5) obtain m1 meta1 spiffe t1 t2 where admit: "store_admit b api (Some m) (clock 0) s = (Inr (m1, meta1, spiffe), t1)"
    and save: "store_save b api meta1 (clock 1) t1 = (Inr (), t2)" and world: "bs_world s1 = bs_world t2"
    by (rule broker_store_InrE) simp
  from admit assms(3) have "meta1 = meta" by (auto elim!: store_admit_InrE)
  with store_save_data [OF assms(1) save] assms(3,4,6) world
  have "data (bs_world s2) broker_key_name = Some [''envelope.json'' \<mapsto> encode_envelope (bk_broker_codec b) (sm_Envelope meta)]"
    by simp
  moreover have "map_get [] [''envelope.json'' \<mapsto> e] ''private-key'' = []" for e :: string
    by (simp add: map_get_def)
  moreover obtain q s3 where "loadKey b api draw s2 = (q, s3)" by fastforce
  ultimately show ?thesis
    using loadKey_from [OF assms(1)] assms(2) by fastforce
qed

lemma key_names: "credentialName ''among'' ''clusters-broker-key'' = broker_key_name"
    "credentialName ''among-clusters'' ''broker-key'' = broker_key_name"
  unfolding broker_key_name_def by code_simp+

section \<open>The record of generations does not\<close>

text \<open>
  A restart makes the broker accept a stored message a second time: the upload that it refuses
  while it runs is stored again once the record of generations is empty.
\<close>

theorem restart_accepts_replay:
  "\<exists>r s1 s2. broker_store demo_broker demo_broker_api (Some (demo_upload 5 ''ops'')) (\<lambda>_. 20 * second) demo_broker_start = (Inr r, s1) \<and>
     fst (broker_store demo_broker demo_broker_api (Some (demo_upload 5 ''ops'')) (\<lambda>_. 20 * second) s1) = Inl (BrokerError ''unauthorized'' 401) \<and>
     broker_store demo_broker demo_broker_api (Some (demo_upload 5 ''ops'')) (\<lambda>_. 20 * second) (s1\<lparr>bs_generations := Map.empty\<rparr>) = (Inr r, s2)"
proof -
  let ?meta = "\<lparr>sm_Tenant = ''t'', sm_ClusterID = ''c'', sm_GrantRef = ''ops'', sm_Envelope = demo_envelope ''ops''\<rparr>"
  have stored: "\<exists>s'. broker_store demo_broker demo_broker_api (Some (demo_upload 5 ''ops'')) (\<lambda>_. 20 * second) s =
      (Inr (Stored ''credential://among-clusters/t/ops''), s') \<and> bs_generations s' = [''spiffe://d/cluster/c'' \<mapsto> 5]"
    if "bs_generations s = Map.empty" for s :: "(string \<rightharpoonup> secret) broker_state"
    using demo_admit [of "''ops''" s 5] demo_save [of "''ops''" s] that
    by (auto simp: broker_store_def and_then_apply store_record_def broker_gen_def demo_upload_def)
  obtain s1 where first: "broker_store demo_broker demo_broker_api (Some (demo_upload 5 ''ops'')) (\<lambda>_. 20 * second) demo_broker_start =
      (Inr (Stored ''credential://among-clusters/t/ops''), s1)" and s1: "bs_generations s1 = [''spiffe://d/cluster/c'' \<mapsto> 5]"
    using stored [of demo_broker_start] by (auto simp: demo_broker_start_def)
  have "\<exists>text. Verify demo_crypto demo_codec (demo_upload 5 ''ops'') (demo_key ''priv'') ''credential-broker'' (20 * second) 5 None = Some (Msg text)"
    by (simp add: Verify_def demo_upload_def)
  moreover have "cm_Issuer (demo_upload 5 ''ops'') = ''spiffe://d/cluster/c''" "cm_Type (demo_upload 5 ''ops'') = ''credential.store''"
    "cm_Payload (demo_upload 5 ''ops'') = ''ops''"
    by (simp_all add: demo_upload_def)
  ultimately have "fst (broker_store demo_broker demo_broker_api (Some (demo_upload 5 ''ops'')) (\<lambda>_. 20 * second) s1) =
      Inl (BrokerError ''unauthorized'' 401)"
    using s1
    by (auto simp: broker_store_def store_admit_def and_then_apply demo_broker_def demo_broker_codec_def demo_broker_api_def
        broker_identity_def in_world_def broker_check_def map_error_apply map_get_def)
  with first stored [of "s1\<lparr>bs_generations := Map.empty\<rparr>"] show ?thesis by auto
qed

section \<open>Revocations\<close>

definition demo_revocation :: control_message where
  "demo_revocation = \<lparr>cm_Issuer = ''spiffe://d/cluster/c'', cm_Audience = ''credential-broker'',
     cm_Generation = 5, cm_IssuedAt = 10 * second, cm_ExpiresAt = 70 * second, cm_Nonce = ''n'',
     cm_Type = ''credential.revoke'', cm_Payload = ''ops'',
     cm_Signature = RawStd_Encode (demo_key ''priv'' @ ''credential.revoke'' @ ''ops'')\<rparr>"

text \<open>
  A revocation can be replayed: its generation is compared with 0 and not recorded. The same
  message that deleted the credential deletes the one that the cluster stores afterwards, with a
  newer generation, for the same grant.
\<close>

theorem revocation_replayed:
  "\<exists>s1 r s2 s3. broker_revoke demo_broker demo_broker_api (Some demo_revocation) (20 * second) demo_broker_start = (Inr NoContent, s1) \<and>
     broker_store demo_broker demo_broker_api (Some (demo_upload 6 ''ops'')) (\<lambda>_. 20 * second) s1 = (Inr r, s2) \<and>
     bs_world s2 (credentialName ''t'' ''ops'') \<noteq> None \<and>
     broker_revoke demo_broker demo_broker_api (Some demo_revocation) (20 * second) s2 = (Inr NoContent, s3) \<and>
     bs_world s3 (credentialName ''t'' ''ops'') = None"
proof -
  have "Verify demo_crypto demo_codec demo_revocation (demo_key ''priv'') ''credential-broker'' (20 * second) 0 None = None"
    by (simp add: Verify_None_iff demo_revocation_def message_window_def Before_def authentic_def canonical_def
      demo_codec_def ed25519_Verify_def) (simp add: demo_crypto_def)
  moreover have "cm_Issuer demo_revocation = ''spiffe://d/cluster/c''" "cm_Type demo_revocation = ''credential.revoke''"
    "cm_Payload demo_revocation = ''ops''"
    by (simp_all add: demo_revocation_def)
  ultimately have revoked: "broker_revoke demo_broker demo_broker_api (Some demo_revocation) (20 * second) s =
      (Inr NoContent, s\<lparr>bs_world := (bs_world s)(credentialName ''t'' ''ops'' := None)\<rparr>)" for s
    by (simp add: broker_revoke_def and_then_apply demo_broker_def demo_broker_codec_def demo_broker_api_def broker_identity_def
        in_world_def broker_check_def map_error_apply)
  let ?s1 = "demo_broker_start\<lparr>bs_world := (bs_world demo_broker_start)(credentialName ''t'' ''ops'' := None)\<rparr>"
  obtain r s2 where "broker_store demo_broker demo_broker_api (Some (demo_upload 6 ''ops'')) (\<lambda>_. 20 * second) ?s1 = (Inr r, s2)"
    and "bs_world s2 (credentialName ''t'' ''ops'') \<noteq> None"
    using demo_admit [of "''ops''" ?s1 6] demo_save [of "''ops''" ?s1]
    by (auto simp: broker_store_def and_then_apply store_record_def broker_gen_def demo_broker_start_def)
  with revoked [of demo_broker_start] revoked [of s2] show ?thesis by auto
qed

end
