(* ===== verification/Agent_Services.thy ===== *)
theory Agent_Services
  imports Kube Gateway_Tunnel Kubernetes_Store
begin

text \<open>
  The part of the agent (\<open>cmd/agent/main.go\<close>) that turns labelled Services of the cluster into
  the service snapshot for the Hub and the export routes for the gateway:
  \<open>advertisedServices\<close> and \<open>writeGatewayRoutes\<close>.
\<close>

section \<open>Services of the cluster\<close>

record labelled_service =
  ls_Name :: string
  ls_Namespace :: string
  ls_Annotations :: "string \<rightharpoonup> string"
  ls_Generation :: i64
  ls_ClusterIP :: string
  ls_Ports :: "(string \<times> u32) list"

definition splitValues :: "string \<Rightarrow> string list" where
  "splitValues value = filter (\<lambda>item. item \<noteq> []) (map TrimSpace (Split CHR '','' value))"

text \<open>
  The loop over the ports: the first is selected until one has the wanted name, which ends it.
\<close>

fun select_port :: "(string \<times> u32) option \<Rightarrow> string \<Rightarrow> (string \<times> u32) list \<Rightarrow> (string \<times> u32) option" where
  "select_port selected portName [] = selected"
| "select_port selected portName (p # ps) =
     (let wanted = portName \<noteq> [] \<and> fst p = portName;
          selected' = (if selected = None \<or> wanted then Some p else selected)
      in if wanted then selected' else select_port selected' portName ps)"

definition service_ttl :: "string \<Rightarrow> i64" where
  "service_ttl value = (case ParseInt value of (n, ok) \<Rightarrow> if \<not> ok \<or> n < 30 then 60 else of_int n)"

text \<open>\<open>net.JoinHostPort\<close>: an address with a colon is put in brackets.\<close>

definition JoinHostPort :: "string \<Rightarrow> string \<Rightarrow> string" where
  "JoinHostPort host port =
     (if CHR '':'' \<in> set host then ''['' @ host @ '']:'' @ port else host @ '':'' @ port)"

definition format_port :: "u32 \<Rightarrow> string" where
  "format_port p = FormatInt (scast p)"

definition service_target :: "string \<Rightarrow> string \<Rightarrow> u32 \<Rightarrow> string" where
  "service_target name namespace port = name @ ''.'' @ namespace @ ''.svc:'' @ format_port port"

definition gateway_target :: "labelled_service \<Rightarrow> u32 \<Rightarrow> string" where
  "gateway_target s port =
     (if ls_ClusterIP s \<noteq> [] \<and> ls_ClusterIP s \<noteq> ''None'' then JoinHostPort (ls_ClusterIP s) (format_port port)
      else service_target (ls_Name s) (ls_Namespace s) port)"

text \<open>One turn of the loop over the Services; \<open>None\<close> is \<open>continue\<close>.\<close>

definition advertise :: "labelled_service \<Rightarrow> advertised_service option" where
  "advertise s =
     (let annotation = map_get [] (ls_Annotations s);
          protocolName = annotation ''peering.re8ch.com/protocol'';
          serviceClass = annotation ''peering.re8ch.com/service-class'';
          policy = annotation ''peering.re8ch.com/policy-ref'';
          targets = splitValues (annotation ''peering.re8ch.com/target-peers'') in
      if protocolName = [] \<or> serviceClass = [] \<or> policy = [] \<or> targets = [] then None
      else (case select_port None (annotation ''peering.re8ch.com/port-name'') (ls_Ports s) of
          None \<Rightarrow> None
        | Some selected \<Rightarrow>
            Some \<lparr>as_Name = ls_Name s, as_Namespace = ls_Namespace s, as_ServiceClass = serviceClass,
              as_Protocol = protocolName, as_Port = snd selected, as_TargetPeers = targets,
              as_TTLSeconds = service_ttl (annotation ''peering.re8ch.com/ttl-seconds''),
              as_PolicyRef = policy,
              as_Generation = (if sint (ls_Generation s) < 1 then 1 else ls_Generation s),
              as_GatewayTarget = gateway_target s (snd selected)\<rparr>))"

definition advertisedServices :: "labelled_service list \<Rightarrow> advertised_service list" where
  "advertisedServices items = List.map_filter advertise items"

section \<open>Gateway routes\<close>

definition service_identity :: "string \<Rightarrow> string \<Rightarrow> string \<Rightarrow> string" where
  "service_identity trustDomain namespace name =
     ''spiffe://'' @ trustDomain @ ''/ns/'' @ namespace @ ''/service/'' @ name"

definition gateway_route :: "string \<Rightarrow> advertised_service \<Rightarrow> export_route" where
  "gateway_route trustDomain s =
     \<lparr>xr_ServiceIdentity = service_identity trustDomain (as_Namespace s) (as_Name s),
      xr_Target = (if as_GatewayTarget s = [] then service_target (as_Name s) (as_Namespace s) (as_Port s)
        else as_GatewayTarget s),
      xr_TargetPeers = as_TargetPeers s\<rparr>"

definition gateway_routes :: "string \<Rightarrow> advertised_service list \<Rightarrow> export_route list" where
  "gateway_routes trustDomain services = map (gateway_route trustDomain) services"

section \<open>Lemmas\<close>

lemma select_port_find:
  "select_port None portName ps =
     (if ps = [] then None
      else Some (case find (\<lambda>p. portName \<noteq> [] \<and> fst p = portName) ps of Some p \<Rightarrow> p | None \<Rightarrow> hd ps))"
proof -
  have later: "select_port (Some q) portName ps =
      Some (case find (\<lambda>p. portName \<noteq> [] \<and> fst p = portName) ps of Some p \<Rightarrow> p | None \<Rightarrow> q)" for q ps
    by (induction ps) (auto simp: Let_def)
  show ?thesis
    by (cases ps) (auto simp: Let_def later split: option.splits)
qed

lemma advertisedServices_iff: "a \<in> set (advertisedServices items) \<longleftrightarrow> (\<exists>s \<in> set items. advertise s = Some a)"
  unfolding advertisedServices_def
  by (induction items) (auto simp: List.map_filter_simps split: option.splits)

lemma service_ttl_value:
  "sint (service_ttl value) = (case ParseInt value of (ttl, ok) \<Rightarrow> if ok \<and> 30 \<le> ttl then ttl else 60)"
proof (cases "ParseInt value")
  case (Pair n ok)
  from ParseInt_range [OF this] have "sint (of_int n :: i64) = n"
    by (intro sint_of_int_small) simp_all
  with Pair show ?thesis
    by (simp add: service_ttl_def)
qed

text \<open>What a published service owes to the labelled Service it stands for.\<close>

abbreviation noted :: "labelled_service \<Rightarrow> string \<Rightarrow> string" where
  "noted s key \<equiv> map_get [] (ls_Annotations s) (''peering.re8ch.com/'' @ key)"

definition annotated_port :: "labelled_service \<Rightarrow> string \<times> u32" where
  "annotated_port s =
     (case find (\<lambda>p. noted s ''port-name'' \<noteq> [] \<and> fst p = noted s ''port-name'') (ls_Ports s) of
        Some p \<Rightarrow> p
      | None \<Rightarrow> hd (ls_Ports s))"

definition service_address :: "labelled_service \<Rightarrow> string" where
  "service_address s =
     (let port = FormatInt (scast (snd (annotated_port s))) in
      if ls_ClusterIP s = [] \<or> ls_ClusterIP s = ''None'' then ls_Name s @ ''.'' @ ls_Namespace s @ ''.svc:'' @ port
      else if CHR '':'' \<in> set (ls_ClusterIP s) then ''['' @ ls_ClusterIP s @ '']:'' @ port
      else ls_ClusterIP s @ '':'' @ port)"

definition named_peers :: "labelled_service \<Rightarrow> string list" where
  "named_peers s = filter (\<lambda>peer. peer \<noteq> []) (map TrimSpace (Split CHR '','' (noted s ''target-peers'')))"

definition published_as :: "labelled_service \<Rightarrow> advertised_service \<Rightarrow> bool" where
  "published_as s a \<longleftrightarrow>
     as_Name a = ls_Name s \<and> as_Namespace a = ls_Namespace s \<and>
     as_Protocol a = noted s ''protocol'' \<and> as_ServiceClass a = noted s ''service-class'' \<and>
     as_PolicyRef a = noted s ''policy-ref'' \<and> as_TargetPeers a = named_peers s \<and>
     as_Port a = snd (annotated_port s) \<and> as_GatewayTarget a = service_address s \<and>
     sint (as_TTLSeconds a) = (case ParseInt (noted s ''ttl-seconds'') of (ttl, ok) \<Rightarrow> if ok \<and> 30 \<le> ttl then ttl else 60) \<and>
     sint (as_Generation a) = max 1 (sint (ls_Generation s))"

definition publishable :: "labelled_service \<Rightarrow> bool" where
  "publishable s \<longleftrightarrow> noted s ''protocol'' \<noteq> [] \<and> noted s ''service-class'' \<noteq> [] \<and> noted s ''policy-ref'' \<noteq> [] \<and>
     named_peers s \<noteq> [] \<and> ls_Ports s \<noteq> []"

lemma advertise_iff: "advertise s = Some a \<longleftrightarrow> publishable s \<and> published_as s a"
proof -
  have gen: "sint (if sint g < 1 then 1 else g) = max 1 (sint g)" for g :: i64
    by simp
  have ext: "a = b \<longleftrightarrow> as_Name a = as_Name b \<and> as_Namespace a = as_Namespace b \<and> as_Protocol a = as_Protocol b \<and>
      as_ServiceClass a = as_ServiceClass b \<and> as_PolicyRef a = as_PolicyRef b \<and> as_TargetPeers a = as_TargetPeers b \<and>
      as_Port a = as_Port b \<and> as_GatewayTarget a = as_GatewayTarget b \<and>
      sint (as_TTLSeconds a) = sint (as_TTLSeconds b) \<and> sint (as_Generation a) = sint (as_Generation b)" for a b :: advertised_service
    by (cases a; cases b) (auto intro: signed_word_eqI)
  have target: "gateway_target s (snd (annotated_port s)) = service_address s"
    by (simp add: gateway_target_def service_address_def JoinHostPort_def service_target_def format_port_def Let_def)
  have port: "select_port None (noted s ''port-name'') (ls_Ports s) = (if ls_Ports s = [] then None else Some (annotated_port s))"
    unfolding annotated_port_def by (rule select_port_find)
  show ?thesis
  proof (cases "publishable s")
    case True
    let ?b = "\<lparr>as_Name = ls_Name s, as_Namespace = ls_Namespace s, as_ServiceClass = noted s ''service-class'',
        as_Protocol = noted s ''protocol'', as_Port = snd (annotated_port s), as_TargetPeers = named_peers s,
        as_TTLSeconds = service_ttl (noted s ''ttl-seconds''), as_PolicyRef = noted s ''policy-ref'',
        as_Generation = (if sint (ls_Generation s) < 1 then 1 else ls_Generation s), as_GatewayTarget = service_address s\<rparr>"
    from True have "advertise s = Some ?b"
      using port target by (simp add: advertise_def publishable_def Let_def splitValues_def named_peers_def)
    then have "advertise s = Some a \<longleftrightarrow> a = ?b" by auto
    also have "\<dots> \<longleftrightarrow> published_as s a"
      unfolding ext [of a] published_as_def by (simp add: service_ttl_value gen conj_ac)
    finally show ?thesis using True by simp
  next
    case False
    then show ?thesis
      using port by (auto simp: advertise_def publishable_def Let_def splitValues_def named_peers_def)
  qed
qed


definition demo_labelled :: labelled_service where
  "demo_labelled = \<lparr>ls_Name = ''pg'', ls_Namespace = ''db'',
     ls_Annotations = [''peering.re8ch.com/protocol'' \<mapsto> ''tcp'', ''peering.re8ch.com/service-class'' \<mapsto> ''db'',
       ''peering.re8ch.com/policy-ref'' \<mapsto> ''pol'', ''peering.re8ch.com/target-peers'' \<mapsto> ''p, q'',
       ''peering.re8ch.com/port-name'' \<mapsto> ''sql''],
     ls_Generation = 0, ls_ClusterIP = ''10.0.0.7'', ls_Ports = [(''http'', 80), (''sql'', 5432)]\<rparr>"

lemma demo_targets: "splitValues ''p, q'' = [''p'', ''q'']"
  by code_simp

lemma demo_advertised:
  "advertise demo_labelled = Some \<lparr>as_Name = ''pg'', as_Namespace = ''db'', as_ServiceClass = ''db'', as_Protocol = ''tcp'',
     as_Port = 5432, as_TargetPeers = [''p'', ''q''], as_TTLSeconds = 60, as_PolicyRef = ''pol'', as_Generation = 1,
     as_GatewayTarget = gateway_target demo_labelled 5432\<rparr>"
  by (simp add: advertise_def demo_labelled_def Let_def demo_targets service_ttl_def ParseInt_def)


text \<open>
  The lifetime has no upper bound on the way: a Service annotated with more than a day is
  published so, and the Hub's check lets it pass, while the schema of the stored
  advertisement allows at most 86400 seconds. The API server refuses it, and with it the rest of
  the snapshot.
\<close>

theorem lifetime_over_the_schema:
  "\<exists>a. advertisedServices [demo_labelled\<lparr>ls_Annotations := (ls_Annotations demo_labelled)(''peering.re8ch.com/ttl-seconds'' \<mapsto> ''90000'')\<rparr>] = [a] \<and>
     \<not> malformed_service a \<and> 86400 < sint (as_TTLSeconds a)"
proof -
  have "ParseInt ''90000'' = (90000, True)" by (simp add: ParseInt_def)
  then show ?thesis
    by (simp add: advertisedServices_def List.map_filter_simps advertise_def demo_labelled_def Let_def demo_targets
        service_ttl_def malformed_service_def)
qed

section \<open>The routes of the published services\<close>

lemma resolved_routes_distinct:
  assumes "distinct (map xr_ServiceIdentity rs)" and "r \<in> set rs"
  shows "resolved_routes m (Some rs) (xr_ServiceIdentity r) = Some r"
proof -
  have keep: "x \<notin> xr_ServiceIdentity ` set qs \<Longrightarrow> fold add_route qs n x = n x" for qs n x
    by (induction qs arbitrary: n) (simp_all add: add_route_def)
  from assms have "fold add_route rs m (xr_ServiceIdentity r) = Some r"
  proof (induction rs arbitrary: m)
    case (Cons q rs)
    then show ?case
      by (auto simp: keep) (auto simp: add_route_def)
  qed simp
  then show ?thesis
    by (simp add: resolved_routes_def readExportFile_def)
qed

lemma service_identity_inj:
  assumes "service_identity d n s = service_identity d n' s'" and "CHR ''/'' \<notin> set n" "CHR ''/'' \<notin> set n'"
  shows "n = n' \<and> s = s'"
proof -
  from assms(1) have "n @ CHR ''/'' # (''service/'' @ s) = n' @ CHR ''/'' # (''service/'' @ s')"
    by (simp add: service_identity_def)
  with assms(2,3) show ?thesis
    by (simp add: append_eq_append_conv2 append_eq_Cons_conv Cons_eq_append_conv) (auto simp: append_eq_Cons_conv)
qed

lemma advertised_distinct:
  assumes "distinct (map (\<lambda>s. (ls_Namespace s, ls_Name s)) items)"
  shows "distinct (map (\<lambda>a. (as_Namespace a, as_Name a)) (advertisedServices items))"
  using assms
proof (induction items)
  case (Cons s items)
  then have rest: "distinct (map (\<lambda>a. (as_Namespace a, as_Name a)) (advertisedServices items))" by simp
  show ?case
  proof (cases "advertise s")
    case (Some a)
    then have a: "as_Name a = ls_Name s" "as_Namespace a = ls_Namespace s"
      by (simp_all add: advertise_iff published_as_def)
    have "(as_Namespace b, as_Name b) \<noteq> (as_Namespace a, as_Name a)" if b: "b \<in> set (advertisedServices items)" for b
    proof -
      from b obtain s' where "s' \<in> set items" "as_Name b = ls_Name s'" "as_Namespace b = ls_Namespace s'"
        unfolding advertisedServices_iff advertise_iff published_as_def by blast
      with Cons.prems a show ?thesis by force
    qed
    with rest Some show ?thesis
      by (force simp: advertisedServices_def List.map_filter_simps)
  qed (use rest in \<open>simp add: advertisedServices_def List.map_filter_simps\<close>)
qed (simp add: advertisedServices_def List.map_filter_simps)

lemma routes_of_published:
  assumes "distinct (map (\<lambda>s. (as_Namespace s, as_Name s)) services)" and "s \<in> set services"
    and "\<And>s. s \<in> set services \<Longrightarrow> CHR ''/'' \<notin> set (as_Namespace s)"
  shows "resolved_routes m (Some (gateway_routes trustDomain services))
      (service_identity trustDomain (as_Namespace s) (as_Name s)) = Some (gateway_route trustDomain s)"
proof -
  let ?route = "gateway_route trustDomain"
  have "distinct (map (xr_ServiceIdentity \<circ> ?route) services)"
    using assms(1,3)
    by (auto simp: distinct_map inj_on_def gateway_route_def dest: service_identity_inj)
  then have "distinct (map xr_ServiceIdentity (map ?route services))"
    by simp
  moreover have "?route s \<in> set (map ?route services)"
    using assms(2) by simp
  ultimately have "resolved_routes m (Some (map ?route services)) (xr_ServiceIdentity (?route s)) = Some (?route s)"
    by (rule resolved_routes_distinct)
  then show ?thesis
    by (simp add: gateway_routes_def gateway_route_def)
qed

text \<open>
  C27: a published service is reached under the name the Hub gives it. When the publisher's
  gateway serves the routes that the agent writes for the labelled Services of the cluster, a
  stream that opens with the identity of the Hub's advertisement of one of them is copied to the
  ClusterIP, or else the DNS name, of that Service and its annotated port, whatever other
  Services are published, if the peer is one of the Service's annotated peers (or these include
  "*") and the Service accepts the connection; any other peer is refused.
\<close>

theorem published_service_reachable:
  assumes "s \<in> set items" and "advertise s = Some a"
    and "distinct (map (\<lambda>s. (ls_Namespace s, ls_Name s)) items)"
    and "\<And>s. s \<in> set items \<Longrightarrow> CHR ''/'' \<notin> set (ls_Namespace s)"
    and "length (ad_serviceIdentity (advertisement_for j tenant issuer ident now a targets)) \<le> 2048"
  shows "handleExport routes (Some (gateway_routes (id_TrustDomain ident) (advertisedServices items))) peerIdentities dial peer
      (identity_frame (ad_serviceIdentity (advertisement_for j tenant issuer ident now a targets)) @ bytes) =
    (if \<not> (''*'' \<in> set (named_peers s) \<or>
            (\<exists>p \<in> set (named_peers s). \<exists>allowed \<in> set (map_get [] peerIdentities p).
               canonicalIdentity allowed = canonicalIdentity peer))
     then OutsideTargetPeers (''spiffe://'' @ id_TrustDomain ident @ ''/ns/'' @ ls_Namespace s @ ''/service/'' @ ls_Name s)
     else if dial (service_address s) then Proxied (service_address s) bytes
     else UpstreamUnreachable (service_address s))"
proof -
  let ?identity = "ad_serviceIdentity (advertisement_for j tenant issuer ident now a targets)"
  from assms(2) have a: "publishable s" "as_Name a = ls_Name s" "as_Namespace a = ls_Namespace s"
      "as_TargetPeers a = named_peers s" "as_GatewayTarget a = service_address s"
    by (simp_all add: advertise_iff published_as_def)
  have identity: "?identity = service_identity (id_TrustDomain ident) (as_Namespace a) (as_Name a)"
    by (simp add: advertisement_for_def service_identity_def)
  have member: "a \<in> set (advertisedServices items)"
    using assms(1,2) by (auto simp: advertisedServices_iff)
  have slashes: "CHR ''/'' \<notin> set (as_Namespace b)" if "b \<in> set (advertisedServices items)" for b
    using that assms(4) unfolding advertisedServices_iff advertise_iff published_as_def by auto
  have "service_address s \<noteq> []"
    by (simp add: service_address_def Let_def)
  with a have route: "gateway_route (id_TrustDomain ident) a =
      \<lparr>xr_ServiceIdentity = service_identity (id_TrustDomain ident) (ls_Namespace s) (ls_Name s),
       xr_Target = service_address s, xr_TargetPeers = named_peers s\<rparr>"
    by (simp add: gateway_route_def)
  note resolved = routes_of_published [OF advertised_distinct [OF assms(3)] member slashes, of routes "id_TrustDomain ident"]
  have frame: "read_frame (identity_frame ?identity @ bytes) = Frame ?identity bytes"
    by (rule frame_roundtrip [OF _ assms(5)]) (simp add: advertisement_for_def)
  have beat: "?identity \<noteq> sessionHeartbeatIdentity"
    by (simp add: advertisement_for_def sessionHeartbeatIdentity_def)
  show ?thesis
    unfolding handleExport_def frame using beat
    by (simp add: identity resolved route routeAllowsIdentity_iff) (auto simp: service_identity_def)
qed

definition demo_second :: labelled_service where
  "demo_second = demo_labelled\<lparr>ls_Name := ''mq'', ls_ClusterIP := ''None''\<rparr>"

theorem published_service_reachable_witness:
  "\<exists>a. advertise demo_labelled = Some a \<and>
     handleExport Map.empty (Some (gateway_routes (id_TrustDomain demo_identity) (advertisedServices [demo_labelled, demo_second])))
       [''q'' \<mapsto> [''spiffe://e/cluster/e/'']] (\<lambda>_. True) ''spiffe://e/cluster/e''
       (identity_frame (ad_serviceIdentity (advertisement_for demo_codec ''t'' ''c'' demo_identity 0 a [''p''])) @ ''ping'') =
     Proxied ''10.0.0.7:5432'' ''ping''"
proof -
  obtain a where a: "advertise demo_labelled = Some a" and fields: "as_Name a = ''pg''" "as_Namespace a = ''db''"
    using demo_advertised by simp
  then have short: "length (ad_serviceIdentity (advertisement_for demo_codec ''t'' ''c'' demo_identity 0 a [''p''])) \<le> 2048"
    by (simp add: advertisement_for_def demo_identity_def)
  have peers: "named_peers demo_labelled = [''p'', ''q'']"
    using demo_targets by (simp add: named_peers_def demo_labelled_def splitValues_def)
  have "FormatInt 5432 = ''5432''" by (simp add: FormatInt_def decimal.simps char_of_def bit_0)
  then have address: "service_address demo_labelled = ''10.0.0.7:5432''"
    by (simp add: service_address_def annotated_port_def demo_labelled_def Let_def)
  have "distinct (map (\<lambda>s. (ls_Namespace s, ls_Name s)) [demo_labelled, demo_second])"
    "\<And>s. s \<in> set [demo_labelled, demo_second] \<Longrightarrow> CHR ''/'' \<notin> set (ls_Namespace s)"
    by (auto simp: demo_labelled_def demo_second_def)
  from published_service_reachable [of demo_labelled "[demo_labelled, demo_second]", OF _ a this short, of Map.empty "[''q'' \<mapsto> [''spiffe://e/cluster/e/'']]" "\<lambda>_. True" "''spiffe://e/cluster/e''" "''ping''"]
  show ?thesis
    using a by (auto simp: peers address canonicalIdentity_def TrimSuffix_def HasSuffix_def)
qed

end
