(* ===== verification/Identity.thy ===== *)
theory Identity
  imports Protocol
begin

text \<open>
  Workload identities (\<open>internal/identity/identity.go\<close>): a cluster's Ed25519 key is the root of its
  own trust bundle, and short-lived leaf certificates carry its SPIFFE identity. X.509, PEM and
  PKCS 8 are the parameter \<open>x509\<close>, the random draws of a call the record \<open>identity_draws\<close>
  (\<open>None\<close> is a failing source).
\<close>

text \<open>The fields of \<open>x509.Certificate\<close> that the code sets or reads, in templates and parsed.\<close>

record certificate =
  ce_SerialNumber :: nat
  ce_CommonName :: string
  ce_NotBefore :: time
  ce_NotAfter :: time
  ce_IsCA :: bool
  ce_URIs :: "string list"
  ce_KeyUsage :: "string list"
  ce_ExtKeyUsage :: "string list"
  ce_BasicConstraintsValid :: bool
  ce_PublicKey :: "string option"

text \<open>
  \<open>x_create\<close> takes the template, the parent, the subject's public key and the issuer's private
  key; \<open>pem_decode\<close> gives the type and the bytes of the first block; \<open>add_years\<close> is \<open>AddDate\<close>.
\<close>

record x509 =
  x_create :: "certificate \<Rightarrow> certificate \<Rightarrow> string \<Rightarrow> string \<Rightarrow> string option"
  x_parse :: "string \<Rightarrow> certificate option"
  pem_encode :: "string \<Rightarrow> string \<Rightarrow> string"
  pem_decode :: "string \<Rightarrow> (string \<times> string) option"
  pkcs8 :: "string \<Rightarrow> string option"
  uri_parse :: "string \<Rightarrow> string option"
  add_years :: "time \<Rightarrow> nat \<Rightarrow> time"
  key_pair_ok :: "string \<Rightarrow> string \<Rightarrow> bool"
  pool_ok :: "string \<Rightarrow> bool"

record tls_material =
  tm_PrivateKey :: string
  tm_PublicKey :: string
  tm_CertificatePEM :: string
  tm_PrivateKeyPEM :: string
  tm_BundlePEM :: string
  tm_BundleDigest :: string

record identity_draws =
  dr_RootKey :: "string option"
  dr_RootSerial :: "nat option"
  dr_LeafSerial :: "nat option"
  dr_LeafKey :: "string option"

section \<open>Issuing\<close>

definition or_error :: "'a option \<Rightarrow> string \<Rightarrow> ('a \<Rightarrow> go_error + 'b) \<Rightarrow> go_error + 'b" where
  "or_error x message k = (case x of None \<Rightarrow> Inl (Msg message) | Some v \<Rightarrow> k v)"

definition leaf_template :: "nat \<Rightarrow> string \<Rightarrow> string \<Rightarrow> time \<Rightarrow> certificate" where
  "leaf_template serial spiffe uri now =
     \<lparr>ce_SerialNumber = serial, ce_CommonName = spiffe, ce_NotBefore = now - minute, ce_NotAfter = now + 24 * hour,
      ce_IsCA = False, ce_URIs = [uri], ce_KeyUsage = [''DigitalSignature''],
      ce_ExtKeyUsage = [''ClientAuth'', ''ServerAuth''], ce_BasicConstraintsValid = True, ce_PublicKey = None\<rparr>"

definition bundle_digest :: "crypto \<Rightarrow> string \<Rightarrow> string" where
  "bundle_digest c bundle = ''sha256:'' @ hex_encode (sha256 c bundle)"

definition issueLeaf :: "x509 \<Rightarrow> crypto \<Rightarrow> string \<Rightarrow> string \<Rightarrow> certificate \<Rightarrow> string \<Rightarrow> time \<Rightarrow> identity_draws \<Rightarrow>
    go_error + tls_material" where
  "issueLeaf x c spiffe rootPrivate root bundle now draws =
     or_error (uri_parse x spiffe) ''parse'' (\<lambda>uri.
     or_error (dr_LeafSerial draws) ''entropy'' (\<lambda>serial.
     or_error (dr_LeafKey draws) ''entropy'' (\<lambda>leafPrivate.
     or_error (x_create x (leaf_template serial spiffe uri now) root (ed25519_public c leafPrivate) rootPrivate)
       ''x509'' (\<lambda>der.
     or_error (pkcs8 x leafPrivate) ''x509'' (\<lambda>keyBytes.
     Inr \<lparr>tm_PrivateKey = rootPrivate, tm_PublicKey = ed25519_public c rootPrivate,
          tm_CertificatePEM = pem_encode x ''CERTIFICATE'' der @ bundle,
          tm_PrivateKeyPEM = pem_encode x ''PRIVATE KEY'' keyBytes, tm_BundlePEM = bundle,
          tm_BundleDigest = bundle_digest c bundle\<rparr>)))))"

definition root_template :: "x509 \<Rightarrow> nat \<Rightarrow> string \<Rightarrow> time \<Rightarrow> certificate" where
  "root_template x serial spiffe now =
     \<lparr>ce_SerialNumber = serial, ce_CommonName = spiffe @ '' root'', ce_NotBefore = now - minute,
      ce_NotAfter = add_years x now 10, ce_IsCA = True, ce_URIs = [],
      ce_KeyUsage = [''DigitalSignature'', ''CertSign'', ''CRLSign''], ce_ExtKeyUsage = [],
      ce_BasicConstraintsValid = True, ce_PublicKey = None\<rparr>"

definition FromPrivateKey :: "x509 \<Rightarrow> crypto \<Rightarrow> string \<Rightarrow> string \<Rightarrow> time \<Rightarrow> identity_draws \<Rightarrow> go_error + tls_material" where
  "FromPrivateKey x c spiffe priv now draws =
     (if length priv \<noteq> 64 then Inl (Msg ''invalid Ed25519 private key'')
      else
        or_error (dr_RootSerial draws) ''entropy'' (\<lambda>serial.
        let template = root_template x serial spiffe now in
        or_error (x_create x template template (ed25519_public c priv) priv) ''x509'' (\<lambda>rootDER.
        or_error (x_parse x rootDER) ''x509'' (\<lambda>root.
        issueLeaf x c spiffe priv root (pem_encode x ''CERTIFICATE'' rootDER) now draws))))"

definition Generate :: "x509 \<Rightarrow> crypto \<Rightarrow> string \<Rightarrow> time \<Rightarrow> identity_draws \<Rightarrow> go_error + tls_material" where
  "Generate x c spiffe now draws =
     or_error (dr_RootKey draws) ''entropy'' (\<lambda>priv. FromPrivateKey x c spiffe priv now draws)"

definition Rotate :: "x509 \<Rightarrow> crypto \<Rightarrow> string \<Rightarrow> string \<Rightarrow> string \<Rightarrow> time \<Rightarrow> identity_draws \<Rightarrow> go_error + tls_material" where
  "Rotate x c spiffe rootPrivate bundle now draws =
     (case pem_decode x bundle of
        None \<Rightarrow> Inl (Msg ''invalid trust bundle'')
      | Some (kind, bytes) \<Rightarrow>
          if kind \<noteq> ''CERTIFICATE'' then Inl (Msg ''invalid trust bundle'')
          else (case x_parse x bytes of
              None \<Rightarrow> Inl (Msg ''invalid root certificate'')
            | Some root \<Rightarrow>
                if \<not> ce_IsCA root then Inl (Msg ''invalid root certificate'')
                else if ce_PublicKey root \<noteq> Some (ed25519_public c rootPrivate)
                  then Inl (Msg ''root key does not match trust bundle'')
                else issueLeaf x c spiffe rootPrivate root bundle now draws))"

text \<open>\<open>certificateExpiresBefore\<close> of the agent: what cannot be read has expired.\<close>

definition certificateExpiresBefore :: "x509 \<Rightarrow> string \<Rightarrow> time \<Rightarrow> bool" where
  "certificateExpiresBefore x bytes deadline =
     (case pem_decode x bytes of
        None \<Rightarrow> True
      | Some (_, block) \<Rightarrow>
          (case x_parse x block of None \<Rightarrow> True | Some certificate \<Rightarrow> Before (ce_NotAfter certificate) deadline))"

section \<open>Properties\<close>

text \<open>
  What is documented of X.509 and PEM: parsing a created certificate gives its template with the
  subject's key and the times cut to the second, and the first block of an encoding followed by
  more text is the one encoded.
\<close>

definition certified :: "certificate \<Rightarrow> string \<Rightarrow> certificate" where
  "certified t pub = t\<lparr>ce_NotBefore := truncate_second (ce_NotBefore t), ce_NotAfter := truncate_second (ce_NotAfter t),
     ce_PublicKey := Some pub\<rparr>"

definition x509_sound :: "x509 \<Rightarrow> bool" where
  "x509_sound x \<longleftrightarrow>
     (\<forall>t p pub priv der. x_create x t p pub priv = Some der \<longrightarrow> x_parse x der = Some (certified t pub)) \<and>
     (\<forall>kind bytes rest. kind \<in> {''CERTIFICATE'', ''PRIVATE KEY''} \<longrightarrow>
        pem_decode x (pem_encode x kind bytes @ rest) = Some (kind, bytes))"

lemma x509_soundD:
  assumes "x509_sound x"
  shows "x_create x t p pub priv = Some der \<Longrightarrow> x_parse x der = Some (certified t pub)"
    and "pem_decode x (pem_encode x ''CERTIFICATE'' bytes @ rest) = Some (''CERTIFICATE'', bytes)"
    and "pem_decode x (pem_encode x ''CERTIFICATE'' bytes) = Some (''CERTIFICATE'', bytes)"
proof -
  from assms have sound: "pem_decode x (pem_encode x ''CERTIFICATE'' bytes @ r) = Some (''CERTIFICATE'', bytes)" for r
    unfolding x509_sound_def by blast
  from sound show "pem_decode x (pem_encode x ''CERTIFICATE'' bytes @ rest) = Some (''CERTIFICATE'', bytes)" .
  from sound [of "[]"] show "pem_decode x (pem_encode x ''CERTIFICATE'' bytes) = Some (''CERTIFICATE'', bytes)" by simp
  show "x_create x t p pub priv = Some der \<Longrightarrow> x_parse x der = Some (certified t pub)"
    using assms unfolding x509_sound_def by blast
qed

lemma or_error_Inr_iff [simp]: "or_error o1 m k = Inr y \<longleftrightarrow> (\<exists>v. o1 = Some v \<and> k v = Inr y)"
  by (simp add: or_error_def split: option.splits)

lemma issueLeaf_Inr:
  assumes "issueLeaf x c spiffe priv root bundle now draws = Inr m"
  obtains serial uri leaf der keyBytes where "uri_parse x spiffe = Some uri" "dr_LeafSerial draws = Some serial"
    "dr_LeafKey draws = Some leaf"
    "x_create x (leaf_template serial spiffe uri now) root (ed25519_public c leaf) priv = Some der"
    "m = \<lparr>tm_PrivateKey = priv, tm_PublicKey = ed25519_public c priv,
       tm_CertificatePEM = pem_encode x ''CERTIFICATE'' der @ bundle,
       tm_PrivateKeyPEM = pem_encode x ''PRIVATE KEY'' keyBytes, tm_BundlePEM = bundle,
       tm_BundleDigest = bundle_digest c bundle\<rparr>"
  using assms by (auto simp: issueLeaf_def)

lemma Rotate_Inr:
  assumes "Rotate x c spiffe priv bundle now draws = Inr m"
  obtains root where "issueLeaf x c spiffe priv root bundle now draws = Inr m" "ce_IsCA root"
    "ce_PublicKey root = Some (ed25519_public c priv)"
  using assms by (auto simp: Rotate_def split: option.splits prod.splits if_splits)

lemma FromPrivateKey_Inr:
  assumes "FromPrivateKey x c spiffe priv now draws = Inr m"
  obtains serial rootDER root where "x_create x (root_template x serial spiffe now) (root_template x serial spiffe now)
      (ed25519_public c priv) priv = Some rootDER" "x_parse x rootDER = Some root" "dr_RootSerial draws = Some serial"
    "issueLeaf x c spiffe priv root (pem_encode x ''CERTIFICATE'' rootDER) now draws = Inr m"
  using assms by (auto simp: FromPrivateKey_def Let_def split: if_splits)

text \<open>What is issued depends on the bundle only through its text: digest, bundle and root key.\<close>

lemma issued_material:
  assumes "x509_sound x" and "issueLeaf x c spiffe priv root bundle now draws = Inr m"
  shows "tm_BundlePEM m = bundle" "tm_BundleDigest m = bundle_digest c bundle" "tm_PublicKey m = ed25519_public c priv"
    "\<exists>uri certificate. uri_parse x spiffe = Some uri \<and>
       (case pem_decode x (tm_CertificatePEM m) of None \<Rightarrow> None | Some (_, der) \<Rightarrow> x_parse x der) = Some certificate \<and>
       ce_URIs certificate = [uri] \<and> ce_NotAfter certificate = truncate_second (now + 24 * hour) \<and> \<not> ce_IsCA certificate"
  using assms(2) by (auto elim!: issueLeaf_Inr simp: x509_soundD [OF assms(1)] certified_def leaf_template_def)

lemma bundle_digest_pattern:
  assumes "sha256_size c"
  shows "digestPattern (bundle_digest c bundle)"
  using assms digestPattern_hex [of "sha256 c bundle"] by (simp add: bundle_digest_def sha256_size_def)

text \<open>
  Rotation succeeds with the key the material was made from: only the sources of randomness or
  the encoders can make it fail.
\<close>

lemma rotate_own_bundle:
  assumes "x509_sound x" and "FromPrivateKey x c spiffe priv now draws = Inr m"
  obtains root where "Rotate x c spiffe priv (tm_BundlePEM m) later draws' = issueLeaf x c spiffe priv root (tm_BundlePEM m) later draws'"
  using assms(2)
  by (auto elim!: FromPrivateKey_Inr
      simp: x509_soundD [OF assms(1)] issued_material(1) [OF assms(1)] Rotate_def certified_def root_template_def)

text \<open>
  C23: material made from a private key can be rotated with the same key at any later time: the
  call is exactly the issue of a new leaf under the old root, the bundle and its digest, which
  the peers have confirmed, and the public key stay the same, and the new leaf carries the SPIFFE
  identity as its only URI, is no authority and lives for 24 hours. The digest has the form the
  Hub accepts.
\<close>

theorem rotation_keeps_the_bundle:
  assumes "x509_sound x" and "sha256_size c" and "FromPrivateKey x c spiffe priv now draws = Inr m"
  shows "digestPattern (tm_BundleDigest m) \<and>
    (\<exists>root. Rotate x c spiffe priv (tm_BundlePEM m) later draws' =
       issueLeaf x c spiffe priv root (tm_BundlePEM m) later draws') \<and>
    (\<forall>m'. Rotate x c spiffe priv (tm_BundlePEM m) later draws' = Inr m' \<longrightarrow>
       tm_BundlePEM m' = tm_BundlePEM m \<and> tm_BundleDigest m' = tm_BundleDigest m \<and> tm_PublicKey m' = tm_PublicKey m \<and>
       (\<exists>uri certificate. uri_parse x spiffe = Some uri \<and>
          (case pem_decode x (tm_CertificatePEM m') of None \<Rightarrow> None | Some (_, der) \<Rightarrow> x_parse x der) = Some certificate \<and>
          ce_URIs certificate = [uri] \<and> ce_NotAfter certificate = truncate_second (later + 24 * hour) \<and>
          \<not> ce_IsCA certificate))"
proof -
  from assms(3) obtain root where made: "issueLeaf x c spiffe priv root (tm_BundlePEM m) now draws = Inr m"
    by (auto elim!: FromPrivateKey_Inr simp: issued_material(1) [OF assms(1)])
  note material = issued_material [OF assms(1) made]
  have "digestPattern (tm_BundleDigest m)"
    unfolding material(2) by (rule bundle_digest_pattern [OF assms(2)])
  moreover have "\<exists>root. Rotate x c spiffe priv (tm_BundlePEM m) later draws' = issueLeaf x c spiffe priv root (tm_BundlePEM m) later draws'"
    using rotate_own_bundle [OF assms(1,3)] by metis
  moreover have "tm_BundlePEM m' = tm_BundlePEM m \<and> tm_BundleDigest m' = tm_BundleDigest m \<and> tm_PublicKey m' = tm_PublicKey m \<and>
      (\<exists>uri certificate. uri_parse x spiffe = Some uri \<and>
          (case pem_decode x (tm_CertificatePEM m') of None \<Rightarrow> None | Some (_, der) \<Rightarrow> x_parse x der) = Some certificate \<and>
          ce_URIs certificate = [uri] \<and> ce_NotAfter certificate = truncate_second (later + 24 * hour) \<and>
          \<not> ce_IsCA certificate)"
    if rotated: "Rotate x c spiffe priv (tm_BundlePEM m) later draws' = Inr m'" for m'
  proof -
    from rotated obtain root' where "issueLeaf x c spiffe priv root' (tm_BundlePEM m) later draws' = Inr m'"
      by (rule Rotate_Inr)
    note fresh = issued_material [OF assms(1) this]
    show ?thesis unfolding fresh(1-3) material(2,3) using fresh(4) by blast
  qed
  ultimately show ?thesis by blast
qed

text \<open>An instance for the witnesses: certificates of one template each, with the key as their text.\<close>

definition demo_spiffe :: string where
  "demo_spiffe = ''spiffe://customer.example/cluster/c1''"

definition demo_root :: certificate where
  "demo_root = \<lparr>ce_SerialNumber = 7, ce_CommonName = demo_spiffe @ '' root'', ce_NotBefore = 0, ce_NotAfter = 10 * 365 * 24 * hour,
     ce_IsCA = True, ce_URIs = [], ce_KeyUsage = [''DigitalSignature'', ''CertSign'', ''CRLSign''], ce_ExtKeyUsage = [],
     ce_BasicConstraintsValid = True, ce_PublicKey = None\<rparr>"

definition demo_frame :: "string \<Rightarrow> string \<Rightarrow> string" where
  "demo_frame kind bytes = hd kind # replicate (length bytes) CHR ''1'' @ ''0'' @ bytes"

definition demo_unframe :: "string \<Rightarrow> (string \<times> string) option" where
  "demo_unframe s = (case s of
     [] \<Rightarrow> None
   | c # r \<Rightarrow> Some (if c = CHR ''C'' then ''CERTIFICATE'' else ''PRIVATE KEY'',
       take (length (takeWhile (\<lambda>b. b = CHR ''1'') r)) (tl (dropWhile (\<lambda>b. b = CHR ''1'') r))))"

definition demo_x509 :: x509 where
  "demo_x509 = \<lparr>x_create = (\<lambda>t p pub priv. if t = demo_root then Some (CHR ''R'' # pub)
       else if t = leaf_template 8 demo_spiffe demo_spiffe minute then Some (CHR ''L'' # pub)
       else if t = leaf_template 9 demo_spiffe demo_spiffe hour then Some (CHR ''M'' # pub) else None),
     x_parse = (\<lambda>der. case der of [] \<Rightarrow> None | c # pub \<Rightarrow>
       Some (certified (if c = CHR ''R'' then demo_root else if c = CHR ''L'' then leaf_template 8 demo_spiffe demo_spiffe minute
         else leaf_template 9 demo_spiffe demo_spiffe hour) pub)),
     pem_encode = demo_frame, pem_decode = demo_unframe, pkcs8 = Some, uri_parse = Some,
     add_years = (\<lambda>t n. t - minute + of_nat n * (365 * 24 * hour)), key_pair_ok = (\<lambda>_ _. True), pool_ok = (\<lambda>_. True)\<rparr>"

lemma takeWhile_replicate_append [simp]:
  "takeWhile (\<lambda>b. b = x) (replicate n x @ y # zs) = (if y = x then replicate n x @ takeWhile (\<lambda>b. b = x) (y # zs) else replicate n x)"
  by (induction n) auto

lemma dropWhile_replicate_append [simp]:
  "y \<noteq> x \<Longrightarrow> dropWhile (\<lambda>b. b = x) (replicate n x @ y # zs) = y # zs"
  by (induction n) auto

lemma demo_x509_sound: "x509_sound demo_x509"
  by (auto simp: x509_sound_def demo_x509_def demo_frame_def demo_unframe_def split: if_splits)

definition demo_draws :: identity_draws where
  "demo_draws = \<lparr>dr_RootKey = Some (replicate 64 CHR ''k''), dr_RootSerial = Some 7, dr_LeafSerial = Some 8,
     dr_LeafKey = Some ''leaf''\<rparr>"

definition demo_material :: tls_material where
  "demo_material = (case FromPrivateKey demo_x509 demo_crypto demo_spiffe (replicate 64 CHR ''k'') minute demo_draws of
     Inl _ \<Rightarrow> \<lparr>tm_PrivateKey = [], tm_PublicKey = [], tm_CertificatePEM = [], tm_PrivateKeyPEM = [], tm_BundlePEM = [], tm_BundleDigest = []\<rparr>
   | Inr m \<Rightarrow> m)"

lemma demo_material:
  "FromPrivateKey demo_x509 demo_crypto demo_spiffe (replicate 64 CHR ''k'') minute demo_draws = Inr demo_material"
  by (simp add: demo_material_def FromPrivateKey_def issueLeaf_def or_error_def demo_draws_def demo_x509_def
      root_template_def demo_root_def Let_def)

theorem rotation_keeps_the_bundle_witness:
  "\<exists>m'. Rotate demo_x509 demo_crypto demo_spiffe (replicate 64 CHR ''k'') (tm_BundlePEM demo_material) hour
      (demo_draws\<lparr>dr_LeafSerial := Some 9\<rparr>) = Inr m' \<and>
     tm_BundlePEM m' = tm_BundlePEM demo_material"
proof -
  note rotated = rotation_keeps_the_bundle [OF demo_x509_sound demo_crypto_size demo_material,
      of hour "demo_draws\<lparr>dr_LeafSerial := Some 9\<rparr>"]
  from rotated obtain root where "Rotate demo_x509 demo_crypto demo_spiffe (replicate 64 CHR ''k'') (tm_BundlePEM demo_material) hour
      (demo_draws\<lparr>dr_LeafSerial := Some 9\<rparr>) = issueLeaf demo_x509 demo_crypto demo_spiffe (replicate 64 CHR ''k'') root
      (tm_BundlePEM demo_material) hour (demo_draws\<lparr>dr_LeafSerial := Some 9\<rparr>)"
    by blast
  then have "\<exists>m'. Rotate demo_x509 demo_crypto demo_spiffe (replicate 64 CHR ''k'') (tm_BundlePEM demo_material) hour
      (demo_draws\<lparr>dr_LeafSerial := Some 9\<rparr>) = Inr m'"
    by (simp add: issueLeaf_def or_error_def demo_draws_def demo_x509_def demo_root_def leaf_template_def)
  with rotated show ?thesis by blast
qed

end
