(* ===== verification/Transport.thy ===== *)
theory Transport
  imports Protocol
begin

text \<open>
  The small packages below the components: the QUIC driver of \<open>internal/transport/quicmtls\<close>, the
  health rule of \<open>internal/health\<close>, the request signatures of \<open>internal/signing\<close>. A session is
  an identity of an unknown type; the parse of an endpoint and the result of a dial are
  arguments.
\<close>

section \<open>The QUIC driver\<close>

record transport_peer =
  tp_ID :: string
  tp_Endpoints :: "string list"

record observation =
  ob_Ready :: bool
  ob_Latency :: duration
  ob_Reason :: string
  ob_ObservedAt :: time

type_synonym 'c driver = "string \<rightharpoonup> 'c"

text \<open>\<open>parse\<close> is \<open>url.Parse\<close>, with the scheme and the host of the URL.\<close>

definition driver_endpoint :: "(string \<Rightarrow> (string \<times> string) option) \<Rightarrow> transport_peer \<Rightarrow> go_error + string" where
  "driver_endpoint parse p =
     (case tp_Endpoints p of
        [] \<Rightarrow> Inl (Msg ''NATUnreachable'')
      | e # _ \<Rightarrow>
          (case parse e of
             None \<Rightarrow> Inl (Msg ''invalid QUIC endpoint'')
           | Some (scheme, host) \<Rightarrow>
               if scheme \<noteq> ''quic'' \<or> host = [] then Inl (Msg ''invalid QUIC endpoint'') else Inr host))"

text \<open>The observation of a probe and its error; the dial ends at \<open>now\<close>, after \<open>start\<close>.\<close>

definition driver_Probe :: "(string \<Rightarrow> (string \<times> string) option) \<Rightarrow> (string \<Rightarrow> go_error option) \<Rightarrow> time \<Rightarrow> time \<Rightarrow>
    transport_peer \<Rightarrow> observation \<times> go_error option" where
  "driver_Probe parse dial start now p =
     (case driver_endpoint parse p of
        Inl e \<Rightarrow> (\<lparr>ob_Ready = False, ob_Latency = 0, ob_Reason = error_text e, ob_ObservedAt = now\<rparr>, Some e)
      | Inr address \<Rightarrow>
          (case dial address of
             Some e \<Rightarrow> (\<lparr>ob_Ready = False, ob_Latency = 0, ob_Reason = ''TransportError'', ob_ObservedAt = now\<rparr>, Some e)
           | None \<Rightarrow> (\<lparr>ob_Ready = True, ob_Latency = go_sub now start, ob_Reason = [], ob_ObservedAt = now\<rparr>, None)))"

definition driver_Establish :: "(string \<Rightarrow> (string \<times> string) option) \<Rightarrow> (string \<Rightarrow> go_error + 'c) \<Rightarrow>
    transport_peer \<Rightarrow> (go_error, unit, 'c driver) prog" where
  "driver_Establish parse dial p sessions =
     (case driver_endpoint parse p of
        Inl e \<Rightarrow> (Inl e, sessions)
      | Inr address \<Rightarrow>
          (case dial address of Inl e \<Rightarrow> (Inl e, sessions) | Inr c \<Rightarrow> (Inr (), sessions(tp_ID p \<mapsto> c))))"

text \<open>\<open>Close\<close> forgets the session and returns what closing it returns.\<close>

definition driver_Close :: "('c \<Rightarrow> go_error option) \<Rightarrow> string \<Rightarrow> (go_error, unit, 'c driver) prog" where
  "driver_Close close i sessions =
     (case sessions i of
        None \<Rightarrow> (Inr (), sessions)
      | Some c \<Rightarrow> (case close c of None \<Rightarrow> Inr () | Some e \<Rightarrow> Inl e, sessions(i := None)))"

definition driver_Observe :: "string \<Rightarrow> time \<Rightarrow> 'c driver \<Rightarrow> observation" where
  "driver_Observe i now sessions =
     \<lparr>ob_Ready = (sessions i \<noteq> None), ob_Latency = 0, ob_Reason = [], ob_ObservedAt = now\<rparr>"

section \<open>Health\<close>

datatype health = Alive | Degraded | Unreachable | Suspended

text \<open>The states from good to bad, as the linear order of the type.\<close>

primrec severity :: "health \<Rightarrow> nat" where
  "severity Alive = 0"
| "severity Degraded = 1"
| "severity Unreachable = 2"
| "severity Suspended = 3"

lemma severity_eq_iff [simp]: "severity a = severity b \<longleftrightarrow> a = b"
  by (cases a; cases b) simp_all

instantiation health :: linorder
begin

definition less_eq_health :: "health \<Rightarrow> health \<Rightarrow> bool" where
  "less_eq_health a b \<longleftrightarrow> severity a \<le> severity b"

definition less_health :: "health \<Rightarrow> health \<Rightarrow> bool" where
  "less_health a b \<longleftrightarrow> severity a < severity b"

instance
  by standard (auto simp: less_eq_health_def less_health_def antisym)

end

definition Evaluate :: "time \<Rightarrow> time \<Rightarrow> bool \<Rightarrow> health" where
  "Evaluate lastHeartbeat now suspended =
     (if suspended then Suspended
      else (let age = go_sub now lastHeartbeat in
        if age \<le> 45 * second then Alive else if age \<le> 180 * second then Degraded else Unreachable))"

section \<open>Request signatures\<close>

text \<open>Eight bytes, most significant first (\<open>binary.BigEndian.PutUint64\<close>).\<close>

definition put_uint64 :: "u64 \<Rightarrow> string" where
  "put_uint64 n = map (\<lambda>i. char_of (unat n div 256 ^ i mod 256)) [7, 6, 5, 4, 3, 2, 1, 0]"

definition request_digest :: "crypto \<Rightarrow> codec \<Rightarrow> time \<Rightarrow> u64 \<Rightarrow> string \<Rightarrow> string" where
  "request_digest c j timestamp n body =
     sha256 c (rfc3339nano_format j timestamp @ put_uint64 n @ body)"

definition signing_Sign :: "crypto \<Rightarrow> codec \<Rightarrow> string \<Rightarrow> time \<Rightarrow> u64 \<Rightarrow> string \<Rightarrow> string" where
  "signing_Sign c j key timestamp n body =
     RawStd_Encode (ed25519_sign c key (request_digest c j timestamp n body))"

definition signing_Verify :: "crypto \<Rightarrow> codec \<Rightarrow> string \<Rightarrow> time \<Rightarrow> u64 \<Rightarrow> string \<Rightarrow> string \<Rightarrow> time \<Rightarrow>
    duration \<Rightarrow> go_error option" where
  "signing_Verify c j key timestamp n body signature now maxSkew =
     (if Before timestamp (now - maxSkew) \<or> Before (now + maxSkew) timestamp
        then Some (Msg ''timestamp outside accepted clock skew'')
      else (case RawStd_Decode signature of
          None \<Rightarrow> Some (Wrapped ''decode signature'' (Msg ''illegal base64 data''))
        | Some sig \<Rightarrow>
            (case ed25519_Verify c key (request_digest c j timestamp n body) sig of
               None \<Rightarrow> Some (Panic ''ed25519: bad public key length'')
             | Some ok \<Rightarrow> if ok then None else Some (Msg ''invalid signature''))))"

section \<open>Properties\<close>

text \<open>
  A request signed by \<open>Sign\<close> is accepted by \<open>Verify\<close> under the matching key exactly while
  the clocks differ by at most the accepted skew, in either direction.
\<close>

theorem signing_roundtrip:
  assumes "ed25519_sound c"
  shows "signing_Verify c j (ed25519_public c priv) t n body (signing_Sign c j priv t n body) now skew = None \<longleftrightarrow>
    \<bar>now - t\<bar> \<le> skew"
  using assms
  by (auto simp: signing_Verify_def signing_Sign_def ed25519_Verify_def ed25519_sound_def Before_def)

theorem signing_roundtrip_witness:
  "signing_Verify demo_crypto demo_codec (demo_key ''k'') 100 7 ''body'' (signing_Sign demo_crypto demo_codec ''k'' 100 7 ''body'') 160 60 = None"
  using signing_roundtrip [OF demo_crypto_sound, of demo_codec "''k''" 100 7 "''body''" 160 60]
  by (simp add: demo_crypto_def)

text \<open>
  The health of a cluster only gets worse while no heartbeat arrives: it is Alive up to 45
  seconds after the last heartbeat (also for a clock that lags behind), Degraded up to 180
  seconds and Unreachable afterwards, for every clock reading.
\<close>

theorem Evaluate_by_age:
  "Evaluate hb now False =
    (if now - hb \<le> 45 * second then Alive else if now - hb \<le> 180 * second then Degraded else Unreachable)"
  using go_sub_le_iff [of "45 * second" now hb] go_sub_le_iff [of "180 * second" now hb]
  by (simp add: Evaluate_def Let_def)

text \<open>Without a heartbeat the state never gets better, and a later heartbeat never makes it worse.\<close>

theorem Evaluate_monotone:
  assumes "hb' \<le> hb" and "now \<le> now'"
  shows "Evaluate hb now suspended \<le> Evaluate hb' now' suspended"
proof -
  have "go_sub now hb \<le> go_sub now' hb'"
    using assms by (auto simp: go_sub_def)
  then show ?thesis
    by (auto simp: Evaluate_def Let_def less_eq_health_def)
qed

end
