(* ===== verification/Agent.thy ===== *)
theory Agent
  imports Agent_Services Broker Hub_Server Identity Transport
begin

text \<open>
  The agent (\<open>cmd/agent/main.go\<close>): its configuration, its identity Secret, its registration with
  the Hub and the signed messages it sends. Its state is the generation of the last message
  (\<open>st_sequence\<close>); the API server of its cluster, the Hub and the broker over HTTP, random
  draws, QUIC connections and the clock are the parameter \<open>'w agent_api\<close>, the JSON of the payloads
  and the parse of URLs are the parameter \<open>agent_codec\<close>. Certificates are those of \<open>Identity\<close>,
  envelopes those of \<open>Envelope\<close>, the probe of a peer that of \<open>Transport\<close>.
\<close>

record link_target =
  lt_LinkRef :: string
  lt_PeerRef :: string
  lt_Endpoint :: string
  lt_ExpectedSPIFFEID :: string

datatype control_payload =
    HeartbeatPayload nat time
  | SnapshotPayload "advertised_service list"
  | PollPayload
  | ConfirmPayload bundle_confirmation
  | ObservePayload link_observation
  | FulfillPayload grant_fulfillment
  | UploadPayload string string string envelope
  | RevokePayload string string string

record agent_codec =
  json_payload :: "control_payload \<Rightarrow> string"
  json_routes :: "export_route list \<Rightarrow> string"
  json_grants :: "string \<Rightarrow> grant_instruction list option"
  json_confirmations :: "string \<Rightarrow> bundle_confirmation list option"
  json_links :: "string \<Rightarrow> link_target list option"
  parse_url :: "string \<Rightarrow> (string \<times> string) option"

text \<open>The libraries the agent is built with, as one argument.\<close>

record agent_libs =
  al_crypto :: crypto
  al_codec :: codec
  al_agent_codec :: agent_codec
  al_x509 :: x509
  al_ecies :: ecies

record agent =
  at_libs :: agent_libs
  at_clusterID :: string
  at_tenant :: string
  at_trustDomain :: string
  at_endpoint :: string
  at_namespace :: string
  at_secretName :: string
  at_gatewayEndpoint :: string
  at_brokerEndpoint :: string
  at_tlsServerName :: string
  at_key :: string
  at_confirmations :: "bundle_confirmation list"
  at_links :: "link_target list"

abbreviation at_crypto :: "agent \<Rightarrow> crypto" where "at_crypto a \<equiv> al_crypto (at_libs a)"
abbreviation at_codec :: "agent \<Rightarrow> codec" where "at_codec a \<equiv> al_codec (at_libs a)"
abbreviation at_agent_codec :: "agent \<Rightarrow> agent_codec" where "at_agent_codec a \<equiv> al_agent_codec (at_libs a)"
abbreviation at_x509 :: "agent \<Rightarrow> x509" where "at_x509 a \<equiv> al_x509 (at_libs a)"
abbreviation at_ecies :: "agent \<Rightarrow> ecies" where "at_ecies a \<equiv> al_ecies (at_libs a)"

record config_map =
  cf_Meta :: object_meta
  cf_Data :: "string \<rightharpoonup> string"

record kube_role =
  ro_Meta :: object_meta
  ro_Rules :: "access_rule list"

record role_binding =
  rb_Meta :: object_meta
  rb_RoleKind :: string
  rb_RoleName :: string
  rb_SubjectName :: string
  rb_SubjectNamespace :: string

text \<open>An HTTP answer: status, status text, and the body, unless reading it failed.\<close>

record http_response =
  hr_Status :: nat
  hr_StatusText :: string
  hr_Body :: "string option"

text \<open>
  Namespaced requests take the namespace first, HTTP requests the URL. The message of \<open>post_hub\<close>,
  \<open>post_store\<close> and \<open>post_revoke\<close> is sent as JSON; \<open>post_store\<close> gives the decoded credential
  reference of the answer. \<open>dial_quic\<close> dials an address with a certificate, its key and the peer
  bundle: what the peer presents (whether its chain verifies against the bundle, its URI names;
  \<open>None\<close> for no certificate), or the error of the connection.
\<close>

record 'w agent_api =
  at_now :: "'w \<Rightarrow> time \<times> 'w"
  sec_get :: "string \<Rightarrow> string \<Rightarrow> (go_error, secret, 'w) prog"
  sec_create :: "string \<Rightarrow> secret \<Rightarrow> (go_error, unit, 'w) prog"
  sec_update :: "string \<Rightarrow> secret \<Rightarrow> (go_error, unit, 'w) prog"
  list_advertised :: "(go_error, labelled_service list, 'w) prog"
  cfg_get :: "string \<Rightarrow> string \<Rightarrow> (go_error, config_map, 'w) prog"
  cfg_create :: "string \<Rightarrow> config_map \<Rightarrow> (go_error, unit, 'w) prog"
  cfg_update :: "string \<Rightarrow> config_map \<Rightarrow> (go_error, unit, 'w) prog"
  sa_create :: "string \<Rightarrow> object_meta \<Rightarrow> (go_error, unit, 'w) prog"
  sa_delete :: "string \<Rightarrow> string \<Rightarrow> (go_error, unit, 'w) prog"
  sa_token :: "string \<Rightarrow> string \<Rightarrow> int \<Rightarrow> (go_error, string \<times> time, 'w) prog"
  crole_get :: "string \<Rightarrow> (go_error, kube_role, 'w) prog"
  crole_create :: "kube_role \<Rightarrow> (go_error, unit, 'w) prog"
  crole_update :: "kube_role \<Rightarrow> (go_error, unit, 'w) prog"
  crole_delete :: "string \<Rightarrow> (go_error, unit, 'w) prog"
  cbind_create :: "role_binding \<Rightarrow> (go_error, unit, 'w) prog"
  cbind_delete :: "string \<Rightarrow> (go_error, unit, 'w) prog"
  role_get :: "string \<Rightarrow> string \<Rightarrow> (go_error, kube_role, 'w) prog"
  role_create :: "string \<Rightarrow> kube_role \<Rightarrow> (go_error, unit, 'w) prog"
  role_update :: "string \<Rightarrow> kube_role \<Rightarrow> (go_error, unit, 'w) prog"
  role_delete :: "string \<Rightarrow> string \<Rightarrow> (go_error, unit, 'w) prog"
  bind_create :: "string \<Rightarrow> role_binding \<Rightarrow> (go_error, unit, 'w) prog"
  bind_delete :: "string \<Rightarrow> string \<Rightarrow> (go_error, unit, 'w) prog"
  post_accept :: "string \<Rightarrow> invitation_acceptance \<Rightarrow> (go_error, http_response, 'w) prog"
  post_hub :: "string \<Rightarrow> control_message \<Rightarrow> (go_error, http_response, 'w) prog"
  get_broker_key :: "string \<Rightarrow> (go_error, nat \<times> string option, 'w) prog"
  post_store :: "string \<Rightarrow> control_message \<Rightarrow> (go_error, http_response \<times> string option, 'w) prog"
  post_revoke :: "string \<Rightarrow> control_message \<Rightarrow> (go_error, http_response, 'w) prog"
  draw_identity :: "'w \<Rightarrow> identity_draws \<times> 'w"
  draw_envelope :: "'w \<Rightarrow> (string option \<times> string option) \<times> 'w"
  read_bundle :: "(go_error, string, 'w) prog"
  dial_quic :: "string \<Rightarrow> string \<Rightarrow> string \<Rightarrow> string \<Rightarrow> (go_error, (bool \<times> string list) option, 'w) prog"
  gateway_ready :: "string \<Rightarrow> (go_error, nat, 'w) prog"

record 'w agent_state =
  st_sequence :: u64
  st_world :: 'w

definition at_world :: "('e, 'a, 'w) prog \<Rightarrow> ('e, 'a, 'w agent_state) prog" where
  "at_world m s = (case m (st_world s) of (r, w) \<Rightarrow> (r, s\<lparr>st_world := w\<rparr>))"

text \<open>What cannot fail: the clock and the draws.\<close>

definition from_world :: "('w \<Rightarrow> 'a \<times> 'w) \<Rightarrow> ('e, 'a, 'w agent_state) prog" where
  "from_world f s = (case f (st_world s) of (t, w) \<Rightarrow> (Inr t, s\<lparr>st_world := w\<rparr>))"

abbreviation agent_now :: "'w agent_api \<Rightarrow> ('e, time, 'w agent_state) prog" where
  "agent_now api \<equiv> from_world (at_now api)"

definition spiffeID :: "agent \<Rightarrow> string" where
  "spiffeID a = ''spiffe://'' @ at_trustDomain a @ ''/cluster/'' @ at_clusterID a"

definition lift_sum :: "'e + 'a \<Rightarrow> ('e, 'a, 's) prog" where
  "lift_sum r = (case r of Inl e \<Rightarrow> fail e | Inr x \<Rightarrow> give x)"

section \<open>Configuration\<close>

text \<open>\<open>main\<close> reads the environment; a failing check ends the process.\<close>

definition agent_from_env :: "agent_libs \<Rightarrow> (string \<Rightarrow> string) \<Rightarrow> (go_error, agent, 's) prog" where
  "agent_from_env libs getenv =
     and_then (must getenv ''CLUSTER_ID'') (\<lambda>cluster.
     and_then (must getenv ''TENANT'') (\<lambda>tenant.
     and_then (must getenv ''TRUST_DOMAIN'') (\<lambda>domain.
     and_then (must getenv ''HUB_ENDPOINT'') (\<lambda>endpoint.
     and_then (case json_confirmations (al_agent_codec libs) (env getenv ''PEER_CONFIRMATIONS'' ''[]'') of
         None \<Rightarrow> fail (Wrapped ''PEER_CONFIRMATIONS'' (Msg ''json'')) | Some v \<Rightarrow> give v) (\<lambda>confirmations.
     and_then (case json_links (al_agent_codec libs) (env getenv ''LINK_OBSERVATIONS'' ''[]'') of
         None \<Rightarrow> fail (Wrapped ''LINK_OBSERVATIONS'' (Msg ''json'')) | Some v \<Rightarrow> give v) (\<lambda>links.
     give \<lparr>at_libs = libs, at_clusterID = cluster, at_tenant = tenant, at_trustDomain = domain, at_endpoint = endpoint,
       at_namespace = env getenv ''POD_NAMESPACE'' ''among-clusters'',
       at_secretName = env getenv ''IDENTITY_SECRET'' ''among-clusters-agent-identity'',
       at_gatewayEndpoint = getenv ''GATEWAY_ENDPOINT'', at_brokerEndpoint = getenv ''BROKER_ENDPOINT'',
       at_tlsServerName = env getenv ''KUBERNETES_TLS_SERVER_NAME'' ''kubernetes.default.svc'', at_key = [],
       at_confirmations = confirmations, at_links = links\<rparr>))))))"

section \<open>The identity Secret\<close>

definition generation_annotation :: string where "generation_annotation = ''peering.re8ch.com/generation''"
definition digest_annotation :: string where "digest_annotation = ''peering.re8ch.com/bundle-digest''"

definition secret_field :: "secret \<Rightarrow> string \<Rightarrow> string" where
  "secret_field s key = map_get [] (sec_Data s) key"

definition needs_root :: "x509 \<Rightarrow> secret \<Rightarrow> time \<Rightarrow> bool" where
  "needs_root x s now \<longleftrightarrow> secret_field s ''bundle.pem'' = [] \<or>
     certificateExpiresBefore x (secret_field s ''bundle.pem'') (add_years x now 1)"

definition needs_leaf :: "x509 \<Rightarrow> secret \<Rightarrow> time \<Rightarrow> bool" where
  "needs_leaf x s now \<longleftrightarrow> secret_field s ''tls.crt'' = [] \<or> secret_field s ''tls.key'' = [] \<or>
     certificateExpiresBefore x (secret_field s ''tls.crt'') (now + 2 * hour)"

text \<open>The material a refresh stores: \<open>None\<close> when nothing is due.\<close>

definition refreshed :: "agent \<Rightarrow> string \<Rightarrow> secret \<Rightarrow> time \<Rightarrow> identity_draws \<Rightarrow> (go_error + tls_material) option" where
  "refreshed a key s now draws =
     (let x = at_x509 a in
      if needs_root x s now \<or> needs_leaf x s now \<or> sec_annotation s digest_annotation = [] then
        Some (if needs_root x s now then FromPrivateKey x (at_crypto a) (spiffeID a) key now draws
          else Rotate x (at_crypto a) (spiffeID a) key (secret_field s ''bundle.pem'') now draws)
      else None)"

definition with_material :: "tls_material \<Rightarrow> secret \<Rightarrow> secret" where
  "with_material m s =
     (let s1 = annotate digest_annotation (tm_BundleDigest m) (s\<lparr>sec_Data := (sec_Data s)
        (''tls.crt'' \<mapsto> tm_CertificatePEM m, ''tls.key'' \<mapsto> tm_PrivateKeyPEM m,
         ''bundle.pem'' \<mapsto> tm_BundlePEM m, ''public-key'' \<mapsto> tm_PublicKey m)\<rparr>)
      in if sec_annotation s1 generation_annotation = [] then annotate generation_annotation ''0'' s1 else s1)"

definition refreshTLSSecret :: "agent \<Rightarrow> 'w agent_api \<Rightarrow> string \<Rightarrow> secret \<Rightarrow> time \<Rightarrow> (go_error, unit, 'w agent_state) prog" where
  "refreshTLSSecret a api key s now =
     and_then (from_world (draw_identity api)) (\<lambda>draws.
     case refreshed a key s now draws of
       None \<Rightarrow> give ()
     | Some issued \<Rightarrow>
         and_then (lift_sum issued) (\<lambda>material.
         at_world (sec_update api (at_namespace a) (with_material material s))))"

definition refreshTLSMaterial :: "agent \<Rightarrow> 'w agent_api \<Rightarrow> (go_error, unit, 'w agent_state) prog" where
  "refreshTLSMaterial a api =
     and_then (at_world (sec_get api (at_namespace a) (at_secretName a))) (\<lambda>s.
     and_then (agent_now api) (\<lambda>now. refreshTLSSecret a api (at_key a) s now))"

definition identity_secret :: "agent \<Rightarrow> tls_material \<Rightarrow> secret" where
  "identity_secret a m =
     \<lparr>sec_Meta = (new_meta (at_namespace a) (at_secretName a))
        \<lparr>mt_Labels := [''app.kubernetes.io/managed-by'' \<mapsto> ''among-clusters''],
         mt_Annotations := [generation_annotation \<mapsto> ''0'', digest_annotation \<mapsto> tm_BundleDigest m]\<rparr>,
      sec_Data = [''tls.crt'' \<mapsto> tm_CertificatePEM m, ''tls.key'' \<mapsto> tm_PrivateKeyPEM m,
        ''bundle.pem'' \<mapsto> tm_BundlePEM m, ''private-key'' \<mapsto> tm_PrivateKey m, ''public-key'' \<mapsto> tm_PublicKey m]\<rparr>"

text \<open>\<open>loadIdentity\<close> gives the private key and sets the sequence to the recorded generation.\<close>

definition loadIdentity :: "agent \<Rightarrow> 'w agent_api \<Rightarrow> (go_error, string, 'w agent_state) prog" where
  "loadIdentity a api =
     and_then (attempt (at_world (sec_get api (at_namespace a) (at_secretName a)))) (\<lambda>got.
     and_then (case got of
         Inr s \<Rightarrow> give s
       | Inl e \<Rightarrow>
           if IsNotFound e then
             and_then (agent_now api) (\<lambda>now.
             and_then (from_world (draw_identity api)) (\<lambda>draws.
             and_then (lift_sum (Generate (at_x509 a) (at_crypto a) (spiffeID a) now draws)) (\<lambda>m.
             and_then (at_world (sec_create api (at_namespace a) (identity_secret a m))) (\<lambda>_.
             give (identity_secret a m)))))
           else fail e) (\<lambda>s.
     let key = secret_field s ''private-key'' in
     and_then (guard (length key \<noteq> 64) (Msg ''invalid identity key'')) (\<lambda>_.
     and_then (agent_now api) (\<lambda>now.
     and_then (refreshTLSSecret a api key s now) (\<lambda>_ st.
     (Inr key, st\<lparr>st_sequence := fst (ParseUint (sec_annotation s generation_annotation))\<rparr>))))))"

section \<open>Registration\<close>

definition registration_of :: "agent \<Rightarrow> string \<Rightarrow> identity_registration" where
  "registration_of a digest =
     \<lparr>id_ClusterID = at_clusterID a, id_Region = [], id_Tenant = at_tenant a, id_TrustDomain = at_trustDomain a,
      id_SPIFFEID = spiffeID a, id_BundleDigest = digest,
      id_PublicKey = RawStd_Encode (ed25519_public (at_crypto a) (at_key a)),
      id_Capabilities = [''service'', ''quic-mtls''],
      id_GatewayEndpoints = (if at_gatewayEndpoint a = [] then [] else [at_gatewayEndpoint a])\<rparr>"

definition registration :: "agent \<Rightarrow> 'w agent_api \<Rightarrow> (go_error, identity_registration, 'w agent_state) prog" where
  "registration a api =
     and_then (at_world (sec_get api (at_namespace a) (at_secretName a))) (\<lambda>s.
     give (registration_of a (sec_annotation s digest_annotation)))"

text \<open>\<open>identityBody, _ := json.Marshal(registration)\<close>: the empty string where it fails.\<close>

definition acceptance_of :: "agent \<Rightarrow> identity_registration \<Rightarrow> string \<Rightarrow> invitation_acceptance" where
  "acceptance_of a v token =
     (let body = (case json_identity (at_codec a) v of None \<Rightarrow> [] | Some b \<Rightarrow> b) in
      \<lparr>ia_Token = token, ia_Identity = v,
       ia_Proof = RawStd_Encode (ed25519_sign (at_crypto a) (at_key a) body)\<rparr>)"

definition accept_url :: "agent \<Rightarrow> string \<Rightarrow> string" where
  "accept_url a i = at_endpoint a @ ''/v1/invitations/'' @ i @ ''/accept''"

definition responseStatusError :: "string \<Rightarrow> http_response \<Rightarrow> go_error" where
  "responseStatusError upstream r =
     (let message = TrimSpace (take 4096 (case hr_Body r of None \<Rightarrow> [] | Some b \<Rightarrow> b)) in
      if message = [] then Msg (upstream @ '' returned '' @ hr_StatusText r)
      else Msg (upstream @ '' returned '' @ hr_StatusText r @ '': '' @ message))"

definition register :: "agent \<Rightarrow> 'w agent_api \<Rightarrow> string \<Rightarrow> string \<Rightarrow> (go_error, unit, 'w agent_state) prog" where
  "register a api i token =
     and_then (guard (i = []) (Msg ''invitation ID required'')) (\<lambda>_.
     and_then (registration a api) (\<lambda>v.
     and_then (at_world (post_accept api (accept_url a i) (acceptance_of a v token))) (\<lambda>r.
     guard (hr_Status r \<noteq> 201 \<and> hr_Status r \<noteq> 409) (responseStatusError ''hub'' r))))"

section \<open>Control messages\<close>

definition control_message_of :: "agent \<Rightarrow> string \<Rightarrow> u64 \<Rightarrow> string \<Rightarrow> string \<Rightarrow> time \<Rightarrow> string \<Rightarrow> control_message" where
  "control_message_of a audience g nonce kind now payload =
     \<lparr>cm_Issuer = spiffeID a, cm_Audience = audience, cm_Generation = g, cm_IssuedAt = now,
      cm_ExpiresAt = now + minute, cm_Nonce = nonce, cm_Type = kind, cm_Payload = payload,
      cm_Signature = []\<rparr>"

definition hub_message :: "agent \<Rightarrow> u64 \<Rightarrow> string \<Rightarrow> time \<Rightarrow> control_payload \<Rightarrow> control_message" where
  "hub_message a g kind now payload =
     control_message_of a ''hub'' g (at_clusterID a @ ''-'' @ FormatUint g) kind now
       (json_payload (at_agent_codec a) payload)"

definition messages_url :: "agent \<Rightarrow> string" where
  "messages_url a = at_endpoint a @ ''/v1/peers/'' @ at_tenant a @ ''/'' @ at_clusterID a @ ''/messages''"

text \<open>
  The generation that was sent is recorded in the annotations of the identity Secret. A Secret
  without annotations is read back with a nil map (empty maps are left out of the JSON), and
  the assignment to it panics.
\<close>

definition sendControlResponse :: "agent \<Rightarrow> 'w agent_api \<Rightarrow> string \<Rightarrow> control_payload \<Rightarrow>
    (go_error, string, 'w agent_state) prog" where
  "sendControlResponse a api kind payload =
     and_then (\<lambda>s. (Inr (st_sequence s + 1), s\<lparr>st_sequence := st_sequence s + 1\<rparr>)) (\<lambda>g.
     and_then (agent_now api) (\<lambda>now.
     and_then (lift_sum (Sign (at_crypto a) (at_codec a) (hub_message a g kind now payload) (at_key a))) (\<lambda>m.
     and_then (at_world (post_hub api (messages_url a) m)) (\<lambda>r.
     and_then (guard (hr_Status r \<noteq> 202 \<and> hr_Status r \<noteq> 200) (responseStatusError ''hub'' r)) (\<lambda>_.
     and_then (case hr_Body r of None \<Rightarrow> fail (Msg ''unexpected EOF'') | Some b \<Rightarrow> give (take 1048576 b)) (\<lambda>body.
     and_then (at_world (sec_get api (at_namespace a) (at_secretName a))) (\<lambda>s.
     and_then (guard (mt_Annotations (sec_Meta s) = Map.empty) (Panic ''assignment to entry in nil map'')) (\<lambda>_.
     and_then (at_world (sec_update api (at_namespace a) (annotate generation_annotation (FormatUint g) s))) (\<lambda>_.
     give body)))))))))"

definition sendControl :: "agent \<Rightarrow> 'w agent_api \<Rightarrow> string \<Rightarrow> control_payload \<Rightarrow> (go_error, unit, 'w agent_state) prog" where
  "sendControl a api kind payload = and_then (sendControlResponse a api kind payload) (\<lambda>_. give ())"

definition heartbeat :: "agent \<Rightarrow> 'w agent_api \<Rightarrow> (go_error, unit, 'w agent_state) prog" where
  "heartbeat a api =
     and_then (at_world (list_advertised api)) (\<lambda>items.
     and_then (agent_now api) (\<lambda>now.
     sendControl a api ''identity.heartbeat'' (HeartbeatPayload (length items) now)))"

definition routes_map :: string where "routes_map = ''among-clusters-service-routes''"

definition writeGatewayRoutes :: "agent \<Rightarrow> 'w agent_api \<Rightarrow> advertised_service list \<Rightarrow> (go_error, unit, 'w agent_state) prog" where
  "writeGatewayRoutes a api services =
     (let desired = \<lparr>cf_Meta = (new_meta (at_namespace a) routes_map)
            \<lparr>mt_Labels := [''app.kubernetes.io/managed-by'' \<mapsto> ''among-clusters'']\<rparr>,
          cf_Data = [''exports.json'' \<mapsto> json_routes (at_agent_codec a) (gateway_routes (at_trustDomain a) services)]\<rparr> in
      and_then (attempt (at_world (cfg_get api (at_namespace a) routes_map))) (\<lambda>got.
      case got of
        Inr current \<Rightarrow> at_world (cfg_update api (at_namespace a) (desired\<lparr>cf_Meta := (cf_Meta desired)
          \<lparr>mt_ResourceVersion := mt_ResourceVersion (cf_Meta current)\<rparr>\<rparr>))
      | Inl e \<Rightarrow> if IsNotFound e then at_world (cfg_create api (at_namespace a) desired) else fail e))"

definition publishServices :: "agent \<Rightarrow> 'w agent_api \<Rightarrow> (go_error, unit, 'w agent_state) prog" where
  "publishServices a api =
     and_then (at_world (list_advertised api)) (\<lambda>items.
     let services = advertisedServices items in
     and_then (writeGatewayRoutes a api services) (\<lambda>_.
     sendControl a api ''service.snapshot'' (SnapshotPayload services)))"

end
