(* ===== verification/Agent_Grants.thy ===== *)
theory Agent_Grants
  imports Agent
begin

text \<open>
  The agent's work on managed access grants (\<open>reconcileGrant\<close>, \<open>pollGrants\<close>, \<open>revokeCredential\<close>,
  \<open>uploadCredential\<close> of \<open>cmd/agent/main.go\<close>), the observation of links and one pass of the
  agent's loop.
\<close>

section \<open>Credentials at the broker\<close>

definition broker_url :: "agent \<Rightarrow> string \<Rightarrow> string" where
  "broker_url a path = TrimSuffix (at_brokerEndpoint a) ''/'' @ path"

definition broker_message :: "agent \<Rightarrow> u64 \<Rightarrow> string \<Rightarrow> string \<Rightarrow> time \<Rightarrow> control_payload \<Rightarrow> control_message" where
  "broker_message a g infix_text kind now payload =
     control_message_of a ''credential-broker'' g (at_clusterID a @ infix_text @ FormatUint g) kind now
       (json_payload (at_agent_codec a) payload)"

definition revokeCredential :: "agent \<Rightarrow> 'w agent_api \<Rightarrow> grant_instruction \<Rightarrow> (go_error, unit, 'w agent_state) prog" where
  "revokeCredential a api grant =
     and_then (agent_now api) (\<lambda>now.
     and_then (\<lambda>s. (Inr (st_sequence s + 1), s)) (\<lambda>g.
     and_then (lift_sum (Sign (at_crypto a) (at_codec a)
        (broker_message a g ''-revoke-'' ''credential.revoke'' now
          (RevokePayload (at_tenant a) (at_clusterID a) (gi_Name grant))) (at_key a))) (\<lambda>m.
     and_then (at_world (post_revoke api (broker_url a ''/v1/credentials/revoke'') m)) (\<lambda>r.
     guard (hr_Status r \<noteq> 204 \<and> hr_Status r \<noteq> 404)
       (Msg (''credential revoke returned '' @ hr_StatusText r))))))"

definition uploadCredential :: "agent \<Rightarrow> 'w agent_api \<Rightarrow> grant_instruction \<Rightarrow> credential_payload \<Rightarrow>
    (go_error, unit, 'w agent_state) prog" where
  "uploadCredential a api grant payload =
     and_then (at_world (get_broker_key api (broker_url a ''/v1/public-key''))) (\<lambda>(status, keyDoc).
     and_then (case keyDoc of
         Some k \<Rightarrow> if status \<noteq> 200 then fail (Msg ''credential broker public key unavailable'') else give k
       | None \<Rightarrow> fail (Msg ''credential broker public key unavailable'')) (\<lambda>encoded.
     and_then (case RawStd_Decode encoded of None \<Rightarrow> fail (Msg ''illegal base64 data'') | Some k \<Rightarrow> give k) (\<lambda>key.
     and_then (from_world (draw_envelope api)) (\<lambda>(fresh, nonce).
     and_then (lift_sum (Encrypt (at_ecies a) key payload fresh nonce)) (\<lambda>envelope.
     and_then (agent_now api) (\<lambda>now.
     and_then (\<lambda>s. (Inr (st_sequence s + 1), s)) (\<lambda>g.
     and_then (lift_sum (Sign (at_crypto a) (at_codec a)
        (broker_message a g ''-broker-'' ''credential.store'' now
          (UploadPayload (at_tenant a) (at_clusterID a) (gi_Name grant) envelope)) (at_key a))) (\<lambda>m.
     and_then (at_world (post_store api (broker_url a ''/v1/credentials'') m)) (\<lambda>(r, output).
     case output of
       None \<Rightarrow> fail (Msg (''credential broker returned '' @ hr_StatusText r))
     | Some ref \<Rightarrow>
         and_then (guard (hr_Status r \<noteq> 201) (Msg (''credential broker returned '' @ hr_StatusText r))) (\<lambda>_.
         sendControl a api ''grant.fulfilled''
           (FulfillPayload \<lparr>gf_GrantRef = gi_Name grant, gf_CredentialRef = ref, gf_RenewedAt = now\<rparr>)))))))))))"

section \<open>Roles\<close>

definition grant_labels :: "grant_instruction \<Rightarrow> string \<rightharpoonup> string" where
  "grant_labels grant = [''app.kubernetes.io/managed-by'' \<mapsto> ''among-clusters'',
     ''peering.re8ch.com/grant'' \<mapsto> gi_Name grant]"

definition grant_role :: "string \<Rightarrow> grant_instruction \<Rightarrow> kube_role" where
  "grant_role namespace grant =
     \<lparr>ro_Meta = (new_meta namespace (grantResourceName (gi_Name grant)))\<lparr>mt_Labels := grant_labels grant\<rparr>,
      ro_Rules = gi_Rules grant\<rparr>"

definition grant_binding :: "agent \<Rightarrow> string \<Rightarrow> string \<Rightarrow> grant_instruction \<Rightarrow> role_binding" where
  "grant_binding a namespace kind grant =
     (let name = grantResourceName (gi_Name grant) in
      \<lparr>rb_Meta = (new_meta namespace name)\<lparr>mt_Labels := grant_labels grant\<rparr>, rb_RoleKind = kind,
       rb_RoleName = name, rb_SubjectName = name, rb_SubjectNamespace = at_namespace a\<rparr>)"

text \<open>Create, or replace the rules of the object that is already there.\<close>

definition create_or_update :: "(go_error, unit, 's) prog \<Rightarrow> (go_error, kube_role, 's) prog \<Rightarrow>
    (kube_role \<Rightarrow> (go_error, unit, 's) prog) \<Rightarrow> access_rule list \<Rightarrow> (go_error, unit, 's) prog" where
  "create_or_update create get update rules =
     and_then (attempt create) (\<lambda>created.
     case created of
       Inr _ \<Rightarrow> give ()
     | Inl e \<Rightarrow>
         if \<not> IsAlreadyExists e then fail e
         else and_then get (\<lambda>current. update (current\<lparr>ro_Rules := rules\<rparr>)))"

definition create_if_absent :: "(go_error, unit, 's) prog \<Rightarrow> (go_error, unit, 's) prog" where
  "create_if_absent create =
     and_then (attempt create) (\<lambda>created.
     case created of Inr _ \<Rightarrow> give () | Inl e \<Rightarrow> if IsAlreadyExists e then give () else fail e)"

definition cluster_access :: "agent \<Rightarrow> 'w agent_api \<Rightarrow> grant_instruction \<Rightarrow> (go_error, unit, 'w agent_state) prog" where
  "cluster_access a api grant =
     and_then (create_or_update (at_world (crole_create api (grant_role [] grant)))
        (at_world (crole_get api (grantResourceName (gi_Name grant)))) (\<lambda>r. at_world (crole_update api r))
        (gi_Rules grant)) (\<lambda>_.
     create_if_absent (at_world (cbind_create api (grant_binding a [] ''ClusterRole'' grant))))"

definition namespace_access :: "agent \<Rightarrow> 'w agent_api \<Rightarrow> grant_instruction \<Rightarrow> string \<Rightarrow> (go_error, unit, 'w agent_state) prog" where
  "namespace_access a api grant ns =
     and_then (create_or_update (at_world (role_create api ns (grant_role ns grant)))
        (at_world (role_get api ns (grantResourceName (gi_Name grant)))) (\<lambda>r. at_world (role_update api ns r))
        (gi_Rules grant)) (\<lambda>_.
     create_if_absent (at_world (bind_create api ns (grant_binding a ns ''Role'' grant))))"

section \<open>A grant\<close>

definition approval_given :: "grant_instruction \<Rightarrow> config_map \<Rightarrow> bool" where
  "approval_given grant approval \<longleftrightarrow>
     map_get [] (cf_Data approval) ''grantRef'' = gi_Name grant \<and>
     map_get [] (cf_Data approval) ''generation'' = FormatInt (gi_Generation grant) \<and>
     map_get [] (cf_Data approval) ''approved'' = ''true''"

definition withdraw_grant :: "agent \<Rightarrow> 'w agent_api \<Rightarrow> grant_instruction \<Rightarrow> (go_error, unit, 'w agent_state) prog" where
  "withdraw_grant a api grant =
     (let name = grantResourceName (gi_Name grant) in
      and_then (ignore (at_world (cbind_delete api name))) (\<lambda>_.
      and_then (ignore (at_world (crole_delete api name))) (\<lambda>_.
      and_then (for_each (\<lambda>ns. and_then (ignore (at_world (bind_delete api ns name))) (\<lambda>_.
          ignore (at_world (role_delete api ns name)))) (gi_Namespaces grant)) (\<lambda>_.
      and_then (ignore (at_world (sa_delete api (at_namespace a) name))) (\<lambda>_.
      revokeCredential a api grant)))))"

text \<open>\<open>int64(time.Until(t).Seconds())\<close>: whole seconds, towards zero.\<close>

definition seconds_until :: "time \<Rightarrow> time \<Rightarrow> int" where
  "seconds_until t now = go_quot (go_sub t now) second"

definition token_seconds :: "time \<Rightarrow> time \<Rightarrow> int" where
  "token_seconds t now = (if 3600 < seconds_until t now then 3600 else seconds_until t now)"

definition grant_access :: "agent \<Rightarrow> 'w agent_api \<Rightarrow> grant_instruction \<Rightarrow> (go_error, unit, 'w agent_state) prog" where
  "grant_access a api grant =
     (if gi_Scope grant = ''Cluster'' then cluster_access a api grant
      else if gi_Scope grant \<noteq> [] \<and> gi_Scope grant \<noteq> ''Namespaced''
        then fail (Msg (''unsupported grant scope '' @ [CHR 0x22] @ gi_Scope grant @ [CHR 0x22]))
      else for_each (namespace_access a api grant) (gi_Namespaces grant))"

definition issue_credential :: "agent \<Rightarrow> 'w agent_api \<Rightarrow> grant_instruction \<Rightarrow> (go_error, unit, 'w agent_state) prog" where
  "issue_credential a api grant =
     and_then (agent_now api) (\<lambda>now.
     let seconds = token_seconds (gi_ExpiresAt grant) now in
     and_then (guard (seconds < 600) (Msg ''grant expires too soon'')) (\<lambda>_.
     and_then (at_world (sa_token api (at_namespace a) (grantResourceName (gi_Name grant)) seconds)) (\<lambda>(token, expiry).
     and_then (at_world (cfg_get api (at_namespace a) ''kube-root-ca.crt'')) (\<lambda>ca.
     uploadCredential a api grant
       \<lparr>cp_Token = token, cp_CertificateAuthority = map_get [] (cf_Data ca) ''ca.crt'',
        cp_Server = gi_ProxyURL grant, cp_TLSServerName = at_tlsServerName a, cp_ExpiresAt = expiry\<rparr>))))"

definition reconcileGrant :: "agent \<Rightarrow> 'w agent_api \<Rightarrow> grant_instruction \<Rightarrow> (go_error, unit, 'w agent_state) prog" where
  "reconcileGrant a api grant =
     and_then (if gi_Revoked grant then give True
        else and_then (agent_now api) (\<lambda>now. give (\<not> Before now (gi_ExpiresAt grant)))) (\<lambda>over.
     if over then withdraw_grant a api grant
     else
       and_then (attempt (at_world (cfg_get api (at_namespace a) (''among-clusters-approval-'' @ gi_Name grant)))) (\<lambda>got.
       case got of
         Inl _ \<Rightarrow> fail (Msg ''local customer approval required'')
       | Inr approval \<Rightarrow>
           and_then (guard (\<not> approval_given grant approval) (Msg ''local customer approval invalid'')) (\<lambda>_.
           and_then (create_if_absent (at_world (sa_create api (at_namespace a)
              ((new_meta (at_namespace a) (grantResourceName (gi_Name grant)))\<lparr>mt_Labels := grant_labels grant\<rparr>)))) (\<lambda>_.
           and_then (grant_access a api grant) (\<lambda>_.
           issue_credential a api grant)))))"

text \<open>The grants of a poll, in the Hub's order; the first error ends the poll. A panic is not an error.\<close>

fun panics :: "go_error \<Rightarrow> bool" where
  "panics (Panic what) = True"
| "panics _ = False"

definition grant_error :: "grant_instruction \<Rightarrow> go_error \<Rightarrow> go_error" where
  "grant_error g e = (if panics e then e else Wrapped (''grant '' @ gi_Name g) e)"

definition reconcile_grants :: "agent \<Rightarrow> 'w agent_api \<Rightarrow> grant_instruction list \<Rightarrow> (go_error, unit, 'w agent_state) prog" where
  "reconcile_grants a api grants =
     for_each (\<lambda>g. map_error (grant_error g) (reconcileGrant a api g)) grants"

definition pollGrants :: "agent \<Rightarrow> 'w agent_api \<Rightarrow> (go_error, unit, 'w agent_state) prog" where
  "pollGrants a api =
     and_then (sendControlResponse a api ''grant.poll'' PollPayload) (\<lambda>body.
     case json_grants (at_agent_codec a) body of
       None \<Rightarrow> fail (Msg ''json'')
     | Some grants \<Rightarrow> reconcile_grants a api grants)"

section \<open>Links\<close>

definition persistentSessionReady :: "'w agent_api \<Rightarrow> string \<Rightarrow> (go_error, bool, 'w agent_state) prog" where
  "persistentSessionReady api identity =
     and_then (attempt (at_world (gateway_ready api identity))) (\<lambda>r. give (r = Inr 204))"

text \<open>\<open>VerifyConnection\<close> of the agent's driver.\<close>

definition verifyPeer :: "string \<Rightarrow> (bool \<times> string list) option \<Rightarrow> go_error option" where
  "verifyPeer expected presented =
     (case presented of
        None \<Rightarrow> Some (Msg ''peer certificate missing'')
      | Some (chain, uris) \<Rightarrow>
          if \<not> chain then Some (Msg ''x509: certificate signed by unknown authority'')
          else if length uris \<noteq> 1 \<or> TrimSuffix (uris ! 0) ''/'' \<noteq> TrimSuffix expected ''/''
            then Some (Msg ''unexpected peer SPIFFE identity'')
          else None)"

text \<open>\<open>driver\<close> gives what a dial needs: the certificate, its key and the peer bundle.\<close>

definition agent_driver :: "agent \<Rightarrow> 'w agent_api \<Rightarrow> (go_error, string \<times> string \<times> string, 'w agent_state) prog" where
  "agent_driver a api =
     and_then (at_world (sec_get api (at_namespace a) (at_secretName a))) (\<lambda>s.
     let crt = secret_field s ''tls.crt''; key = secret_field s ''tls.key'' in
     and_then (guard (\<not> key_pair_ok (at_x509 a) crt key) (Msg ''tls: invalid key pair'')) (\<lambda>_.
     and_then (at_world (read_bundle api)) (\<lambda>peers.
     and_then (guard (\<not> pool_ok (at_x509 a) peers) (Msg ''peer bundle is invalid'')) (\<lambda>_.
     give (crt, key, peers)))))"

text \<open>A dial with the driver: the handshake fails when \<open>verifyPeer\<close> rejects the peer.\<close>

definition dial_peer :: "'w agent_api \<Rightarrow> string \<times> string \<times> string \<Rightarrow> string \<Rightarrow> string \<Rightarrow>
    (go_error, go_error option, 'w agent_state) prog" where
  "dial_peer api driver expected address =
     (case driver of (crt, key, peers) \<Rightarrow>
        and_then (attempt (at_world (dial_quic api crt key peers address))) (\<lambda>outcome.
        give (case outcome of Inl e \<Rightarrow> Some e | Inr presented \<Rightarrow> verifyPeer expected presented)))"

definition probe_link :: "agent \<Rightarrow> 'w agent_api \<Rightarrow> string \<times> string \<times> string \<Rightarrow> link_target \<Rightarrow>
    (go_error, observation \<times> go_error option, 'w agent_state) prog" where
  "probe_link a api driver target =
     (let p = \<lparr>tp_ID = lt_PeerRef target, tp_Endpoints = [lt_Endpoint target]\<rparr>;
          parse = parse_url (at_agent_codec a) in
      and_then (agent_now api) (\<lambda>start.
      and_then (case driver_endpoint parse p of
          Inl _ \<Rightarrow> give None
        | Inr address \<Rightarrow> dial_peer api driver (lt_ExpectedSPIFFEID target) address) (\<lambda>outcome.
      and_then (agent_now api) (\<lambda>stop.
      give (driver_Probe parse (\<lambda>_. outcome) start stop p)))))"

text \<open>
  A probe that cannot be set up (no identity Secret, no bundle) or fails is a transport error; a
  probe that succeeds counts only if the gateway has a persistent session with the peer. The
  handshake time is that of the probe, if there was one.
\<close>

definition millis :: "duration \<Rightarrow> i64" where
  "millis d = of_int (go_quot d 1000000)"

definition link_failed :: "link_target \<Rightarrow> time \<Rightarrow> time \<Rightarrow> time \<Rightarrow> link_observation" where
  "link_failed target handshake start stop =
     \<lparr>lo_LinkRef = lt_LinkRef target, lo_PeerRef = lt_PeerRef target, lo_Ready = False,
      lo_LatencyMillis = millis (go_sub stop start), lo_Reason = ''TransportError'', lo_LastHandshakeAt = handshake\<rparr>"

definition link_probed :: "link_target \<Rightarrow> observation \<Rightarrow> bool \<Rightarrow> link_observation" where
  "link_probed target p session =
     \<lparr>lo_LinkRef = lt_LinkRef target, lo_PeerRef = lt_PeerRef target, lo_Ready = (ob_Ready p \<and> session),
      lo_LatencyMillis = millis (ob_Latency p),
      lo_Reason = (if ob_Ready p \<and> \<not> session then ''PersistentSessionUnavailable'' else []),
      lo_LastHandshakeAt = ob_ObservedAt p\<rparr>"

definition link_observed :: "agent \<Rightarrow> 'w agent_api \<Rightarrow> link_target \<Rightarrow> (go_error, link_observation, 'w agent_state) prog" where
  "link_observed a api target =
     and_then (agent_now api) (\<lambda>handshake.
     and_then (agent_now api) (\<lambda>start.
     and_then (attempt (and_then (agent_driver a api) (\<lambda>driver. probe_link a api driver target))) (\<lambda>probed.
     case probed of
       Inl _ \<Rightarrow> and_then (agent_now api) (\<lambda>stop. give (link_failed target handshake start stop))
     | Inr (p, failure) \<Rightarrow>
         and_then (if ob_Ready p then persistentSessionReady api (lt_ExpectedSPIFFEID target) else give False) (\<lambda>session.
         if failure \<noteq> None
           then and_then (agent_now api) (\<lambda>stop. give (link_failed target (ob_ObservedAt p) start stop))
           else give (link_probed target p session)))))"

definition observeLink :: "agent \<Rightarrow> 'w agent_api \<Rightarrow> link_target \<Rightarrow> (go_error, unit, 'w agent_state) prog" where
  "observeLink a api target =
     and_then (link_observed a api target) (\<lambda>obs.
     sendControl a api ''link.observe'' (ObservePayload obs))"

section \<open>The loop\<close>

text \<open>One pass: every error is logged and the pass goes on. A panic ends the process.\<close>

definition log_error :: "(go_error, unit, 's) prog \<Rightarrow> (go_error, unit, 's) prog" where
  "log_error m =
     and_then (attempt m) (\<lambda>r. case r of Inl e \<Rightarrow> if panics e then fail e else give () | Inr _ \<Rightarrow> give ())"

definition agent_pass :: "agent \<Rightarrow> 'w agent_api \<Rightarrow> (go_error, unit, 'w agent_state) prog" where
  "agent_pass a api =
     and_then (log_error (refreshTLSMaterial a api)) (\<lambda>_.
     and_then (log_error (heartbeat a api)) (\<lambda>_.
     and_then (log_error (publishServices a api)) (\<lambda>_.
     and_then (if at_brokerEndpoint a = [] then give () else log_error (pollGrants a api)) (\<lambda>_.
     and_then (for_each (\<lambda>c. log_error (sendControl a api ''peer.bundle.confirm'' (ConfirmPayload c))) (at_confirmations a)) (\<lambda>_.
     for_each (\<lambda>t. log_error (observeLink a api t)) (at_links a))))))"

fun agent_passes :: "agent \<Rightarrow> 'w agent_api \<Rightarrow> nat \<Rightarrow> (go_error, unit, 'w agent_state) prog" where
  "agent_passes a api 0 = give ()"
| "agent_passes a api (Suc n) = and_then (agent_pass a api) (\<lambda>_. agent_passes a api n)"

text \<open>
  \<open>main\<close> with \<open>n\<close> ticks of its timer: an error before the loop ends the process, a failing
  registration is logged.
\<close>

definition agent_main :: "agent_libs \<Rightarrow> (string \<Rightarrow> string) \<Rightarrow> 'w agent_api \<Rightarrow> nat \<Rightarrow> (go_error, unit, 'w agent_state) prog" where
  "agent_main libs getenv api n =
     and_then (agent_from_env libs getenv) (\<lambda>a0.
     and_then (loadIdentity a0 api) (\<lambda>key.
     let a = a0\<lparr>at_key := key\<rparr>; token = getenv ''INVITATION_TOKEN'' in
     and_then (if token = [] then give () else log_error (register a api (getenv ''INVITATION_ID'') token)) (\<lambda>_.
     agent_passes a api n)))"

end
