(* ===== verification/Agent_Hub.thy ===== *)
theory Agent_Hub
  imports Agent_Grants Hub_Service
begin

text \<open>
  The agent and what it talks to, together: the Hub accepts the agent's registration and its
  messages, refreshing the identity is stable, and the agent grants access only as far as the
  local customer approved it and never longer than the grant lasts.
\<close>

section \<open>Registration and messages\<close>

lemma registration_valid:
  assumes "ed25519_sound (at_crypto a)" and "digestPattern digest"
    and "at_clusterID a \<noteq> []" "at_tenant a \<noteq> []" "at_trustDomain a \<noteq> []"
    and "at_gatewayEndpoint a = [] \<or> HasPrefix (at_gatewayEndpoint a) ''quic://''"
  shows "ValidateIdentity (registration_of a digest) = None"
  using assms
  by (auto simp: ValidateIdentity_None_iff registration_of_def spiffe_of_def spiffeID_def valid_public_key_def ed25519_sound_def)

lemma registration_fields:
  "id_PublicKey (registration_of a digest) = RawStd_Encode (ed25519_public (at_crypto a) (at_key a))"
  "id_ClusterID (registration_of a digest) = at_clusterID a" "id_Tenant (registration_of a digest) = at_tenant a"
  "id_Capabilities (registration_of a digest) = [''service'', ''quic-mtls'']"
  "ia_Identity (acceptance_of a v token) = v" "ia_Token (acceptance_of a v token) = token"
  by (simp_all add: registration_of_def acceptance_of_def Let_def)

lemma acceptance_proof:
  assumes "ed25519_sound (at_crypto a)" and "json_identity (at_codec a) (registration_of a digest) = Some body"
  shows "proof_valid (at_crypto a) (at_codec a) (acceptance_of a (registration_of a digest) token) = Some True"
  using assms
  by (simp add: proof_valid_def acceptance_of_def ed25519_Verify_def ed25519_sound_def registration_fields)

text \<open>
  C17: an agent that is configured with names and, if any, a QUIC endpoint always registers: the
  Hub finds its identity valid and its ownership proof correct, so what decides is only the
  invitation and whether the identity exists already.
\<close>

theorem agent_registration_accepted:
  assumes "ed25519_sound (at_crypto a)" and "hs_crypto srv = at_crypto a" "hs_codec srv = at_codec a"
    and "digestPattern digest"
    and "at_clusterID a \<noteq> []" "at_tenant a \<noteq> []" "at_trustDomain a \<noteq> []"
    and "at_gatewayEndpoint a = [] \<or> HasPrefix (at_gatewayEndpoint a) ''quic://''"
    and "json_identity (at_codec a) (registration_of a digest) \<noteq> None"
    and "ConsumeInvitation ops i (TokenHash (at_crypto a) token) (at_tenant a) (at_clusterID a)
      [''service'', ''quic-mtls''] (clock 0) s = (Inr iv, s1)"
    and "inv_Tenant iv = at_tenant a"
    and "RegisterIdentity ops ((registration_of a digest)\<lparr>id_Region := inv_Region iv\<rparr>) s1 = (Inr (), s2)"
  shows "serve srv ops (PostAccept i (Some (acceptance_of a (registration_of a digest) token)) clock) s =
    (write_json 201 (IdentityAccepted (at_clusterID a) (at_tenant a) ''PendingConfirmation''), s2)"
proof -
  from assms(9) obtain body where "json_identity (at_codec a) (registration_of a digest) = Some body" by blast
  from acceptance_proof [OF assms(1) this] registration_valid [OF assms(1,4-8)] show ?thesis
    using assms(2,3,10-12)
    by (simp add: serve_def finish_def acceptInvitation_def and_then_apply map_error_apply registration_fields Let_def)
qed

lemma hub_message_fields:
  assumes "Sign c j (hub_message a g kind now payload) key = Inr m"
  shows "cm_Audience m = ''hub''" "cm_Issuer m = spiffeID a" "cm_Generation m = g" "cm_Type m = kind"
    "cm_Nonce m = at_clusterID a @ ''-'' @ FormatUint g" "cm_IssuedAt m = now" "cm_ExpiresAt m = now + minute"
    "cm_Payload m = json_payload (at_agent_codec a) payload"
  using Sign_fields [OF assms] by (auto simp: hub_message_def control_message_of_def)

lemma agent_message_verifies:
  assumes "ed25519_sound (at_crypto a)" and "Sign (at_crypto a) (at_codec a) (hub_message a g kind now payload) (at_key a) = Inr m"
    and "prev < g" and "kind \<noteq> []" and "now - 2 * minute \<le> hub_now" "hub_now < now + minute"
  shows "Verify (at_crypto a) (at_codec a) m (ed25519_public (at_crypto a) (at_key a)) ''hub'' hub_now prev None = None"
  using assms authentic_Sign [OF assms(1,2)] hub_message_fields [OF assms(2)]
  by (simp add: Verify_None_iff message_window_def Before_def spiffeID_def)

text \<open>
  C18: the Hub never refuses a message of a registered agent on grounds of authenticity: when the
  key the agent registered is stored under its name, the last generation is below the message's
  and the clocks differ by less than the window (the Hub at most two minutes behind and less
  than one minute ahead), the answer is decided by the effect of the message and the recording
  of its generation alone.
\<close>

theorem agent_message_reaches_the_store:
  assumes "ed25519_sound (at_crypto a)" and "hs_crypto srv = at_crypto a" "hs_codec srv = at_codec a"
    and "Sign (at_crypto a) (at_codec a) (hub_message a g kind now payload) (at_key a) = Inr m"
    and "kind \<noteq> []" and "\<not> HasPrefix kind ''route.''"
    and "Identity ops (at_tenant a) (at_clusterID a) s = (Inr ident, s1)"
    and "id_PublicKey ident = id_PublicKey (registration_of a digest)" "id_SPIFFEID ident = spiffeID a"
    and "LastGeneration ops (at_tenant a) (at_clusterID a) s1 = (Inr prev, s2)" and "prev < g"
    and "now - 2 * minute \<le> clock 0" "clock 0 < now + minute"
  shows "hub_handler srv ops (PostMessage (at_tenant a) (at_clusterID a) (Some m) clock) s =
    and_then (apply_message srv ops (at_tenant a) (at_clusterID a) m clock) (\<lambda>grants.
    and_then (on_error (\<lambda>_. http_error ''replay'' 409) (RecordGeneration ops (at_tenant a) (at_clusterID a) g (cm_Nonce m))) (\<lambda>_.
    give (accepted_response m grants))) s2"
proof -
  have verified: "verify_message srv m (ed25519_public (at_crypto a) (at_key a)) (clock 0) prev st = (Inr (), st)" for st
    using agent_message_verifies [OF assms(1,4,11,5,12,13)] by (simp add: verify_message_def assms(2,3))
  have key: "RawStd_Decode (id_PublicKey ident) = Some (ed25519_public (at_crypto a) (at_key a))"
    by (simp add: assms(8) registration_fields)
  note fields = hub_message_fields [OF assms(4)]
  show ?thesis
    using assms(6,7,9,10)
    by (simp add: controlMessage_def and_then_apply map_error_apply verified key fields(2-4))
qed

section \<open>Refreshing the identity\<close>

lemma pem_encode_not_Nil:
  assumes "x509_sound x" and "kind \<in> {''CERTIFICATE'', ''PRIVATE KEY''}"
  shows "pem_encode x kind bytes \<noteq> []"
proof
  assume nil: "pem_encode x kind bytes = []"
  from assms(1) have sound: "k \<in> {''CERTIFICATE'', ''PRIVATE KEY''} \<Longrightarrow> pem_decode x (pem_encode x k b @ rest) = Some (k, b)" for k b rest
    unfolding x509_sound_def by blast
  have "kind = k" if k: "k \<in> {''CERTIFICATE'', ''PRIVATE KEY''}" for k
    using sound [OF assms(2), of bytes "pem_encode x k []"] sound [OF k, of "[]" "[]"] nil by simp
  from this [of "''CERTIFICATE''"] this [of "''PRIVATE KEY''"] show False by simp
qed

lemma with_material_fields [simp]:
  "secret_field (with_material m s) ''tls.crt'' = tm_CertificatePEM m"
  "secret_field (with_material m s) ''tls.key'' = tm_PrivateKeyPEM m"
  "secret_field (with_material m s) ''bundle.pem'' = tm_BundlePEM m"
  "sec_annotation (with_material m s) digest_annotation = tm_BundleDigest m"
  by (simp_all add: with_material_def secret_field_def Let_def digest_annotation_def generation_annotation_def annotate_def)

lemma issued_leaf_fresh:
  assumes "x509_sound x" and "issueLeaf x c spiffe key root bundle now draws = Inr m" and "later \<le> now + 21 * hour"
  shows "\<not> needs_leaf x (with_material m s) later"
proof -
  from assms(2) obtain der keyBytes serial uri leaf where
    der: "x_create x (leaf_template serial spiffe uri now) root (ed25519_public c leaf) key = Some der"
    and m: "tm_CertificatePEM m = pem_encode x ''CERTIFICATE'' der @ bundle" "tm_PrivateKeyPEM m = pem_encode x ''PRIVATE KEY'' keyBytes"
    by (auto elim!: issueLeaf_Inr)
  have "now + 24 * hour < truncate_second (now + 24 * hour) + second" by (rule truncate_second_gt)
  then have "\<not> Before (truncate_second (now + 24 * hour)) (later + 2 * hour)"
    using assms(3) by (simp add: Before_def)
  then show ?thesis
    using x509_soundD(1) [OF assms(1) der] x509_soundD(2) [OF assms(1)] pem_encode_not_Nil [OF assms(1)]
    by (simp add: needs_leaf_def m certificateExpiresBefore_def certified_def leaf_template_def)
qed

text \<open>
  C22: refreshing is stable. Once the identity Secret holds the material a refresh made, the next
  refresh at that moment changes nothing, and the leaf certificate is not due again for 21 hours,
  whatever the Secret held before (nothing, an expired leaf, an expired root). The digest it
  announces to the peers has the form the Hub accepts.
\<close>

theorem refresh_is_stable:
  assumes "x509_sound (at_x509 a)" and "sha256_size (at_crypto a)"
    and "add_years (at_x509 a) now 1 \<le> truncate_second (add_years (at_x509 a) now 10)"
    and "refreshed a key s now draws = Some (Inr m)"
  shows "refreshed a key (with_material m s) now draws' = None \<and>
    (\<forall>later. later \<le> now + 21 * hour \<longrightarrow> \<not> needs_leaf (at_x509 a) (with_material m s) later) \<and>
    digestPattern (sec_annotation (with_material m s) digest_annotation)"
proof -
  let ?x = "at_x509 a" and ?c = "at_crypto a"
  consider (fresh) "needs_root ?x s now" "FromPrivateKey ?x ?c (spiffeID a) key now draws = Inr m"
    | (kept) "\<not> needs_root ?x s now" "Rotate ?x ?c (spiffeID a) key (secret_field s ''bundle.pem'') now draws = Inr m"
    using assms(4) by (auto simp: refreshed_def Let_def split: if_splits)
  then obtain root where made: "issueLeaf ?x ?c (spiffeID a) key root (tm_BundlePEM m) now draws = Inr m"
    and root: "\<not> needs_root ?x (with_material m s) now"
  proof cases
    case fresh
    from fresh(2) obtain serial rootDER r where der: "x_create ?x (root_template ?x serial (spiffeID a) now)
        (root_template ?x serial (spiffeID a) now) (ed25519_public ?c key) key = Some rootDER"
      and made: "issueLeaf ?x ?c (spiffeID a) key r (pem_encode ?x ''CERTIFICATE'' rootDER) now draws = Inr m"
      by (rule FromPrivateKey_Inr)
    have pem: "tm_BundlePEM m = pem_encode ?x ''CERTIFICATE'' rootDER"
      by (rule issued_material(1) [OF assms(1) made])
    have "\<not> needs_root ?x (with_material m s) now"
      using x509_soundD(1) [OF assms(1) der] x509_soundD(3) [OF assms(1)] pem_encode_not_Nil [OF assms(1)] assms(3)
      by (simp add: needs_root_def pem certificateExpiresBefore_def certified_def root_template_def Before_def)
    with made pem show ?thesis by (intro that) auto
  next
    case kept
    from kept(2) obtain r where made: "issueLeaf ?x ?c (spiffeID a) key r (secret_field s ''bundle.pem'') now draws = Inr m"
      by (rule Rotate_Inr)
    from issued_material(1) [OF assms(1) made] kept(1) have "\<not> needs_root ?x (with_material m s) now"
      by (simp add: needs_root_def)
    with made issued_material(1) [OF assms(1) made] show ?thesis by (intro that) auto
  qed
  have digest: "digestPattern (tm_BundleDigest m)"
    unfolding issued_material(2) [OF assms(1) made] by (rule bundle_digest_pattern [OF assms(2)])
  then have "tm_BundleDigest m \<noteq> []"
    by (auto simp: digestPattern_def)
  moreover have leaf: "later \<le> now + 21 * hour \<Longrightarrow> \<not> needs_leaf ?x (with_material m s) later" for later
    by (rule issued_leaf_fresh [OF assms(1) made])
  ultimately show ?thesis
    using root leaf [of now] digest by (simp add: refreshed_def Let_def)
qed

section \<open>Grants\<close>

text \<open>A grant that is neither revoked nor over, and that the customer did not approve here.\<close>

definition unapproved :: "'w agent_api \<Rightarrow> agent \<Rightarrow> grant_instruction \<Rightarrow> 'w \<Rightarrow> 'w \<Rightarrow> bool" where
  "unapproved api a grant w w2 \<longleftrightarrow> \<not> gi_Revoked grant \<and>
     (\<exists>now w1 got. at_now api w = (now, w1) \<and> Before now (gi_ExpiresAt grant) \<and>
        cfg_get api (at_namespace a) (''among-clusters-approval-'' @ gi_Name grant) w1 = (got, w2) \<and>
        (\<forall>approval. got = Inr approval \<longrightarrow> \<not> approval_given grant approval))"

lemma unapproved_refused:
  assumes "unapproved api a grant (st_world s) w2"
  shows "\<exists>e. reconcileGrant a api grant s = (Inl (Msg e), s\<lparr>st_world := w2\<rparr>)"
  using assms
  by (auto simp: unapproved_def reconcileGrant_def and_then_apply attempt_apply from_world_def at_world_def
      split: sum.splits)

text \<open>
  C13: without the customer's own approval nothing happens in the cluster. When the approval
  object of a live grant is missing or does not name this grant, this generation and consent,
  reconciling the grant reads the clock and that object and makes no other request: no service
  account, no role, no token, no message.
\<close>

theorem grant_needs_local_approval:
  assumes "\<not> gi_Revoked grant" and "at_now api (st_world s) = (now, w1)" and "now < gi_ExpiresAt grant"
    and "cfg_get api (at_namespace a) (''among-clusters-approval-'' @ gi_Name grant) w1 = (got, w2)"
    and "\<And>approval. got = Inr approval \<Longrightarrow>
      \<not> (map_get [] (cf_Data approval) ''grantRef'' = gi_Name grant \<and>
         map_get [] (cf_Data approval) ''generation'' = FormatInt (gi_Generation grant) \<and>
         map_get [] (cf_Data approval) ''approved'' = ''true'')"
  shows "\<exists>e. reconcileGrant a api grant s = (Inl (Msg e), s\<lparr>st_world := w2\<rparr>)"
  by (rule unapproved_refused) (use assms in \<open>auto simp: unapproved_def Before_def approval_given_def\<close>)

text \<open>
  C39: one grant without approval blocks all grants behind it, revocations included: the poll
  ends at the first error, so a grant that was revoked but comes later in the Hub's list keeps
  its roles and its credential, whatever it is.
\<close>

theorem unapproved_grant_blocks_revocations:
  assumes "unapproved api a grant (st_world s) w2"
  shows "\<exists>e. reconcile_grants a api (grant # later) s = (Inl (Wrapped (''grant '' @ gi_Name grant) (Msg e)), s\<lparr>st_world := w2\<rparr>)"
proof -
  from unapproved_refused [OF assms] obtain e where "reconcileGrant a api grant s = (Inl (Msg e), s\<lparr>st_world := w2\<rparr>)" ..
  then show ?thesis by (simp add: reconcile_grants_def and_then_apply map_error_apply grant_error_def)
qed

lemma go_sub_pos: "0 < go_sub t now \<Longrightarrow> go_sub t now \<le> t - now"
  by (auto simp: go_sub_def)

lemma seconds_until_bounds:
  "600 \<le> seconds_until t now \<Longrightarrow> seconds_until t now * second \<le> t - now"
  "seconds_until t now < 600 \<Longrightarrow> t - now < 600 * second"
proof -
  let ?d = "go_sub t now"
  have quot: "seconds_until t now = (if ?d < 0 then - (- ?d div second) else ?d div second)"
    by (simp add: seconds_until_def go_quot_def)
  show "seconds_until t now * second \<le> t - now" if "600 \<le> seconds_until t now"
  proof -
    have "0 \<le> - ?d div second" if "?d < 0" using that by simp
    with \<open>600 \<le> seconds_until t now\<close> quot have pos: "\<not> ?d < 0" by auto
    with \<open>600 \<le> seconds_until t now\<close> quot have "600 \<le> ?d div second" by simp
    then have "0 < ?d" by (simp add: pos_imp_zdiv_nonneg_iff)
    from go_sub_pos [OF this] show ?thesis
      using pos quot div_mult_mod_eq [of ?d second] pos_mod_sign [of second ?d] by simp
  qed
  show "t - now < 600 * second" if "seconds_until t now < 600"
  proof (rule ccontr)
    assume "\<not> t - now < 600 * second"
    then have "\<not> ?d \<le> 600 * second - 1"
      using go_sub_le_iff [of "600 * second - 1" t now] by simp
    then have "600 * second \<le> ?d" by simp
    then have "600 \<le> ?d div second" by simp
    with \<open>600 * second \<le> ?d\<close> quot that show False by simp
  qed
qed

text \<open>
  C12: a token never outlives its grant, nor an hour. For a grant that still lasts, the agent
  either refuses because less than ten minutes are left, making no request, or asks for a token
  of at least ten minutes and at most an hour that ends before the grant does, and uploads the
  token with the expiry the API server gave it.
\<close>

theorem token_never_outlives_grant:
  assumes "at_now api (st_world s) = (now, w1)"
  shows "(gi_ExpiresAt grant - now < 600 * second \<and>
      issue_credential a api grant s = (Inl (Msg ''grant expires too soon''), s\<lparr>st_world := w1\<rparr>)) \<or>
    (\<exists>n. 600 \<le> n \<and> n \<le> 3600 \<and> now + n * second \<le> gi_ExpiresAt grant \<and>
      issue_credential a api grant s =
        and_then (at_world (sa_token api (at_namespace a) (grantResourceName (gi_Name grant)) n)) (\<lambda>(token, expiry).
        and_then (at_world (cfg_get api (at_namespace a) ''kube-root-ca.crt'')) (\<lambda>ca.
        uploadCredential a api grant
          \<lparr>cp_Token = token, cp_CertificateAuthority = map_get [] (cf_Data ca) ''ca.crt'',
           cp_Server = gi_ProxyURL grant, cp_TLSServerName = at_tlsServerName a, cp_ExpiresAt = expiry\<rparr>)) (s\<lparr>st_world := w1\<rparr>))"
proof (cases "seconds_until (gi_ExpiresAt grant) now < 600")
  case True
  then have "issue_credential a api grant s = (Inl (Msg ''grant expires too soon''), s\<lparr>st_world := w1\<rparr>)"
    by (simp add: issue_credential_def and_then_apply from_world_def assms token_seconds_def Let_def)
  with seconds_until_bounds(2) [OF True] show ?thesis by simp
next
  case False
  let ?n = "token_seconds (gi_ExpiresAt grant) now"
  from False have n: "600 \<le> ?n" "?n \<le> 3600" "?n \<le> seconds_until (gi_ExpiresAt grant) now"
    by (auto simp: token_seconds_def)
  moreover from False have "seconds_until (gi_ExpiresAt grant) now * second \<le> gi_ExpiresAt grant - now"
    by (intro seconds_until_bounds) simp
  with n(3) have "now + ?n * second \<le> gi_ExpiresAt grant" by simp
  moreover have "issue_credential a api grant s =
        and_then (at_world (sa_token api (at_namespace a) (grantResourceName (gi_Name grant)) ?n)) (\<lambda>(token, expiry).
        and_then (at_world (cfg_get api (at_namespace a) ''kube-root-ca.crt'')) (\<lambda>ca.
        uploadCredential a api grant
          \<lparr>cp_Token = token, cp_CertificateAuthority = map_get [] (cf_Data ca) ''ca.crt'',
           cp_Server = gi_ProxyURL grant, cp_TLSServerName = at_tlsServerName a, cp_ExpiresAt = expiry\<rparr>)) (s\<lparr>st_world := w1\<rparr>)"
    using n(1) by (simp add: issue_credential_def and_then_apply from_world_def assms Let_def)
  ultimately show ?thesis by blast
qed

section \<open>Links\<close>

lemma verifyPeer_iff:
  "verifyPeer expected presented = None \<longleftrightarrow>
     (\<exists>uri. presented = Some (True, [uri]) \<and> TrimSuffix uri ''/'' = TrimSuffix expected ''/'')"
  by (auto simp: verifyPeer_def length_Suc_conv split: option.splits if_splits)

lemma at_world_iff: "at_world m s = (r, s') \<longleftrightarrow> (\<exists>w. m (st_world s) = (r, w) \<and> s' = s\<lparr>st_world := w\<rparr>)"
  by (auto simp: at_world_def split: prod.splits)

lemma from_world_iff: "from_world f s = (r, s') \<longleftrightarrow> (\<exists>t w. f (st_world s) = (t, w) \<and> r = Inr t \<and> s' = s\<lparr>st_world := w\<rparr>)"
  by (auto simp: from_world_def split: prod.splits)

lemma agent_driver_iff:
  "agent_driver a api s = (Inr (crt, key, peers), s') \<longleftrightarrow>
     (\<exists>sec w1 w2. sec_get api (at_namespace a) (at_secretName a) (st_world s) = (Inr sec, w1) \<and>
        crt = secret_field sec ''tls.crt'' \<and> key = secret_field sec ''tls.key'' \<and> key_pair_ok (at_x509 a) crt key \<and>
        read_bundle api w1 = (Inr peers, w2) \<and> pool_ok (at_x509 a) peers \<and> s' = s\<lparr>st_world := w2\<rparr>)"
  (is "?run \<longleftrightarrow> ?steps")
proof
  assume ?run
  then show ?steps by (auto simp: agent_driver_def and_then_Inr_iff at_world_iff Let_def split: if_splits)
next
  assume ?steps
  then show ?run by (elim exE conjE) (simp add: agent_driver_def and_then_apply at_world_def Let_def)
qed

lemma dial_peer_iff:
  "dial_peer api (crt, key, peers) expected address s = (Inr None, s') \<longleftrightarrow>
     (\<exists>uri w. dial_quic api crt key peers address (st_world s) = (Inr (Some (True, [uri])), w) \<and>
        TrimSuffix uri ''/'' = TrimSuffix expected ''/'' \<and> s' = s\<lparr>st_world := w\<rparr>)"
proof -
  obtain outcome w where "dial_quic api crt key peers address (st_world s) = (outcome, w)" by fastforce
  then show ?thesis
    by (cases outcome) (auto simp: dial_peer_def and_then_apply attempt_apply at_world_def verifyPeer_iff)
qed

lemma driver_endpoint_single:
  "driver_endpoint parse \<lparr>tp_ID = i, tp_Endpoints = [e]\<rparr> = Inr address \<longleftrightarrow> parse e = Some (''quic'', address) \<and> address \<noteq> []"
  by (auto simp: driver_endpoint_def split: option.splits)

lemma driver_Probe_None:
  "driver_Probe parse (\<lambda>_. outcome) start stop p = (q, None) \<longleftrightarrow>
     (\<exists>address. driver_endpoint parse p = Inr address) \<and> outcome = None \<and>
     q = \<lparr>ob_Ready = True, ob_Latency = go_sub stop start, ob_Reason = [], ob_ObservedAt = stop\<rparr>"
  by (auto simp: driver_Probe_def split: sum.splits option.splits)

lemma probe_link_iff:
  "probe_link a api (crt, key, peers) target s = (Inr (q, None), s') \<longleftrightarrow>
     (\<exists>start w1 address uri w2 stop w3. at_now api (st_world s) = (start, w1) \<and>
        parse_url (at_agent_codec a) (lt_Endpoint target) = Some (''quic'', address) \<and> address \<noteq> [] \<and>
        dial_quic api crt key peers address w1 = (Inr (Some (True, [uri])), w2) \<and>
        TrimSuffix uri ''/'' = TrimSuffix (lt_ExpectedSPIFFEID target) ''/'' \<and>
        at_now api w2 = (stop, w3) \<and> s' = s\<lparr>st_world := w3\<rparr> \<and>
        q = \<lparr>ob_Ready = True, ob_Latency = go_sub stop start, ob_Reason = [], ob_ObservedAt = stop\<rparr>)"
  (is "?run \<longleftrightarrow> ?steps")
proof
  let ?p = "\<lparr>tp_ID = lt_PeerRef target, tp_Endpoints = [lt_Endpoint target]\<rparr>"
  assume ?run
  then obtain start w1 outcome s2 stop w3 where start: "at_now api (st_world s) = (start, w1)"
    and dialled: "(case driver_endpoint (parse_url (at_agent_codec a)) ?p of Inl _ \<Rightarrow> give None
        | Inr address \<Rightarrow> dial_peer api (crt, key, peers) (lt_ExpectedSPIFFEID target) address) (s\<lparr>st_world := w1\<rparr>) = (Inr outcome, s2)"
    and stop: "at_now api (st_world s2) = (stop, w3)" "s' = s2\<lparr>st_world := w3\<rparr>"
    and probe: "driver_Probe (parse_url (at_agent_codec a)) (\<lambda>_. outcome) start stop ?p = (q, None)"
    by (auto simp: probe_link_def Let_def and_then_Inr_iff from_world_iff)
  from probe obtain address where address: "driver_endpoint (parse_url (at_agent_codec a)) ?p = Inr address" and "outcome = None"
    and q: "q = \<lparr>ob_Ready = True, ob_Latency = go_sub stop start, ob_Reason = [], ob_ObservedAt = stop\<rparr>"
    by (auto simp: driver_Probe_None)
  with dialled start stop show ?steps
    by (auto simp: dial_peer_iff driver_endpoint_single)
next
  assume ?steps
  then show ?run
    by (auto simp: probe_link_def Let_def and_then_Inr_iff from_world_iff driver_endpoint_single [THEN iffD2] dial_peer_iff driver_Probe_None)
qed

lemma persistentSessionReady_iff:
  "persistentSessionReady api identity s = (Inr True, s') \<longleftrightarrow>
     (\<exists>w. gateway_ready api identity (st_world s) = (Inr 204, w) \<and> s' = s\<lparr>st_world := w\<rparr>)"
  by (auto simp: persistentSessionReady_def and_then_Inr_iff attempt_iff at_world_iff)

lemma link_observed_ready:
  "link_observed a api target s = (Inr obs, s') \<and> lo_Ready obs \<longleftrightarrow>
     (\<exists>t0 w0 t1 w1 crt key peers s2 q s3. at_now api (st_world s) = (t0, w0) \<and> at_now api w0 = (t1, w1) \<and>
        agent_driver a api (s\<lparr>st_world := w1\<rparr>) = (Inr (crt, key, peers), s2) \<and>
        probe_link a api (crt, key, peers) target s2 = (Inr (q, None), s3) \<and> ob_Ready q \<and>
        persistentSessionReady api (lt_ExpectedSPIFFEID target) s3 = (Inr True, s') \<and> obs = link_probed target q True)"
  (is "?run \<longleftrightarrow> ?steps")
proof
  assume run: ?run
  then obtain t0 s0 t1 s1 probed s2 where "(agent_now api :: (go_error, time, _) prog) s = (Inr t0, s0)"
    "(agent_now api :: (go_error, time, _) prog) s0 = (Inr t1, s1)"
    and probed: "and_then (agent_driver a api) (\<lambda>driver. probe_link a api driver target) s1 = (probed, s2)"
    and rest: "(case probed of
       Inl _ \<Rightarrow> and_then (agent_now api) (\<lambda>stop. give (link_failed target t0 t1 stop))
     | Inr (p, failure) \<Rightarrow>
         and_then (if ob_Ready p then persistentSessionReady api (lt_ExpectedSPIFFEID target) else give False) (\<lambda>session.
         if failure \<noteq> None
           then and_then (agent_now api) (\<lambda>stop. give (link_failed target (ob_ObservedAt p) t1 stop))
           else give (link_probed target p session))) s2 = (Inr obs, s')"
    unfolding link_observed_def by (elim conjE and_then_InrE attempt_InrE) (rule that)
  moreover from this(1,2) obtain w0 w1 where "at_now api (st_world s) = (t0, w0)" "at_now api w0 = (t1, w1)" "s1 = s\<lparr>st_world := w1\<rparr>"
    by (auto simp: from_world_iff)
  moreover from rest run obtain q where "probed = Inr (q, None)" "ob_Ready q" "obs = link_probed target q True"
    "persistentSessionReady api (lt_ExpectedSPIFFEID target) s2 = (Inr True, s')"
    by (auto simp: link_failed_def link_probed_def elim!: run_elims split: sum.splits if_splits)
  ultimately show ?steps by (auto simp: and_then_Inr_iff)
next
  assume ?steps
  then show ?run
    by (elim exE conjE) (simp add: link_observed_def and_then_apply attempt_apply from_world_def link_probed_def)
qed

text \<open>
  C14: exactly when an agent reports a link Ready. It reads its identity Secret, whose certificate
  and key belong together, then the peer bundle, and dials the link's endpoint with this
  certificate; the peer presents a chain that verifies against the peer bundle, with the expected
  identity as its only URI (up to a final slash); then the gateway answers that it has a persistent
  session with this identity. These requests are made one after the other, and nothing else is.
  The handshake time and the latency of the report are those of the dial. Every other outcome is
  reported as not Ready.
\<close>

theorem link_ready_authenticated:
  "link_observed a api target s = (Inr obs, s') \<and> lo_Ready obs \<longleftrightarrow>
     (\<exists>t0 w0 t1 w1 sec w2 peers w3 start w4 address uri w5 stop w6 w7.
        at_now api (st_world s) = (t0, w0) \<and> at_now api w0 = (t1, w1) \<and>
        sec_get api (at_namespace a) (at_secretName a) w1 = (Inr sec, w2) \<and>
        key_pair_ok (at_x509 a) (secret_field sec ''tls.crt'') (secret_field sec ''tls.key'') \<and>
        read_bundle api w2 = (Inr peers, w3) \<and> pool_ok (at_x509 a) peers \<and>
        at_now api w3 = (start, w4) \<and>
        parse_url (at_agent_codec a) (lt_Endpoint target) = Some (''quic'', address) \<and> address \<noteq> [] \<and>
        dial_quic api (secret_field sec ''tls.crt'') (secret_field sec ''tls.key'') peers address w4 =
          (Inr (Some (True, [uri])), w5) \<and>
        TrimSuffix uri ''/'' = TrimSuffix (lt_ExpectedSPIFFEID target) ''/'' \<and>
        at_now api w5 = (stop, w6) \<and>
        gateway_ready api (lt_ExpectedSPIFFEID target) w6 = (Inr 204, w7) \<and> s' = s\<lparr>st_world := w7\<rparr> \<and>
        obs = \<lparr>lo_LinkRef = lt_LinkRef target, lo_PeerRef = lt_PeerRef target, lo_Ready = True,
          lo_LatencyMillis = millis (go_sub stop start), lo_Reason = [], lo_LastHandshakeAt = stop\<rparr>)"
  (is "?run \<longleftrightarrow> ?steps")
proof
  assume ?run
  then show ?steps
    unfolding link_observed_ready agent_driver_iff probe_link_iff persistentSessionReady_iff
    by (elim exE conjE) (simp add: link_probed_def)
next
  assume ?steps
  then show ?run
    by (elim exE conjE) (simp add: link_observed_def agent_driver_def probe_link_def dial_peer_def persistentSessionReady_def
        driver_endpoint_def driver_Probe_def verifyPeer_def link_probed_def and_then_apply attempt_apply from_world_def at_world_def Let_def)
qed

section \<open>A concrete agent\<close>

text \<open>Every request of this world is logged; its API server gives an approval for the grant \<open>g\<close> only.\<close>

definition demo_agent_codec :: agent_codec where
  "demo_agent_codec = \<lparr>json_payload = (\<lambda>_. []), json_routes = (\<lambda>_. []), json_grants = (\<lambda>_. None), json_confirmations = (\<lambda>_. None),
     json_links = (\<lambda>_. None), parse_url = (\<lambda>u. Some (''quic'', u))\<rparr>"

definition demo_agent :: agent where
  "demo_agent = \<lparr>at_libs = \<lparr>al_crypto = demo_crypto, al_codec = demo_codec, al_agent_codec = demo_agent_codec,
       al_x509 = demo_x509, al_ecies = demo_ecies\<rparr>,
     at_clusterID = ''c1'', at_tenant = ''t'', at_trustDomain = ''customer.example'', at_endpoint = ''http://hub'',
     at_namespace = ''n'', at_secretName = ''s'', at_gatewayEndpoint = ''quic://g:8443'', at_brokerEndpoint = [],
     at_tlsServerName = [], at_key = replicate 64 CHR ''k'', at_confirmations = [], at_links = []\<rparr>"

definition demo_config :: config_map where
  "demo_config = \<lparr>cf_Meta = new_meta ''n'' ''among-clusters-approval-g'',
     cf_Data = [''grantRef'' \<mapsto> ''g'', ''generation'' \<mapsto> ''1'', ''approved'' \<mapsto> ''true'']\<rparr>"

definition logged :: "string \<Rightarrow> 'e + 'a \<Rightarrow> ('e, 'a, string list) prog" where
  "logged what r w = (r, w @ [what])"

definition demo_identity_secret :: secret where
  "demo_identity_secret = \<lparr>sec_Meta = new_meta ''n'' ''s'', sec_Data = Map.empty\<rparr>"

definition demo_agent_api :: "(string list) agent_api" where
  "demo_agent_api = \<lparr>at_now = (\<lambda>w. (100 * second, w)),
     sec_get = (\<lambda>_ _. logged ''get secret'' (Inr demo_identity_secret)), sec_create = (\<lambda>_ _. logged ''create secret'' (Inr ())),
     sec_update = (\<lambda>_ _. logged ''update secret'' (Inr ())), list_advertised = logged ''list services'' (Inr []),
     cfg_get = (\<lambda>_ n. logged ''get config'' (if n = ''among-clusters-approval-g'' then Inr demo_config else Inl (ApiNotFound []))),
     cfg_create = (\<lambda>_ _. logged ''create config'' (Inr ())), cfg_update = (\<lambda>_ _. logged ''update config'' (Inr ())),
     sa_create = (\<lambda>_ _. logged ''create account'' (Inr ())), sa_delete = (\<lambda>_ _. logged ''delete account'' (Inr ())),
     sa_token = (\<lambda>_ _ _. logged ''token'' (Inr (''bearer'', 700 * second))),
     crole_get = (\<lambda>_. logged ''get cluster role'' (Inl (ApiNotFound []))), crole_create = (\<lambda>_. logged ''create cluster role'' (Inr ())),
     crole_update = (\<lambda>_. logged ''update cluster role'' (Inr ())), crole_delete = (\<lambda>_. logged ''delete cluster role'' (Inr ())),
     cbind_create = (\<lambda>_. logged ''create cluster binding'' (Inr ())), cbind_delete = (\<lambda>_. logged ''delete cluster binding'' (Inr ())),
     role_get = (\<lambda>_ _. logged ''get role'' (Inl (ApiNotFound []))), role_create = (\<lambda>_ _. logged ''create role'' (Inr ())),
     role_update = (\<lambda>_ _. logged ''update role'' (Inr ())), role_delete = (\<lambda>_ _. logged ''delete role'' (Inr ())),
     bind_create = (\<lambda>_ _. logged ''create binding'' (Inr ())), bind_delete = (\<lambda>_ _. logged ''delete binding'' (Inr ())),
     post_accept = (\<lambda>_ _. logged ''accept'' (Inl (Msg []))), post_hub = (\<lambda>_ _. logged ''hub'' (Inl (Msg []))),
     get_broker_key = (\<lambda>_. logged ''broker key'' (Inl (Msg []))), post_store = (\<lambda>_ _. logged ''store'' (Inl (Msg []))),
     post_revoke = (\<lambda>_ _. logged ''revoke'' (Inr \<lparr>hr_Status = 204, hr_StatusText = [], hr_Body = Some []\<rparr>)),
     draw_identity = (\<lambda>w. (demo_draws, w)), draw_envelope = (\<lambda>w. ((None, None), w)), read_bundle = logged ''bundle'' (Inr ''ca''),
     dial_quic = (\<lambda>_ _ _ _. logged ''dial'' (Inr (Some (True, [''spiffe://d/cluster/b''])))),
     gateway_ready = (\<lambda>_. logged ''ready'' (Inr 204))\<rparr>"

definition demo_agent_start :: "string list agent_state" where
  "demo_agent_start = \<lparr>st_sequence = 4, st_world = []\<rparr>"

definition demo_grant :: "string \<Rightarrow> bool \<Rightarrow> grant_instruction" where
  "demo_grant name revoked = \<lparr>gi_Name = name, gi_Tenant = ''t'', gi_PeerRef = ''p'', gi_AdvertisementRef = ''ad'', gi_Generation = 1,
     gi_Scope = ''Cluster'', gi_Namespaces = [], gi_Rules = [], gi_ExpiresAt = 900 * second, gi_Revoked = revoked, gi_ProxyURL = ''https://x''\<rparr>"

definition demo_store_identity :: identity_registration where
  "demo_store_identity = (registration_of demo_agent (tm_BundleDigest demo_material))\<lparr>id_Region := ''r''\<rparr>"

definition demo_invited :: mem_store where
  "demo_invited = NewMemorySovereignStore\<lparr>ms_Invitations := [''i'' \<mapsto> \<lparr>inv_ID = ''i'', inv_Tenant = ''t'', inv_ClusterID = ''c1'',
     inv_Region = ''r'', inv_ExpiresAt = 900 * second, inv_Capabilities = [''service'', ''quic-mtls''],
     inv_TokenHash = TokenHash demo_crypto ''token'', inv_UsedAt = 0\<rparr>]\<rparr>"

lemma demo_material_digest: "digestPattern (tm_BundleDigest demo_material)"
  using demo_material issued_material(2) [OF demo_x509_sound] bundle_digest_pattern [OF demo_crypto_size]
  by (auto elim!: FromPrivateKey_Inr)

lemma demo_agent_simps [simp]:
  "at_crypto demo_agent = demo_crypto" "at_codec demo_agent = demo_codec" "at_x509 demo_agent = demo_x509"
  "at_agent_codec demo_agent = demo_agent_codec" "at_clusterID demo_agent = ''c1''" "at_tenant demo_agent = ''t''"
  "at_namespace demo_agent = ''n''" "at_trustDomain demo_agent = ''customer.example''" "at_gatewayEndpoint demo_agent = ''quic://g:8443''"
  "spiffeID demo_agent = demo_spiffe"
  by (simp_all add: demo_agent_def spiffeID_def demo_spiffe_def)

theorem agent_registration_accepted_witness:
  "rs_Status (fst (serve demo_server mem_ops
     (PostAccept ''i'' (Some (acceptance_of demo_agent (registration_of demo_agent (tm_BundleDigest demo_material)) ''token'')) (\<lambda>_. 100 * second))
     demo_invited)) = 201"
proof -
  have consume: "\<exists>iv s1. ConsumeInvitation mem_ops ''i'' (TokenHash demo_crypto ''token'') ''t'' ''c1'' [''service'', ''quic-mtls''] (100 * second)
      demo_invited = (Inr iv, s1) \<and> inv_Tenant iv = ''t'' \<and> ms_Identities s1 = Map.empty"
    by (simp add: mem_ops_def mem_ConsumeInvitation_def demo_invited_def NewMemorySovereignStore_def IsZero_def Before_def
        capabilitiesAllowed_def Let_def)
  then obtain iv s1 where iv: "ConsumeInvitation mem_ops ''i'' (TokenHash demo_crypto ''token'') ''t'' ''c1'' [''service'', ''quic-mtls''] (100 * second)
      demo_invited = (Inr iv, s1)" "inv_Tenant iv = ''t''" "ms_Identities s1 = Map.empty" by blast
  from iv(3) obtain s2 where "RegisterIdentity mem_ops ((registration_of demo_agent (tm_BundleDigest demo_material))\<lparr>id_Region := inv_Region iv\<rparr>) s1 = (Inr (), s2)"
    by (simp add: mem_ops_def mem_RegisterIdentity_def Let_def)
  from agent_registration_accepted [of demo_agent demo_server, OF _ _ _ demo_material_digest _ _ _ _ _ _ _ this, of "''i''" "''token''" "\<lambda>_. 100 * second" demo_invited] iv
  show ?thesis
    by (simp add: demo_crypto_sound demo_server_def HasPrefix_def demo_codec_def write_json_def)
qed

definition demo_joined :: mem_store where
  "demo_joined = NewMemorySovereignStore\<lparr>ms_Identities := [slash_key ''t'' ''c1'' \<mapsto> registration_of demo_agent (tm_BundleDigest demo_material)]\<rparr>"

theorem agent_message_reaches_the_store_witness:
  "\<exists>m. Sign demo_crypto demo_codec (hub_message demo_agent 5 ''identity.heartbeat'' (100 * second) (HeartbeatPayload 0 0)) (at_key demo_agent) = Inr m \<and>
     hub_handler demo_server mem_ops (PostMessage ''t'' ''c1'' (Some m) (\<lambda>_. 101 * second)) demo_joined =
       and_then (apply_message demo_server mem_ops ''t'' ''c1'' m (\<lambda>_. 101 * second)) (\<lambda>grants.
       and_then (on_error (\<lambda>_. http_error ''replay'' 409) (RecordGeneration mem_ops ''t'' ''c1'' 5 (cm_Nonce m))) (\<lambda>_.
       give (accepted_response m grants))) demo_joined"
proof -
  have "\<exists>m. Sign demo_crypto demo_codec (hub_message demo_agent 5 ''identity.heartbeat'' (100 * second) (HeartbeatPayload 0 0)) (at_key demo_agent) = Inr m"
    by (simp add: Sign_def canonical_def demo_codec_def)
  then obtain m where m: "Sign demo_crypto demo_codec (hub_message demo_agent 5 ''identity.heartbeat'' (100 * second) (HeartbeatPayload 0 0)) (at_key demo_agent) = Inr m" ..
  have identity: "Identity mem_ops ''t'' ''c1'' demo_joined = (Inr (registration_of demo_agent (tm_BundleDigest demo_material)), demo_joined)"
    "LastGeneration mem_ops ''t'' ''c1'' demo_joined = (Inr 0, demo_joined)"
    by (simp_all add: mem_ops_def mem_Identity_def mem_LastGeneration_def demo_joined_def NewMemorySovereignStore_def)
  have "id_SPIFFEID (registration_of demo_agent (tm_BundleDigest demo_material)) = demo_spiffe"
    by (simp add: registration_of_def)
  from agent_message_reaches_the_store [of demo_agent demo_server, simplified, OF demo_crypto_sound _ _ m _ _ identity(1) refl this identity(2),
      of "\<lambda>_. 101 * second"] m
  show ?thesis by (simp add: demo_server_def HasPrefix_def)
qed

theorem refresh_is_stable_witness:
  "\<exists>m. refreshed demo_agent (replicate 64 CHR ''k'') demo_identity_secret minute demo_draws = Some (Inr m) \<and>
     refreshed demo_agent (replicate 64 CHR ''k'') (with_material m demo_identity_secret) minute demo_draws = None"
proof -
  have m: "refreshed demo_agent (replicate 64 CHR ''k'') demo_identity_secret minute demo_draws = Some (Inr demo_material)"
    using demo_material by (simp add: refreshed_def Let_def needs_root_def secret_field_def demo_identity_secret_def)
  have "add_years demo_x509 minute 1 \<le> truncate_second (add_years demo_x509 minute 10)"
    by (simp add: demo_x509_def truncate_second_def)
  with refresh_is_stable [of demo_agent minute, simplified, OF demo_x509_sound demo_crypto_size _ m] m
  show ?thesis by simp
qed

theorem grant_needs_local_approval_witness:
  "\<exists>e. reconcileGrant demo_agent demo_agent_api (demo_grant ''other'' False) demo_agent_start =
     (Inl (Msg e), demo_agent_start\<lparr>st_world := [''get config'']\<rparr>)"
  by (rule grant_needs_local_approval [of _ _ _ "100 * second" "[]" _ "Inl (ApiNotFound [])"])
    (simp_all add: demo_grant_def demo_agent_api_def demo_agent_start_def logged_def)

theorem unapproved_grant_blocks_revocations_witness:
  "\<exists>e. reconcile_grants demo_agent demo_agent_api [demo_grant ''other'' False, demo_grant ''g'' True] demo_agent_start =
     (Inl (Wrapped (''grant other'') (Msg e)), demo_agent_start\<lparr>st_world := [''get config'']\<rparr>)"
proof -
  have "unapproved demo_agent_api demo_agent (demo_grant ''other'' False) (st_world demo_agent_start) [''get config'']"
    by (simp add: unapproved_def demo_grant_def demo_agent_api_def demo_agent_start_def logged_def Before_def)
  from unapproved_grant_blocks_revocations [OF this, of "[demo_grant ''g'' True]"] show ?thesis
    by (simp add: demo_grant_def)
qed

theorem token_never_outlives_grant_witness:
  "\<exists>n. 600 \<le> n \<and> n \<le> 3600 \<and> 100 * second + n * second \<le> gi_ExpiresAt (demo_grant ''g'' False)"
proof -
  have "at_now demo_agent_api (st_world demo_agent_start) = (100 * second, [])"
    by (simp add: demo_agent_api_def demo_agent_start_def)
  from token_never_outlives_grant [OF this, of "demo_grant ''g'' False" demo_agent] show ?thesis
    by (auto simp: demo_grant_def)
qed

definition demo_link_target :: link_target where
  "demo_link_target = \<lparr>lt_LinkRef = ''l'', lt_PeerRef = ''p'', lt_Endpoint = ''b:8443'', lt_ExpectedSPIFFEID = ''spiffe://d/cluster/b/''\<rparr>"

theorem link_ready_authenticated_witness:
  "\<exists>obs s' sec peers w2 w3. link_observed demo_agent demo_agent_api demo_link_target demo_agent_start = (Inr obs, s') \<and>
     lo_LinkRef obs = ''l'' \<and> read_bundle demo_agent_api w2 = (Inr peers, w3) \<and> peers = ''ca''"
proof -
  have "\<exists>obs s'. link_observed demo_agent demo_agent_api demo_link_target demo_agent_start = (Inr obs, s') \<and> lo_Ready obs"
    by (simp add: link_observed_def agent_driver_def probe_link_def dial_peer_def persistentSessionReady_def prog_simps from_world_def at_world_def
        demo_agent_api_def demo_agent_start_def logged_def driver_endpoint_def demo_agent_codec_def demo_link_target_def
        driver_Probe_def verifyPeer_def link_probed_def demo_x509_def TrimSuffix_def HasSuffix_def Let_def)
  then obtain obs s' where obs: "link_observed demo_agent demo_agent_api demo_link_target demo_agent_start = (Inr obs, s')" "lo_Ready obs" by blast
  from link_ready_authenticated [THEN iffD1, OF conjI [OF this]] obs show ?thesis
    by (auto simp: demo_link_target_def demo_agent_api_def logged_def)
qed

end
