(* ===== verification/Agent_Broker.thy ===== *)
theory Agent_Broker
  imports Agent_Hub Broker_Service
begin

text \<open>
  The agent and the credential broker together: the credential that an agent uploads is the one
  that requests are forwarded with.
\<close>

section \<open>The upload of an agent\<close>

lemma broker_message_fields:
  assumes "Sign c j (broker_message a g infix_text kind now payload) key = Inr m"
  shows "cm_Audience m = ''credential-broker''" "cm_Issuer m = spiffeID a" "cm_Generation m = g" "cm_Type m = kind"
    "cm_Nonce m = at_clusterID a @ infix_text @ FormatUint g" "cm_IssuedAt m = now" "cm_ExpiresAt m = now + minute"
    "cm_Payload m = json_payload (at_agent_codec a) payload"
  using Sign_fields [OF assms] by (auto simp: broker_message_def control_message_of_def)

lemma broker_message_verifies:
  assumes "ed25519_sound (at_crypto a)"
    and "Sign (at_crypto a) (at_codec a) (broker_message a g infix_text kind now payload) (at_key a) = Inr m"
    and "prev < g" "kind \<noteq> []" "infix_text \<noteq> []" "now - 2 * minute \<le> t" "t < now + minute"
  shows "Verify (at_crypto a) (at_codec a) m (ed25519_public (at_crypto a) (at_key a)) ''credential-broker'' t prev None = None"
  using assms authentic_Sign [OF assms(1,2)] broker_message_fields [OF assms(2)]
  by (simp add: Verify_None_iff message_window_def Before_def spiffeID_def)

text \<open>What the broker reads from the payload of an upload.\<close>

definition uploaded_meta :: "agent \<Rightarrow> string \<Rightarrow> envelope \<Rightarrow> store_meta" where
  "uploaded_meta a grant e = \<lparr>sm_Tenant = at_tenant a, sm_ClusterID = at_clusterID a, sm_GrantRef = grant, sm_Envelope = e\<rparr>"

lemma agent_upload_admitted:
  assumes "ed25519_sound (at_crypto a)" "bk_crypto b = at_crypto a" "bk_codec b = at_codec a"
    and "Sign (at_crypto a) (at_codec a) (broker_message a g ''-broker-'' ''credential.store'' now
      (UploadPayload (at_tenant a) (at_clusterID a) grant e)) (at_key a) = Inr m"
    and "decode_meta (bk_broker_codec b) (json_payload (at_agent_codec a) (UploadPayload (at_tenant a) (at_clusterID a) grant e)) =
      Some (uploaded_meta a grant e)"
    and "at_tenant a \<noteq> []" "at_clusterID a \<noteq> []" "grant \<noteq> []"
    and "hub_identity api (at_tenant a) (at_clusterID a) (bs_world s) = (Inr (200, Some ident), w1)"
    and "id_PublicKey ident = id_PublicKey (registration_of a digest)" "id_SPIFFEID ident = spiffeID a"
    and "map_get 0 (bs_generations s) (spiffeID a) < g" "now - 2 * minute \<le> t" "t < now + minute"
  shows "store_admit b api (Some m) t s = (Inr (m, uploaded_meta a grant e, spiffeID a), s\<lparr>bs_world := w1\<rparr>)"
proof -
  note fields = broker_message_fields [OF assms(4)]
  have "Verify (at_crypto a) (at_codec a) m (ed25519_public (at_crypto a) (at_key a)) ''credential-broker'' t
      (map_get 0 (bs_generations s) (spiffeID a)) None = None"
    by (rule broker_message_verifies [OF assms(1,4,12)]) (use assms(13,14) in simp_all)
  moreover have "RawStd_Decode (id_PublicKey ident) = Some (ed25519_public (at_crypto a) (at_key a))"
    by (simp add: assms(10) registration_fields)
  ultimately show ?thesis
    using assms(5-9,11)
    by (simp add: store_admit_def and_then_apply map_error_apply broker_identity_def in_world_def broker_check_def fields
        assms(2,3) uploaded_meta_def)
qed

text \<open>
  C24: a credential travels end to end. An agent whose identity is registered encrypts the token
  of a grant for the broker's key and uploads it. The broker accepts the upload (its message is
  inside the window and newer than the last), answers with the reference of the grant, and from
  then on forwards every request that presents the reference, until the credential expires, to
  the server of exactly this credential, with its token and the path of the request.
\<close>

theorem agent_credential_forwarded:
  assumes crypto: "ed25519_sound (at_crypto a)" "bk_crypto b = at_crypto a" "bk_codec b = at_codec a"
    and sealed: "ecies_sound (bk_ecies b)" "x_valid_private (bk_ecies b) (bk_private b)" "x_valid_private (bk_ecies b) fresh_key"
      "length nonce = 12" "\<And>clear. payload_json (bk_ecies b) payload = Some clear \<Longrightarrow> payload_parse (bk_ecies b) clear = Some payload"
      "Encrypt (bk_ecies b) (x_public (bk_ecies b) (bk_private b)) payload (Some fresh_key) (Some nonce) = Inr e"
    and message: "Sign (at_crypto a) (at_codec a) (broker_message a g ''-broker-'' ''credential.store'' now
        (UploadPayload (at_tenant a) (at_clusterID a) grant e)) (at_key a) = Inr m"
      "decode_meta (bk_broker_codec b) (json_payload (at_agent_codec a) (UploadPayload (at_tenant a) (at_clusterID a) grant e)) =
        Some (uploaded_meta a grant e)"
      "decode_envelope (bk_broker_codec b) (encode_envelope (bk_broker_codec b) e) = Some e"
    and names: "at_tenant a \<noteq> []" "at_clusterID a \<noteq> []" "grant \<noteq> []" "CHR ''/'' \<notin> set (at_tenant a)" "CHR ''/'' \<notin> set grant"
    and registered: "hub_identity api (at_tenant a) (at_clusterID a) (bs_world s) = (Inr (200, Some ident), w1)"
      "id_PublicKey ident = id_PublicKey (registration_of a digest)" "id_SPIFFEID ident = spiffeID a"
    and fresh: "map_get 0 (bs_generations s) (spiffeID a) < g" "now - 2 * minute \<le> clock 0" "clock 0 < now + minute"
      "cp_Token payload \<noteq> []" "clock 1 < cp_ExpiresAt payload"
    and api: "stored_reads api" "ba_get api (credentialName (at_tenant a) grant) w1 = (Inl missing, w2)"
      "ba_create api (credential_secret b (uploaded_meta a grant e) payload) w2 = (Inr (), w3)"
    and request: "pr_Authorization r = ''Bearer credential://among-clusters/'' @ at_tenant a @ ''/'' @ grant"
      "\<not> HasPrefix (ur_Path (pr_URL r)) ''/k8s/''"
  shows "\<exists>s'. broker_store b api (Some m) clock s =
      (Inr (Stored (''credential://among-clusters/'' @ at_tenant a @ ''/'' @ grant)), s') \<and>
    (\<forall>later target. later < cp_ExpiresAt payload \<and> parses (cp_Server payload) = Some target \<longrightarrow>
      (\<exists>s2. broker_proxy b api parses r later s' =
        (Inr (forward payload target r (at_tenant a # grant #
           (if TrimPrefix (ur_Path (pr_URL r)) ''/'' = [] then [] else [TrimPrefix (ur_Path (pr_URL r)) ''/'']))), s2)))"
proof -
  let ?meta = "uploaded_meta a grant e" and ?ref = "''credential://among-clusters/'' @ at_tenant a @ ''/'' @ grant"
  have opened: "Decrypt (bk_ecies b) (bk_private b) e = Inr payload"
    by (rule envelope_roundtrip [OF sealed])
  have admitted: "store_admit b api (Some m) (clock 0) s = (Inr (m, ?meta, spiffeID a), s\<lparr>bs_world := w1\<rparr>)"
    by (rule agent_upload_admitted [OF crypto message(1,2) names(1-3) registered fresh(1-3)])
  have meta: "sm_Tenant ?meta = at_tenant a" "sm_GrantRef ?meta = grant" "sm_Envelope ?meta = e"
    by (simp_all add: uploaded_meta_def)
  have "mt_Name (sec_Meta (credential_secret b ?meta payload)) = credentialName (at_tenant a) grant"
    by (simp add: credential_secret_def new_meta_def meta)
  then have saved: "store_save b api ?meta (clock 1) (s\<lparr>bs_world := w1\<rparr>) = (Inr (), s\<lparr>bs_world := w3\<rparr>)"
    using api(2,3) fresh(4,5) opened
    by (simp add: store_save_def open_envelope_def and_then_apply attempt_apply map_error_apply in_world_def meta Before_def Let_def)
  obtain s' where stored: "broker_store b api (Some m) clock s = (Inr (Stored ?ref), s')"
    using admitted saved by (simp add: broker_store_def and_then_apply store_record_def meta)
  have "decode_meta (bk_broker_codec b) (cm_Payload m) = Some ?meta"
    using message(2) broker_message_fields(8) [OF message(1)] by simp
  from broker_store_then_proxy [OF api(1) _ stored this, of r parses] opened message(3) names(4,5) request
  have "\<forall>later target. Before later (cp_ExpiresAt payload) \<and> parses (cp_Server payload) = Some target \<longrightarrow>
      (\<exists>s2. broker_proxy b api parses r later s' =
        (Inr (forward payload target r (at_tenant a # grant #
           (if TrimPrefix (ur_Path (pr_URL r)) ''/'' = [] then [] else [TrimPrefix (ur_Path (pr_URL r)) ''/'']))), s2))"
    by (simp add: meta)
  with stored show ?thesis by (auto simp: Before_def)
qed


section \<open>A concrete upload\<close>

definition demo_relay_ecies :: ecies where
  "demo_relay_ecies = demo_ecies\<lparr>payload_parse := (\<lambda>x. Some \<lparr>cp_Token = x, cp_CertificateAuthority = [], cp_Server = ''https://api'',
     cp_TLSServerName = [], cp_ExpiresAt = 100 * second\<rparr>)\<rparr>"

definition demo_relayed :: credential_payload where
  "demo_relayed = \<lparr>cp_Token = ''bearer'', cp_CertificateAuthority = [], cp_Server = ''https://api'', cp_TLSServerName = [],
     cp_ExpiresAt = 100 * second\<rparr>"

definition demo_relay :: "envelope \<Rightarrow> broker" where
  "demo_relay e = demo_broker\<lparr>bk_ecies := demo_relay_ecies, bk_private := demo_private,
     bk_broker_codec := \<lparr>decode_meta = (\<lambda>_. Some (uploaded_meta demo_agent ''ops'' e)), decode_revoke = (\<lambda>_. None),
       encode_envelope = (\<lambda>_. []), decode_envelope = (\<lambda>_. Some e)\<rparr>\<rparr>"

definition demo_relay_api :: "(string \<rightharpoonup> secret) broker_api" where
  "demo_relay_api = demo_broker_api\<lparr>hub_identity := (\<lambda>_ _ w. (Inr (200, Some (registration_of demo_agent [])), w))\<rparr>"

lemma demo_relay_simps [simp]:
  "bk_crypto (demo_relay e) = demo_crypto" "bk_codec (demo_relay e) = demo_codec" "bk_ecies (demo_relay e) = demo_relay_ecies"
  "bk_private (demo_relay e) = demo_private" "decode_meta (bk_broker_codec (demo_relay e)) p = Some (uploaded_meta demo_agent ''ops'' e)"
  "decode_envelope (bk_broker_codec (demo_relay e)) x = Some e"
  by (simp_all add: demo_relay_def demo_broker_def)

lemma demo_relay_ecies_fields:
  "x_valid_private demo_relay_ecies = x_valid_private demo_ecies" "x_valid_public demo_relay_ecies = x_valid_public demo_ecies"
  "x_public demo_relay_ecies = x_public demo_ecies" "x_ecdh demo_relay_ecies = x_ecdh demo_ecies"
  "gcm_open demo_relay_ecies = gcm_open demo_ecies" "gcm_seal demo_relay_ecies = gcm_seal demo_ecies"
  by (simp_all add: demo_relay_ecies_def)

lemma demo_relay_ecies_sound: "ecies_sound demo_relay_ecies"
  using demo_ecies_sound unfolding ecies_sound_def demo_relay_ecies_fields .

lemma demo_relay_keys:
  "x_valid_private demo_relay_ecies demo_private" "x_valid_private demo_relay_ecies (replicate 32 CHR ''f'')"
  "length demo_nonce = 12" "payload_json demo_relay_ecies demo_relayed = Some clear \<Longrightarrow> payload_parse demo_relay_ecies clear = Some demo_relayed"
  by (auto simp: demo_relay_ecies_def demo_ecies_def demo_private_def demo_nonce_def demo_relayed_def)

lemma demo_relay_requests:
  "hub_identity demo_relay_api t i w = (Inr (200, Some (registration_of demo_agent [])), w)"
  "ba_get demo_relay_api n (bs_world demo_broker_start) = (Inl (ApiNotFound ''not found''), bs_world demo_broker_start)"
  "ba_create demo_relay_api x w = (Inr (), w(mt_Name (sec_Meta x) \<mapsto> x))"
  by (simp_all add: demo_relay_api_def demo_broker_api_def demo_broker_start_def)

theorem agent_credential_forwarded_witness:
  "\<exists>e m s' f s2. broker_store (demo_relay e) demo_relay_api (Some m) (\<lambda>_. 20 * second) demo_broker_start =
      (Inr (Stored ''credential://among-clusters/t/ops''), s') \<and>
    broker_proxy (demo_relay e) demo_relay_api demo_parse (demo_request ''/api'') (30 * second) s' = (Inr f, s2) \<and>
    fw_Authorization f = ''Bearer bearer''"
proof -
  have "\<exists>e. Encrypt demo_relay_ecies (x_public demo_relay_ecies demo_private) demo_relayed (Some (replicate 32 CHR ''f'')) (Some demo_nonce) = Inr e"
    by (simp add: Encrypt_def demo_relay_ecies_def demo_ecies_def demo_private_def aes_key_def)
  then obtain e where e: "Encrypt demo_relay_ecies (x_public demo_relay_ecies demo_private) demo_relayed (Some (replicate 32 CHR ''f'')) (Some demo_nonce) = Inr e" ..
  have "\<exists>m. Sign demo_crypto demo_codec (broker_message demo_agent 5 ''-broker-'' ''credential.store'' (10 * second)
      (UploadPayload ''t'' ''c1'' ''ops'' e)) (at_key demo_agent) = Inr m"
    by (simp add: Sign_def canonical_def demo_codec_def)
  then obtain m where m: "Sign demo_crypto demo_codec (broker_message demo_agent 5 ''-broker-'' ''credential.store'' (10 * second)
      (UploadPayload ''t'' ''c1'' ''ops'' e)) (at_key demo_agent) = Inr m" ..
  have reads: "stored_reads demo_relay_api"
    using demo_stored_reads by (simp add: stored_reads_def demo_relay_api_def)
  let ?path = "ur_Path (pr_URL (demo_request ''/api''))"
  let ?parts = "at_tenant demo_agent # ''ops'' # (if TrimPrefix ?path ''/'' = [] then [] else [TrimPrefix ?path ''/''])"
  have "\<exists>s'. broker_store (demo_relay e) demo_relay_api (Some m) (\<lambda>_. 20 * second) demo_broker_start =
      (Inr (Stored (''credential://among-clusters/'' @ at_tenant demo_agent @ ''/'' @ ''ops'')), s') \<and>
    (\<forall>later target. later < cp_ExpiresAt demo_relayed \<and> demo_parse (cp_Server demo_relayed) = Some target \<longrightarrow>
      (\<exists>s2. broker_proxy (demo_relay e) demo_relay_api demo_parse (demo_request ''/api'') later s' =
        (Inr (forward demo_relayed target (demo_request ''/api'') ?parts), s2)))"
    by (rule agent_credential_forwarded [OF demo_crypto_sound [folded demo_agent_simps(1)] _ _ _
          _ _ _ _ _ _ _ _ _ _ _ _ _ demo_relay_requests(1) refl _ _ _ _ _ _ _ demo_relay_requests(2,3),
          where fresh_key = "replicate 32 CHR ''f''" and nonce = demo_nonce and g = 5 and now = "10 * second" and e = e
          and parses = demo_parse and clock = "\<lambda>_. 20 * second" and r = "demo_request ''/api''"])
      (use e m reads demo_relay_keys demo_relay_ecies_sound in \<open>simp_all add: demo_broker_start_def map_get_def registration_of_def HasPrefix_def demo_relayed_def demo_request_def\<close>)
  then obtain s' where "broker_store (demo_relay e) demo_relay_api (Some m) (\<lambda>_. 20 * second) demo_broker_start =
      (Inr (Stored (''credential://among-clusters/'' @ at_tenant demo_agent @ ''/'' @ ''ops'')), s')"
    and later: "\<forall>later target. later < cp_ExpiresAt demo_relayed \<and> demo_parse (cp_Server demo_relayed) = Some target \<longrightarrow>
      (\<exists>s2. broker_proxy (demo_relay e) demo_relay_api demo_parse (demo_request ''/api'') later s' =
        (Inr (forward demo_relayed target (demo_request ''/api'') ?parts), s2))"
    by blast
  moreover have "30 * second < cp_ExpiresAt demo_relayed \<and> demo_parse (cp_Server demo_relayed) = Some plain_server"
    by (simp add: demo_relayed_def demo_parse_def)
  with later obtain s2 where "broker_proxy (demo_relay e) demo_relay_api demo_parse (demo_request ''/api'') (30 * second) s' =
      (Inr (forward demo_relayed plain_server (demo_request ''/api'') ?parts), s2)"
    by blast
  moreover have "fw_Authorization (forward demo_relayed plain_server r parts) = ''Bearer bearer''" for r parts
    by (simp add: forward_def demo_relayed_def)
  ultimately show ?thesis by (simp only: demo_agent_simps append.simps) blast
qed

end
