(* ===== verification/Programs.thy ===== *)
theory Programs
  imports Hub_Service Reconciler
begin

text \<open>
  The two small programs: the start of the Hub (\<open>cmd/hub/main.go\<close>) from its environment, and the
  migration of the legacy collaboration resources (\<open>cmd/migrate/main.go\<close>). \<open>getenv\<close> is \<open>os.Getenv\<close>.
\<close>

section \<open>The start of the Hub\<close>

definition ManagedAccessFromEnv :: "(string \<Rightarrow> string) \<Rightarrow> bool" where
  "ManagedAccessFromEnv getenv \<longleftrightarrow> getenv ''MANAGED_ACCESS_ENABLED'' = ''true''"

text \<open>\<open>file\<close> is the result of reading the provider bundle; its error is dropped.\<close>

definition hub_from_env :: "crypto \<Rightarrow> codec \<Rightarrow> (string \<Rightarrow> string) \<Rightarrow> go_error + string \<Rightarrow> hub_server" where
  "hub_from_env c j getenv file =
     \<lparr>hs_AdminToken = getenv ''ADMIN_TOKEN'',
      hs_Onboarding =
        \<lparr>on_PublicEndpoint = getenv ''ONBOARDING_PUBLIC_ENDPOINT'', on_Tenant = getenv ''ONBOARDING_TENANT'',
         on_ProviderSPIFFEID = getenv ''ONBOARDING_PROVIDER_SPIFFE_ID'',
         on_ProviderBundleDigest = getenv ''ONBOARDING_PROVIDER_BUNDLE_DIGEST'',
         on_ProviderQUICEndpoint = getenv ''ONBOARDING_PROVIDER_QUIC_ENDPOINT'',
         on_ImageDigest = getenv ''ONBOARDING_IMAGE_DIGEST'', on_ChartVersion = getenv ''ONBOARDING_CHART_VERSION'',
         on_ProviderBundlePEM = (case file of Inl _ \<Rightarrow> [] | Inr pem \<Rightarrow> pem)\<rparr>,
      hs_crypto = c, hs_codec = j\<rparr>"

definition listen_address :: "(string \<Rightarrow> string) \<Rightarrow> string" where
  "listen_address getenv = (if getenv ''LISTEN_ADDRESS'' = [] then '':8080'' else getenv ''LISTEN_ADDRESS'')"

text \<open>
  \<open>config\<close>, \<open>dynamic\<close> and \<open>typed\<close> are the errors of making the configuration and the two clients of
  the API server. The result is what runs: the reconciler, the address and the server.
\<close>

definition hub_main :: "crypto \<Rightarrow> codec \<Rightarrow> go_error option \<Rightarrow> go_error option \<Rightarrow> go_error option \<Rightarrow> (string \<Rightarrow> string) \<Rightarrow>
    (string \<Rightarrow> go_error + string) \<Rightarrow> go_error + reconciler \<times> string \<times> hub_server" where
  "hub_main c j config dynamic typed getenv read_file =
     (case config of Some e \<Rightarrow> Inl e | None \<Rightarrow>
      (case dynamic of Some e \<Rightarrow> Inl e | None \<Rightarrow>
      (case typed of Some e \<Rightarrow> Inl e | None \<Rightarrow>
       Inr (\<lparr>rc_codec = j, rc_HasCore = True, rc_ManagedAccessEnabled = ManagedAccessFromEnv getenv\<rparr>,
         listen_address getenv, hub_from_env c j getenv (read_file (getenv ''ONBOARDING_PROVIDER_BUNDLE_FILE''))))))"

text \<open>
  A Hub started without an admin token in its environment has no administrative request to accept;
  one started without a readable bundle has none to serve.
\<close>

lemma hub_main_unconfigured:
  assumes "hub_main c j config dynamic typed getenv read_file = Inr (r, address, srv)"
  shows "getenv ''ADMIN_TOKEN'' = [] \<Longrightarrow> \<not> admin_request srv authorization"
    and "read_file (getenv ''ONBOARDING_PROVIDER_BUNDLE_FILE'') = Inl e \<Longrightarrow>
      serve srv ops GetProviderBundle s = (http_error ''provider bundle unavailable'' 503, s)"
    and "rc_ManagedAccessEnabled r \<longleftrightarrow> getenv ''MANAGED_ACCESS_ENABLED'' = ''true''"
  using assms by (auto simp: hub_main_def hub_from_env_def admin_request_def serve_def finish_def providerBundle_def Let_def
      ManagedAccessFromEnv_def split: option.splits)

section \<open>The migration\<close>

record legacy_object =
  lg_APIVersion :: string
  lg_Kind :: string
  lg_Name :: string
  lg_Spec :: string

record 'w legacy_api =
  legacy_list :: "string \<Rightarrow> (go_error, legacy_object list, 'w) prog"
  legacy_delete :: "string \<Rightarrow> (go_error, unit, 'w) prog"

record 'w migration =
  mg_printed :: "string list"
  mg_world :: 'w

definition requesting :: "('e, 'a, 'w) prog \<Rightarrow> ('e, 'a, 'w migration) prog" where
  "requesting m s = (case m (mg_world s) of (r, w) \<Rightarrow> (r, s\<lparr>mg_world := w\<rparr>))"

definition print_line :: "string \<Rightarrow> ('e, unit, 'w migration) prog" where
  "print_line l s = (Inr (), s\<lparr>mg_printed := mg_printed s @ [l]\<rparr>)"

definition legacy_resources :: "string list" where
  "legacy_resources = [''collaborationclusters'', ''collaborationrelationships'', ''publishedservices'', ''collaborationevents'']"

definition legacy_definitions :: "string list" where
  "legacy_definitions = [''collaborationclusters.collaboration.re8ch.com'', ''collaborationrelationships.collaboration.re8ch.com'',
     ''publishedservices.collaboration.re8ch.com'', ''collaborationevents.collaboration.re8ch.com'']"

definition export_line :: "(legacy_object \<Rightarrow> string) \<Rightarrow> legacy_object \<Rightarrow> string" where
  "export_line json item = ''MIGRATION_EXPORT '' @ json item"

definition export_resource :: "(legacy_object \<Rightarrow> string) \<Rightarrow> 'w legacy_api \<Rightarrow> string \<Rightarrow> (go_error, unit, 'w migration) prog" where
  "export_resource json api resource =
     and_then (attempt (requesting (legacy_list api resource))) (\<lambda>listed.
     case listed of
       Inl _ \<Rightarrow> give ()
     | Inr items \<Rightarrow> for_each (\<lambda>item. print_line (export_line json item)) items)"

definition delete_definition :: "'w legacy_api \<Rightarrow> string \<Rightarrow> (go_error, unit, 'w migration) prog" where
  "delete_definition api name =
     and_then (attempt (requesting (legacy_delete api name))) (\<lambda>deleted.
     case deleted of
       Inl e \<Rightarrow> print_line (''legacy CRD '' @ name @ '' not deleted: '' @ error_text e)
     | Inr _ \<Rightarrow> give ())"

definition migrate :: "(legacy_object \<Rightarrow> string) \<Rightarrow> 'w legacy_api \<Rightarrow> go_error option \<Rightarrow> go_error option \<Rightarrow> (string \<Rightarrow> string) \<Rightarrow>
    (go_error, unit, 'w migration) prog" where
  "migrate json api config dynamic getenv =
     and_then (guard (getenv ''REPLACE_COLLABORATION_CRDS'' \<noteq> ''true'')
       (Msg ''destructive migration requires REPLACE_COLLABORATION_CRDS=true'')) (\<lambda>_.
     and_then (case config of Some e \<Rightarrow> fail e | None \<Rightarrow> give ()) (\<lambda>_.
     and_then (case dynamic of Some e \<Rightarrow> fail e | None \<Rightarrow> give ()) (\<lambda>_.
     and_then (for_each (export_resource json api) legacy_resources) (\<lambda>_.
     for_each (delete_definition api) legacy_definitions))))"

text \<open>An API server that logs the requests and answers each by \<open>listing\<close> or \<open>deletes\<close>.\<close>

datatype legacy_request = Listed string | Deleted string

definition logging_api :: "(string \<Rightarrow> go_error + legacy_object list) \<Rightarrow> (string \<Rightarrow> go_error + unit) \<Rightarrow> legacy_request list legacy_api" where
  "logging_api listing deletes =
     \<lparr>legacy_list = (\<lambda>r w. (listing r, w @ [Listed r])), legacy_delete = (\<lambda>n w. (deletes n, w @ [Deleted n]))\<rparr>"

lemma print_all:
  "for_each (\<lambda>item. print_line (f item)) items s = (Inr (), s\<lparr>mg_printed := mg_printed s @ map f items\<rparr>)"
  by (induction items arbitrary: s) (simp_all add: print_line_def and_then_apply)

lemma export_all:
  "for_each (export_resource json (logging_api listing deletes)) rs s =
     (Inr (), \<lparr>mg_printed = mg_printed s @ concat (map (\<lambda>r. case listing r of Inl _ \<Rightarrow> [] | Inr items \<Rightarrow> map (export_line json) items) rs),
       mg_world = mg_world s @ map Listed rs\<rparr>)"
  by (induction rs arbitrary: s)
    (auto simp: export_resource_def and_then_apply attempt_apply requesting_def logging_api_def print_all split: sum.splits)

lemma delete_all:
  "for_each (delete_definition (logging_api listing deletes)) ns s =
     (Inr (), \<lparr>mg_printed = mg_printed s @ concat (map (\<lambda>n. case deletes n of
         Inl e \<Rightarrow> [''legacy CRD '' @ n @ '' not deleted: '' @ error_text e] | Inr _ \<Rightarrow> []) ns),
       mg_world = mg_world s @ map Deleted ns\<rparr>)"
  by (induction ns arbitrary: s)
    (auto simp: delete_definition_def and_then_apply attempt_apply requesting_def logging_api_def print_line_def split: sum.splits)

text \<open>
  The migration destroys nothing without consent, and then does not look back. Without
  \<open>REPLACE_COLLABORATION_CRDS=true\<close> it makes no request and prints nothing. With it, whatever the
  API server answers, it first lists the four legacy resources and prints an export line for each
  object of the lists that succeeded, then deletes all four definitions, those of a resource
  whose objects it could not list and print included.
\<close>

theorem migration_exports_then_deletes:
  "migrate json (logging_api listing deletes) None None getenv \<lparr>mg_printed = [], mg_world = []\<rparr> =
    (if getenv ''REPLACE_COLLABORATION_CRDS'' \<noteq> ''true''
     then (Inl (Msg ''destructive migration requires REPLACE_COLLABORATION_CRDS=true''), \<lparr>mg_printed = [], mg_world = []\<rparr>)
     else (Inr (), \<lparr>mg_printed =
         concat (map (\<lambda>r. case listing r of Inl _ \<Rightarrow> [] | Inr items \<Rightarrow> map (export_line json) items) legacy_resources) @
         concat (map (\<lambda>n. case deletes n of Inl e \<Rightarrow> [''legacy CRD '' @ n @ '' not deleted: '' @ error_text e] | Inr _ \<Rightarrow> []) legacy_definitions),
       mg_world = map Listed legacy_resources @ map Deleted legacy_definitions\<rparr>))"
  by (simp add: migrate_def and_then_apply export_all delete_all)

end
