(* ===== verification/Install_Document.thy ===== *)
theory Install_Document
  imports Hub_Server Hub_Service
begin

text \<open>
  The text of the installation document (\<open>installMarkdown\<close> of \<open>internal/api/onboarding.go\<close>), line by
  line, and what a shell makes of it: whoever pastes the commands of the document exports the
  cluster, the region and the invitation that the Hub has just stored.
\<close>

section \<open>The text\<close>

abbreviation quote :: string where "quote \<equiv> [CHR 0x27]"
abbreviation backslash :: string where "backslash \<equiv> [CHR 0x5C]"
abbreviation newline :: char where "newline \<equiv> CHR 0x0A"

definition install_head :: "install_document \<Rightarrow> string list" where
  "install_head d = [
     ''# AmongClusters installation for '' @ md_ClusterID d,
     [],
     ''Region: **'' @ md_Region d @ ''**. This document contains a 15-minute, single-use invitation. Do not commit or forward it.'',
     [],
     ''## Components'',
     [],
     ''- **Agent** creates and retains this cluster'' @ quote @ ''s Ed25519/SPIFFE identity, accepts the invitation, and sends signed control-plane heartbeats.'',
     ''- **Gateway** keeps an outbound mutual-TLS QUIC session to the provider; no public inbound port is required.'',
     ''- **Invitation Secret** is bootstrap-only and becomes useless after the first accepted registration.'',
     ''- **Peer bundle Secret** contains only the provider'' @ quote @ ''s public CA and is used to authenticate its Gateway.'',
     ''- **Imported Mihomos service** exposes a cluster-local SOCKS5 endpoint on port 17891 after both sides confirm their CA digests and the Peer becomes Ready.'',
     [],
     ''## Install'',
     [],
     ''Prerequisites: kubectl, Helm 3, TCP/443 to '' @ md_Endpoint d @ '' and UDP to '' @ md_QUICEndpoint d @ ''.'',
     [],
     ''~~~bash'']"

definition install_exports :: "install_document \<Rightarrow> string list" where
  "install_exports d = [
     ''export CLUSTER_ID='' @ quote @ md_ClusterID d @ quote,
     ''export REGION='' @ quote @ md_Region d @ quote,
     ''export INVITATION_ID='' @ quote @ md_InvitationID d @ quote,
     ''export INVITATION_TOKEN='' @ quote @ md_InvitationToken d @ quote]"

definition install_commands :: "install_document \<Rightarrow> string list" where
  "install_commands d = [
     [],
     ''kubectl create namespace among-clusters --dry-run=client -o yaml | kubectl apply -f -'',
     ''curl -fsS '' @ quote @ md_Endpoint d @ ''/v1/provider-bundle'' @ quote @ '' -o re8ch-peer-ca.crt'',
     ''kubectl -n among-clusters create secret generic among-clusters-invitation --from-literal=invitation-id=\"$INVITATION_ID\" --from-literal=token=\"$INVITATION_TOKEN\"'',
     ''kubectl -n among-clusters create secret generic among-clusters-peer-bundle --from-file=ca.crt=./re8ch-peer-ca.crt'',
     [],
     ''helm upgrade --install among-clusters-agent oci://ghcr.io/re8ch/charts/among-clusters-agent --version '' @ md_ChartVersion d @ '' --namespace among-clusters '' @ backslash,
     ''  --set-string clusterID=\"$CLUSTER_ID\" --set-string tenant='' @ md_Tenant d @ '' --set-string trustDomain=\"$CLUSTER_ID.byoc\" '' @ backslash,
     ''  --set-string hubEndpoint='' @ md_Endpoint d @ '' --set-string image.repository=ghcr.io/re8ch/among-clusters --set-string image.digest='' @ md_ImageDigest d @ '' '' @ backslash,
     ''  --set-string gateway.peerBundleSecret=among-clusters-peer-bundle '' @ backslash,
     ''  --set-string \"peerConfirmations[0].peerRef=re8ch-$CLUSTER_ID\" --set-string \"peerConfirmations[0].bundleDigest='' @ md_BundleDigest d @ ''\" '' @ backslash,
     ''  --set-string \"gateway.sessions[0].endpoint='' @ md_QUICEndpoint d @ ''\" --set-string \"gateway.sessions[0].expectedSPIFFEID='' @ md_SPIFFEID d @ ''\" '' @ backslash,
     ''  --set-string \"gateway.imports[0].name=mihomos-egress\" --set \"gateway.imports[0].port=17891\" --set-string \"gateway.imports[0].listen=:17891\" '' @ backslash,
     ''  --set-string \"gateway.imports[0].serviceIdentity=spiffe://re8ch.internal/ns/egress-fabric/service/mihomos-byoc-egress\" '' @ backslash,
     ''  --set-string \"gateway.imports[0].expectedSPIFFEID='' @ md_SPIFFEID d @ ''\" --set \"gateway.imports[0].sessionOnly=true\"'',
     [],
     ''kubectl -n among-clusters rollout status deployment/among-clusters-agent --timeout=120s'',
     ''kubectl -n among-clusters get secret among-clusters-agent-identity -o jsonpath='' @ quote @ ''{.data.bundle'' @ backslash @ ''.pem}'' @ quote @ '' | base64 -d > \"$CLUSTER_ID-ca.crt\"'',
     ''sha256sum \"$CLUSTER_ID-ca.crt\"'',
     ''~~~'',
     [],
     ''Return only the public CA file and digest to the provider. Never return tls.key, private-key, kubeconfig, or a ServiceAccount token.'']"

definition unlines :: "string list \<Rightarrow> string" where
  "unlines ls = concat (map (\<lambda>l. l @ [newline]) ls)"

definition install_text :: "install_document \<Rightarrow> string" where
  "install_text d = unlines (install_head d @ install_exports d @ install_commands d)"

section \<open>Reading it in a shell\<close>

text \<open>
  Vocabulary of the specification, not code of the repository: the value that the first line
  \<open>export NAME='...'\<close> gives a variable, the text up to the next single quote verbatim, as a POSIX
  shell reads a single-quoted word. \<open>None\<close> where there is no such line or something follows the
  word. The exports open the document's command block; no later command assigns these variables.
\<close>

definition shell_export :: "string \<Rightarrow> string \<Rightarrow> string option" where
  "shell_export name script =
     (let prefix = ''export '' @ name @ ''='' @ quote in
      case find (\<lambda>l. HasPrefix l prefix) (Split newline script) of
        None \<Rightarrow> None
      | Some l \<Rightarrow>
          (let word = drop (length prefix) l; v = takeWhile (\<lambda>c. [c] \<noteq> quote) word in
           if word = v @ quote then Some v else None))"

definition shell_safe :: "string \<Rightarrow> bool" where
  "shell_safe s \<longleftrightarrow> CHR 0x27 \<notin> set s \<and> newline \<notin> set s"

lemma shell_safe_label: "onboardingName s \<Longrightarrow> shell_safe s"
proof -
  assume name: "onboardingName s"
  have "is_label_char c" if "c \<in> set s" for c
  proof (cases s)
    case (Cons a rest)
    with name that show ?thesis
      by (cases rest rule: rev_cases) (auto simp: onboardingName_def is_label_char_def list_all_iff)
  qed (use name in \<open>simp add: onboardingName_def\<close>)
  moreover have "\<not> is_label_char (CHR 0x27)" "\<not> is_label_char newline"
    by (simp_all add: is_label_char_def is_alnum_lower_def)
  ultimately show ?thesis by (auto simp: shell_safe_def)
qed

lemma shell_safe_hex: "shell_safe (hex_encode s)"
  by (auto simp: shell_safe_def is_hex_lower_def Let_def dest!: hex_encode_chars)

lemma b64_char_safe: "n < 64 \<Longrightarrow> b64_char n \<noteq> CHR 0x27 \<and> b64_char n \<noteq> newline"
proof -
  assume "n < 64"
  from b64_val_char [OF this] have "b64_val (b64_char n) = Some n" .
  moreover have "b64_val (CHR 0x27) = None" "b64_val newline = None"
    by (simp_all add: b64_val_def)
  ultimately show ?thesis by force
qed

lemma shell_safe_url: "shell_safe (RawURL_Encode s)"
  using b64_char_safe b64_sextets_lt by (fastforce simp: shell_safe_def RawURL_Encode_def split: if_splits)

lemma Split_unlines:
  "(\<And>l. l \<in> set ls \<Longrightarrow> newline \<notin> set l) \<Longrightarrow> Split newline (unlines ls @ rest) = ls @ Split newline rest"
  by (induction ls) (simp_all add: unlines_def Split_append_sep)

lemma unlines_append [simp]: "unlines (ls @ ms) = unlines ls @ unlines ms"
  by (simp add: unlines_def)

lemma newline_TrimRight: "newline \<notin> set s \<Longrightarrow> newline \<notin> set (TrimRight s cs)"
  using set_TrimRight by fast

text \<open>The four values that the commands of the document use.\<close>

definition document_plain :: "install_document \<Rightarrow> bool" where
  "document_plain d \<longleftrightarrow> shell_safe (md_ClusterID d) \<and> shell_safe (md_Region d) \<and> shell_safe (md_InvitationID d) \<and>
     shell_safe (md_InvitationToken d) \<and> newline \<notin> set (md_Endpoint d) \<and> newline \<notin> set (md_QUICEndpoint d)"

lemma install_head_plain: "document_plain d \<Longrightarrow> l \<in> set (install_head d) \<Longrightarrow> newline \<notin> set l"
  by (auto simp: install_head_def document_plain_def shell_safe_def)

lemma install_exports_plain: "document_plain d \<Longrightarrow> l \<in> set (install_exports d) \<Longrightarrow> newline \<notin> set l"
  by (auto simp: install_exports_def document_plain_def shell_safe_def)

lemma takeWhile_quote: "shell_safe v \<Longrightarrow> takeWhile (\<lambda>c. [c] \<noteq> quote) (v @ quote) = v"
  by (subst takeWhile_append2) (auto simp: shell_safe_def)

lemma install_text_lines:
  assumes "document_plain d"
  shows "Split newline (install_text d) = install_head d @ install_exports d @ Split newline (unlines (install_commands d))"
proof -
  have "Split newline (unlines (install_head d) @ unlines (install_exports d) @ unlines (install_commands d)) =
      install_head d @ Split newline (unlines (install_exports d) @ unlines (install_commands d))"
    by (rule Split_unlines) (rule install_head_plain [OF assms])
  moreover have "Split newline (unlines (install_exports d) @ unlines (install_commands d)) =
      install_exports d @ Split newline (unlines (install_commands d))"
    by (rule Split_unlines) (rule install_exports_plain [OF assms])
  ultimately show ?thesis by (simp add: install_text_def)
qed

lemma find_skip: "find P xs = None \<Longrightarrow> find P (xs @ ys) = find P ys"
  by (induction xs) (auto split: if_splits)

lemma head_exports_nothing: "l \<in> set (install_head d) \<Longrightarrow> \<not> HasPrefix l (''export '' @ p)"
  by (auto simp: install_head_def HasPrefix_def)

lemma install_text_exports:
  assumes "document_plain d"
  shows "shell_export ''CLUSTER_ID'' (install_text d) = Some (md_ClusterID d)"
    and "shell_export ''REGION'' (install_text d) = Some (md_Region d)"
    and "shell_export ''INVITATION_ID'' (install_text d) = Some (md_InvitationID d)"
    and "shell_export ''INVITATION_TOKEN'' (install_text d) = Some (md_InvitationToken d)"
proof -
  have skip: "find (\<lambda>l. HasPrefix l (''export '' @ p)) (install_head d @ ls) = find (\<lambda>l. HasPrefix l (''export '' @ p)) ls" for p ls
    by (rule find_skip, unfold find_None_iff) (use head_exports_nothing in blast)
  have safe: "shell_safe (md_ClusterID d)" "shell_safe (md_Region d)" "shell_safe (md_InvitationID d)" "shell_safe (md_InvitationToken d)"
    using assms by (simp_all add: document_plain_def)
  show "shell_export ''CLUSTER_ID'' (install_text d) = Some (md_ClusterID d)"
    using takeWhile_quote [OF safe(1)] unfolding shell_export_def Let_def install_text_lines [OF assms] skip
    by (simp add: install_exports_def HasPrefix_def)
  show "shell_export ''REGION'' (install_text d) = Some (md_Region d)"
    using takeWhile_quote [OF safe(2)] unfolding shell_export_def Let_def install_text_lines [OF assms] skip
    by (simp add: install_exports_def HasPrefix_def)
  show "shell_export ''INVITATION_ID'' (install_text d) = Some (md_InvitationID d)"
    using takeWhile_quote [OF safe(3)] unfolding shell_export_def Let_def install_text_lines [OF assms] skip
    by (simp add: install_exports_def HasPrefix_def)
  show "shell_export ''INVITATION_TOKEN'' (install_text d) = Some (md_InvitationToken d)"
    using takeWhile_quote [OF safe(4)] unfolding shell_export_def Let_def install_text_lines [OF assms] skip
    by (simp add: install_exports_def HasPrefix_def)
qed

section \<open>The invitation reaches the cluster\<close>

lemma consumeOnboarding_document:
  assumes "consumeOnboarding srv ops i claim d1 d2 clock s = (Inr r, s')"
  shows "\<exists>c id token iv s1. CreateInvitation ops iv s1 = (Inr (), s') \<and>
    rs_Body r = Doc (InstallMarkdown (installMarkdown srv c (hex_encode id) (RawURL_Encode token))) \<and>
    inv_ID iv = hex_encode id \<and> inv_ClusterID iv = oc_ClusterID c \<and> inv_Region iv = oc_Region c \<and>
    inv_TokenHash iv = TokenHash (hs_crypto srv) (RawURL_Encode token)"
proof -
  from assms obtain id token c s1 where "d1 = Some id" "d2 = Some token"
    and "CreateInvitation ops \<lparr>inv_ID = hex_encode id, inv_Tenant = oc_Tenant c, inv_ClusterID = oc_ClusterID c,
        inv_Region = oc_Region c, inv_ExpiresAt = clock 1 + 15 * minute, inv_Capabilities = [''service'', ''quic-mtls''],
        inv_TokenHash = TokenHash (hs_crypto srv) (RawURL_Encode token), inv_UsedAt = 0\<rparr> s1 = (Inr (), s')"
    and "rs_Body r = Doc (InstallMarkdown (installMarkdown srv c (hex_encode id) (RawURL_Encode token)))"
    by (auto simp: consumeOnboarding_def Let_def RandomID_def RandomToken_def no_store_def elim!: run_elims split: option.splits)
  then show ?thesis by force
qed

text \<open>
  C32: whoever pastes the commands of an installation document hands over the invitation the Hub
  has stored. For a document that the handler answered for a link with DNS-safe names, as
  \<open>createOnboardingLink\<close> demands, a shell exports the cluster and the region of that invitation,
  its identifier, and a token whose hash the store holds, whatever random bytes were drawn.
\<close>

theorem install_document_hands_over_invitation:
  assumes "consumeOnboarding srv ops i claim d1 d2 clock s = (Inr r, s')"
    and "rs_Body r = Doc (InstallMarkdown d)"
    and "onboardingName (md_ClusterID d)" "onboardingName (md_Region d)"
    and "newline \<notin> set (on_PublicEndpoint (hs_Onboarding srv))" "newline \<notin> set (on_ProviderQUICEndpoint (hs_Onboarding srv))"
  shows "\<exists>iv s1 token. CreateInvitation ops iv s1 = (Inr (), s') \<and>
    shell_export ''CLUSTER_ID'' (install_text d) = Some (inv_ClusterID iv) \<and>
    shell_export ''REGION'' (install_text d) = Some (inv_Region iv) \<and>
    shell_export ''INVITATION_ID'' (install_text d) = Some (inv_ID iv) \<and>
    shell_export ''INVITATION_TOKEN'' (install_text d) = Some token \<and>
    inv_TokenHash iv = TokenHash (hs_crypto srv) token"
proof -
  from consumeOnboarding_document [OF assms(1)] assms(2) obtain c id token iv s1
    where created: "CreateInvitation ops iv s1 = (Inr (), s')"
      and d: "d = installMarkdown srv c (hex_encode id) (RawURL_Encode token)"
      and iv: "inv_ID iv = hex_encode id" "inv_ClusterID iv = oc_ClusterID c" "inv_Region iv = oc_Region c"
        "inv_TokenHash iv = TokenHash (hs_crypto srv) (RawURL_Encode token)"
    by auto
  have plain: "document_plain d"
    using assms(3-6) newline_TrimRight
    by (simp add: document_plain_def shell_safe_label shell_safe_hex shell_safe_url d installMarkdown_def Let_def)
  have "md_ClusterID d = inv_ClusterID iv" "md_Region d = inv_Region iv" "md_InvitationID d = inv_ID iv"
    "md_InvitationToken d = RawURL_Encode token"
    by (simp_all add: d installMarkdown_def Let_def iv)
  with created iv(4) show ?thesis
    unfolding install_text_exports [OF plain] by auto
qed

theorem install_document_hands_over_invitation_witness:
  "\<exists>r s' d iv s1. consumeOnboarding demo_server mem_ops (hex_encode ''a'') (RawURL_Encode ''b'') (Some ''c'') (Some ''d'') (\<lambda>_. 9)
      (NewMemorySovereignStore\<lparr>ms_OnboardingClaims := [hex_encode ''a'' \<mapsto> claim_of demo_server ''sijie'' ''cn-east'' 0 ''a'' ''b'' 5]\<rparr>) = (Inr r, s') \<and>
    rs_Body r = Doc (InstallMarkdown d) \<and> CreateInvitation mem_ops iv s1 = (Inr (), s') \<and>
    shell_export ''CLUSTER_ID'' (install_text d) = Some (inv_ClusterID iv)"
proof -
  let ?c = "(claim_of demo_server ''sijie'' ''cn-east'' 0 ''a'' ''b'' 5)\<lparr>oc_UsedAt := 9\<rparr>"
  obtain r s' where run: "consumeOnboarding demo_server mem_ops (hex_encode ''a'') (RawURL_Encode ''b'') (Some ''c'') (Some ''d'') (\<lambda>_. 9)
      (NewMemorySovereignStore\<lparr>ms_OnboardingClaims := [hex_encode ''a'' \<mapsto> claim_of demo_server ''sijie'' ''cn-east'' 0 ''a'' ''b'' 5]\<rparr>) = (Inr r, s')"
    and body: "rs_Body r = Doc (InstallMarkdown (installMarkdown demo_server ?c (hex_encode ''c'') (RawURL_Encode ''d'')))"
    by (simp add: consumeOnboarding_def Let_def prog_simps demo_server_def mem_ops_def mem_ConsumeOnboardingClaim_def
        claim_of_def effective_ttl_def go_seconds_def IsZero_def Before_def RandomID_def RandomToken_def mem_CreateInvitation_def no_store_def
        NewMemorySovereignStore_def del: hex_encode.simps)
  have "onboardingName ''sijie''" "onboardingName ''cn-east''"
    by (simp_all add: onboardingName_def is_alnum_lower_def is_label_char_def)
  then have "onboardingName (md_ClusterID (installMarkdown demo_server ?c i t))" "onboardingName (md_Region (installMarkdown demo_server ?c i t))" for i t
    by (simp_all add: installMarkdown_def Let_def claim_of_def)
  from install_document_hands_over_invitation [OF run body this] run body show ?thesis
    by (auto simp: demo_server_def)
qed

end
